(* ===== verification/Prelude.thy ===== *)
theory Prelude
  imports Main "HOL-Library.Word"
begin

text \<open>
  Shared vocabulary of the development: the fixed-width integers of the code, big-endian 32-bit
  access to a byte-addressed memory with its laws, the contract of a store of 32-bit words as a
  locale (interpreted here on that memory), and the bit-field lemmas that the instruction encodings
  of the module rest on.
\<close>

unbundle bit_operations_syntax

named_theorems field_simps32
  \<open>bit-field equations of 32-bit instruction words\<close>

named_theorems mem_simps
  \<open>reading back what was written to the byte memory\<close>

type_synonym u8 = "8 word"
type_synonym u16 = "16 word"
type_synonym u32 = "32 word"
type_synonym u64 = "64 word"

type_synonym bytes = "u32 \<Rightarrow> u8"

section \<open>Big-endian words in a byte memory\<close>

definition read32 :: "bytes \<Rightarrow> u32 \<Rightarrow> u32" where
  "read32 m a =
     push_bit 24 (ucast (m a)) OR push_bit 16 (ucast (m (a + 1)))
       OR push_bit 8 (ucast (m (a + 2))) OR ucast (m (a + 3))"

definition write32 :: "bytes \<Rightarrow> u32 \<Rightarrow> u32 \<Rightarrow> bytes" where
  "write32 m a v =
     m(a := ucast (drop_bit 24 v), a + 1 := ucast (drop_bit 16 v),
       a + 2 := ucast (drop_bit 8 v), a + 3 := ucast v)"

definition disj4 :: "u32 \<Rightarrow> u32 \<Rightarrow> bool" where
  \<comment> \<open>the four bytes at \<open>a\<close> and the four bytes at \<open>b\<close> have no byte in common\<close>
  "disj4 a b \<longleftrightarrow> 3 < a - b \<and> 3 < b - a"

lemma disj4_sym: "disj4 a b \<longleftrightarrow> disj4 b a"
  by (auto simp: disj4_def)

lemma join_split32:
  fixes v :: u32
  shows "push_bit 24 (ucast (ucast (drop_bit 24 v) :: u8))
       OR push_bit 16 (ucast (ucast (drop_bit 16 v) :: u8))
       OR push_bit 8 (ucast (ucast (drop_bit 8 v) :: u8)) OR ucast (ucast v :: u8) = v"
    (is "?joined = v")
proof (rule bit_word_eqI)
  fix n :: nat
  assume n: "n < LENGTH(32)"
  consider "n < 8" | "8 \<le> n" "n < 16" | "16 \<le> n" "n < 24" | "24 \<le> n" by linarith
  then show "bit ?joined n = bit v n"
    using n by cases (auto simp: bit_simps)
qed

lemma read32_write32 [simp]: "read32 (write32 m a v) a = v"
  by (simp add: read32_def write32_def join_split32)

lemma disj4_neq:
  assumes "disj4 a b" and "i \<le> 3" and "j \<le> 3"
  shows "a + i \<noteq> b + j"
proof
  assume "a + i = b + j"
  then have ab: "a - b = j - i" and ba: "b - a = i - j"
    by (simp_all add: algebra_simps)
  from assms(1) ab ba have "3 < j - i" and "3 < i - j" by (auto simp: disj4_def)
  with assms(2,3) show False
    by uint_arith
qed

lemma read32_write32_other [mem_simps]:
  assumes "disj4 a b"
  shows "read32 (write32 m a v) b = read32 m b"
proof -
  have n: "b + j \<noteq> a + i" if "i \<le> 3" "j \<le> 3" for i j
    using disj4_neq [OF assms that] by simp
  show ?thesis
    using n [of 0 0] n [of 1 0] n [of 2 0] n [of 3 0]
      n [of 0 1] n [of 1 1] n [of 2 1] n [of 3 1]
      n [of 0 2] n [of 1 2] n [of 2 2] n [of 3 2]
      n [of 0 3] n [of 1 3] n [of 2 3] n [of 3 3]
    by (simp add: read32_def write32_def)
qed

section \<open>Framing\<close>

text \<open>Two memories that agree on every word clear of the words at the addresses in \<open>S\<close>.\<close>

definition same_outside :: "u32 set \<Rightarrow> bytes \<Rightarrow> bytes \<Rightarrow> bool" where
  "same_outside S m m' \<longleftrightarrow> (\<forall>p. (\<forall>q \<in> S. disj4 q p) \<longrightarrow> read32 m' p = read32 m p)"

lemma same_outside_refl [simp]: "same_outside S m m"
  by (simp add: same_outside_def)

lemma same_outside_write: "p \<in> S \<Longrightarrow> same_outside S m (write32 m p v)"
  by (simp add: same_outside_def read32_write32_other)

lemma same_outside_trans:
  "same_outside S m m' \<Longrightarrow> same_outside S m' m'' \<Longrightarrow> same_outside S m m''"
  by (simp add: same_outside_def)

lemma same_outside_mono: "same_outside S m m' \<Longrightarrow> S \<subseteq> T \<Longrightarrow> same_outside T m m'"
  unfolding same_outside_def by blast

lemma same_outside_read:
  "same_outside S m m' \<Longrightarrow> (\<And>q. q \<in> S \<Longrightarrow> disj4 q p) \<Longrightarrow> read32 m' p = read32 m p"
  by (simp add: same_outside_def)

section \<open>The contract of a word store\<close>

text \<open>
  What the code generators and the patcher rely on when they store instruction words: a word
  reads back as it was written, and a write leaves independent addresses alone. The two laws give
  the behaviour of a whole sequence of writes.
\<close>

fun write_all :: "('m \<Rightarrow> 'a \<Rightarrow> 'v \<Rightarrow> 'm) \<Rightarrow> 'm \<Rightarrow> ('a \<times> 'v) list \<Rightarrow> 'm" where
  "write_all wr m [] = m"
| "write_all wr m ((a, v) # ps) = write_all wr (wr m a v) ps"

locale word_store =
  fixes rd :: "'m \<Rightarrow> 'a \<Rightarrow> 'v"
    and wr :: "'m \<Rightarrow> 'a \<Rightarrow> 'v \<Rightarrow> 'm"
    and indep :: "'a \<Rightarrow> 'a \<Rightarrow> bool"
  assumes rd_wr_same: "rd (wr m a v) a = v"
    and rd_wr_indep: "indep a b \<Longrightarrow> rd (wr m a v) b = rd m b"
begin

lemma rd_write_all_indep:
  "(\<forall>p \<in> set ps. indep (fst p) b) \<Longrightarrow> rd (write_all wr m ps) b = rd m b"
proof (induction ps arbitrary: m)
  case Nil
  show ?case by simp
next
  case (Cons p ps)
  then show ?case by (cases p) (simp add: rd_wr_indep)
qed

lemma rd_write_all_at:
  assumes "\<forall>q \<in> set post. indep (fst q) a"
  shows "rd (write_all wr m (pre @ (a, v) # post)) a = v"
proof (induction pre arbitrary: m)
  case Nil
  show ?case
    using rd_write_all_indep [OF assms, of "wr m a v"] by (simp add: rd_wr_same)
next
  case (Cons p pre)
  then show ?case by (cases p) simp
qed

text \<open>Words written to pairwise independent addresses all read back.\<close>

lemma rd_write_all_nth:
  assumes "\<And>i j. i < j \<Longrightarrow> j < length as \<Longrightarrow> indep (as ! j) (as ! i)"
    and "length vs = length as" and "i < length as"
  shows "rd (write_all wr m (zip as vs)) (as ! i) = vs ! i"
proof -
  let ?ps = "zip as vs"
  have split: "?ps = take i ?ps @ (as ! i, vs ! i) # drop (Suc i) ?ps"
    using id_take_nth_drop [of i ?ps] assms(2,3) by (simp only: length_zip nth_zip min.idem)
  have "\<forall>q \<in> set (drop (Suc i) ?ps). indep (fst q) (as ! i)"
  proof
    fix q assume "q \<in> set (drop (Suc i) ?ps)"
    then obtain k where "k < length as - Suc i" and "q = ?ps ! (Suc i + k)"
      using assms(2) by (auto simp: in_set_conv_nth)
    then have "Suc i + k < length as" and "fst q = as ! (Suc i + k)"
      using assms(2) by auto
    then show "indep (fst q) (as ! i)" using assms(1) [of i "Suc i + k"] by simp
  qed
  from rd_write_all_at [OF this, of m "take i ?ps" "vs ! i"] split show ?thesis by simp
qed

end

interpretation bytes_store: word_store read32 write32 disj4
  by unfold_locales (simp_all add: read32_write32_other)

section \<open>Bit fields of 32-bit words\<close>

text \<open>
  The module builds instruction words as \<open>K OR (x AND mask)\<close>, with \<open>K\<close> free of the mask's
  bits. These lemmas take such a word apart again.
\<close>

lemma halves_join:
  fixes x :: u32
  shows "push_bit 16 (drop_bit 16 x) OR (x AND 0xFFFF) = x"
proof (rule bit_word_eqI)
  fix n assume "n < LENGTH(32)"
  have m: "(0xFFFF :: u32) = mask 16" by (simp add: mask_eq_exp_minus_1)
  show "bit (push_bit 16 (drop_bit 16 x) OR (x AND 0xFFFF)) n = bit x n"
    using \<open>n < LENGTH(32)\<close> unfolding m by (auto simp: bit_simps not_less)
qed

lemma drop_bit_field16 [field_simps32]:
  fixes x K :: u32
  shows "drop_bit 16 (K OR (x AND 0xFFFF)) = drop_bit 16 K"
  by simp

lemma and_field16 [field_simps32]:
  fixes x K :: u32
  assumes "K AND 0xFFFF = 0"
  shows "(K OR (x AND 0xFFFF)) AND 0xFFFF = x AND 0xFFFF"
  using assms by (simp add: bit.conj_disj_distrib2 and.assoc)

end
