(* ===== verification/Platform.thy ===== *)
theory Platform
  imports Prelude
begin

text \<open>
  The ground the module stands on: the enumerations and argument structs of its interface, the
  platform services it calls (Cafe OS, the kernel library, the C++ allocator) as one record of
  functions over an abstract platform state \<open>'s\<close>, and the \<open>world\<close> the module's code runs in:
  platform state, physical memory, the live \<open>PatchedFunctionData\<close> objects and the module's globals
  (\<open>source/utils/globals.h\<close>).

  A platform service is never defined here. It is a field of \<open>os_api\<close>, and what the code relies on
  is a named hypothesis of the theorem that needs it. Effective addresses reach physical memory
  through the field \<open>mmu\<close>, which is the translation the processor applies to the module's own loads
  and stores; \<open>OSEffectiveToPhysical\<close> is a separate field, as the code works around addresses where
  the two differ. Calls whose only effect is outside memory (cache maintenance, allocation, locks on
  the title database) are appended to \<open>trace\<close>, in program order, with the core that ran them.
\<close>

section \<open>Enumerations\<close>

datatype (plugins only: size) function_replacement_library_type_t =
    LIBRARY_AVM | LIBRARY_CAMERA | LIBRARY_COREINIT | LIBRARY_DC | LIBRARY_DMAE | LIBRARY_DRMAPP
  | LIBRARY_ERREULA | LIBRARY_GX2 | LIBRARY_H264 | LIBRARY_LZMA920 | LIBRARY_MIC | LIBRARY_NFC
  | LIBRARY_NIO_PROF | LIBRARY_NLIBCURL | LIBRARY_NLIBNSS | LIBRARY_NLIBNSS2 | LIBRARY_NN_AC
  | LIBRARY_NN_ACP | LIBRARY_NN_ACT | LIBRARY_NN_AOC | LIBRARY_NN_BOSS | LIBRARY_NN_CCR
  | LIBRARY_NN_CMPT | LIBRARY_NN_DLP | LIBRARY_NN_EC | LIBRARY_NN_FP | LIBRARY_NN_HAI
  | LIBRARY_NN_HPAD | LIBRARY_NN_IDBE | LIBRARY_NN_NDM | LIBRARY_NN_NETS2 | LIBRARY_NN_NFP
  | LIBRARY_NN_NIM | LIBRARY_NN_OLV | LIBRARY_NN_PDM | LIBRARY_NN_SAVE | LIBRARY_NN_SL
  | LIBRARY_NN_SPM | LIBRARY_NN_TEMP | LIBRARY_NN_UDS | LIBRARY_NN_VCTL | LIBRARY_NSYSCCR
  | LIBRARY_NSYSHID | LIBRARY_NSYSKBD | LIBRARY_NSYSNET | LIBRARY_NSYSUHS | LIBRARY_NSYSUVD
  | LIBRARY_NTAG | LIBRARY_PADSCORE | LIBRARY_PROC_UI | LIBRARY_SNDCORE2 | LIBRARY_SNDUSER2
  | LIBRARY_SND_CORE | LIBRARY_SND_USER | LIBRARY_SWKBD | LIBRARY_SYSAPP | LIBRARY_TCL
  | LIBRARY_TVE | LIBRARY_UAC | LIBRARY_UAC_RPL | LIBRARY_USB_MIC | LIBRARY_UVC | LIBRARY_UVD
  | LIBRARY_VPAD | LIBRARY_VPADBASE | LIBRARY_ZLIB125
  | LIBRARY_OTHER
  | LIBRARY_VALUE u32 \<comment> \<open>an integer outside the enumeration, as a C caller may pass\<close>

datatype FunctionPatcherFunctionType =
    FUNCTION_PATCHER_REPLACE_FOR_EXECUTABLE_BY_NAME
  | FUNCTION_PATCHER_REPLACE_FOR_EXECUTABLE_BY_ADDRESS
  | FUNCTION_PATCHER_REPLACE_BY_LIB_OR_ADDRESS
  | FUNCTION_PATCHER_TYPE_VALUE u32 \<comment> \<open>an integer outside the enumeration\<close>

datatype FunctionPatcherStatus =
    FUNCTION_PATCHER_RESULT_SUCCESS
  | FUNCTION_PATCHER_RESULT_INVALID_ARGUMENT
  | FUNCTION_PATCHER_RESULT_UNSUPPORTED_STRUCT_VERSION
  | FUNCTION_PATCHER_RESULT_UNKNOWN_ERROR
  | FUNCTION_PATCHER_RESULT_PATCH_NOT_FOUND

datatype OSDynLoad_NotifyReason =
    OS_DYNLOAD_NOTIFY_LOADED | OS_DYNLOAD_NOTIFY_UNLOADED | OS_DYNLOAD_NOTIFY_VALUE u32

datatype OSDynLoad_ExportType = OS_DYNLOAD_EXPORT_FUNC | OS_DYNLOAD_EXPORT_DATA

text \<open>
  Ends of the module other than a return: \<open>OSFatal\<close> stops the console with a message;
  \<open>Undefined\<close> marks the places where C++ gives the code no meaning (a dangling pointer, a thread
  object that was never created), so that nothing can be proved of them by accident; \<open>Diverges\<close>
  is a loop that never ends.
\<close>

datatype halt = OSFatal string | Undefined string | Diverges

section \<open>Argument structs\<close>

text \<open>
  Addresses are \<open>u32\<close>, 0 is the null pointer. Strings are the C strings' contents.
  \<open>function_replacement_data_v2_t\<close> is the struct of \<open>source/fpatching_defines_legacy.h\<close>.
\<close>

record function_replacement_data_v2_t =
  v2_VERSION :: u32
  v2_physicalAddr :: u32
  v2_virtualAddr :: u32
  v2_replaceAddr :: u32
  v2_replaceCall :: u32
  v2_library :: function_replacement_library_type_t
  v2_function_name :: string
  v2_targetProcess :: u32

text \<open>The fields of the version 3 struct that the module reads.\<close>

record replace_in_rpx =
  targetTitleIds :: "nat \<Rightarrow> u64"
  targetTitleIdsCount :: u32
  versionMin :: u16
  versionMax :: u16
  rpx_executableName :: string
  rpx_textOffset :: u32
  rpx_functionName :: string

record replace_in_rpl =
  rpl_library :: function_replacement_library_type_t
  rpl_function_name :: string

record function_replacement_data_v3_t =
  v3_version :: u32
  v3_type :: FunctionPatcherFunctionType
  v3_physicalAddr :: u32
  v3_virtualAddr :: u32
  v3_replaceAddr :: u32
  v3_replaceCall :: u32
  v3_targetProcess :: u32
  ReplaceInRPX :: replace_in_rpx
  ReplaceInRPL :: replace_in_rpl

text \<open>The struct as the exported entry points receive it: its version and its two readings.\<close>

record function_replacement_data_t =
  fd_version :: u32
  as_v2 :: function_replacement_data_v2_t
  as_v3 :: function_replacement_data_v3_t

record OSDynLoad_NotifyData =
  rpl_name :: string
  rpl_textAddr :: u32

section \<open>The platform\<close>

text \<open>The locals and parameters whose address the code takes.\<close>

datatype local_var =
    L_currentInstruction | L_replace_instruction | L_physical_address | L_replacement

record os_consts =
  \<comment> \<open>constants of the installed headers\<close>
  FP_TARGET_PROCESS_ALL :: u32
  FP_TARGET_PROCESS_WII_U_MENU :: u32
  FP_TARGET_PROCESS_GAME :: u32
  FP_TARGET_PROCESS_GAME_AND_MENU :: u32
  OS_DYNLOAD_OK :: int
  sizeof_OSThread :: u32
  \<comment> \<open>addresses fixed by the linker\<close>
  OSGetUPID_code :: u32
  OSDynLoad_GetNumberOfRPLs_code :: u32
  OSDynLoad_GetRPLInfo_code :: u32
  MEMAllocFromDefaultHeapEx_code :: u32
  MEMFreeToDefaultHeap_code :: u32
  gJumpHeapData_addr :: u32

record 's os_memory = os_consts +
  \<comment> \<open>address translation and raw copies\<close>
  mmu :: "'s \<Rightarrow> u32 \<Rightarrow> u32"
  local_addr :: "'s \<Rightarrow> nat \<Rightarrow> local_var \<Rightarrow> u32"
  OSEffectiveToPhysical :: "'s \<Rightarrow> u32 \<Rightarrow> u32"
  KernelCopyData :: "bytes \<Rightarrow> u32 \<Rightarrow> u32 \<Rightarrow> u32 \<Rightarrow> bytes"
  \<comment> \<open>allocation\<close>
  MEMCreateExpHeapEx :: "'s \<Rightarrow> u32 \<Rightarrow> u32 \<Rightarrow> u16 \<Rightarrow> u32 \<times> 's"
  MEMAllocFromExpHeapEx :: "'s \<Rightarrow> u32 \<Rightarrow> u32 \<Rightarrow> int \<Rightarrow> u32 \<times> 's"
  MEMFreeToExpHeap :: "'s \<Rightarrow> u32 \<Rightarrow> u32 \<Rightarrow> 's"
  operator_new :: "'s \<Rightarrow> u32 \<times> 's"
  operator_delete :: "'s \<Rightarrow> u32 \<Rightarrow> 's"
  new_address_provider :: "'s \<Rightarrow> bool \<times> 's"
  call_alloc :: "u32 \<Rightarrow> 's \<Rightarrow> u32 \<Rightarrow> int \<Rightarrow> u32 \<times> 's"
  call_free :: "u32 \<Rightarrow> 's \<Rightarrow> u32 \<Rightarrow> 's"

record 's os_api = "'s os_memory" +
  \<comment> \<open>the dynamic loader\<close>
  OSDynLoad_Acquire :: "'s \<Rightarrow> string \<Rightarrow> int \<times> u32 \<times> 's"
  OSDynLoad_Release :: "'s \<Rightarrow> u32 \<Rightarrow> 's"
  OSDynLoad_IsModuleLoaded :: "'s \<Rightarrow> string \<Rightarrow> int \<times> u32"
  OSDynLoad_FindExport :: "'s \<Rightarrow> u32 \<Rightarrow> OSDynLoad_ExportType \<Rightarrow> string \<Rightarrow> int \<times> u32 option"
  OSDynLoad_GetNumberOfRPLs :: "'s \<Rightarrow> int"
  OSDynLoad_GetRPLInfo :: "'s \<Rightarrow> nat \<Rightarrow> nat \<Rightarrow> bool \<times> (nat \<Rightarrow> OSDynLoad_NotifyData)"
  OSDynLoad_AddNotifyCallback :: "'s \<Rightarrow> 's"
  \<comment> \<open>titles and processes\<close>
  OSGetTitleID :: "'s \<Rightarrow> u64"
  OSGetUPID :: "'s \<Rightarrow> u32"
  MCP_Open :: "'s \<Rightarrow> int"
  MCP_GetTitleInfo :: "'s \<Rightarrow> int \<Rightarrow> u64 \<Rightarrow> int \<times> u16"
  \<comment> \<open>kernel side of the export search\<close>
  SHT_SYMTAB :: u32
  STT_FUNC :: u8
  kernel_mmu :: "'s \<Rightarrow> u32 \<Rightarrow> u32"
  KernelGetLoadedRPL :: "'s \<Rightarrow> u32 \<Rightarrow> u32"
  KernelGetRAMPID :: "'s \<Rightarrow> u32 \<times> u32"
  KernelSetRAMPID :: "'s \<Rightarrow> u32 \<Rightarrow> u32 \<Rightarrow> 's"

section \<open>The world\<close>

text \<open>\<open>rpl_handling\<close> and \<open>PatchedFunctionData\<close>, field for field.\<close>

record rpl_handling =
  rh_library :: function_replacement_library_type_t
  rh_rplname :: string
  rh_handle :: u32

record PatchedFunctionData =
  jumpToOriginal :: u32
  jumpData :: u32
  realEffectiveFunctionAddress :: u32
  realPhysicalFunctionAddress :: u32
  realCallFunctionAddressPtr :: u32
  replacementFunctionAddress :: u32
  replacedInstruction :: u32
  replaceWithInstruction :: u32
  jumpDataSize :: u32
  heapHandle :: u32
  fp_type :: FunctionPatcherFunctionType
  titleIds :: "u64 set"
  titleVersionMin :: u16
  titleVersionMax :: u16
  executableName :: "string option"
  textOffset :: u32
  isPatched :: bool
  fp_library :: "function_replacement_library_type_t option"
  targetProcess :: u32
  functionName :: "string option"

datatype event =
    EvDCFlushRange u32 u32
  | EvICInvalidateRange u32 u32
  | EvOSMemoryBarrier
  | EvKernelCopyData u32 u32 u32
  | EvHeapAlloc u32 u32
  | EvHeapFree u32 u32
  | EvNew u32
  | EvDelete u32
  | EvMCP_Open int
  | EvMCP_Close int
  | EvThreadAlloc u32
  | EvThreadFree u32
  | EvMemset u32 u32
  | EvOSCreateThread u32 u32 u32 u32 u32 \<comment> \<open>thread, top and size of the stack, priority, attributes\<close>
  | EvOSJoinThread u32
  | EvAddNotifyCallback
  | EvKernelPatchSyscall u32
  | EvInitLogging
  | EvDeinitLogging
  | EvOSReport

record 's world =
  os :: 's
  mem :: bytes
  objs :: "u32 \<rightharpoonup> PatchedFunctionData"
  gPatchedFunctions :: "u32 list"
  rpl_handles :: "rpl_handling list"
  gJumpHeapHandle :: u32
  gMEMAllocFromDefaultHeapExForThreads :: u32
  gMEMFreeToDefaultHeapForThreads :: u32
  gPatchedFunctionsMutex :: nat \<comment> \<open>how often the running thread holds the recursive mutex\<close>
  core :: nat
  trace :: "(nat \<times> event) list"

section \<open>Elementary effects\<close>

definition log_event :: "event \<Rightarrow> 's world \<Rightarrow> 's world" where
  "log_event e w = w\<lparr>trace := trace w @ [(core w, e)]\<rparr>"

definition load32 :: "'s os_api \<Rightarrow> u32 \<Rightarrow> 's world \<Rightarrow> u32" where
  "load32 A a w = read32 (mem w) (mmu A (os w) a)"

definition store32 :: "'s os_api \<Rightarrow> u32 \<Rightarrow> u32 \<Rightarrow> 's world \<Rightarrow> 's world" where
  "store32 A a v w = w\<lparr>mem := write32 (mem w) (mmu A (os w) a) v\<rparr>"

definition store8 :: "'s os_api \<Rightarrow> u32 \<Rightarrow> u8 \<Rightarrow> 's world \<Rightarrow> 's world" where
  "store8 A a v w = w\<lparr>mem := (mem w)(mmu A (os w) a := v)\<rparr>"

definition copy_data :: "'s os_api \<Rightarrow> u32 \<Rightarrow> u32 \<Rightarrow> u32 \<Rightarrow> 's world \<Rightarrow> 's world" where
  "copy_data A dst src n w =
     log_event (EvKernelCopyData dst src n) (w\<lparr>mem := KernelCopyData A (mem w) dst src n\<rparr>)"

definition put_obj :: "u32 \<Rightarrow> PatchedFunctionData \<Rightarrow> 's world \<Rightarrow> 's world" where
  "put_obj h d w = w\<lparr>objs := (objs w)(h \<mapsto> d)\<rparr>"

definition lock :: "'s world \<Rightarrow> 's world" where
  "lock w = w\<lparr>gPatchedFunctionsMutex := Suc (gPatchedFunctionsMutex w)\<rparr>"

definition unlock :: "'s world \<Rightarrow> 's world" where
  "unlock w = w\<lparr>gPatchedFunctionsMutex := gPatchedFunctionsMutex w - 1\<rparr>"

text \<open>What the code relies on of \<open>KernelCopyData\<close> for its four-byte copies.\<close>

definition copies_words :: "'s os_api \<Rightarrow> bool" where
  "copies_words A \<longleftrightarrow> (\<forall>m d s. KernelCopyData A m d s 4 = write32 m d (read32 m s))"

named_theorems effect_defs \<open>the elementary effects, unfolded\<close>

lemmas [effect_defs] = log_event_def store32_def store8_def copy_data_def put_obj_def
  lock_def unlock_def

end
