(* ===== verification/Address_Provider.thy ===== *)
theory Address_Provider
  imports Platform
begin

text \<open>
  \<open>FunctionAddressProvider\<close> (\<open>source/FunctionAddressProvider.h\<close>, \<open>.cpp\<close>): the table of system
  libraries with their cached module handles, and the lookup of a function's effective address.
  The lemmas give the contract of the handle cache (a locale, interpreted on the table), the
  frame of a lookup, and the cases in which a lookup yields 0. What the branch-following step means
  to a processor is proved in theory \<open>PPC\<close>.
\<close>

section \<open>The table\<close>

definition rpl_entry :: "function_replacement_library_type_t \<Rightarrow> string \<Rightarrow> rpl_handling" where
  "rpl_entry l n = \<lparr>rh_library = l, rh_rplname = n, rh_handle = 0\<rparr>"

definition initial_rpl_handles :: "rpl_handling list" where
  "initial_rpl_handles =
    [rpl_entry LIBRARY_AVM ''avm.rpl'',
     rpl_entry LIBRARY_CAMERA ''camera.rpl'',
     rpl_entry LIBRARY_COREINIT ''coreinit.rpl'',
     rpl_entry LIBRARY_DC ''dc.rpl'',
     rpl_entry LIBRARY_DMAE ''dmae.rpl'',
     rpl_entry LIBRARY_DRMAPP ''drmapp.rpl'',
     rpl_entry LIBRARY_ERREULA ''erreula.rpl'',
     rpl_entry LIBRARY_GX2 ''gx2.rpl'',
     rpl_entry LIBRARY_H264 ''h264.rpl'',
     rpl_entry LIBRARY_LZMA920 ''lzma920.rpl'',
     rpl_entry LIBRARY_MIC ''mic.rpl'',
     rpl_entry LIBRARY_NFC ''nfc.rpl'',
     rpl_entry LIBRARY_NIO_PROF ''nio_prof.rpl'',
     rpl_entry LIBRARY_NLIBCURL ''nlibcurl.rpl'',
     rpl_entry LIBRARY_NLIBNSS ''nlibnss.rpl'',
     rpl_entry LIBRARY_NLIBNSS2 ''nlibnss2.rpl'',
     rpl_entry LIBRARY_NN_AC ''nn_ac.rpl'',
     rpl_entry LIBRARY_NN_ACP ''nn_acp.rpl'',
     rpl_entry LIBRARY_NN_ACT ''nn_act.rpl'',
     rpl_entry LIBRARY_NN_AOC ''nn_aoc.rpl'',
     rpl_entry LIBRARY_NN_BOSS ''nn_boss.rpl'',
     rpl_entry LIBRARY_NN_CCR ''nn_ccr.rpl'',
     rpl_entry LIBRARY_NN_CMPT ''nn_cmpt.rpl'',
     rpl_entry LIBRARY_NN_DLP ''nn_dlp.rpl'',
     rpl_entry LIBRARY_NN_EC ''nn_ec.rpl'',
     rpl_entry LIBRARY_NN_FP ''nn_fp.rpl'',
     rpl_entry LIBRARY_NN_HAI ''nn_hai.rpl'',
     rpl_entry LIBRARY_NN_HPAD ''nn_hpad.rpl'',
     rpl_entry LIBRARY_NN_IDBE ''nn_idbe.rpl'',
     rpl_entry LIBRARY_NN_NDM ''nn_ndm.rpl'',
     rpl_entry LIBRARY_NN_NETS2 ''nn_nets2.rpl'',
     rpl_entry LIBRARY_NN_NFP ''nn_nfp.rpl'',
     rpl_entry LIBRARY_NN_NIM ''nn_nim.rpl'',
     rpl_entry LIBRARY_NN_OLV ''nn_olv.rpl'',
     rpl_entry LIBRARY_NN_PDM ''nn_pdm.rpl'',
     rpl_entry LIBRARY_NN_SAVE ''nn_save.rpl'',
     rpl_entry LIBRARY_NN_SL ''nn_sl.rpl'',
     rpl_entry LIBRARY_NN_SPM ''nn_spm.rpl'',
     rpl_entry LIBRARY_NN_TEMP ''nn_temp.rpl'',
     rpl_entry LIBRARY_NN_UDS ''nn_uds.rpl'',
     rpl_entry LIBRARY_NN_VCTL ''nn_vctl.rpl'',
     rpl_entry LIBRARY_NSYSCCR ''nsysccr.rpl'',
     rpl_entry LIBRARY_NSYSHID ''nsyshid.rpl'',
     rpl_entry LIBRARY_NSYSKBD ''nsyskbd.rpl'',
     rpl_entry LIBRARY_NSYSNET ''nsysnet.rpl'',
     rpl_entry LIBRARY_NSYSUHS ''nsysuhs.rpl'',
     rpl_entry LIBRARY_NSYSUVD ''nsysuvd.rpl'',
     rpl_entry LIBRARY_NTAG ''ntag.rpl'',
     rpl_entry LIBRARY_PADSCORE ''padscore.rpl'',
     rpl_entry LIBRARY_PROC_UI ''proc_ui.rpl'',
     rpl_entry LIBRARY_SNDCORE2 ''sndcore2.rpl'',
     rpl_entry LIBRARY_SNDUSER2 ''snduser2.rpl'',
     rpl_entry LIBRARY_SND_CORE ''snd_core.rpl'',
     rpl_entry LIBRARY_SND_USER ''snd_user.rpl'',
     rpl_entry LIBRARY_SWKBD ''swkbd.rpl'',
     rpl_entry LIBRARY_SYSAPP ''sysapp.rpl'',
     rpl_entry LIBRARY_TCL ''tcl.rpl'',
     rpl_entry LIBRARY_TVE ''tve.rpl'',
     rpl_entry LIBRARY_UAC ''uac.rpl'',
     rpl_entry LIBRARY_UAC_RPL ''uac_rpl.rpl'',
     rpl_entry LIBRARY_USB_MIC ''usb_mic.rpl'',
     rpl_entry LIBRARY_UVC ''uvc.rpl'',
     rpl_entry LIBRARY_UVD ''uvd.rpl'',
     rpl_entry LIBRARY_VPAD ''vpad.rpl'',
     rpl_entry LIBRARY_VPADBASE ''vpadbase.rpl'',
     rpl_entry LIBRARY_ZLIB125 ''zlib125.rpl'']"

section \<open>Looking a function up\<close>

text \<open>
  The loop over \<open>rpl_handles\<close>. It yields the table with the handle it may have stored, and
  \<open>None\<close> for the early \<open>return 0\<close>, else the value \<open>rpl_handle\<close> has after the loop.
\<close>

fun find_rpl_handle ::
    "'s os_api \<Rightarrow> 's \<Rightarrow> function_replacement_library_type_t \<Rightarrow> rpl_handling list
      \<Rightarrow> u32 option \<times> rpl_handling list" where
  "find_rpl_handle A s lib [] = (Some 0, [])"
| "find_rpl_handle A s lib (r # rs) =
     (if rh_library r = lib
      then let (err, h) = (if rh_handle r = 0 then OSDynLoad_IsModuleLoaded A s (rh_rplname r)
                           else (OS_DYNLOAD_OK A, rh_handle r))
           in (if err \<noteq> OS_DYNLOAD_OK A \<or> h = 0 then None else Some h, r\<lparr>rh_handle := h\<rparr> # rs)
      else let (res, rs') = find_rpl_handle A s lib rs in (res, r # rs'))"

definition follow_branch :: "u32 \<Rightarrow> u32 \<Rightarrow> u32" where
  "follow_branch real_addr realAddrData =
     (if realAddrData AND 0xFC000003 = 0x48000000
      then let address_diff = realAddrData AND 0x01FFFFFC;
               address_diff = (if realAddrData AND 0x02000000 = 0x02000000
                               then 0xFE000000 + address_diff else address_diff)
           in real_addr + address_diff
      else real_addr)"

definition getEffectiveAddressOfFunction ::
    "'s os_api \<Rightarrow> function_replacement_library_type_t \<Rightarrow> string \<Rightarrow> 's world
      \<Rightarrow> u32 \<times> 's world" where
  "getEffectiveAddressOfFunction A lib fname w =
     (let (found, rpls) = find_rpl_handle A (os w) lib (rpl_handles w);
          w1 = w\<lparr>rpl_handles := rpls\<rparr>
      in case found of
           None \<Rightarrow> (0, w1)
         | Some rpl_handle \<Rightarrow>
             if rpl_handle = 0 then (0, w1)
             else let real_addr =
                        (case snd (OSDynLoad_FindExport A (os w1) rpl_handle OS_DYNLOAD_EXPORT_FUNC fname)
                         of None \<Rightarrow> 0 | Some a \<Rightarrow> a)
                  in if real_addr = 0 then (0, w1)
                     else (follow_branch real_addr (load32 A real_addr w1), w1))"

section \<open>Forgetting handles\<close>

definition resetHandles :: "'s world \<Rightarrow> 's world" where
  "resetHandles w = w\<lparr>rpl_handles := map (\<lambda>r. r\<lparr>rh_handle := 0\<rparr>) (rpl_handles w)\<rparr>"

fun type_for_handle :: "rpl_handling list \<Rightarrow> u32 \<Rightarrow> function_replacement_library_type_t" where
  "type_for_handle [] h = LIBRARY_OTHER"
| "type_for_handle (r # rs) h = (if rh_handle r = h then rh_library r else type_for_handle rs h)"

definition getTypeForHandle :: "u32 \<Rightarrow> 's world \<Rightarrow> function_replacement_library_type_t" where
  "getTypeForHandle h w = type_for_handle (rpl_handles w) h"

fun reset_handle :: "rpl_handling list \<Rightarrow> u32 \<Rightarrow> bool \<times> rpl_handling list" where
  "reset_handle [] h = (False, [])"
| "reset_handle (r # rs) h =
     (if rh_handle r = h then (True, r\<lparr>rh_handle := 0\<rparr> # rs)
      else let (b, rs') = reset_handle rs h in (b, r # rs'))"

definition resetHandle :: "u32 \<Rightarrow> 's world \<Rightarrow> bool \<times> 's world" where
  "resetHandle h w =
     (let (b, rpls) = reset_handle (rpl_handles w) h in (b, w\<lparr>rpl_handles := rpls\<rparr>))"

section \<open>The contract of the handle cache\<close>

text \<open>
  What the patcher relies on: dropping a handle forgets exactly that handle, a handle that was
  dropped has no owner any more, and dropping all of them forgets everything. The unload
  notifications of the loader are a sequence of drops; the locale proves what is left after any
  such sequence.
\<close>

locale handle_cache =
  fixes null :: 'h
    and cached :: "'t \<Rightarrow> 'l \<Rightarrow> 'h option"
    and drop_one :: "'t \<Rightarrow> 'h \<Rightarrow> 't"
    and drop_all :: "'t \<Rightarrow> 't"
    and owner :: "'t \<Rightarrow> 'h \<Rightarrow> 'l option"
    and invar :: "'t \<Rightarrow> bool"
  assumes invar_drop_one: "invar t \<Longrightarrow> invar (drop_one t h)"
    and invar_drop_all: "invar t \<Longrightarrow> invar (drop_all t)"
    and cached_drop_one:
      "invar t \<Longrightarrow> cached (drop_one t h) l = (if cached t l = Some h then None else cached t l)"
    and cached_drop_all: "cached (drop_all t) l = None"
    and cached_not_null: "cached t l \<noteq> Some null"
    and owner_iff: "invar t \<Longrightarrow> h \<noteq> null \<Longrightarrow> owner t h = Some l \<longleftrightarrow> cached t l = Some h"
begin

lemma cached_drops:
  "invar t \<Longrightarrow> cached (foldl drop_one t hs) l =
     (if \<exists>h \<in> set hs. cached t l = Some h then None else cached t l)"
proof (induction hs arbitrary: t)
  case Nil
  show ?case by simp
next
  case (Cons h hs)
  from Cons.IH [OF invar_drop_one [OF Cons.prems]] Cons.prems show ?case
    by (auto simp: cached_drop_one)
qed

lemma owner_drop_one:
  assumes "invar t" and "h \<noteq> null"
  shows "owner (drop_one t h) h = None"
proof (cases "owner (drop_one t h) h")
  case (Some l)
  with owner_iff [OF invar_drop_one [OF assms(1)] assms(2)]
  have "cached (drop_one t h) l = Some h" by simp
  with cached_drop_one [OF assms(1)] show ?thesis by (simp split: if_splits)
qed

end

fun cached_handle ::
    "rpl_handling list \<Rightarrow> function_replacement_library_type_t \<Rightarrow> u32 option" where
  "cached_handle [] l = None"
| "cached_handle (r # rs) l =
     (if rh_library r = l then (if rh_handle r = 0 then None else Some (rh_handle r))
      else cached_handle rs l)"

definition handle_owner ::
    "rpl_handling list \<Rightarrow> u32 \<Rightarrow> function_replacement_library_type_t option" where
  "handle_owner t h =
     (if type_for_handle t h = LIBRARY_OTHER then None else Some (type_for_handle t h))"

definition handles_ok :: "rpl_handling list \<Rightarrow> bool" where
  "handles_ok t \<longleftrightarrow>
     distinct (map rh_library t) \<and> LIBRARY_OTHER \<notin> set (map rh_library t)
     \<and> distinct (filter (\<lambda>h. h \<noteq> 0) (map rh_handle t))"

lemma cached_handle_in: "cached_handle t l = Some h \<Longrightarrow> h \<noteq> 0 \<and> h \<in> set (map rh_handle t)
    \<and> l \<in> set (map rh_library t)"
  by (induction t) (auto split: if_splits)

lemma reset_handle_absent: "h \<notin> set (map rh_handle t) \<Longrightarrow> reset_handle t h = (False, t)"
  by (induction t) auto

lemma reset_handle_libraries: "map rh_library (snd (reset_handle t h)) = map rh_library t"
  by (induction t) (auto split: prod.splits)

lemma reset_handle_names: "map rh_rplname (snd (reset_handle t h)) = map rh_rplname t"
  by (induction t) (auto split: prod.splits)

lemma set_reset_handle: "set (map rh_handle (snd (reset_handle t h))) \<subseteq> insert 0 (set (map rh_handle t))"
proof (induction t)
  case (Cons r t)
  then show ?case by (cases "reset_handle t h") (auto simp: image_subset_iff)
qed simp

lemma distinct_reset_handle:
  "distinct (filter (\<lambda>h. h \<noteq> 0) (map rh_handle t))
    \<Longrightarrow> distinct (filter (\<lambda>h. h \<noteq> 0) (map rh_handle (snd (reset_handle t h))))"
proof (induction t)
  case (Cons r t)
  have "rh_handle r \<noteq> 0 \<Longrightarrow> rh_handle r \<notin> set (map rh_handle t)
      \<Longrightarrow> rh_handle r \<notin> set (map rh_handle (snd (reset_handle t h)))"
    using set_reset_handle [of t h] by blast
  with Cons show ?case by (auto split: prod.splits if_splits)
qed simp

lemma cached_reset_handle:
  "distinct (map rh_library t) \<Longrightarrow> distinct (filter (\<lambda>h. h \<noteq> 0) (map rh_handle t)) \<Longrightarrow>
     cached_handle (snd (reset_handle t h)) l =
       (if cached_handle t l = Some h then None else cached_handle t l)"
proof (induction t)
  case (Cons r t)
  have "cached_handle t l = Some h \<Longrightarrow> rh_handle r \<noteq> h"
    using Cons.prems(2) cached_handle_in [of t l h] by (auto split: if_splits)
  with Cons show ?case by (auto split: prod.splits if_splits)
qed simp

lemma type_for_handle_iff:
  "handles_ok t \<Longrightarrow> h \<noteq> 0 \<Longrightarrow> type_for_handle t h = l \<and> l \<noteq> LIBRARY_OTHER \<longleftrightarrow> cached_handle t l = Some h"
proof (induction t)
  case (Cons r t)
  have notin: "cached_handle t (rh_library r) = None"
    using Cons.prems(1) cached_handle_in [of t "rh_library r"]
    by (cases "cached_handle t (rh_library r)") (auto simp: handles_ok_def)
  have other: "cached_handle t l = Some h \<Longrightarrow> rh_handle r \<noteq> h"
    using Cons.prems cached_handle_in [of t l h] by (auto simp: handles_ok_def split: if_splits)
  have "handles_ok t" and "rh_library r \<noteq> LIBRARY_OTHER"
    using Cons.prems(1) by (auto simp: handles_ok_def split: if_splits)
  with Cons.IH Cons.prems(2) notin other show ?case by auto
qed (auto simp: handles_ok_def)

interpretation rpl_cache: handle_cache
  "0 :: u32" cached_handle "\<lambda>t h. snd (reset_handle t h)"
  "map (\<lambda>r. r\<lparr>rh_handle := 0\<rparr>)" handle_owner handles_ok
proof unfold_locales
  fix t :: "rpl_handling list" and h :: u32 and l :: function_replacement_library_type_t
  show "handles_ok t \<Longrightarrow> handles_ok (snd (reset_handle t h))"
    unfolding handles_ok_def reset_handle_libraries by (blast intro: distinct_reset_handle)
  show "handles_ok t \<Longrightarrow> handles_ok (map (\<lambda>r. r\<lparr>rh_handle := 0\<rparr>) t)"
    by (simp add: handles_ok_def o_def)
  show "handles_ok t \<Longrightarrow> cached_handle (snd (reset_handle t h)) l =
      (if cached_handle t l = Some h then None else cached_handle t l)"
    unfolding handles_ok_def by (blast intro: cached_reset_handle)
  show "cached_handle (map (\<lambda>r. r\<lparr>rh_handle := 0\<rparr>) t) l = None"
    by (induction t) auto
  show "cached_handle t l \<noteq> Some 0"
    using cached_handle_in [of t l 0] by auto
  show "handles_ok t \<Longrightarrow> h \<noteq> 0 \<Longrightarrow>
      handle_owner t h = Some l \<longleftrightarrow> cached_handle t l = Some h"
    using type_for_handle_iff [of t h l] by (auto simp: handle_owner_def)
qed

section \<open>Correctness of the table and of the lookup\<close>

text \<open>
  The name under which a library is asked for, and the module handle a lookup works with: the
  cached one, else the loader's answer.
\<close>

definition rpl_name_of ::
    "rpl_handling list \<Rightarrow> function_replacement_library_type_t \<Rightarrow> string option" where
  "rpl_name_of t l = map_of (map (\<lambda>r. (rh_library r, rh_rplname r)) t) l"

definition module_of ::
    "'s os_api \<Rightarrow> 's \<Rightarrow> rpl_handling list \<Rightarrow> function_replacement_library_type_t \<Rightarrow> u32 option"
    where
  "module_of A s t l =
     (case cached_handle t l of
        Some h \<Rightarrow> Some h
      | None \<Rightarrow>
          (case rpl_name_of t l of
             None \<Rightarrow> None
           | Some n \<Rightarrow> let (err, h) = OSDynLoad_IsModuleLoaded A s n
                       in if err = OS_DYNLOAD_OK A \<and> h \<noteq> 0 then Some h else None))"

definition export_address :: "'s os_api \<Rightarrow> 's \<Rightarrow> u32 \<Rightarrow> string \<Rightarrow> u32 option" where
  "export_address A s m f =
     (case snd (OSDynLoad_FindExport A s m OS_DYNLOAD_EXPORT_FUNC f) of
        None \<Rightarrow> None | Some a \<Rightarrow> if a = 0 then None else Some a)"

lemma find_rpl_handle_module:
  "(case fst (find_rpl_handle A s l t) of None \<Rightarrow> None | Some h \<Rightarrow> if h = 0 then None else Some h)
     = module_of A s t l"
  by (induction t) (auto simp: module_of_def rpl_name_of_def split: prod.splits option.splits if_splits)

lemma find_rpl_handle_frame:
  "map rh_library (snd (find_rpl_handle A s l t)) = map rh_library t
   \<and> map rh_rplname (snd (find_rpl_handle A s l t)) = map rh_rplname t"
  by (induction t) (auto split: prod.splits)

lemma find_rpl_handle_other:
  "l' \<noteq> l \<Longrightarrow> cached_handle (snd (find_rpl_handle A s l t)) l' = cached_handle t l'"
  by (induction t) (auto split: prod.splits)

lemma rpl_name_of_reset: "rpl_name_of (snd (reset_handle t h)) l = rpl_name_of t l"
  by (induction t) (auto simp: rpl_name_of_def split: prod.splits)

lemma getEffectiveAddress_eq:
  "fst (getEffectiveAddressOfFunction A lib f w) =
     (case module_of A (os w) (rpl_handles w) lib of
        None \<Rightarrow> 0
      | Some m \<Rightarrow> (case export_address A (os w) m f of
                    None \<Rightarrow> 0 | Some a \<Rightarrow> follow_branch a (load32 A a w)))"
  unfolding find_rpl_handle_module [symmetric]
  by (auto simp: getEffectiveAddressOfFunction_def export_address_def load32_def Let_def
      split: prod.splits option.splits)

lemma getEffectiveAddress_world:
  "snd (getEffectiveAddressOfFunction A lib f w) =
     w\<lparr>rpl_handles := snd (find_rpl_handle A (os w) lib (rpl_handles w))\<rparr>"
  by (auto simp: getEffectiveAddressOfFunction_def Let_def split: prod.splits option.splits)

text \<open>The built-in table meets what the cache asks for.\<close>

lemma handles_ok_initial: "handles_ok initial_rpl_handles"
  by (simp add: handles_ok_def initial_rpl_handles_def rpl_entry_def)

text \<open>
  C24. A lookup yields the address of the export in the module that is cached for the library or,
  when none is, in the module the loader reports under the library's file name; one unconditional
  relative branch at that address is followed; and the result is 0 exactly when a step fails (no
  such library, not loaded, no such export, or a branch to 0). Nothing but the cached handle of
  that library changes.
\<close>

theorem getEffectiveAddress_spec:
  "fst (getEffectiveAddressOfFunction A lib f w) =
     (case module_of A (os w) (rpl_handles w) lib of
        None \<Rightarrow> 0
      | Some m \<Rightarrow> (case export_address A (os w) m f of
                    None \<Rightarrow> 0 | Some a \<Rightarrow> follow_branch a (load32 A a w)))
   \<and> (\<exists>t. snd (getEffectiveAddressOfFunction A lib f w) = w\<lparr>rpl_handles := t\<rparr>
          \<and> map rh_library t = map rh_library (rpl_handles w)
          \<and> map rh_rplname t = map rh_rplname (rpl_handles w)
          \<and> (\<forall>l. l = lib \<or> cached_handle t l = cached_handle (rpl_handles w) l))"
proof (rule conjI)
  show "fst (getEffectiveAddressOfFunction A lib f w) =
     (case module_of A (os w) (rpl_handles w) lib of
        None \<Rightarrow> 0
      | Some m \<Rightarrow> (case export_address A (os w) m f of
                    None \<Rightarrow> 0 | Some a \<Rightarrow> follow_branch a (load32 A a w)))"
    by (rule getEffectiveAddress_eq)
next
  let ?t = "snd (find_rpl_handle A (os w) lib (rpl_handles w))"
  show "\<exists>t. snd (getEffectiveAddressOfFunction A lib f w) = w\<lparr>rpl_handles := t\<rparr>
          \<and> map rh_library t = map rh_library (rpl_handles w)
          \<and> map rh_rplname t = map rh_rplname (rpl_handles w)
          \<and> (\<forall>l. l = lib \<or> cached_handle t l = cached_handle (rpl_handles w) l)"
    using find_rpl_handle_other [of _ lib A "os w" "rpl_handles w"]
    by (intro exI [of _ ?t] conjI allI)
      (auto simp: getEffectiveAddress_world find_rpl_handle_frame)
qed

text \<open>
  C25. After the loader announced that a module was unloaded and \<open>resetHandle\<close> ran, its library is
  never looked up through the old handle: the lookup asks the loader again, and yields 0 while the
  loader reports the module as not loaded.
\<close>

theorem lookup_after_unload:
  assumes "handles_ok (rpl_handles w)"
    and "cached_handle (rpl_handles w) lib = Some h"
    and "rpl_name_of (rpl_handles w) lib = Some n"
    and "fst (OSDynLoad_IsModuleLoaded A (os w) n) \<noteq> OS_DYNLOAD_OK A"
  shows "fst (getEffectiveAddressOfFunction A lib f (snd (resetHandle h w))) = 0"
proof -
  let ?t = "snd (reset_handle (rpl_handles w) h)"
  have w': "snd (resetHandle h w) = w\<lparr>rpl_handles := ?t\<rparr>"
    by (simp add: resetHandle_def split: prod.splits)
  have "cached_handle ?t lib = None"
    using rpl_cache.cached_drop_one [OF assms(1), of h lib] assms(2) by simp
  then have "module_of A (os w) ?t lib = None"
    using assms(3,4) by (auto simp: module_of_def rpl_name_of_reset split: prod.splits)
  then show ?thesis by (simp add: w' getEffectiveAddress_eq)
qed

end
