(* ===== verification/Kernel_Export.thy ===== *)
theory Kernel_Export
  imports Platform "HOL-Library.Sublist"
begin

text \<open>
  The search for a function in a loaded executable (\<open>source/utils/KernelFindExport.h\<close>, \<open>.cpp\<close>),
  which runs as a system call in the loader's address space: the layouts of the ELF structs, the
  walk over the kernel's list of loaded modules, the search for the \<open>.text\<close> section and for the
  symbol. Memory is read byte by byte through a view \<open>m\<close>, the kernel's effective addresses. The list
  walk may not end on a cyclic list, so it is a partial function; the lemmas show that it ends on
  every finite list, what it finds there, and that the address space is always switched back.
\<close>

section \<open>Struct layouts\<close>

text \<open>
  A struct is its fields in order, each with name, size and alignment. Offsets follow the C rule:
  a field starts at the next multiple of its alignment.
\<close>

type_synonym field_decl = "string \<times> nat \<times> nat"

definition align_up :: "nat \<Rightarrow> nat \<Rightarrow> nat" where
  "align_up a n = (n + (a - 1)) div a * a"

fun offsets :: "nat \<Rightarrow> field_decl list \<Rightarrow> (string \<times> nat) list" where
  "offsets n [] = []"
| "offsets n ((f, sz, al) # fs) = (f, align_up al n) # offsets (align_up al n + sz) fs"

fun end_offset :: "nat \<Rightarrow> field_decl list \<Rightarrow> nat" where
  "end_offset n [] = n"
| "end_offset n ((f, sz, al) # fs) = end_offset (align_up al n + sz) fs"

definition struct_size :: "field_decl list \<Rightarrow> nat" where
  "struct_size fs = align_up (fold (\<lambda>(f, sz, al) a. max al a) fs 1) (end_offset 0 fs)"

definition offset_of :: "field_decl list \<Rightarrow> string \<Rightarrow> u32" where
  "offset_of fs f = (case map_of (offsets 0 fs) f of None \<Rightarrow> 0 | Some n \<Rightarrow> of_nat n)"

definition ElfHeader :: "field_decl list" where
  "ElfHeader =
     [(''magic'', 4, 1), (''fileClass'', 1, 1), (''encoding'', 1, 1), (''elfVersion'', 1, 1),
      (''abi'', 1, 1), (''abiVersion'', 1, 1), (''pad'', 7, 1),
      (''type'', 2, 2), (''machine'', 2, 2), (''version'', 4, 4), (''entry'', 4, 4),
      (''phoff'', 4, 4), (''shoff'', 4, 4), (''flags'', 4, 4), (''ehsize'', 2, 2),
      (''phentsize'', 2, 2), (''phnum'', 2, 2), (''shentsize'', 2, 2), (''shnum'', 2, 2),
      (''shstrndx'', 2, 2)]"

definition ElfSectionHeader :: "field_decl list" where
  "ElfSectionHeader =
     [(''name'', 4, 4), (''type'', 4, 4), (''flags'', 4, 4), (''addr'', 4, 4), (''offset'', 4, 4),
      (''size'', 4, 4), (''link'', 4, 4), (''info'', 4, 4), (''addralign'', 4, 4),
      (''entsize'', 4, 4)]"

definition ElfSymbol :: "field_decl list" where
  "ElfSymbol =
     [(''name'', 4, 4), (''value'', 4, 4), (''size'', 4, 4), (''info'', 1, 1), (''other'', 1, 1),
      (''shndx'', 2, 2)]"

definition LOADED_RPL :: "field_decl list" where
  "LOADED_RPL =
     [(''unknown0'', 0x08, 1), (''moduleNameBuffer'', 4, 4), (''unknown1'', 0x10, 1),
      (''elfHeader'', struct_size ElfHeader, 4), (''sectionHeaderBuffer'', 4, 4),
      (''unknown2'', 0xA0, 1), (''sectionAddressBuffer'', 4, 4), (''unknown3'', 0x1C, 1),
      (''nextLoadedRpl'', 4, 4)]"

text \<open>The static checks of the header: the offset of each field, and the size of the struct.\<close>

type_synonym layout_checks = "(nat \<times> string) list \<times> nat"

definition layout_ok :: "field_decl list \<Rightarrow> layout_checks \<Rightarrow> bool" where
  "layout_ok fs c \<longleftrightarrow>
     list_all (\<lambda>(n, f). map_of (offsets 0 fs) f = Some n) (fst c) \<and> struct_size fs = snd c"

definition ElfHeader_checks :: layout_checks where
  "ElfHeader_checks =
     ([(0x00, ''magic''), (0x04, ''fileClass''), (0x05, ''encoding''), (0x06, ''elfVersion''),
       (0x07, ''abi''), (0x08, ''abiVersion''), (0x10, ''type''), (0x12, ''machine''),
       (0x14, ''version''), (0x18, ''entry''), (0x1C, ''phoff''), (0x20, ''shoff''), (0x24, ''flags''),
       (0x28, ''ehsize''), (0x2A, ''phentsize''), (0x2C, ''phnum''), (0x2E, ''shentsize''),
       (0x30, ''shnum''), (0x32, ''shstrndx'')], 0x34)"

definition ElfSectionHeader_checks :: layout_checks where
  "ElfSectionHeader_checks =
     ([(0x00, ''name''), (0x04, ''type''), (0x08, ''flags''), (0x0C, ''addr''), (0x10, ''offset''),
       (0x14, ''size''), (0x18, ''link''), (0x1C, ''info''), (0x20, ''addralign''), (0x24, ''entsize'')],
      0x28)"

definition ElfSymbol_checks :: layout_checks where
  "ElfSymbol_checks =
     ([(0x00, ''name''), (0x04, ''value''), (0x08, ''size''), (0x0C, ''info''), (0x0D, ''other''),
       (0x0E, ''shndx'')], 0x10)"

definition LOADED_RPL_checks :: layout_checks where
  "LOADED_RPL_checks =
     ([(0x08, ''moduleNameBuffer''), (0x1C, ''elfHeader''), (0x50, ''sectionHeaderBuffer''),
       (0xF4, ''sectionAddressBuffer''), (0x114, ''nextLoadedRpl'')], 0x118)"

section \<open>Reading the kernel's structs\<close>

definition read16 :: "bytes \<Rightarrow> u32 \<Rightarrow> u16" where
  "read16 m a = push_bit 8 (ucast (m a)) OR ucast (m (a + 1))"

definition elf_header_field :: "bytes \<Rightarrow> u32 \<Rightarrow> string \<Rightarrow> u16" where
  "elf_header_field m rpl f =
     read16 m (rpl + offset_of LOADED_RPL ''elfHeader'' + offset_of ElfHeader f)"

definition section_field :: "bytes \<Rightarrow> u32 \<Rightarrow> string \<Rightarrow> u32" where
  "section_field m hdr f = read32 m (hdr + offset_of ElfSectionHeader f)"

text \<open>\<open>rpl->sectionAddressBuffer[i]\<close> and the address of section header \<open>i\<close>.\<close>

definition section_address :: "bytes \<Rightarrow> u32 \<Rightarrow> u32 \<Rightarrow> u32" where
  "section_address m rpl i =
     read32 m (read32 m (rpl + offset_of LOADED_RPL ''sectionAddressBuffer'') + 4 * i)"

definition section_header :: "bytes \<Rightarrow> u32 \<Rightarrow> u32 \<Rightarrow> u32" where
  "section_header m rpl i =
     read32 m (rpl + offset_of LOADED_RPL ''sectionHeaderBuffer'')
       + ucast (elf_header_field m rpl ''shentsize'') * i"

text \<open>
  Comparison of a C string in memory with a string: \<open>std::string_view(p) == s\<close>. C strings hold no
  zero byte, so neither does \<open>s\<close>.
\<close>

fun cstr_eq :: "bytes \<Rightarrow> u32 \<Rightarrow> string \<Rightarrow> bool" where
  "cstr_eq m p [] \<longleftrightarrow> m p = 0"
| "cstr_eq m p (c # cs) \<longleftrightarrow> m p = of_char c \<and> cstr_eq m (p + 1) cs"

section \<open>The search\<close>

text \<open>The first loop over the sections: the last section with an address that is named \<open>.text\<close>.\<close>

definition is_text_section :: "bytes \<Rightarrow> u32 \<Rightarrow> u32 \<Rightarrow> bool" where
  "is_text_section m rpl i \<longleftrightarrow>
     (let shstrndx = elf_header_field m rpl ''shstrndx''
      in section_address m rpl i \<noteq> 0 \<and> shstrndx \<noteq> 0
         \<and> cstr_eq m (section_address m rpl (ucast shstrndx)
                        + section_field m (section_header m rpl i) ''name'') ''.text'')"

fun text_section_loop :: "bytes \<Rightarrow> u32 \<Rightarrow> nat \<Rightarrow> nat \<Rightarrow> u32 \<Rightarrow> u32" where
  "text_section_loop m rpl 0 i idx = idx"
| "text_section_loop m rpl (Suc k) i idx =
     text_section_loop m rpl k (Suc i) (if is_text_section m rpl (of_nat i) then of_nat i else idx)"

text \<open>The loop over the symbols of one table, which breaks at the first match.\<close>

definition symbol_matches ::
    "'s os_api \<Rightarrow> bytes \<Rightarrow> u32 \<Rightarrow> u32 \<Rightarrow> string \<Rightarrow> u32 \<Rightarrow> bool" where
  "symbol_matches A m textSectionIndex strTab fname entry \<longleftrightarrow>
     ucast (read16 m (entry + offset_of ElfSymbol ''shndx'')) = textSectionIndex
     \<and> m (entry + offset_of ElfSymbol ''info'') AND 0xf = STT_FUNC A
     \<and> cstr_eq m (strTab + read32 m (entry + offset_of ElfSymbol ''name'')) fname"

fun symbol_loop ::
    "'s os_api \<Rightarrow> bytes \<Rightarrow> u32 \<Rightarrow> u32 \<Rightarrow> string \<Rightarrow> u32 \<Rightarrow> u32 \<Rightarrow> nat \<Rightarrow> nat \<Rightarrow> u32 option" where
  "symbol_loop A m text strTab fname base entsz 0 j = None"
| "symbol_loop A m text strTab fname base entsz (Suc k) j =
     (let entry = base + of_nat j * entsz
      in if symbol_matches A m text strTab fname entry
         then Some (read32 m (entry + offset_of ElfSymbol ''value''))
         else symbol_loop A m text strTab fname base entsz k (Suc j))"

definition sym_ent_size :: "bytes \<Rightarrow> u32 \<Rightarrow> u32" where
  "sym_ent_size m hdr =
     (if section_field m hdr ''entsize'' \<noteq> 0 then section_field m hdr ''entsize''
      else of_nat (struct_size ElfSymbol))"

definition num_symbols :: "bytes \<Rightarrow> u32 \<Rightarrow> nat" where
  "num_symbols m hdr = unat (section_field m hdr ''size'' div sym_ent_size m hdr)"

text \<open>The second loop over the sections, which breaks when a symbol table had the symbol.\<close>

fun symtab_loop ::
    "'s os_api \<Rightarrow> bytes \<Rightarrow> u32 \<Rightarrow> u32 \<Rightarrow> string \<Rightarrow> nat \<Rightarrow> nat \<Rightarrow> u32 option" where
  "symtab_loop A m rpl text fname 0 i = None"
| "symtab_loop A m rpl text fname (Suc k) i =
     (let addr = section_address m rpl (of_nat i); hdr = section_header m rpl (of_nat i)
      in if addr = 0 \<or> section_field m hdr ''type'' \<noteq> SHT_SYMTAB A
         then symtab_loop A m rpl text fname k (Suc i)
         else case symbol_loop A m text (section_address m rpl (section_field m hdr ''link''))
                     fname addr (sym_ent_size m hdr) (num_symbols m hdr) 0 of
                Some v \<Rightarrow> Some v
              | None \<Rightarrow> symtab_loop A m rpl text fname k (Suc i))"

definition export_of_module :: "'s os_api \<Rightarrow> bytes \<Rightarrow> u32 \<Rightarrow> string \<Rightarrow> u32" where
  "export_of_module A m rpl fname =
     (let n = unat (elf_header_field m rpl ''shnum'');
          text = text_section_loop m rpl n 0 0xFFFFFFFF
      in case symtab_loop A m rpl text fname n 0 of None \<Rightarrow> 0 | Some v \<Rightarrow> v)"

text \<open>The loop over the kernel's list of loaded modules.\<close>

definition module_named :: "bytes \<Rightarrow> u32 \<Rightarrow> string \<Rightarrow> bool" where
  "module_named m rpl rplName =
     cstr_eq m (read32 m (rpl + offset_of LOADED_RPL ''moduleNameBuffer'')) rplName"

definition next_rpl :: "bytes \<Rightarrow> u32 \<Rightarrow> u32" where
  "next_rpl m rpl = read32 m (rpl + offset_of LOADED_RPL ''nextLoadedRpl'')"

partial_function (option) rpl_loop ::
    "'s os_api \<Rightarrow> bytes \<Rightarrow> string \<Rightarrow> string \<Rightarrow> u32 \<Rightarrow> u32 option" where
  "rpl_loop A m rplName fname rpl =
     (if rpl = 0 then Some 0
      else if \<not> module_named m rpl rplName then rpl_loop A m rplName fname (next_rpl m rpl)
      else Some (export_of_module A m rpl fname))"

definition kernel_view :: "'s os_api \<Rightarrow> 's world \<Rightarrow> bytes" where
  "kernel_view A w = (\<lambda>a. mem w (kernel_mmu A (os w) a))"

definition FindExportKernel ::
    "'s os_api \<Rightarrow> string option \<Rightarrow> string option \<Rightarrow> 's world \<Rightarrow> halt + (u32 \<times> 's world)" where
  "FindExportKernel A rplName fname w =
     (case (rplName, fname) of
        (Some rpl, Some f) \<Rightarrow>
          let (err, currentRamPID) = KernelGetRAMPID A (os w)
          in if err \<noteq> - 1
             then let w1 = w\<lparr>os := KernelSetRAMPID A (os w) err 2\<rparr>
                  in (case rpl_loop A (kernel_view A w1) rpl f (KernelGetLoadedRPL A (os w1) 0) of
                        None \<Rightarrow> Inl Diverges
                      | Some result \<Rightarrow>
                          Inr (result, w1\<lparr>os := KernelSetRAMPID A (os w1) err currentRamPID\<rparr>))
             else Inr (0, w)
      | _ \<Rightarrow> Inr (0, w))"

text \<open>
  The stub \<open>SC_0x51\<close> (\<open>source/utils/syscall.s\<close>) enters the kernel, which runs the handler that
  \<open>KernelPatchSyscall\<close> installed just before.
\<close>

definition SC_0x51 ::
    "'s os_api \<Rightarrow> string \<Rightarrow> string \<Rightarrow> 's world \<Rightarrow> halt + (u32 \<times> 's world)" where
  "SC_0x51 A rplname fname w = FindExportKernel A (Some rplname) (Some fname) w"

definition pure_rpl_name :: "string \<Rightarrow> string" where
  "pure_rpl_name rplName =
     (if suffix ''.rpx'' rplName \<or> suffix ''.rpl'' rplName
      then take (length rplName - 4) rplName else rplName)"

definition KernelFindExport ::
    "'s os_api \<Rightarrow> string \<Rightarrow> string \<Rightarrow> 's world \<Rightarrow> halt + (u32 \<times> 's world)" where
  "KernelFindExport A rplName fname w =
     (let w1 = log_event EvOSMemoryBarrier (log_event (EvKernelPatchSyscall 0x51) w)
      in SC_0x51 A (pure_rpl_name rplName) fname w1)"

end
