(* ===== verification/Patched_Data.thy ===== *)
theory Patched_Data
  imports Address_Provider Kernel_Export
begin

text \<open>
  The life of a \<open>PatchedFunctionData\<close> object up to code generation
  (\<open>source/PatchedFunctionData.cpp\<close>): construction from the two argument structs, allocation of its
  code buffers, the decision whether the running title is a target, the resolution of the target
  address, and destruction. A method takes the object's fields and returns them updated; the
  callers write them back to the object store.
\<close>

section \<open>Construction and destruction\<close>

definition fresh_pfd :: PatchedFunctionData where
  "fresh_pfd = \<lparr>jumpToOriginal = 0, jumpData = 0, realEffectiveFunctionAddress = 0,
     realPhysicalFunctionAddress = 0, realCallFunctionAddressPtr = 0,
     replacementFunctionAddress = 0, replacedInstruction = 0, replaceWithInstruction = 0,
     jumpDataSize = 15, heapHandle = 0, fp_type = FUNCTION_PATCHER_TYPE_VALUE 0, titleIds = {},
     titleVersionMin = 0, titleVersionMax = 0xFFFF, executableName = None, textOffset = 0,
     isPatched = False, fp_library = None, targetProcess = 0, functionName = None\<rparr>"

definition needs_trampoline :: "'s os_api \<Rightarrow> PatchedFunctionData \<Rightarrow> bool" where
  "needs_trampoline A d \<longleftrightarrow>
     replacementFunctionAddress d > 0x01FFFFFC \<or> targetProcess d \<noteq> FP_TARGET_PROCESS_ALL A"

definition heap_alloc :: "'s os_api \<Rightarrow> u32 \<Rightarrow> u32 \<Rightarrow> int \<Rightarrow> 's world \<Rightarrow> u32 \<times> 's world" where
  "heap_alloc A heap sz align w =
     (let (p, s) = MEMAllocFromExpHeapEx A (os w) heap sz align;
          w1 = w\<lparr>os := s\<rparr>
      in (p, if p = 0 then w1 else log_event (EvHeapAlloc heap p) w1))"

definition heap_free :: "'s os_api \<Rightarrow> u32 \<Rightarrow> u32 \<Rightarrow> 's world \<Rightarrow> 's world" where
  "heap_free A heap p w =
     log_event (EvHeapFree heap p) (w\<lparr>os := MEMFreeToExpHeap A (os w) heap p\<rparr>)"

definition allocateDataForJumps ::
    "'s os_api \<Rightarrow> PatchedFunctionData \<Rightarrow> 's world \<Rightarrow> (bool \<times> PatchedFunctionData) \<times> 's world"
    where
  "allocateDataForJumps A d w =
     (if jumpData d \<noteq> 0 \<and> jumpToOriginal d \<noteq> 0 then ((True, d), w)
      else
        let (ok1, d1, w1) =
              (if needs_trampoline A d
               then let d0 = d\<lparr>jumpDataSize := 15\<rparr>;
                        (p, w1) = heap_alloc A (heapHandle d0) (jumpDataSize d0 * 4) 4 w
                    in (p \<noteq> 0, d0\<lparr>jumpData := p\<rparr>, w1)
               else (True, d, w))
        in if \<not> ok1 then ((False, d1), w1)
           else let (p, w2) = heap_alloc A (heapHandle d1) (5 * 4) 4 w1
                in ((p \<noteq> 0, d1\<lparr>jumpToOriginal := p\<rparr>), w2))"

text \<open>The destructor, and the deletion of an object by its last owner.\<close>

definition destruct_pfd ::
    "'s os_api \<Rightarrow> PatchedFunctionData \<Rightarrow> 's world \<Rightarrow> PatchedFunctionData \<times> 's world" where
  "destruct_pfd A d w =
     (let (d1, w1) = (if jumpToOriginal d \<noteq> 0
                      then (d\<lparr>jumpToOriginal := 0\<rparr>, heap_free A (heapHandle d) (jumpToOriginal d) w)
                      else (d, w))
      in if jumpData d1 \<noteq> 0
         then (d1\<lparr>jumpData := 0\<rparr>, heap_free A (heapHandle d1) (jumpData d1) w1)
         else (d1, w1))"

definition delete_pfd :: "'s os_api \<Rightarrow> u32 \<Rightarrow> PatchedFunctionData \<Rightarrow> 's world \<Rightarrow> 's world" where
  "delete_pfd A h d w =
     (let (_, w1) = destruct_pfd A d w
      in log_event (EvDelete h) (w1\<lparr>os := operator_delete A (os w1) h, objs := (objs w1)(h := None)\<rparr>))"

text \<open>
  The common end of both constructors: allocate, and give up (deleting the object) when that fails.
\<close>

definition finish_make_shared ::
    "'s os_api \<Rightarrow> u32 \<Rightarrow> PatchedFunctionData \<Rightarrow> 's world \<Rightarrow> u32 option \<times> 's world" where
  "finish_make_shared A h d w =
     (let ((ok, d1), w1) = allocateDataForJumps A d w
      in if ok then (Some h, put_obj h d1 w1) else (None, delete_pfd A h d1 w1))"

definition new_pfd :: "'s os_api \<Rightarrow> 's world \<Rightarrow> u32 \<times> 's world" where
  "new_pfd A w =
     (let (h, s) = operator_new A (os w); w1 = w\<lparr>os := s\<rparr>
      in (h, if h = 0 then w1 else log_event (EvNew h) w1))"

fun insert_title_ids :: "(nat \<Rightarrow> u64) \<Rightarrow> nat \<Rightarrow> u64 set \<Rightarrow> u64 set" where
  "insert_title_ids ids 0 S = S"
| "insert_title_ids ids (Suc n) S = insert (ids n) (insert_title_ids ids n S)"

definition init_from_v3 :: "function_replacement_data_v3_t \<Rightarrow> u32 \<Rightarrow> PatchedFunctionData" where
  "init_from_v3 r heap =
     (let d = fresh_pfd\<lparr>isPatched := False, heapHandle := heap,
                replacementFunctionAddress := v3_replaceAddr r,
                realCallFunctionAddressPtr := v3_replaceCall r,
                targetProcess := v3_targetProcess r, fp_type := v3_type r\<rparr>;
          rpx = (let x = ReplaceInRPX r
                 in d\<lparr>fp_library := None,
                      titleIds := insert_title_ids (targetTitleIds x)
                                    (unat (targetTitleIdsCount x)) (titleIds d),
                      titleVersionMin := versionMin x, titleVersionMax := versionMax x,
                      executableName := Some (rpx_executableName x)\<rparr>)
      in case v3_type r of
           FUNCTION_PATCHER_REPLACE_FOR_EXECUTABLE_BY_ADDRESS \<Rightarrow>
             rpx\<lparr>textOffset := rpx_textOffset (ReplaceInRPX r)\<rparr>
         | FUNCTION_PATCHER_REPLACE_FOR_EXECUTABLE_BY_NAME \<Rightarrow>
             rpx\<lparr>functionName := Some (rpx_functionName (ReplaceInRPX r))\<rparr>
         | FUNCTION_PATCHER_REPLACE_BY_LIB_OR_ADDRESS \<Rightarrow>
             (let l = rpl_library (ReplaceInRPL r); d1 = d\<lparr>fp_library := Some l\<rparr>
              in if l \<noteq> LIBRARY_OTHER
                 then d1\<lparr>functionName := Some (rpl_function_name (ReplaceInRPL r))\<rparr>
                 else d1\<lparr>realEffectiveFunctionAddress := v3_virtualAddr r,
                         realPhysicalFunctionAddress := v3_physicalAddr r\<rparr>)
         | FUNCTION_PATCHER_TYPE_VALUE _ \<Rightarrow> d)"

definition make_shared_v3 ::
    "'s os_api \<Rightarrow> function_replacement_data_v3_t option \<Rightarrow> u32 \<Rightarrow> 's world
      \<Rightarrow> u32 option \<times> 's world" where
  "make_shared_v3 A replacementData heap w =
     (case replacementData of
        None \<Rightarrow> (None, w)
      | Some r \<Rightarrow>
          let (h, w1) = new_pfd A w
          in if h = 0 then (None, w1) else finish_make_shared A h (init_from_v3 r heap) w1)"

definition init_from_v2 :: "function_replacement_data_v2_t \<Rightarrow> u32 \<Rightarrow> PatchedFunctionData" where
  "init_from_v2 r heap =
     (let d = fresh_pfd\<lparr>fp_type := FUNCTION_PATCHER_REPLACE_BY_LIB_OR_ADDRESS, isPatched := False,
                heapHandle := heap, fp_library := Some (v2_library r),
                targetProcess := v2_targetProcess r,
                replacementFunctionAddress := v2_replaceAddr r,
                realCallFunctionAddressPtr := v2_replaceCall r\<rparr>
      in if v2_library r \<noteq> LIBRARY_OTHER
         then d\<lparr>functionName := Some (v2_function_name r)\<rparr>
         else d\<lparr>realEffectiveFunctionAddress := v2_virtualAddr r,
                realPhysicalFunctionAddress := v2_physicalAddr r\<rparr>)"

definition make_shared_v2 ::
    "'s os_api \<Rightarrow> function_replacement_data_v2_t option \<Rightarrow> u32 \<Rightarrow> 's world
      \<Rightarrow> u32 option \<times> 's world" where
  "make_shared_v2 A replacementData heap w =
     (case replacementData of
        None \<Rightarrow> (None, w)
      | Some r \<Rightarrow>
          let (h, w1) = new_pfd A w
          in if h = 0 then (None, w1) else finish_make_shared A h (init_from_v2 r heap) w1)"

section \<open>Is the running title a target?\<close>

definition shouldBePatched ::
    "'s os_api \<Rightarrow> PatchedFunctionData \<Rightarrow> 's world \<Rightarrow> halt + (bool \<times> 's world)" where
  "shouldBePatched A d w =
     (if fp_type d = FUNCTION_PATCHER_REPLACE_FOR_EXECUTABLE_BY_NAME
         \<or> fp_type d = FUNCTION_PATCHER_REPLACE_FOR_EXECUTABLE_BY_ADDRESS
      then let curTitleId = OSGetTitleID A (os w)
           in if curTitleId \<notin> titleIds d then Inr (False, w)
              else
                let mcpHandle = MCP_Open A (os w);
                    w1 = log_event (EvMCP_Open mcpHandle) w;
                    (res, ver) = (if curTitleId AND 0x0000000F00000000 = 0
                                  then MCP_GetTitleInfo A (os w1) mcpHandle
                                         (curTitleId OR 0x0000000E00000000)
                                  else (-1, 0));
                    (res, ver) = (if res \<noteq> 0
                                  then MCP_GetTitleInfo A (os w1) mcpHandle curTitleId
                                  else (res, ver));
                    w2 = log_event (EvMCP_Close mcpHandle) w1
                in if res \<noteq> 0
                   then Inl (OSFatal (''Failed to get title version. This should not happen.'' @ [CHR 0x0A]
                            @ ''Please report this with a crash log.''))
                   else let w3 = log_event (EvMCP_Close mcpHandle) w2
                        in if ver < titleVersionMin d \<or> ver > titleVersionMax d
                           then Inr (False, w3) else Inr (True, w3)
      else Inr (True, w))"

section \<open>Resolving the target address\<close>

fun find_rpl_text :: "OSDynLoad_NotifyData list \<Rightarrow> string \<Rightarrow> u32 \<Rightarrow> u32 option" where
  "find_rpl_text [] name off = None"
| "find_rpl_text (r # rs) name off =
     (if suffix name (rpl_name r) then Some (rpl_textAddr r + off) else find_rpl_text rs name off)"

definition getAddressForExecutable ::
    "'s os_api \<Rightarrow> PatchedFunctionData \<Rightarrow> bool \<Rightarrow> 's world \<Rightarrow> halt + (u32 option \<times> 's world)" where
  "getAddressForExecutable A d outAddress w =
     (if \<not> outAddress then Inr (None, w)
      else case executableName d of
        None \<Rightarrow> Inr (None, w)
      | Some exe \<Rightarrow>
          if fp_type d = FUNCTION_PATCHER_REPLACE_FOR_EXECUTABLE_BY_ADDRESS
          then let num_rpls = OSDynLoad_GetNumberOfRPLs A (os w)
               in if num_rpls = 0
                  then Inl (OSFatal ''OSDynLoad_GetNumberOfRPLs failed. This shouldn't happen. Missing patches?'')
                  else if num_rpls < 0
                  then Inl (Undefined ''std::vector::resize of a negative count'')
                  else let n = nat num_rpls;
                           (ret, rpls) = OSDynLoad_GetRPLInfo A (os w) 0 n
                       in if \<not> ret
                          then Inl (OSFatal ''OSDynLoad_GetNumberOfRPLs failed. This shouldn't happen. Missing patches?'')
                          else Inr (find_rpl_text (map rpls [0..<n]) exe (textOffset d), w)
          else if fp_type d = FUNCTION_PATCHER_REPLACE_FOR_EXECUTABLE_BY_NAME
          then case functionName d of
                 None \<Rightarrow> Inl (OSFatal ''Function name was empty. This should never happen. Check logs for more information.'')
               | Some f \<Rightarrow>
                   (case KernelFindExport A exe f w of
                      Inl e \<Rightarrow> Inl e
                    | Inr (result, w1) \<Rightarrow> Inr (if result = 0 then None else Some result, w1))
          else Inl (OSFatal ''Unexpected function patching type.''))"

definition set_addresses ::
    "'s os_api \<Rightarrow> PatchedFunctionData \<Rightarrow> u32 \<Rightarrow> 's world
      \<Rightarrow> halt + ((bool \<times> PatchedFunctionData) \<times> 's world)" where
  "set_addresses A d real_address w =
     (let d1 = d\<lparr>realEffectiveFunctionAddress := real_address\<rparr>;
          phys = OSEffectiveToPhysical A (os w) real_address
      in if phys = 0
         then Inl (OSFatal ''Error. Something is wrong with the physical address'')
         else Inr ((True, d1\<lparr>realPhysicalFunctionAddress := phys\<rparr>), w))"

definition updateFunctionAddresses ::
    "'s os_api \<Rightarrow> PatchedFunctionData \<Rightarrow> 's world
      \<Rightarrow> halt + ((bool \<times> PatchedFunctionData) \<times> 's world)" where
  "updateFunctionAddresses A d w =
     (if fp_type d = FUNCTION_PATCHER_REPLACE_FOR_EXECUTABLE_BY_NAME
         \<or> fp_type d = FUNCTION_PATCHER_REPLACE_FOR_EXECUTABLE_BY_ADDRESS
      then (case getAddressForExecutable A d True w of
              Inl e \<Rightarrow> Inl e
            | Inr (None, w1) \<Rightarrow> Inr ((False, d), w1)
            | Inr (Some real_address, w1) \<Rightarrow> set_addresses A d real_address w1)
      else (case fp_library d of
              None \<Rightarrow> Inl (OSFatal ''library was empty. This should never happen. Check logs for more information.'')
            | Some lib \<Rightarrow>
                if lib = LIBRARY_OTHER then Inr ((True, d), w)
                else (case functionName d of
                        None \<Rightarrow> Inl (OSFatal ''Function name was empty. This should never happen. Check logs for more information.'')
                      | Some f \<Rightarrow>
                          let (real_address, w1) = getEffectiveAddressOfFunction A lib f w
                          in if real_address = 0 then Inr ((False, d), w1)
                             else set_addresses A d real_address w1)))"

end
