(* ===== verification/Jump_Code.thy ===== *)
theory Jump_Code
  imports Patched_Data
begin

text \<open>
  The two code generators of \<open>source/PatchedFunctionData.cpp\<close>. They store instruction words one by
  one into buffers of the jump heap. The lemmas show that what ends up in memory is a pure list of
  words (\<open>original_words\<close>, \<open>trampoline_words\<close>), that the list never exceeds its buffer, and when
  the generators stop the console. What the words do when executed is proved in theory \<open>PPC\<close>.
\<close>

section \<open>The generators\<close>

definition put_word :: "'s os_api \<Rightarrow> u32 \<Rightarrow> u32 \<Rightarrow> u32 \<Rightarrow> 's world \<Rightarrow> 's world" where
  "put_word A buf i v w = store32 A (buf + 4 * i) v w"

definition generateJumpToOriginal ::
    "'s os_api \<Rightarrow> PatchedFunctionData \<Rightarrow> 's world \<Rightarrow> halt + 's world" where
  "generateJumpToOriginal A d w =
     (if jumpToOriginal d = 0
      then Inl (OSFatal ''FunctionPatcherModule: this->jumpToOriginal is not allocated'')
      else
        let buf = jumpToOriginal d;
            jumpToAddress = realEffectiveFunctionAddress d + 4;
            w1 = (if jumpToAddress AND 0x01FFFFFC \<noteq> jumpToAddress
                  then let a = put_word A buf 0 (0x3d600000 OR (drop_bit 16 jumpToAddress AND 0x0000FFFF)) w;
                           b = put_word A buf 1 (0x616b0000 OR (jumpToAddress AND 0x0000FFFF)) a;
                           c = put_word A buf 2 0x7d6903a6 b;
                           e = put_word A buf 3 (replacedInstruction d) c
                       in put_word A buf 4 0x4e800420 e
                  else let a = put_word A buf 0 (replacedInstruction d) w
                       in put_word A buf 1 (0x48000002 OR (jumpToAddress AND 0x01FFFFFC)) a);
            w2 = log_event (EvDCFlushRange buf (4 * 5)) w1;
            w3 = log_event (EvICInvalidateRange buf (4 * 5)) w2;
            w4 = store32 A (realCallFunctionAddressPtr d) buf w3
        in Inr (log_event EvOSMemoryBarrier w4))"

text \<open>\<open>this->jumpData[offset++] = v\<close>\<close>

definition emit :: "'s os_api \<Rightarrow> u32 \<Rightarrow> u32 \<Rightarrow> u32 \<times> 's world \<Rightarrow> u32 \<times> 's world" where
  "emit A buf v ow = (fst ow + 1, put_word A buf (fst ow) v (snd ow))"

text \<open>The block that only lets the target process through to \<open>myfunc\<close>.\<close>

definition emit_process_check ::
    "'s os_api \<Rightarrow> PatchedFunctionData \<Rightarrow> u32 \<times> 's world \<Rightarrow> u32 \<times> 's world" where
  "emit_process_check A d ow0 =
     (let buf = jumpData d;
          orig = realEffectiveFunctionAddress d + 4;
          short = (orig AND 0x01FFFFFC = orig);
          ow1 = emit A buf (0x3d600000 OR (load32 A (OSGetUPID_code A) (snd ow0) AND 0x0000FFFF)) ow0;
          ow2 = emit A buf (0x816b0000 OR (load32 A (OSGetUPID_code A + 4) (snd ow1) AND 0x0000FFFF)) ow1;
          ow3 = (if targetProcess d = FP_TARGET_PROCESS_GAME_AND_MENU A
                 then let a = emit A buf (0x2c0b0000 OR FP_TARGET_PROCESS_WII_U_MENU A) ow2;
                          b = emit A buf (0x41820000 OR (if short then 0x00000014 else 0x00000020)) a;
                          c = emit A buf (0x2c0b0000 OR FP_TARGET_PROCESS_GAME A) b
                      in emit A buf (0x41820000 OR (if short then 0x0000000C else 0x00000018)) c
                 else let a = emit A buf (0x2c0b0000 OR targetProcess d) ow2
                      in emit A buf (0x41820000 OR (if short then 0x0000000C else 0x00000018)) a);
          ow4 = emit A buf (replacedInstruction d) ow3
      in if orig AND 0x01FFFFFC \<noteq> orig
         then let a = emit A buf (0x3d600000 OR (drop_bit 16 (realEffectiveFunctionAddress d + 4) AND 0x0000FFFF)) ow4;
                  b = emit A buf (0x616b0000 OR ((realEffectiveFunctionAddress d + 4) AND 0x0000FFFF)) a;
                  c = emit A buf 0x7d6903a6 b
              in emit A buf 0x4e800420 c
         else emit A buf (0x48000002 OR (orig AND 0x01FFFFFC)) ow4)"

text \<open>\<open>myfunc\<close>: the last store does not advance the offset.\<close>

definition emit_myfunc ::
    "'s os_api \<Rightarrow> PatchedFunctionData \<Rightarrow> u32 \<times> 's world \<Rightarrow> u32 \<times> 's world" where
  "emit_myfunc A d ow0 =
     (let buf = jumpData d; repl = replacementFunctionAddress d
      in if repl AND 0x01FFFFFC \<noteq> repl
         then let a = emit A buf (0x3d600000 OR (drop_bit 16 repl AND 0x0000FFFF)) ow0;
                  b = emit A buf (0x616b0000 OR (repl AND 0x0000FFFF)) a;
                  (off, w) = emit A buf 0x7d6903a6 b
              in (off, put_word A buf off 0x4e800420 w)
         else (fst ow0, put_word A buf (fst ow0) (0x48000002 OR (repl AND 0x01FFFFFC)) (snd ow0)))"

text \<open>Offset of the field \<open>replaceWithInstruction\<close> in the object, whose address is flushed.\<close>

definition replaceWithInstruction_offset :: u32 where
  "replaceWithInstruction_offset = 28"

definition generateReplacementJump ::
    "'s os_api \<Rightarrow> u32 \<Rightarrow> PatchedFunctionData \<Rightarrow> 's world \<Rightarrow> halt + (PatchedFunctionData \<times> 's world)"
    where
  "generateReplacementJump A this d w =
     (let d1 = d\<lparr>replaceWithInstruction :=
                   0x48000002 OR (replacementFunctionAddress d AND 0x01FFFFFC)\<rparr>;
          finish = (\<lambda>d w. let w1 = log_event (EvDCFlushRange (this + replaceWithInstruction_offset) 4) w;
                              w2 = log_event (EvICInvalidateRange (this + replaceWithInstruction_offset) 4) w1
                          in Inr (d, log_event EvOSMemoryBarrier w2))
      in if replacementFunctionAddress d1 > 0x01FFFFFC \<or> targetProcess d1 \<noteq> FP_TARGET_PROCESS_ALL A
         then if jumpData d1 = 0
              then Inl (OSFatal ''FunctionPatcherModule: jumpData was not allocated'')
              else
                let ow1 = (if targetProcess d1 \<noteq> FP_TARGET_PROCESS_ALL A
                           then emit_process_check A d1 (0, w) else (0, w));
                    (offset, w2) = emit_myfunc A d1 ow1
                in if offset \<ge> jumpDataSize d1
                   then Inl (OSFatal ''FunctionPatcherModule: Wrote too much data'')
                   else if jumpData d1 AND 0x01FFFFFC \<noteq> jumpData d1
                   then Inl (OSFatal ''FunctionPatcherModule: Jump is impossible'')
                   else
                     let d2 = d1\<lparr>replaceWithInstruction := 0x48000002 OR (jumpData d1 AND 0x01FFFFFC)\<rparr>;
                         w3 = log_event (EvDCFlushRange (jumpData d1) (4 * 15)) w2;
                         w4 = log_event (EvICInvalidateRange (jumpData d1) (4 * 15)) w3
                     in finish d2 w4
         else finish d1 w)"

section \<open>The emitted words as lists\<close>

text \<open>
  \<open>jump_words t\<close> is the unconditional jump to \<open>t\<close>: one absolute branch where the target fits its
  displacement field, else a jump through the count register.
\<close>

definition short_branch_possible :: "u32 \<Rightarrow> bool" where
  "short_branch_possible a \<longleftrightarrow> a AND 0x01FFFFFC = a"

definition jump_words :: "u32 \<Rightarrow> u32 list" where
  "jump_words t =
     (if short_branch_possible t then [0x48000002 OR (t AND 0x01FFFFFC)]
      else [0x3d600000 OR (drop_bit 16 t AND 0xFFFF), 0x616b0000 OR (t AND 0xFFFF),
            0x7d6903a6, 0x4e800420])"

definition original_words :: "PatchedFunctionData \<Rightarrow> u32 list" where
  "original_words d =
     (let t = realEffectiveFunctionAddress d + 4
      in if short_branch_possible t
         then [replacedInstruction d, 0x48000002 OR (t AND 0x01FFFFFC)]
         else [0x3d600000 OR (drop_bit 16 t AND 0xFFFF), 0x616b0000 OR (t AND 0xFFFF),
               0x7d6903a6, replacedInstruction d, 0x4e800420])"

definition select_words :: "'s os_api \<Rightarrow> PatchedFunctionData \<Rightarrow> u32 list" where
  "select_words A d =
     (let short = short_branch_possible (realEffectiveFunctionAddress d + 4)
      in if targetProcess d = FP_TARGET_PROCESS_GAME_AND_MENU A
         then [0x2c0b0000 OR FP_TARGET_PROCESS_WII_U_MENU A, if short then 0x41820014 else 0x41820020,
               0x2c0b0000 OR FP_TARGET_PROCESS_GAME A, if short then 0x4182000C else 0x41820018]
         else [0x2c0b0000 OR targetProcess d, if short then 0x4182000C else 0x41820018])"

definition check_words :: "'s os_api \<Rightarrow> u32 \<Rightarrow> u32 \<Rightarrow> PatchedFunctionData \<Rightarrow> u32 list" where
  "check_words A u0 u1 d =
     [0x3d600000 OR (u0 AND 0xFFFF), 0x816b0000 OR (u1 AND 0xFFFF)]
     @ select_words A d @ [replacedInstruction d] @ jump_words (realEffectiveFunctionAddress d + 4)"

definition trampoline_words :: "'s os_api \<Rightarrow> u32 \<Rightarrow> u32 \<Rightarrow> PatchedFunctionData \<Rightarrow> u32 list" where
  "trampoline_words A u0 u1 d =
     (if targetProcess d \<noteq> FP_TARGET_PROCESS_ALL A then check_words A u0 u1 d else [])
     @ jump_words (replacementFunctionAddress d)"

lemma length_jump_words: "length (jump_words t) = (if short_branch_possible t then 1 else 4)"
  by (simp add: jump_words_def)

lemma trampoline_length: "0 < length (trampoline_words A u0 u1 d)"
    "length (trampoline_words A u0 u1 d) \<le> 15"
  by (simp_all add: trampoline_words_def check_words_def select_words_def length_jump_words Let_def)

lemma original_length: "length (original_words d) \<le> 5"
  by (simp add: original_words_def Let_def)

section \<open>What the generators leave in memory\<close>

fun put_words :: "'s os_api \<Rightarrow> u32 \<Rightarrow> u32 \<Rightarrow> u32 list \<Rightarrow> 's world \<Rightarrow> 's world" where
  "put_words A buf k [] w = w"
| "put_words A buf k (v # vs) w = put_words A buf (k + 1) vs (put_word A buf k v w)"

lemma put_words_append:
  "put_words A buf k (xs @ ys) w = put_words A buf (k + of_nat (length xs)) ys (put_words A buf k xs w)"
  by (induction xs arbitrary: k w) (simp_all add: algebra_simps)

lemma put_word_fields [simp]:
  "os (put_word A buf k v w) = os w" "objs (put_word A buf k v w) = objs w"
  "core (put_word A buf k v w) = core w" "trace (put_word A buf k v w) = trace w"
  "gPatchedFunctions (put_word A buf k v w) = gPatchedFunctions w"
  "rpl_handles (put_word A buf k v w) = rpl_handles w"
  "gPatchedFunctionsMutex (put_word A buf k v w) = gPatchedFunctionsMutex w"
  "mem (put_word A buf k v w) = write32 (mem w) (mmu A (os w) (buf + 4 * k)) v"
  by (simp_all add: put_word_def store32_def)

lemma put_words_mem_only: "\<exists>m. put_words A buf k ws w = w\<lparr>mem := m\<rparr>"
proof (induction ws arbitrary: k w)
  case Nil
  show ?case by (rule exI [of _ "mem w"]) simp
next
  case (Cons v vs)
  then obtain m where "put_words A buf k (v # vs) w = (put_word A buf k v w)\<lparr>mem := m\<rparr>" by auto
  then show ?case by (intro exI [of _ m]) (simp add: put_word_def store32_def)
qed

lemma put_words_fields [simp]:
  "os (put_words A buf k ws w) = os w" "objs (put_words A buf k ws w) = objs w"
  "core (put_words A buf k ws w) = core w" "trace (put_words A buf k ws w) = trace w"
  "gPatchedFunctions (put_words A buf k ws w) = gPatchedFunctions w"
  "rpl_handles (put_words A buf k ws w) = rpl_handles w"
  "gPatchedFunctionsMutex (put_words A buf k ws w) = gPatchedFunctionsMutex w"
  using put_words_mem_only [of A buf k ws w] by auto

lemma put_words_mem:
  "mem (put_words A buf (of_nat k) ws w) =
     write_all write32 (mem w)
       (zip (map (\<lambda>i. mmu A (os w) (buf + 4 * of_nat i)) [k..<k + length ws]) ws)"
proof (induction ws arbitrary: k w)
  case (Cons v vs)
  show ?case
    using Cons.IH [of "Suc k" "put_word A buf (of_nat k) v w"]
    by (simp add: upt_conv_Cons add.commute [of 1] del: upt_Suc)
qed simp

text \<open>The words of a buffer occupy separate physical words.\<close>

definition buffer_ok :: "'s os_api \<Rightarrow> 's \<Rightarrow> u32 \<Rightarrow> nat \<Rightarrow> bool" where
  "buffer_ok A s buf n \<longleftrightarrow>
     (\<forall>i < n. \<forall>j < n. i = j \<or> disj4 (mmu A s (buf + 4 * of_nat i)) (mmu A s (buf + 4 * of_nat j)))"

lemma put_words_read:
  assumes "buffer_ok A (os w) buf n" and "length ws \<le> n" and "i < length ws"
  shows "load32 A (buf + 4 * of_nat i) (put_words A buf 0 ws w) = ws ! i"
proof -
  let ?as = "map (\<lambda>i. mmu A (os w) (buf + 4 * of_nat i)) [0..<length ws]"
  have "read32 (write_all write32 (mem w) (zip ?as ws)) (?as ! i) = ws ! i"
  proof (rule bytes_store.rd_write_all_nth)
    fix i j assume "i < j" and "j < length ?as"
    then have "i < n" and "j < n" and "j \<noteq> i" using assms(2) by auto
    with assms(1) have "disj4 (mmu A (os w) (buf + 4 * of_nat j)) (mmu A (os w) (buf + 4 * of_nat i))"
      unfolding buffer_ok_def by blast
    with \<open>i < j\<close> \<open>j < length ?as\<close> show "disj4 (?as ! j) (?as ! i)" by simp
  qed (use assms(3) in simp_all)
  then show ?thesis
    using put_words_mem [of A buf 0 ws w] assms(3) by (simp add: load32_def)
qed

definition buffer_words :: "'s os_api \<Rightarrow> 's \<Rightarrow> u32 \<Rightarrow> nat \<Rightarrow> u32 list" where
  "buffer_words A s buf n = map (\<lambda>i. mmu A s (buf + 4 * of_nat i)) [0..<n]"

lemma put_words_outside:
  assumes "length ws \<le> n"
  shows "same_outside (set (buffer_words A (os w) buf n)) (mem w) (mem (put_words A buf 0 ws w))"
  using put_words_mem [of A buf 0 ws w] assms
  by (auto simp: same_outside_def buffer_words_def set_zip intro!: bytes_store.rd_write_all_indep)

lemma sorted_wrt_disj4_buffer:
  assumes "sorted_wrt disj4 (buffer_words A s buf n)"
  shows "buffer_ok A s buf n"
proof -
  have "disj4 (mmu A s (buf + 4 * of_nat i)) (mmu A s (buf + 4 * of_nat j))"
    if "i < j" "j < n" for i j
    using sorted_wrt_nth_less [OF assms, of i j] that by (simp add: buffer_words_def)
  then show ?thesis unfolding buffer_ok_def by (metis disj4_sym nat_neq_iff)
qed

section \<open>The generators as word lists\<close>

lemma generateJumpToOriginal_eq:
  assumes "jumpToOriginal d \<noteq> 0"
  shows "generateJumpToOriginal A d w =
     Inr (log_event EvOSMemoryBarrier (store32 A (realCallFunctionAddressPtr d) (jumpToOriginal d)
       (log_event (EvICInvalidateRange (jumpToOriginal d) 20)
         (log_event (EvDCFlushRange (jumpToOriginal d) 20)
           (put_words A (jumpToOriginal d) 0 (original_words d) w)))))"
  using assms
  by (simp add: generateJumpToOriginal_def original_words_def short_branch_possible_def Let_def
      put_word_def)

lemma emit_eq: "emit A buf v (k, w) = (k + 1, put_word A buf k v w)"
  by (simp add: emit_def)

lemma emit_process_check_eq:
  assumes "disj4 (mmu A (os w) (jumpData d)) (mmu A (os w) (OSGetUPID_code A + 4))"
  shows "emit_process_check A d (0, w) =
     (of_nat (length (check_words A (load32 A (OSGetUPID_code A) w) (load32 A (OSGetUPID_code A + 4) w) d)),
      put_words A (jumpData d) 0
        (check_words A (load32 A (OSGetUPID_code A) w) (load32 A (OSGetUPID_code A + 4) w) d) w)"
proof -
  have "load32 A (OSGetUPID_code A + 4) (put_word A (jumpData d) 0 v w) =
      load32 A (OSGetUPID_code A + 4) w" for v
    using assms by (simp add: load32_def read32_write32_other)
  then show ?thesis
    by (simp add: emit_process_check_def emit_eq check_words_def select_words_def jump_words_def
        short_branch_possible_def Let_def)
qed

lemma emit_myfunc_eq:
  "emit_myfunc A d (k, w) =
     (k + of_nat (length (jump_words (replacementFunctionAddress d))) - 1,
      put_words A (jumpData d) k (jump_words (replacementFunctionAddress d)) w)"
  by (simp add: emit_myfunc_def emit_eq jump_words_def short_branch_possible_def Let_def)

lemma emit_trampoline_eq:
  assumes "disj4 (mmu A (os w) (jumpData d)) (mmu A (os w) (OSGetUPID_code A + 4))"
  shows "emit_myfunc A d (if targetProcess d \<noteq> FP_TARGET_PROCESS_ALL A
            then emit_process_check A d (0, w) else (0, w)) =
     (let ws = trampoline_words A (load32 A (OSGetUPID_code A) w) (load32 A (OSGetUPID_code A + 4) w) d
      in (of_nat (length ws) - 1, put_words A (jumpData d) 0 ws w))"
  by (simp add: emit_process_check_eq [OF assms] emit_myfunc_eq trampoline_words_def Let_def
      put_words_append)

text \<open>
  Without an assumption on where the buffer lies: the first store may change what the second of the
  two instructions of \<open>OSGetUPID\<close> is read as, the words still go to the buffer one after the other.
\<close>

lemma emit_process_check_words:
  "\<exists>u0 u1. emit_process_check A d (0, w) =
     (of_nat (length (check_words A u0 u1 d)), put_words A (jumpData d) 0 (check_words A u0 u1 d) w)"
  by (intro exI [of _ "load32 A (OSGetUPID_code A) w"]
      exI [of _ "load32 A (OSGetUPID_code A + 4) (put_word A (jumpData d) 0
        (0x3d600000 OR (load32 A (OSGetUPID_code A) w AND 0x0000FFFF)) w)"])
    (simp add: emit_process_check_def emit_eq check_words_def select_words_def jump_words_def
      short_branch_possible_def Let_def)

lemma emit_trampoline_words:
  "\<exists>u0 u1. emit_myfunc A d (if targetProcess d \<noteq> FP_TARGET_PROCESS_ALL A
            then emit_process_check A d (0, w) else (0, w)) =
     (of_nat (length (trampoline_words A u0 u1 d)) - 1,
      put_words A (jumpData d) 0 (trampoline_words A u0 u1 d) w)"
proof -
  obtain u0 u1 where "emit_process_check A d (0, w) =
     (of_nat (length (check_words A u0 u1 d)), put_words A (jumpData d) 0 (check_words A u0 u1 d) w)"
    using emit_process_check_words by blast
  then show ?thesis
    by (intro exI [of _ u0] exI [of _ u1])
      (simp add: emit_myfunc_eq trampoline_words_def put_words_append)
qed

lemma trampoline_offset: "of_nat (length (trampoline_words A u0 u1 d)) - 1 < (15 :: u32)"
proof -
  let ?n = "length (trampoline_words A u0 u1 d)"
  have n: "0 < ?n" "?n \<le> 15" by (rule trampoline_length)+
  then obtain k where k: "?n = Suc k" "k < 15" by (cases ?n) simp_all
  from k(2) have "(of_nat k :: u32) < of_nat 15" by (simp add: word_less_nat_alt unat_of_nat)
  then show ?thesis unfolding k(1) by simp
qed

lemma trampoline_words_ignores [simp]:
  "trampoline_words A u0 u1 (d\<lparr>replaceWithInstruction := x\<rparr>) = trampoline_words A u0 u1 d"
  by (simp add: trampoline_words_def check_words_def select_words_def cong: if_cong)

lemma generateReplacementJump_eq:
  assumes "jumpDataSize d = 15"
    and "needs_trampoline A d \<Longrightarrow>
      disj4 (mmu A (os w) (jumpData d)) (mmu A (os w) (OSGetUPID_code A + 4))"
  shows "generateReplacementJump A this d w =
     (let ba = (\<lambda>t. 0x48000002 OR (t AND 0x01FFFFFC));
          ws = trampoline_words A (load32 A (OSGetUPID_code A) w) (load32 A (OSGetUPID_code A + 4) w) d;
          finish = (\<lambda>w. log_event EvOSMemoryBarrier
                          (log_event (EvICInvalidateRange (this + 28) 4)
                            (log_event (EvDCFlushRange (this + 28) 4) w)))
      in if \<not> needs_trampoline A d
         then Inr (d\<lparr>replaceWithInstruction := ba (replacementFunctionAddress d)\<rparr>, finish w)
         else if jumpData d = 0
         then Inl (OSFatal ''FunctionPatcherModule: jumpData was not allocated'')
         else if \<not> short_branch_possible (jumpData d)
         then Inl (OSFatal ''FunctionPatcherModule: Jump is impossible'')
         else Inr (d\<lparr>replaceWithInstruction := ba (jumpData d)\<rparr>,
                   finish (log_event (EvICInvalidateRange (jumpData d) 60)
                     (log_event (EvDCFlushRange (jumpData d) 60)
                       (put_words A (jumpData d) 0 ws w)))))"
proof -
  let ?d1 = "d\<lparr>replaceWithInstruction := 0x48000002 OR (replacementFunctionAddress d AND 0x01FFFFFC)\<rparr>"
  show ?thesis
  proof (cases "needs_trampoline A d")
    case True
    then have dd: "disj4 (mmu A (os w) (jumpData ?d1)) (mmu A (os w) (OSGetUPID_code A + 4))"
      using assms(2) by simp
    note emit = emit_trampoline_eq [of A w ?d1, OF dd]
    show ?thesis
      unfolding generateReplacementJump_def Let_def emit needs_trampoline_def short_branch_possible_def
      by (simp add: replaceWithInstruction_offset_def assms(1)
          linorder_not_le [THEN iffD2, OF trampoline_offset])
  next
    case False
    then show ?thesis
      by (simp add: generateReplacementJump_def needs_trampoline_def Let_def
          replaceWithInstruction_offset_def)
  qed
qed

end
