(* ===== verification/PPC.thy ===== *)
theory PPC
  imports Jump_Code
begin

text \<open>
  What the generated words mean. The first part is a reference semantics of the few PowerPC
  instructions the module emits or follows, decoded from their bit fields as the architecture
  defines them; it is a specification and models no code of the module. Instructions outside the
  fragment are given by a parameter \<open>X\<close>: the instruction that was displaced from the patched
  function may be any instruction.
\<close>

section \<open>A fragment of the PowerPC architecture\<close>

record cpu =
  pc :: u32
  gpr :: "nat \<Rightarrow> u32"
  ctr :: u32
  cr :: "nat \<Rightarrow> bool"
  view :: "u32 \<Rightarrow> u32" \<comment> \<open>the memory word at an effective address\<close>

datatype instr =
    Addis nat nat u32
  | Ori nat nat u32
  | Lwz nat nat u32
  | Cmpwi nat nat u32
  | Bc nat nat u32
  | B bool u32 \<comment> \<open>absolute?, displacement\<close>
  | Mtctr nat
  | Bctr
  | Other u32

definition sext16 :: "u32 \<Rightarrow> u32" where
  "sext16 x = (if x AND 0x8000 = 0 then x AND 0xFFFF else (x AND 0xFFFF) OR 0xFFFF0000)"

definition sext26 :: "u32 \<Rightarrow> u32" where
  \<comment> \<open>the displacement of a branch: bits 6 to 29, two zero bits, sign extended\<close>
  "sext26 x = (if x AND 0x02000000 = 0 then x AND 0x03FFFFFC else (x AND 0x03FFFFFC) OR 0xFC000000)"

definition reg_D :: "u32 \<Rightarrow> nat" where "reg_D x = unat (drop_bit 21 x AND 31)"

definition reg_A :: "u32 \<Rightarrow> nat" where "reg_A x = unat (drop_bit 16 x AND 31)"

definition decode :: "u32 \<Rightarrow> instr" where
  "decode x =
     (let op = drop_bit 26 x in
      if op = 15 then Addis (reg_D x) (reg_A x) (x AND 0xFFFF)
      else if op = 24 then Ori (reg_A x) (reg_D x) (x AND 0xFFFF)
      else if op = 32 then Lwz (reg_D x) (reg_A x) (sext16 x)
      else if op = 11 \<and> drop_bit 21 x AND 1 = 0
        then Cmpwi (unat (drop_bit 23 x AND 7)) (reg_A x) (sext16 x)
      else if op = 16 \<and> x AND 3 = 0 then Bc (reg_D x) (reg_A x) (sext16 (x AND 0xFFFC))
      else if op = 18 \<and> x AND 1 = 0 then B (x AND 2 \<noteq> 0) (sext26 x)
      else if op = 31 \<and> drop_bit 1 x AND 0x3FF = 467 \<and> drop_bit 11 x AND 0x3FF = 0x120
        then Mtctr (reg_D x)
      else if op = 19 \<and> drop_bit 1 x AND 0x3FF = 528 \<and> drop_bit 21 x AND 31 = 20 \<and> x AND 1 = 0
        then Bctr
      else Other x)"

definition reg_or_zero :: "cpu \<Rightarrow> nat \<Rightarrow> u32" where
  "reg_or_zero c r = (if r = 0 then 0 else gpr c r)"

definition next_pc :: "cpu \<Rightarrow> cpu" where
  "next_pc c = c\<lparr>pc := pc c + 4\<rparr>"

text \<open>Of the conditional branches only \<open>BO = 12\<close>, branch if the bit is set, occurs.\<close>

fun exec :: "(u32 \<Rightarrow> cpu \<Rightarrow> cpu option) \<Rightarrow> instr \<Rightarrow> cpu \<Rightarrow> cpu option" where
  "exec X (Addis d a i) c =
     Some (next_pc (c\<lparr>gpr := (gpr c)(d := reg_or_zero c a + push_bit 16 i)\<rparr>))"
| "exec X (Ori a s i) c = Some (next_pc (c\<lparr>gpr := (gpr c)(a := gpr c s OR i)\<rparr>))"
| "exec X (Lwz d a i) c = Some (next_pc (c\<lparr>gpr := (gpr c)(d := view c (reg_or_zero c a + i))\<rparr>))"
| "exec X (Cmpwi f a i) c =
     Some (next_pc (c\<lparr>cr := (cr c)(4 * f := sint (gpr c a) < sint i,
                                  4 * f + 1 := sint (gpr c a) > sint i,
                                  4 * f + 2 := gpr c a = i)\<rparr>))"
| "exec X (Bc bo bi disp) c =
     (if bo = 12 then Some (if cr c bi then c\<lparr>pc := pc c + disp\<rparr> else next_pc c) else None)"
| "exec X (B absolute disp) c = Some (c\<lparr>pc := (if absolute then disp else pc c + disp)\<rparr>)"
| "exec X (Mtctr s) c = Some (next_pc (c\<lparr>ctr := gpr c s\<rparr>))"
| "exec X Bctr c = Some (c\<lparr>pc := ctr c AND 0xFFFFFFFC\<rparr>)"
| "exec X (Other x) c = X x c"

definition step :: "(u32 \<Rightarrow> cpu \<Rightarrow> cpu option) \<Rightarrow> cpu \<Rightarrow> cpu option" where
  "step X c = exec X (decode (view c (pc c))) c"

fun run :: "(u32 \<Rightarrow> cpu \<Rightarrow> cpu option) \<Rightarrow> nat \<Rightarrow> cpu \<Rightarrow> cpu option" where
  "run X 0 c = Some c"
| "run X (Suc n) c = (case step X c of None \<Rightarrow> None | Some c' \<Rightarrow> run X n c')"

fun code_at :: "cpu \<Rightarrow> u32 \<Rightarrow> u32 list \<Rightarrow> bool" where
  "code_at c a [] \<longleftrightarrow> True"
| "code_at c a (x # xs) \<longleftrightarrow> view c a = x \<and> code_at c (a + 4) xs"

lemma run_add: "run X (m + n) c = (case run X m c of None \<Rightarrow> None | Some c' \<Rightarrow> run X n c')"
  by (induction m arbitrary: c) (auto split: option.splits)

section \<open>Decoding the emitted words\<close>

named_theorems decode_simps \<open>what the emitted words decode to\<close>

lemma field_of_or:
  fixes K x m :: u32
  shows "(K OR x) AND m = (K AND m) OR (x AND m)"
  by (rule bit.conj_disj_distrib2)

lemma decode_lis [decode_simps]: "decode (0x3d600000 OR (x AND 0xFFFF)) = Addis 11 0 (x AND 0xFFFF)"
  by (simp add: decode_def reg_D_def reg_A_def field_of_or and.assoc)

lemma decode_ori [decode_simps]: "decode (0x616b0000 OR (x AND 0xFFFF)) = Ori 11 11 (x AND 0xFFFF)"
  by (simp add: decode_def reg_D_def reg_A_def field_of_or and.assoc)

lemma decode_lwz [decode_simps]:
  "decode (0x816b0000 OR (x AND 0xFFFF)) = Lwz 11 11 (sext16 (x AND 0xFFFF))"
  by (simp add: decode_def reg_D_def reg_A_def sext16_def field_of_or and.assoc)

lemma decode_cmpwi [decode_simps]:
  "decode (0x2c0b0000 OR (x AND 0xFFFF)) = Cmpwi 0 11 (sext16 (x AND 0xFFFF))"
  by (simp add: decode_def reg_D_def reg_A_def sext16_def field_of_or and.assoc)

lemma decode_ba [decode_simps]: "decode (0x48000002 OR (x AND 0x01FFFFFC)) = B True (x AND 0x01FFFFFC)"
  by (simp add: decode_def sext26_def field_of_or and.assoc)

lemma decode_ba_short [decode_simps]: "t AND 0x01FFFFFC = t \<Longrightarrow> decode (0x48000002 OR t) = B True t"
  using decode_ba [of t] by simp

lemma decode_mtctr [decode_simps]: "decode 0x7d6903a6 = Mtctr 11"
  by (simp add: decode_def reg_D_def reg_A_def)

lemma decode_bctr [decode_simps]: "decode 0x4e800420 = Bctr"
  by (simp add: decode_def reg_D_def reg_A_def)

lemma decode_beq [decode_simps]:
  "decode 0x41820014 = Bc 12 2 0x14" "decode 0x41820020 = Bc 12 2 0x20"
  "decode 0x4182000C = Bc 12 2 0xC" "decode 0x41820018 = Bc 12 2 0x18"
  by (simp_all add: decode_def reg_D_def reg_A_def sext16_def)

lemma opcode_18:
  fixes x :: u32
  shows "drop_bit 26 x = 18 \<longleftrightarrow> x AND 0xFC000000 = 0x48000000"
proof
  have hi: "push_bit 26 (drop_bit 26 x) = x AND 0xFC000000"
  proof -
    have "(0xFC000000 :: u32) = NOT (mask 26)" by (simp add: mask_eq_exp_minus_1)
    then show ?thesis by (simp add: bit_eq_iff bit_simps) (auto simp: not_less)
  qed
  show "drop_bit 26 x = 18 \<Longrightarrow> x AND 0xFC000000 = 0x48000000"
    unfolding hi [symmetric] by simp
  assume "x AND 0xFC000000 = 0x48000000"
  then have "drop_bit 26 (push_bit 26 (drop_bit 26 x)) = (18 :: u32)" unfolding hi by simp
  moreover have "drop_bit 26 (push_bit 26 (drop_bit 26 x)) = drop_bit 26 x"
    by (rule bit_word_eqI) (auto simp: bit_simps dest: bit_imp_le_length)
  ultimately show "drop_bit 26 x = 18" by simp
qed

lemma branch_pattern:
  fixes x :: u32
  shows "x AND 0xFC000003 = 0x48000000 \<longleftrightarrow> drop_bit 26 x = 18 \<and> x AND 1 = 0 \<and> x AND 2 = 0"
proof -
  have split: "x AND 0xFC000003 = (x AND 0xFC000000) OR ((x AND 1) OR (x AND 2))"
    by (simp add: bit.conj_disj_distrib [symmetric])
  show ?thesis unfolding opcode_18
  proof
    assume a: "x AND 0xFC000003 = 0x48000000"
    have "(x AND 0xFC000003) AND 0xFC000000 = x AND 0xFC000000"
      "(x AND 0xFC000003) AND 1 = x AND 1" "(x AND 0xFC000003) AND 2 = x AND 2"
      by (simp_all add: and.assoc)
    then show "x AND 0xFC000000 = 0x48000000 \<and> x AND 1 = 0 \<and> x AND 2 = 0"
      unfolding a by simp
  next
    assume "x AND 0xFC000000 = 0x48000000 \<and> x AND 1 = 0 \<and> x AND 2 = 0"
    then show "x AND 0xFC000003 = 0x48000000" unfolding split by simp
  qed
qed

lemma and_exp_cases:
  fixes x :: u32
  shows "x AND 2 ^ n = 0 \<or> x AND 2 ^ n = 2 ^ n"
proof (cases "bit x n")
  case True
  then have "x AND 2 ^ n = 2 ^ n" by (intro bit_word_eqI) (auto simp: bit_simps)
  then show ?thesis ..
next
  case False
  then have "x AND 2 ^ n = 0" by (intro bit_word_eqI) (auto simp: bit_simps)
  then show ?thesis ..
qed

lemma and_bit_cases:
  fixes x :: u32
  shows "x AND 0x02000000 = 0 \<or> x AND 0x02000000 = 0x02000000"
  using and_exp_cases [of x 25] by simp

lemma sext26_sum:
  fixes x :: u32
  assumes "x AND 0x02000000 = 0x02000000"
  shows "(x AND 0x03FFFFFC) OR 0xFC000000 = 0xFE000000 + (x AND 0x01FFFFFC)"
proof -
  let ?d = "x AND 0x01FFFFFC"
  have "x AND 0x03FFFFFC = (x AND 0x02000000) OR ?d"
    by (simp add: bit.conj_disj_distrib [symmetric])
  then have "(x AND 0x03FFFFFC) OR 0xFC000000 = (0x02000000 OR 0xFC000000) OR ?d"
    using assms by (simp only: or.assoc or.commute or.left_commute)
  moreover have "(0x02000000 OR 0xFC000000 :: u32) = 0xFE000000" by simp
  moreover have "0xFE000000 AND ?d = 0"
    by (simp add: and.left_commute [of "0xFE000000" x])
  ultimately show ?thesis by (simp only: disjunctive_add_eq_or)
qed

text \<open>
  C26. The branch-following step of the address lookup agrees with the processor: where the word at
  the export is an unconditional relative branch without link, the result is the address at which
  the processor goes on, for every displacement, forward or backward, with wrap-around; otherwise
  the address is kept.
\<close>

theorem follow_branch_is_branch_target:
  "follow_branch (pc c) (view c (pc c)) =
     (case decode (view c (pc c)) of
        B False d \<Rightarrow> (case step X c of None \<Rightarrow> pc c | Some c' \<Rightarrow> pc c')
      | _ \<Rightarrow> pc c)"
proof -
  let ?x = "view c (pc c)"
  show ?thesis
  proof (cases "drop_bit 26 ?x = 18 \<and> ?x AND 1 = 0")
    case True
    then have dec: "decode ?x = B (?x AND 2 \<noteq> 0) (sext26 ?x)"
      by (simp add: decode_def)
    have "?x AND 0x02000000 = 0 \<Longrightarrow> ?x AND 0x03FFFFFC = ?x AND 0x01FFFFFC"
    proof -
      assume z: "?x AND 0x02000000 = 0"
      have "?x AND 0x03FFFFFC = (?x AND 0x02000000) OR (?x AND 0x01FFFFFC)"
        by (simp add: bit.conj_disj_distrib [symmetric])
      then show ?thesis using z by simp
    qed
    with True dec show ?thesis
      using and_bit_cases [of ?x] sext26_sum [of ?x]
      by (auto simp: follow_branch_def branch_pattern step_def sext26_def Let_def)
  next
    case False
    then have "\<And>d. decode ?x \<noteq> B False d" by (auto simp: decode_def Let_def split: if_splits)
    with False show ?thesis
      by (auto simp: follow_branch_def branch_pattern split: instr.splits bool.splits)
  qed
qed
section \<open>Running the emitted words\<close>

lemma code_at_append:
  "code_at c a (xs @ ys) \<longleftrightarrow> code_at c a xs \<and> code_at c (a + 4 * of_nat (length xs)) ys"
  by (induction xs arbitrary: a) (auto simp: algebra_simps)

lemma code_at_update [simp]:
  "code_at (c\<lparr>pc := x\<rparr>) a ws = code_at c a ws"
  "code_at (c\<lparr>gpr := g\<rparr>) a ws = code_at c a ws"
  "code_at (c\<lparr>ctr := x\<rparr>) a ws = code_at c a ws"
  "code_at (c\<lparr>cr := b\<rparr>) a ws = code_at c a ws"
  by (induction ws arbitrary: a) simp_all

lemma run_step: "step X c = Some c' \<Longrightarrow> run X (Suc n) c = run X n c'"
  by simp

lemma word_aligned_short: "short_branch_possible t \<Longrightarrow> t AND 0xFFFFFFFC = t"
proof -
  assume "short_branch_possible t"
  then have "t AND 0xFFFFFFFC = (t AND 0x01FFFFFC) AND 0xFFFFFFFC"
    by (simp add: short_branch_possible_def)
  also have "\<dots> = t AND 0x01FFFFFC" by (simp add: and.assoc)
  finally show ?thesis using \<open>short_branch_possible t\<close> by (simp add: short_branch_possible_def)
qed

text \<open>The scratch state of a trampoline: register 11, the count register, condition field 0.\<close>

definition same_but_scratch :: "cpu \<Rightarrow> cpu \<Rightarrow> bool" where
  "same_but_scratch c c' \<longleftrightarrow>
     view c' = view c \<and> (\<forall>r. r = 11 \<or> gpr c' r = gpr c r) \<and> (\<forall>b. b < 4 \<or> cr c' b = cr c b)"

lemma halves:
  fixes t :: u32
  shows "push_bit 16 (drop_bit 16 t AND 0xFFFF) OR (t AND 0xFFFF) = t"
proof -
  have m: "(0xFFFF :: u32) = mask 16" by (simp add: mask_eq_exp_minus_1)
  have "drop_bit 16 t AND 0xFFFF = drop_bit 16 t"
    unfolding m by (rule bit_word_eqI) (auto simp: bit_simps dest: bit_imp_le_length)
  then show ?thesis by (simp only: halves_join)
qed

lemma halves_normal [decode_simps]:
  fixes t :: u32
  shows "push_bit 16 (drop_bit 16 t) AND 0xFFFF0000 OR t AND 0xFFFF = t"
  using halves [of t] by simp

lemma run_jump_words:
  assumes "code_at c (pc c) (jump_words t)" and "t AND 0xFFFFFFFC = t"
  shows "\<exists>n c'. run X n c = Some c' \<and> pc c' = t \<and> same_but_scratch c c' \<and> cr c' = cr c"
proof (cases "short_branch_possible t")
  case True
  with assms have "run X (Suc 0) c = Some (c\<lparr>pc := t\<rparr>)"
    by (simp add: jump_words_def step_def decode_simps short_branch_possible_def)
  then show ?thesis by (rule_tac x = "Suc 0" in exI) (auto simp: same_but_scratch_def)
next
  case False
  with assms have "run X (Suc (Suc (Suc (Suc 0)))) c = Some (c\<lparr>pc := t, gpr := (gpr c)(11 := t), ctr := t\<rparr>)"
    by (simp add: jump_words_def step_def decode_simps next_pc_def reg_or_zero_def)
  then show ?thesis by (rule_tac x = "Suc (Suc (Suc (Suc 0)))" in exI) (auto simp: same_but_scratch_def)
qed

lemma run_trans: "run X m c = Some c1 \<Longrightarrow> run X n c1 = r \<Longrightarrow> run X (m + n) c = r"
  by (simp add: run_add)

text \<open>
  What is asked of the displaced instruction: in every state that differs from \<open>c\<close> in the program
  counter and in scratch state only, it falls through, leaves the count register and the code
  around it alone, and is otherwise an arbitrary state change \<open>f\<close>. A displaced relative branch does not
  have this property: it would be taken relative to the buffer.
\<close>

definition falls_through ::
    "(u32 \<Rightarrow> cpu \<Rightarrow> cpu option) \<Rightarrow> u32 \<Rightarrow> (cpu \<Rightarrow> cpu) \<Rightarrow> cpu \<Rightarrow> u32 \<Rightarrow> u32 list \<Rightarrow> bool" where
  "falls_through X i f c0 a ws \<longleftrightarrow>
     (\<forall>c. same_but_scratch c0 c \<longrightarrow>
        exec X (decode i) c = Some (next_pc (f c)) \<and> pc (f c) = pc c \<and> ctr (f c) = ctr c
          \<and> (code_at c a ws \<longrightarrow> code_at (f c) a ws))"

lemma same_but_scratch_refl [simp]: "same_but_scratch c c"
  by (simp add: same_but_scratch_def)

lemma run_original_words:
  assumes code: "code_at c (pc c) (original_words d)"
    and f: "falls_through X (replacedInstruction d) f c (pc c) (original_words d)"
    and al: "(realEffectiveFunctionAddress d + 4) AND 0xFFFFFFFC = realEffectiveFunctionAddress d + 4"
  shows "\<exists>n c1. run X n c = Some ((f c1)\<lparr>pc := realEffectiveFunctionAddress d + 4\<rparr>)
           \<and> same_but_scratch c c1 \<and> cr c1 = cr c"
proof (cases "short_branch_possible (realEffectiveFunctionAddress d + 4)")
  case True
  let ?t = "realEffectiveFunctionAddress d + 4"
  have ws: "original_words d = [replacedInstruction d, 0x48000002 OR (?t AND 0x01FFFFFC)]"
    using True by (simp add: original_words_def Let_def)
  from f code have "view (f c) (pc c + 4) = 0x48000002 OR (?t AND 0x01FFFFFC)" and "pc (f c) = pc c"
    by (auto simp: falls_through_def ws)
  then have "step X (next_pc (f c)) = Some ((f c)\<lparr>pc := ?t AND 0x01FFFFFC\<rparr>)"
    by (simp add: step_def next_pc_def decode_ba)
  moreover have "step X c = Some (next_pc (f c))"
    using f code by (simp add: falls_through_def step_def ws)
  ultimately have "run X (Suc (Suc 0)) c = Some ((f c)\<lparr>pc := ?t\<rparr>)"
    using True by (simp add: short_branch_possible_def)
  then show ?thesis by (intro exI conjI, assumption) (auto simp: same_but_scratch_def)
next
  case False
  let ?t = "realEffectiveFunctionAddress d + 4"
  have ws: "original_words d = [0x3d600000 OR (drop_bit 16 ?t AND 0xFFFF),
      0x616b0000 OR (?t AND 0xFFFF), 0x7d6903a6, replacedInstruction d, 0x4e800420]"
    using False by (simp add: original_words_def Let_def)
  let ?c1 = "c\<lparr>pc := pc c + 12, gpr := (gpr c)(11 := ?t), ctr := ?t\<rparr>"
  have r1: "run X (Suc (Suc (Suc 0))) c = Some ?c1"
    using code unfolding ws by (simp add: step_def decode_simps next_pc_def reg_or_zero_def)
  have sbs: "same_but_scratch c ?c1" by (simp add: same_but_scratch_def)
  have s2: "step X ?c1 = Some (next_pc (f ?c1))"
    using f code sbs by (simp add: falls_through_def step_def ws algebra_simps)
  have s3: "step X (next_pc (f ?c1)) = Some ((f ?c1)\<lparr>pc := ?t\<rparr>)"
  proof -
    have "code_at ?c1 (pc c) (original_words d)" using code unfolding ws by simp
    then have "code_at (f ?c1) (pc c) (original_words d)" "pc (f ?c1) = pc c + 12" "ctr (f ?c1) = ?t"
      using f sbs by (simp_all add: falls_through_def)
    then show ?thesis
      using al unfolding ws by (simp add: step_def decode_simps next_pc_def algebra_simps)
  qed
  have "run X (Suc (Suc 0)) ?c1 = Some ((f ?c1)\<lparr>pc := ?t\<rparr>)"
    by (simp only: run.simps s2 s3 option.case)
  from run_trans [OF r1 this] show ?thesis by (intro exI conjI, assumption) (auto simp: same_but_scratch_def)
qed

section \<open>The process check\<close>

definition upid_selected :: "'s os_api \<Rightarrow> PatchedFunctionData \<Rightarrow> u32 \<Rightarrow> bool" where
  "upid_selected A d upid \<longleftrightarrow>
     (if targetProcess d = FP_TARGET_PROCESS_GAME_AND_MENU A
      then upid = FP_TARGET_PROCESS_WII_U_MENU A \<or> upid = FP_TARGET_PROCESS_GAME A
      else upid = targetProcess d)"

text \<open>The word that \<open>OSGetUPID\<close> loads, from the operands of its first two instructions.\<close>

definition upid_address :: "u32 \<Rightarrow> u32 \<Rightarrow> u32" where
  "upid_address u0 u1 = push_bit 16 (u0 AND 0xFFFF) + sext16 (u1 AND 0xFFFF)"

text \<open>The compared numbers fit the positive half of the immediate field.\<close>

definition process_ids_small :: "'s os_api \<Rightarrow> PatchedFunctionData \<Rightarrow> bool" where
  "process_ids_small A d \<longleftrightarrow>
     targetProcess d \<le> 0x7FFF \<and> FP_TARGET_PROCESS_WII_U_MENU A \<le> 0x7FFF
     \<and> FP_TARGET_PROCESS_GAME A \<le> 0x7FFF"

lemma small_imm:
  fixes x :: u32
  assumes "x \<le> 0x7FFF"
  shows "x AND 0xFFFF = x" and "sext16 x = x"
proof -
  from assms have "x < 2 ^ 15" by (simp add: word_le_def word_less_def)
  then have m: "x AND mask 15 = x" by (rule less_mask_eq)
  have m15: "(mask 15 :: u32) = 0x7FFF" by (simp add: mask_eq_exp_minus_1)
  have "x AND 0xFFFF = (x AND 0x7FFF) AND 0xFFFF" using m by (simp only: m15)
  then show a: "x AND 0xFFFF = x" using m by (simp add: and.assoc m15)
  have "x AND 0x8000 = (x AND 0x7FFF) AND 0x8000" using m by (simp only: m15)
  then have "x AND 0x8000 = 0" by (simp add: and.assoc)
  then show "sext16 x = x" by (simp add: sext16_def a)
qed

lemma decode_cmpwi_small [decode_simps]: "x \<le> 0x7FFF \<Longrightarrow> decode (0x2c0b0000 OR x) = Cmpwi 0 11 x"
  using decode_cmpwi [of x] by (simp add: small_imm)

lemma run_select_words:
  assumes code: "code_at c (pc c) (select_words A d)"
    and small: "process_ids_small A d"
  shows "\<exists>n c'. run X n c = Some c' \<and> same_but_scratch c c' \<and> gpr c' = gpr c \<and>
     pc c' = pc c + (if upid_selected A d (gpr c 11)
                     then 4 * of_nat (length (select_words A d) + 1
                            + length (jump_words (realEffectiveFunctionAddress d + 4)))
                     else 4 * of_nat (length (select_words A d)))"
    (is "\<exists>n c'. run X n c = Some c' \<and> ?P c'")
proof -
  let ?short = "short_branch_possible (realEffectiveFunctionAddress d + 4)"
  note simps = step_def decode_simps next_pc_def upid_selected_def length_jump_words
    same_but_scratch_def select_words_def Let_def
  show ?thesis
  proof (cases "targetProcess d = FP_TARGET_PROCESS_GAME_AND_MENU A")
    case gm: True
    consider "gpr c 11 = FP_TARGET_PROCESS_WII_U_MENU A"
      | "gpr c 11 \<noteq> FP_TARGET_PROCESS_WII_U_MENU A" by blast
    then show ?thesis
    proof cases
      case 1
      with gm code small have "\<exists>c'. run X (Suc (Suc 0)) c = Some c' \<and> ?P c'"
        by (cases ?short) (auto simp: simps process_ids_small_def)
      then show ?thesis by blast
    next
      case 2
      with gm code small have "\<exists>c'. run X (Suc (Suc (Suc (Suc 0)))) c = Some c' \<and> ?P c'"
        by (cases ?short; cases "gpr c 11 = FP_TARGET_PROCESS_GAME A")
          (auto simp: simps process_ids_small_def)
      then show ?thesis by blast
    qed
  next
    case False
    with code small have "\<exists>c'. run X (Suc (Suc 0)) c = Some c' \<and> ?P c'"
      by (cases ?short; cases "gpr c 11 = targetProcess d") (auto simp: simps process_ids_small_def)
    then show ?thesis by blast
  qed
qed

section \<open>The trampoline\<close>

text \<open>The first two words: register 11 holds the number of the running process.\<close>

lemma run_load_upid:
  assumes "code_at c (pc c) ([0x3d600000 OR (u0 AND 0xFFFF), 0x816b0000 OR (u1 AND 0xFFFF)] @ ws)"
  shows "\<exists>c'. run X (Suc (Suc 0)) c = Some c' \<and> same_but_scratch c c' \<and> pc c' = pc c + 8
           \<and> gpr c' 11 = view c (upid_address u0 u1) \<and> code_at c' (pc c') ws"
  using assms
  by (auto simp: step_def decode_simps next_pc_def reg_or_zero_def same_but_scratch_def
      upid_address_def algebra_simps)

lemma same_but_scratch_trans:
  "same_but_scratch a b \<Longrightarrow> same_but_scratch b c \<Longrightarrow> same_but_scratch a c"
  by (auto simp: same_but_scratch_def) metis+

lemma same_but_scratch_code: "same_but_scratch c c' \<Longrightarrow> code_at c' a ws \<longleftrightarrow> code_at c a ws"
proof (induction ws arbitrary: a)
  case (Cons x ws)
  then show ?case by (auto simp: same_but_scratch_def)
qed simp

text \<open>The check as a whole: after it the program counter is at the displaced instruction or, for a
  selected process, behind the jump that follows it.\<close>

lemma run_check_words:
  assumes code: "code_at c (pc c) (check_words A u0 u1 d @ rest)"
    and small: "process_ids_small A d"
  defines "n \<equiv> 2 + length (select_words A d)"
  shows "\<exists>k c'. run X k c = Some c' \<and> same_but_scratch c c' \<and>
     (if upid_selected A d (view c (upid_address u0 u1))
      then pc c' = pc c + 4 * of_nat (length (check_words A u0 u1 d)) \<and> code_at c' (pc c') rest
      else pc c' = pc c + 4 * of_nat n \<and>
           code_at c' (pc c')
             (replacedInstruction d # jump_words (realEffectiveFunctionAddress d + 4) @ rest))"
proof -
  let ?tail = "replacedInstruction d # jump_words (realEffectiveFunctionAddress d + 4) @ rest"
  from code have "code_at c (pc c) ([0x3d600000 OR (u0 AND 0xFFFF), 0x816b0000 OR (u1 AND 0xFFFF)]
      @ (select_words A d @ ?tail))"
    by (simp add: check_words_def)
  from run_load_upid [OF this, of X] obtain c1 where
    r1: "run X (Suc (Suc 0)) c = Some c1" and s1: "same_but_scratch c c1" and p1: "pc c1 = pc c + 8"
    and u1: "gpr c1 11 = view c (upid_address u0 u1)" and code1: "code_at c1 (pc c1) (select_words A d @ ?tail)"
    by blast
  from code1 have "code_at c1 (pc c1) (select_words A d)" by (simp add: code_at_append)
  from run_select_words [OF this small, of X] obtain k c2 where
    r2: "run X k c1 = Some c2" and s2: "same_but_scratch c1 c2" and
    p2: "pc c2 = pc c1 + (if upid_selected A d (gpr c1 11)
                     then 4 * of_nat (length (select_words A d) + 1
                            + length (jump_words (realEffectiveFunctionAddress d + 4)))
                     else 4 * of_nat (length (select_words A d)))"
    by blast
  have "code_at c2 (pc c1) (select_words A d @ ?tail)"
    using code1 same_but_scratch_code [OF s2] by simp
  with p1 p2 u1 same_but_scratch_trans [OF s1 s2] run_trans [OF r1 r2] show ?thesis
    by (intro exI [of _ "Suc (Suc 0) + k"] exI [of _ c2])
      (auto simp: code_at_append check_words_def n_def algebra_simps)
qed

text \<open>
  In a process that is a target of the patch (or in any process when the patch is for all),
  executing the trampoline reaches the replacement function with every register intact except the
  scratch state a PowerPC caller may not rely on (register 11, the count register, condition
  field 0), and with memory untouched.
\<close>

lemma trampoline_reaches_replacement:
  assumes "code_at c (pc c) (trampoline_words A u0 u1 d)"
    and "targetProcess d = FP_TARGET_PROCESS_ALL A \<or>
         process_ids_small A d \<and> upid_selected A d (view c (upid_address u0 u1))"
    and "replacementFunctionAddress d AND 0xFFFFFFFC = replacementFunctionAddress d"
  shows "\<exists>n c'. run X n c = Some c' \<and> pc c' = replacementFunctionAddress d \<and> same_but_scratch c c'"
proof (cases "targetProcess d = FP_TARGET_PROCESS_ALL A")
  case True
  with assms(1) have "code_at c (pc c) (jump_words (replacementFunctionAddress d))"
    by (simp add: trampoline_words_def)
  from run_jump_words [OF this assms(3), of X] show ?thesis by blast
next
  case False
  with assms(1) have "code_at c (pc c) (check_words A u0 u1 d @ jump_words (replacementFunctionAddress d))"
    by (simp add: trampoline_words_def)
  from run_check_words [OF this, of X] False assms(2) obtain k c1 where
    r1: "run X k c = Some c1" and s1: "same_but_scratch c c1"
    and j: "code_at c1 (pc c1) (jump_words (replacementFunctionAddress d))"
    by auto
  from run_jump_words [OF j assms(3), of X] obtain n c2 where
    "run X n c1 = Some c2" "pc c2 = replacementFunctionAddress d" "same_but_scratch c1 c2"
    by blast
  with run_trans [OF r1] same_but_scratch_trans [OF s1] show ?thesis by blast
qed

text \<open>
  In a process that is no target, the trampoline executes exactly the displaced instruction, on
  a state that differs from the caller's in scratch state only, and goes on at the second
  instruction of the patched function.
\<close>

lemma trampoline_passes_through:
  assumes "code_at c (pc c) (trampoline_words A u0 u1 d)"
    and "targetProcess d \<noteq> FP_TARGET_PROCESS_ALL A" and "process_ids_small A d"
    and "\<not> upid_selected A d (view c (upid_address u0 u1))"
    and "falls_through X (replacedInstruction d) f c (pc c) (trampoline_words A u0 u1 d)"
    and "(realEffectiveFunctionAddress d + 4) AND 0xFFFFFFFC = realEffectiveFunctionAddress d + 4"
  shows "\<exists>n c1 c'. run X n c = Some c' \<and> pc c' = realEffectiveFunctionAddress d + 4
           \<and> same_but_scratch c c1 \<and> same_but_scratch (f c1) c'"
proof -
  let ?t = "realEffectiveFunctionAddress d + 4" and ?rest = "jump_words (replacementFunctionAddress d)"
  let ?k = "2 + length (select_words A d)"
  have ws: "trampoline_words A u0 u1 d = check_words A u0 u1 d @ ?rest"
    using assms(2) by (simp add: trampoline_words_def)
  from run_check_words [OF assms(1) [unfolded ws] assms(3), of X] assms(4) obtain k c1 where
    r1: "run X k c = Some c1" and s1: "same_but_scratch c c1"
    and p1: "pc c1 = pc c + 4 * of_nat ?k"
    and j: "code_at c1 (pc c1) (replacedInstruction d # jump_words ?t @ ?rest)"
    by auto
  have code1: "code_at c1 (pc c) (trampoline_words A u0 u1 d)"
    using assms(1) same_but_scratch_code [OF s1] by simp
  have r2: "run X (Suc 0) c1 = Some (next_pc (f c1))"
    using assms(5) j s1 by (simp add: falls_through_def step_def)
  from assms(5) code1 s1 have "code_at (f c1) (pc c) (trampoline_words A u0 u1 d)" "pc (f c1) = pc c1"
    by (simp_all add: falls_through_def)
  then have "code_at (next_pc (f c1)) (pc (next_pc (f c1))) (jump_words ?t)"
    unfolding ws check_words_def
    by (simp add: code_at_append next_pc_def p1 algebra_simps)
  from run_jump_words [OF this assms(6), of X] obtain n c2 where
    r3: "run X n (next_pc (f c1)) = Some c2" and "pc c2 = ?t" "same_but_scratch (next_pc (f c1)) c2"
    by blast
  moreover have "same_but_scratch (f c1) (next_pc (f c1))"
    by (simp add: same_but_scratch_def next_pc_def)
  ultimately show ?thesis
    using run_trans [OF run_trans [OF r1 r2] r3] s1 same_but_scratch_trans by blast
qed

text \<open>
  Calling through the pointer that the module hands out runs the original function: the code
  at \<open>jumpToOriginal\<close> executes the displaced instruction, on a state that differs from the caller's
  in scratch state only, and goes on at the second instruction of the patched function.
\<close>

lemma jump_to_original_runs_original:
  assumes "code_at c (pc c) (original_words d)"
    and "falls_through X (replacedInstruction d) f c (pc c) (original_words d)"
    and "(realEffectiveFunctionAddress d + 4) AND 0xFFFFFFFC = realEffectiveFunctionAddress d + 4"
  shows "\<exists>n c1. run X n c = Some ((f c1)\<lparr>pc := realEffectiveFunctionAddress d + 4\<rparr>)
           \<and> same_but_scratch c c1 \<and> cr c1 = cr c"
  using assms by (rule run_original_words)

end
