(* ===== verification/Threads.thy ===== *)
theory Threads
  imports Platform
begin

text \<open>
  \<open>CThread\<close> (\<open>source/utils/CThread.h\<close>): the module starts one thread per core to write an
  instruction and invalidate that core's instruction cache. The thread and its stack come from the
  default heap, through the function pointers of \<open>globals.h\<close>.

  Of the operating system's threads the model keeps the suspend counter, \<open>None\<close> where no thread was
  created at the address. A created thread starts suspended. It runs between its resumption and
  the join; as nothing else happens in between, the model runs it at the join. The contents of
  thread stacks and \<open>OSThread\<close> blocks are not part of \<open>mem\<close>; clearing them is an event.
\<close>

section \<open>The class\<close>

definition eAttributeNone :: u32 where "eAttributeNone = 0x07"
definition eAttributeAffCore0 :: u32 where "eAttributeAffCore0 = 0x01"
definition eAttributeAffCore1 :: u32 where "eAttributeAffCore1 = 0x02"
definition eAttributeAffCore2 :: u32 where "eAttributeAffCore2 = 0x04"
definition eAttributeDetach :: u32 where "eAttributeDetach = 0x08"
definition eAttributePinnedAff :: u32 where "eAttributePinnedAff = 0x10"

text \<open>A callback together with its argument; \<open>None\<close> is the null pointer.\<close>

type_synonym 's callback = "'s world \<Rightarrow> halt + 's world"

record 's CThread =
  iStackSize :: u32
  iAttributes :: u32
  pThread :: u32
  pThreadStack :: u32
  pCallback :: "'s callback option"
  suspend_count :: "nat option"

definition thread_alloc :: "'s os_api \<Rightarrow> u32 \<Rightarrow> int \<Rightarrow> 's world \<Rightarrow> u32 \<times> 's world" where
  "thread_alloc A n align w =
     (let (p, s) = call_alloc A (gMEMAllocFromDefaultHeapExForThreads w) (os w) n align;
          w1 = w\<lparr>os := s\<rparr>
      in (p, if p = 0 then w1 else log_event (EvThreadAlloc p) w1))"

definition thread_free :: "'s os_api \<Rightarrow> u32 \<Rightarrow> u32 \<Rightarrow> 's world \<Rightarrow> 's world" where
  "thread_free A p n w =
     (let w1 = log_event (EvMemset p n) w
      in log_event (EvThreadFree p)
           (w1\<lparr>os := call_free A (gMEMFreeToDefaultHeapForThreads w1) (os w1) p\<rparr>))"

definition CThread_new ::
    "'s os_api \<Rightarrow> u32 \<Rightarrow> u32 \<Rightarrow> u32 \<Rightarrow> 's callback option \<Rightarrow> 's world \<Rightarrow> 's CThread \<times> 's world" where
  "CThread_new A iAttr iPriority stacksize callback w =
     (let (pT, w1) = thread_alloc A (sizeof_OSThread A) 0x10 w;
          (pS, w2) = thread_alloc A stacksize 0x20 w1;
          created = (pT \<noteq> 0 \<and> pS \<noteq> 0)
      in (\<lparr>iStackSize = stacksize, iAttributes = iAttr, pThread = pT, pThreadStack = pS,
           pCallback = callback, suspend_count = (if created then Some 1 else None)\<rparr>,
          if created
          then log_event (EvOSCreateThread pT (pS + stacksize) stacksize iPriority iAttr) w2 else w2))"

definition isThreadSuspended :: "'s CThread \<Rightarrow> halt + bool" where
  "isThreadSuspended t =
     (if pThread t \<noteq> 0
      then (case suspend_count t of
              None \<Rightarrow> Inl (Undefined ''OSIsThreadSuspended on memory that is no thread'')
            | Some n \<Rightarrow> Inr (0 < n))
      else Inr False)"

definition resumeThread :: "'s CThread \<Rightarrow> halt + 's CThread" where
  "resumeThread t =
     (case isThreadSuspended t of
        Inl e \<Rightarrow> Inl e
      | Inr suspended \<Rightarrow>
          if \<not> suspended then Inr t
          else if pThread t \<noteq> 0 then Inr (t\<lparr>suspend_count := map_option (\<lambda>n. n - 1) (suspend_count t)\<rparr>)
          else Inr t)"

text \<open>\<open>while (isThreadSuspended()) resumeThread();\<close> counts the suspend counter down.\<close>

fun resume_loop :: "nat \<Rightarrow> nat" where
  "resume_loop 0 = 0"
| "resume_loop (Suc n) = resume_loop n"

definition core_of_attributes :: "u32 \<Rightarrow> nat" where
  "core_of_attributes a =
     (if a AND eAttributeAffCore2 \<noteq> 0 then 2 else if a AND eAttributeAffCore1 \<noteq> 0 then 1 else 0)"

definition executeThread :: "'s CThread \<Rightarrow> 's callback" where
  "executeThread t w = (case pCallback t of None \<Rightarrow> Inr w | Some f \<Rightarrow> f w)"

definition join_thread :: "'s CThread \<Rightarrow> 's world \<Rightarrow> halt + 's world" where
  "join_thread t w =
     (case executeThread t (w\<lparr>core := core_of_attributes (iAttributes t)\<rparr>) of
        Inl e \<Rightarrow> Inl e
      | Inr w1 \<Rightarrow> Inr (log_event (EvOSJoinThread (pThread t)) (w1\<lparr>core := core w\<rparr>)))"

definition shutdownThread ::
    "'s os_api \<Rightarrow> 's CThread \<Rightarrow> 's world \<Rightarrow> halt + ('s CThread \<times> 's world)" where
  "shutdownThread A t w =
     (let joined =
        (if pThread t \<noteq> 0 \<and> iAttributes t AND eAttributeDetach = 0
         then (case suspend_count t of
                 None \<Rightarrow> Inl (Undefined ''OSIsThreadSuspended on memory that is no thread'')
               | Some n \<Rightarrow> join_thread (t\<lparr>suspend_count := Some (resume_loop n)\<rparr>) w)
         else Inr w)
      in case joined of
           Inl e \<Rightarrow> Inl e
         | Inr w1 \<Rightarrow>
             let w2 = (if pThreadStack t \<noteq> 0 then thread_free A (pThreadStack t) (iStackSize t) w1 else w1);
                 w3 = (if pThread t \<noteq> 0 then thread_free A (pThread t) (sizeof_OSThread A) w2 else w2)
             in Inr (t\<lparr>pThread := 0, pThreadStack := 0\<rparr>, w3))"

text \<open>One round of the loop in \<open>runOnAllCores\<close>: construct, resume, destroy.\<close>

definition run_on_core ::
    "'s os_api \<Rightarrow> 's callback \<Rightarrow> u32 \<Rightarrow> u32 \<Rightarrow> u32 \<Rightarrow> u32 \<Rightarrow> 's world \<Rightarrow> halt + 's world" where
  "run_on_core A callback iAttr iPriority stacksize i w =
     (let (t, w1) = CThread_new A (iAttr OR i) iPriority stacksize (Some callback) w
      in case resumeThread t of
           Inl e \<Rightarrow> Inl e
         | Inr t1 \<Rightarrow> (case shutdownThread A t1 w1 of
                        Inl e \<Rightarrow> Inl e | Inr (_, w2) \<Rightarrow> Inr w2))"

fun run_on_cores ::
    "'s os_api \<Rightarrow> 's callback \<Rightarrow> u32 \<Rightarrow> u32 \<Rightarrow> u32 \<Rightarrow> u32 list \<Rightarrow> 's world \<Rightarrow> halt + 's world" where
  "run_on_cores A callback iAttr iPriority stacksize [] w = Inr w"
| "run_on_cores A callback iAttr iPriority stacksize (i # is) w =
     (case run_on_core A callback iAttr iPriority stacksize i w of
        Inl e \<Rightarrow> Inl e | Inr w1 \<Rightarrow> run_on_cores A callback iAttr iPriority stacksize is w1)"

definition runOnAllCores :: "'s os_api \<Rightarrow> 's callback \<Rightarrow> 's world \<Rightarrow> halt + 's world" where
  "runOnAllCores A callback w =
     run_on_cores A callback 0 16 0x8000 [eAttributeAffCore2, eAttributeAffCore1, eAttributeAffCore0] w"

text \<open>
  \<open>isThreadRunning\<close> as written: \<open>!isThreadSuspended() && !isThreadRunning()\<close>, with itself on the
  right. The state of the thread does not change in between.
\<close>

partial_function (option) isThreadRunning :: "bool \<Rightarrow> bool option" where
  "isThreadRunning suspended =
     (if suspended then Some False
      else Option.bind (isThreadRunning suspended) (\<lambda>r. Some (\<not> r)))"

section \<open>What a round does\<close>

lemma resume_loop_0 [simp]: "resume_loop n = 0"
  by (induction n) simp_all

lemma CThread_new_callback: "CThread_new A at pr n cb w = (t, w') \<Longrightarrow> pCallback t = cb"
  by (auto simp: CThread_new_def Let_def split: prod.splits)

lemma resumeThread_callback: "resumeThread t = Inr t' \<Longrightarrow> pCallback t' = pCallback t"
  by (auto simp: resumeThread_def split: sum.splits if_splits)

lemma core_of_attributes_simps [simp]:
  "core_of_attributes eAttributeAffCore2 = 2" "core_of_attributes eAttributeAffCore1 = 1"
  "core_of_attributes eAttributeAffCore0 = 0"
  by (simp_all add: core_of_attributes_def eAttributeAffCore0_def eAttributeAffCore1_def
      eAttributeAffCore2_def)

text \<open>Both allocations of a thread succeed, whatever the state of the heap.\<close>

definition threads_available :: "'s os_api \<Rightarrow> bool" where
  "threads_available A \<longleftrightarrow> (\<forall>f s n a. fst (call_alloc A f s n a) \<noteq> 0)"

section \<open>A query that does not return\<close>

lemma isThreadRunning_awake:
  assumes "isThreadRunning suspended = Some r"
  shows "suspended"
proof (rule isThreadRunning.raw_induct [OF _ assms])
  fix query :: "bool \<Rightarrow> bool option" and suspended r
  assume ih: "\<And>suspended r. query suspended = Some r \<Longrightarrow> suspended"
    and eq: "(if suspended then Some False else Option.bind (query suspended) (\<lambda>r. Some (\<not> r))) = Some r"
  show "suspended"
  proof (rule ccontr)
    assume "\<not> suspended"
    with eq obtain x where "query False = Some x" by (cases "query False") auto
    from ih [OF this] show False .
  qed
qed

text \<open>
  C34. \<open>isThreadRunning\<close> answers for a suspended thread only (that it is not running). For a thread
  that runs it does not return: it calls itself where \<open>isThreadTerminated\<close> was meant.
\<close>

theorem isThreadRunning_returns:
  "isThreadRunning suspended = (if suspended then Some False else None)"
proof (cases suspended)
  case True
  then show ?thesis by (subst isThreadRunning.simps) simp
next
  case False
  then show ?thesis using isThreadRunning_awake [of False] by (cases "isThreadRunning False") auto
qed

end
