(* ===== verification/Patcher.thy ===== *)
theory Patcher
  imports PPC Threads
begin

text \<open>
  Patching and restoring one function (\<open>source/function_patcher.cpp\<close>, \<open>source/utils/utils.cpp\<close>):
  reading an instruction from physical memory, writing one on every core, \<open>PatchFunction\<close> and
  \<open>RestoreFunction\<close>. A \<open>PatchedFunctionData\<close> is named by its address \<open>h\<close>; an address with no live
  object behind it is undefined behaviour.
\<close>

section \<open>Reading an instruction\<close>

text \<open>
  The physical address of a local, as both functions below compute it. Stacks in the window
  \<open>0x00800000\<close>..\<open>0x01000000\<close> are not known to \<open>OSEffectiveToPhysical\<close>.
\<close>

definition local_to_physical :: "'s os_api \<Rightarrow> 's \<Rightarrow> u32 \<Rightarrow> u32" where
  "local_to_physical A s a =
     (if a < 0x00800000 \<or> a \<ge> 0x01000000 then OSEffectiveToPhysical A s a
      else a + 0x30800000 - 0x00800000)"

definition ReadFromPhysicalAddress ::
    "'s os_api \<Rightarrow> u32 \<Rightarrow> bool \<Rightarrow> 's world \<Rightarrow> u32 option \<times> 's world" where
  "ReadFromPhysicalAddress A srcPhys out w =
     (if \<not> out then (None, w)
      else
        let a = local_addr A (os w) (core w) L_currentInstruction;
            phys = local_to_physical A (os w) a
        in if phys = 0 then (None, w)
           else let w1 = copy_data A phys srcPhys 4 w;
                    w2 = log_event (EvDCFlushRange a 4) w1
                in (Some (load32 A a w2), w2))"

section \<open>Writing an instruction\<close>

text \<open>Flushing what the object points to.\<close>

definition flush_object :: "PatchedFunctionData \<Rightarrow> 's world \<Rightarrow> 's world" where
  "flush_object data w =
     (let w3 = (if jumpData data \<noteq> 0
                then log_event (EvICInvalidateRange (jumpData data) (jumpDataSize data * 4))
                       (log_event (EvDCFlushRange (jumpData data) (jumpDataSize data * 4)) w)
                else w);
          w4 = (if jumpToOriginal data \<noteq> 0
                then log_event (EvICInvalidateRange (jumpToOriginal data) (5 * 4))
                       (log_event (EvDCFlushRange (jumpToOriginal data) (5 * 4)) w3)
                else w3)
      in if realCallFunctionAddressPtr data \<noteq> 0
         then log_event (EvICInvalidateRange (realCallFunctionAddressPtr data) 4)
                (log_event (EvDCFlushRange (realCallFunctionAddressPtr data) 4) w4)
         else w4)"

text \<open>
  The callback that runs on every core; \<open>arg\<close> is the object's address. Of the two locals whose
  address is taken, \<open>replace_instruction\<close> is copied from memory and is stored there;
  \<open>physical_address\<close> is flushed only, its cell in memory is never read.
\<close>

definition writeDataAndFlushIC :: "'s os_api \<Rightarrow> u32 \<Rightarrow> 's world \<Rightarrow> halt + 's world" where
  "writeDataAndFlushIC A arg w =
     (case objs w arg of
        None \<Rightarrow> Inl (Undefined ''dangling PatchedFunctionData'')
      | Some data \<Rightarrow>
          let a = local_addr A (os w) (core w) L_replace_instruction;
              b = local_addr A (os w) (core w) L_physical_address;
              physical_address = realPhysicalFunctionAddress data;
              effective_address = realEffectiveFunctionAddress data;
              w1 = store32 A a (replaceWithInstruction data) w;
              w2 = log_event (EvDCFlushRange b 4) (log_event (EvDCFlushRange a 4) w1);
              w5 = flush_object data w2;
              phys = local_to_physical A (os w5) a;
              w6 = copy_data A physical_address phys 4 w5
          in Inr (log_event (EvICInvalidateRange effective_address 4) w6))"

section \<open>Patching\<close>

definition PatchFunction :: "'s os_api \<Rightarrow> u32 \<Rightarrow> 's world \<Rightarrow> halt + (bool \<times> 's world)" where
  "PatchFunction A h w =
     (case objs w h of
        None \<Rightarrow> Inl (Undefined ''dangling PatchedFunctionData'')
      | Some d \<Rightarrow>
          if isPatched d then Inr (True, w)
          else (case shouldBePatched A d w of
            Inl e \<Rightarrow> Inl e
          | Inr (should, w1) \<Rightarrow>
              if \<not> should then Inr (False, w1)
              else (case updateFunctionAddresses A d w1 of
                Inl e \<Rightarrow> Inl e
              | Inr ((updated, d1), w2) \<Rightarrow>
                  if \<not> updated then Inr (False, put_obj h d1 w2)
                  else (case ReadFromPhysicalAddress A (realPhysicalFunctionAddress d1) True w2 of
                    (None, w3) \<Rightarrow> Inl (OSFatal ''FunctionPatcherModule: Failed to read instruction.'')
                  | (Some instruction, w3) \<Rightarrow>
                      let d2 = d1\<lparr>replacedInstruction := instruction\<rparr>
                      in (case generateJumpToOriginal A d2 w3 of
                        Inl e \<Rightarrow> Inl e
                      | Inr w4 \<Rightarrow>
                          (case generateReplacementJump A h d2 w4 of
                             Inl e \<Rightarrow> Inl e
                           | Inr (d3, w5) \<Rightarrow>
                               (case runOnAllCores A (writeDataAndFlushIC A h) (put_obj h d3 w5) of
                                  Inl e \<Rightarrow> Inl e
                                | Inr w6 \<Rightarrow> Inr (True, put_obj h (d3\<lparr>isPatched := True\<rparr>) w6))))))))"

section \<open>Restoring\<close>

text \<open>Offset of the field \<open>replacedInstruction\<close>, whose address is the source of the copy.\<close>

definition replacedInstruction_offset :: u32 where
  "replacedInstruction_offset = 24"

text \<open>The physical address of that field.\<close>

definition source_to_physical :: "'s os_api \<Rightarrow> 's \<Rightarrow> u32 \<Rightarrow> u32" where
  "source_to_physical A s sourceAddr =
     (let sourceAddrPhys = OSEffectiveToPhysical A s sourceAddr
      in if sourceAddrPhys = 0 \<and> (sourceAddr \<ge> 0x00800000 \<and> sourceAddr < 0x01000000)
         then sourceAddr + (0x30800000 - 0x00800000) else sourceAddrPhys)"

definition RestoreFunction :: "'s os_api \<Rightarrow> u32 \<Rightarrow> 's world \<Rightarrow> halt + (bool \<times> 's world)" where
  "RestoreFunction A h w =
     (case objs w h of
        None \<Rightarrow> Inl (Undefined ''dangling PatchedFunctionData'')
      | Some d \<Rightarrow>
          if \<not> isPatched d then Inr (True, w)
          else if replacedInstruction d = 0 \<or> realEffectiveFunctionAddress d = 0 then Inr (False, w)
          else
            let targetAddrPhys =
                  (if fp_library d \<noteq> Some LIBRARY_OTHER
                   then OSEffectiveToPhysical A (os w) (realEffectiveFunctionAddress d)
                   else realPhysicalFunctionAddress d)
            in (case ReadFromPhysicalAddress A (realPhysicalFunctionAddress d) True w of
                 (None, w1) \<Rightarrow> Inr (False, w1)
               | (Some currentInstruction, w1) \<Rightarrow>
                   if currentInstruction \<noteq> replaceWithInstruction d then Inr (False, w1)
                   else
                     let sourceAddr = h + replacedInstruction_offset;
                         \<comment> \<open>the field's cell in memory holds the field\<close>
                         w2 = store32 A sourceAddr (replacedInstruction d) w1;
                         sourceAddrPhys = source_to_physical A (os w2) sourceAddr
                     in if sourceAddrPhys = 0
                        then Inl (OSFatal ''FunctionPatcherModule: Failed to get physical address'')
                        else
                          let w3 = copy_data A targetAddrPhys sourceAddrPhys 4 w2;
                              w4 = log_event (EvICInvalidateRange (realEffectiveFunctionAddress d) 4) w3;
                              w5 = log_event (EvDCFlushRange (realEffectiveFunctionAddress d) 4) w4
                          in Inr (True, put_obj h (d\<lparr>isPatched := False\<rparr>) w5)))"

section \<open>Loops over the list of patches\<close>

text \<open>\<open>for (const auto &p : list) f(p);\<close> with the result of \<open>f\<close> ignored.\<close>

fun for_each :: "(u32 \<Rightarrow> 's world \<Rightarrow> halt + (bool \<times> 's world)) \<Rightarrow> u32 list \<Rightarrow> 's world \<Rightarrow> halt + 's world"
  where
  "for_each f [] w = Inr w"
| "for_each f (h # hs) w = (case f h w of Inl e \<Rightarrow> Inl e | Inr (_, w1) \<Rightarrow> for_each f hs w1)"

end
