(* ===== verification/Export_API.thy ===== *)
theory Export_API
  imports Patcher
begin

text \<open>
  The exported functions (\<open>source/export.cpp\<close>): adding a patch, removing one (with the patches that
  were applied to the same function after it taken off first), and the two queries. Out parameters
  are addresses, 0 is \<open>nullptr\<close>. \<open>lock\<close> and \<open>unlock\<close> bracket the scopes of the \<open>lock_guard\<close>s.
\<close>

section \<open>Adding a patch\<close>

definition FPAddFunctionPatch ::
    "'s os_api \<Rightarrow> function_replacement_data_t option \<Rightarrow> u32 \<Rightarrow> u32 \<Rightarrow> 's world
      \<Rightarrow> halt + (FunctionPatcherStatus \<times> 's world)" where
  "FPAddFunctionPatch A function_data outHandle outHasBeenPatched w =
     (case function_data of
        None \<Rightarrow> Inr (FUNCTION_PATCHER_RESULT_INVALID_ARGUMENT, w)
      | Some fd \<Rightarrow>
          if fd_version fd < 2 \<or> fd_version fd > 3
          then Inr (FUNCTION_PATCHER_RESULT_UNSUPPORTED_STRUCT_VERSION, w)
          else
            (case (if fd_version fd = 2
                   then Inr (make_shared_v2 A (Some (as_v2 fd)) (gJumpHeapHandle w) w)
                   else if fd_version fd = 3
                   then Inr (make_shared_v3 A (Some (as_v3 fd)) (gJumpHeapHandle w) w)
                   else Inl (OSFatal ''Unknown function patching struct version. Update FunctionPatcherModule/Aroma.''))
             of
               Inl e \<Rightarrow> Inl e
             | Inr (None, w1) \<Rightarrow> Inr (FUNCTION_PATCHER_RESULT_UNKNOWN_ERROR, w1)
             | Inr (Some h, w1) \<Rightarrow>
                 (case PatchFunction A h w1 of
                    Inl e \<Rightarrow> Inl e
                  | Inr (patchResult, w2) \<Rightarrow>
                      let w3 = (if outHasBeenPatched \<noteq> 0
                                then store8 A outHasBeenPatched (if patchResult then 1 else 0) w2 else w2);
                          w4 = (if outHandle \<noteq> 0 then store32 A outHandle h w3 else w3);
                          w5 = lock w4;
                          w6 = w5\<lparr>gPatchedFunctions := gPatchedFunctions w5 @ [h]\<rparr>;
                          w7 = log_event EvOSMemoryBarrier w6
                      in Inr (FUNCTION_PATCHER_RESULT_SUCCESS, unlock w7))))"

definition FunctionPatcherPatchFunction ::
    "'s os_api \<Rightarrow> function_replacement_data_t option \<Rightarrow> u32 \<Rightarrow> 's world \<Rightarrow> halt + (bool \<times> 's world)"
    where
  "FunctionPatcherPatchFunction A function_data outHandle w =
     (case FPAddFunctionPatch A function_data outHandle 0 w of
        Inl e \<Rightarrow> Inl e
      | Inr (status, w1) \<Rightarrow> Inr (status = FUNCTION_PATCHER_RESULT_SUCCESS, w1))"

section \<open>Removing a patch\<close>

text \<open>
  The search loop of \<open>FPRemoveFunctionPatch\<close>. Its state is what the loop has found: the object to
  remove (with its physical address), the position to erase, and the later patches of the same
  function. \<open>None\<close> as a result is a dangling pointer in the list.
\<close>

record remove_scan =
  toBeRemoved :: "u32 option"
  erasePosition :: nat
  toBeTempRestored :: "u32 list"

fun remove_loop ::
    "(u32 \<rightharpoonup> PatchedFunctionData) \<Rightarrow> u32 \<Rightarrow> u32 list \<Rightarrow> remove_scan \<Rightarrow> remove_scan option" where
  "remove_loop ob handle [] st = Some st"
| "remove_loop ob handle (cur # rest) st =
     (case ob cur of
        None \<Rightarrow> None
      | Some d \<Rightarrow>
          if cur = handle
          then let st1 = st\<lparr>toBeRemoved := Some cur\<rparr>
               in if \<not> isPatched d then Some st1 else remove_loop ob handle rest st1
          else (case toBeRemoved st of
                  Some r \<Rightarrow>
                    (case ob r of
                       None \<Rightarrow> None
                     | Some dr \<Rightarrow>
                         remove_loop ob handle rest
                           (if realPhysicalFunctionAddress d = realPhysicalFunctionAddress dr
                            then st\<lparr>toBeTempRestored := toBeTempRestored st @ [cur]\<rparr> else st))
                | None \<Rightarrow> remove_loop ob handle rest (st\<lparr>erasePosition := Suc (erasePosition st)\<rparr>)))"

definition is_patched :: "'s world \<Rightarrow> u32 \<Rightarrow> bool" where
  "is_patched w h = (case objs w h of None \<Rightarrow> False | Some d \<Rightarrow> isPatched d)"

text \<open>\<open>v.erase(v.begin() + i)\<close>\<close>

definition erase_at :: "nat \<Rightarrow> 'a list \<Rightarrow> 'a list" where
  "erase_at i xs = take i xs @ drop (Suc i) xs"

definition FPRemoveFunctionPatch ::
    "'s os_api \<Rightarrow> u32 \<Rightarrow> 's world \<Rightarrow> halt + (FunctionPatcherStatus \<times> 's world)" where
  "FPRemoveFunctionPatch A handle w0 =
     (let w = lock w0
      in case remove_loop (objs w) handle (gPatchedFunctions w)
                \<lparr>toBeRemoved = None, erasePosition = 0, toBeTempRestored = []\<rparr> of
           None \<Rightarrow> Inl (Undefined ''dangling PatchedFunctionData'')
         | Some st \<Rightarrow>
             (case toBeRemoved st of
                None \<Rightarrow> Inr (FUNCTION_PATCHER_RESULT_PATCH_NOT_FOUND, unlock w)
              | Some h \<Rightarrow>
                  (case (if is_patched w h
                         then (case for_each (RestoreFunction A) (rev (toBeTempRestored st)) w of
                                 Inl e \<Rightarrow> Inl e
                               | Inr w1 \<Rightarrow> for_each (RestoreFunction A) [h] w1)
                         else Inr w)
                   of Inl e \<Rightarrow> Inl e
                    | Inr w2 \<Rightarrow>
                        let w3 = w2\<lparr>gPatchedFunctions := erase_at (erasePosition st) (gPatchedFunctions w2)\<rparr>
                        in (case (if is_patched w3 h then for_each (PatchFunction A) (toBeTempRestored st) w3 else Inr w3)
                            of Inl e \<Rightarrow> Inl e
                             | Inr w4 \<Rightarrow>
                                 let w5 = log_event EvOSMemoryBarrier w4
                                 in (case objs w5 h of
                                       None \<Rightarrow> Inl (Undefined ''dangling PatchedFunctionData'')
                                     | Some d \<Rightarrow>
                                         \<comment> \<open>the last owner goes out of scope, then the lock\<close>
                                         Inr (FUNCTION_PATCHER_RESULT_SUCCESS,
                                              unlock (delete_pfd A h d w5)))))))"

definition FunctionPatcherRestoreFunction ::
    "'s os_api \<Rightarrow> u32 \<Rightarrow> 's world \<Rightarrow> halt + (bool \<times> 's world)" where
  "FunctionPatcherRestoreFunction A handle w =
     (case FPRemoveFunctionPatch A handle w of
        Inl e \<Rightarrow> Inl e
      | Inr (status, w1) \<Rightarrow> Inr (status = FUNCTION_PATCHER_RESULT_SUCCESS, w1))"

section \<open>Queries\<close>

definition FPGetVersion :: "'s os_api \<Rightarrow> u32 \<Rightarrow> 's world \<Rightarrow> FunctionPatcherStatus \<times> 's world" where
  "FPGetVersion A outVersion w =
     (if outVersion = 0 then (FUNCTION_PATCHER_RESULT_INVALID_ARGUMENT, w)
      else (FUNCTION_PATCHER_RESULT_SUCCESS, store32 A outVersion 2 w))"

fun patched_query :: "'s world \<Rightarrow> u32 \<Rightarrow> u32 list \<Rightarrow> bool option" where
  "patched_query w handle [] = None"
| "patched_query w handle (cur # rest) =
     (if cur = handle then Some (is_patched w cur) else patched_query w handle rest)"

definition FPIsFunctionPatched ::
    "'s os_api \<Rightarrow> u32 \<Rightarrow> u32 \<Rightarrow> 's world \<Rightarrow> FunctionPatcherStatus \<times> 's world" where
  "FPIsFunctionPatched A handle outIsFunctionPatched w =
     (if outIsFunctionPatched = 0 then (FUNCTION_PATCHER_RESULT_INVALID_ARGUMENT, w)
      else let w1 = lock w
           in case patched_query w1 handle (gPatchedFunctions w1) of
                Some b \<Rightarrow> (FUNCTION_PATCHER_RESULT_SUCCESS,
                           unlock (store8 A outIsFunctionPatched (if b then 1 else 0) w1))
              | None \<Rightarrow> (FUNCTION_PATCHER_RESULT_PATCH_NOT_FOUND, unlock w1))"

end
