(* ===== verification/Module_Main.thy ===== *)
theory Module_Main
  imports Export_API
begin

text \<open>
  The module's hooks (\<open>source/main.cpp\<close>): initialisation with the two patches of the loader,
  the notification callback for loaded and unloaded libraries, the start and the end of an
  application, and the check whether patched functions are still in memory.
\<close>

section \<open>Are the patches still in memory?\<close>

text \<open>The state of the loop: the two sets of physical addresses.\<close>

record check_state =
  physicalAddressesUnchanged :: "u32 set"
  physicalAddressesChanged :: "u32 set"

definition check_one ::
    "'s os_api \<Rightarrow> u32 \<Rightarrow> check_state \<Rightarrow> 's world \<Rightarrow> halt + (check_state \<times> 's world)" where
  "check_one A cur st w =
     (case objs w cur of
        None \<Rightarrow> Inl (Undefined ''dangling PatchedFunctionData'')
      | Some d \<Rightarrow>
          if \<not> isPatched d \<or> realPhysicalFunctionAddress d \<in> physicalAddressesUnchanged st
          then Inr (st, w)
          else if realPhysicalFunctionAddress d \<in> physicalAddressesChanged st
          then Inr (st, put_obj cur (d\<lparr>isPatched := False\<rparr>) w)
          else
            (case ReadFromPhysicalAddress A (realPhysicalFunctionAddress d) True w of
               (None, w1) \<Rightarrow> Inr (st, w1)
             | (Some currentInstruction, w1) \<Rightarrow>
                 if currentInstruction = replaceWithInstruction d
                 then Inr (st\<lparr>physicalAddressesUnchanged :=
                              insert (realPhysicalFunctionAddress d) (physicalAddressesUnchanged st)\<rparr>, w1)
                 else Inr (st\<lparr>physicalAddressesChanged :=
                              insert (realPhysicalFunctionAddress d) (physicalAddressesChanged st)\<rparr>,
                           put_obj cur (d\<lparr>isPatched := False\<rparr>) w1)))"

fun check_loop :: "'s os_api \<Rightarrow> u32 list \<Rightarrow> check_state \<Rightarrow> 's world \<Rightarrow> halt + 's world" where
  "check_loop A [] st w = Inr w"
| "check_loop A (cur # rest) st w =
     (case check_one A cur st w of Inl e \<Rightarrow> Inl e | Inr (st1, w1) \<Rightarrow> check_loop A rest st1 w1)"

definition CheckIfPatchedFunctionsAreStillInMemory :: "'s os_api \<Rightarrow> 's world \<Rightarrow> halt + 's world" where
  "CheckIfPatchedFunctionsAreStillInMemory A w0 =
     (let w = lock w0
      in case check_loop A (rev (gPatchedFunctions w))
                \<lparr>physicalAddressesUnchanged = {}, physicalAddressesChanged = {}\<rparr> w of
           Inl e \<Rightarrow> Inl e
         | Inr w1 \<Rightarrow> Inr (unlock w1))"

section \<open>Initialisation\<close>

definition UpdateFunctionPointer :: "'s os_api \<Rightarrow> 's world \<Rightarrow> halt + 's world" where
  "UpdateFunctionPointer A w =
     (let (err, coreinitModule, s) = OSDynLoad_Acquire A (os w) ''coreinit''; w1 = w\<lparr>os := s\<rparr>
      in if err \<noteq> OS_DYNLOAD_OK A
         then Inl (OSFatal ''FunctionPatcherModule: Failed to acquire coreinit.rpl'')
         else
           let (err1, allocPtr) = OSDynLoad_FindExport A (os w1) coreinitModule
                                    OS_DYNLOAD_EXPORT_DATA ''MEMAllocFromDefaultHeapEx''
           in if err1 \<noteq> OS_DYNLOAD_OK A
              then Inl (OSFatal ''FunctionPatcherModule: OSDynLoad_FindExport for MEMAllocFromDefaultHeapEx'')
              else
                let (err2, freePtr) = OSDynLoad_FindExport A (os w1) coreinitModule
                                        OS_DYNLOAD_EXPORT_DATA ''MEMFreeToDefaultHeap''
                in if err2 \<noteq> OS_DYNLOAD_OK A
                   then Inl (OSFatal ''FunctionPatcherModule: OSDynLoad_FindExport for MEMFreeToDefaultHeap'')
                   else (case (allocPtr, freePtr) of
                           (Some ap, Some fp) \<Rightarrow>
                             Inr (w1\<lparr>gMEMAllocFromDefaultHeapExForThreads := load32 A ap w1,
                                     gMEMFreeToDefaultHeapForThreads := load32 A fp w1,
                                     os := OSDynLoad_Release A (os w1) coreinitModule\<rparr>)
                         | _ \<Rightarrow> Inl (Undefined ''use of an uninitialised pointer'')))"

definition PatchInstruction ::
    "'s os_api \<Rightarrow> u32 \<Rightarrow> u32 \<Rightarrow> u32 \<Rightarrow> 's world \<Rightarrow> bool \<times> 's world" where
  "PatchInstruction A instr original replacement w =
     (let current = load32 A instr w
      in if current \<noteq> original then (current = replacement, w)
         else
           let a = local_addr A (os w) (core w) L_replacement;
               w1 = store32 A a replacement w;
               w2 = copy_data A (OSEffectiveToPhysical A (os w1) instr)
                      (OSEffectiveToPhysical A (os w1) a) 4 w1;
               w3 = log_event (EvDCFlushRange instr 4) w2
           in (True, log_event (EvICInvalidateRange instr 4) w3))"

definition PatchDynLoadFunctions :: "'s os_api \<Rightarrow> 's world \<Rightarrow> bool \<times> 's world" where
  "PatchDynLoadFunctions A w =
     (let patch1 = OSDynLoad_GetNumberOfRPLs_code A + 4 * 6;
          patch2 = OSDynLoad_GetRPLInfo_code A + 4 * 22;
          (ok1, w1) = PatchInstruction A patch1 0x41820038 0x60000000 w
      in if \<not> ok1 then (False, w1)
         else let (ok2, w2) = PatchInstruction A patch2 0x41820100 0x60000000 w1
              in if \<not> ok2 then (False, w2) else (True, w2))"

definition JUMP_HEAP_DATA_SIZE :: u32 where "JUMP_HEAP_DATA_SIZE = 32 * 1024"

definition initLogging :: "'s world \<Rightarrow> 's world" where "initLogging w = log_event EvInitLogging w"
definition deinitLogging :: "'s world \<Rightarrow> 's world" where "deinitLogging w = log_event EvDeinitLogging w"

definition memset_zero :: "'s os_api \<Rightarrow> u32 \<Rightarrow> u32 \<Rightarrow> 's world \<Rightarrow> 's world" where
  "memset_zero A a n w =
     log_event (EvMemset a n)
       (w\<lparr>mem := fold (\<lambda>i m. m(mmu A (os w) (a + of_nat i) := 0)) [0..<unat n] (mem w)\<rparr>)"

definition wums_initialize :: "'s os_api \<Rightarrow> 's world \<Rightarrow> halt + 's world" where
  "wums_initialize A w =
     (case UpdateFunctionPointer A w of
        Inl e \<Rightarrow> Inl e
      | Inr w1 \<Rightarrow>
          let w2 = initLogging w1; (ok, w3) = PatchDynLoadFunctions A w2
          in if \<not> ok
             then Inl (OSFatal ''Failed to patch OSDynLoad_GetRPLInfo or OSDynLoad_GetNumberOfRPLs'')
             else
               let w4 = memset_zero A (gJumpHeapData_addr A) JUMP_HEAP_DATA_SIZE w3;
                   (heap, s) = MEMCreateExpHeapEx A (os w4) (gJumpHeapData_addr A) JUMP_HEAP_DATA_SIZE 1;
                   w5 = w4\<lparr>os := s, gJumpHeapHandle := heap\<rparr>
               in if heap = 0
                  then Inl (OSFatal ''FunctionPatcherModule: Failed to create heap for jump data'')
                  else
                    let (ok2, s2) = new_address_provider A (os w5)
                    in if \<not> ok2
                       then Inl (OSFatal ''FunctionPatcherModule: Failed to create gFunctionAddressProvider'')
                       else Inr (w5\<lparr>os := s2, rpl_handles := initial_rpl_handles\<rparr>))"

section \<open>Notifications\<close>

fun unpatch_library ::
    "function_replacement_library_type_t \<Rightarrow> u32 list \<Rightarrow> 's world \<Rightarrow> halt + 's world" where
  "unpatch_library lib [] w = Inr w"
| "unpatch_library lib (cur # rest) w =
     (case objs w cur of
        None \<Rightarrow> Inl (Undefined ''dangling PatchedFunctionData'')
      | Some d \<Rightarrow>
          unpatch_library lib rest
            (if fp_type d = FUNCTION_PATCHER_REPLACE_BY_LIB_OR_ADDRESS \<and> fp_library d = Some lib
             then put_obj cur (d\<lparr>isPatched := False\<rparr>) w else w))"

definition notify_callback ::
    "'s os_api \<Rightarrow> u32 \<Rightarrow> OSDynLoad_NotifyReason \<Rightarrow> 's world \<Rightarrow> halt + 's world" where
  "notify_callback A module reason w =
     (case reason of
        OS_DYNLOAD_NOTIFY_LOADED \<Rightarrow>
          (let w1 = lock w
           in case for_each (PatchFunction A) (gPatchedFunctions w1) w1 of
                Inl e \<Rightarrow> Inl e | Inr w2 \<Rightarrow> Inr (unlock w2))
      | OS_DYNLOAD_NOTIFY_UNLOADED \<Rightarrow>
          (let w1 = lock w; lib = getTypeForHandle module w1
           in case (if lib \<noteq> LIBRARY_OTHER
                    then unpatch_library lib (gPatchedFunctions w1) w1 else Inr w1) of
                Inl e \<Rightarrow> Inl e
              | Inr w2 \<Rightarrow>
                  let (_, w3) = resetHandle module w2
                  in (case CheckIfPatchedFunctionsAreStillInMemory A w3 of
                        Inl e \<Rightarrow> Inl e | Inr w4 \<Rightarrow> Inr (unlock w4)))
      | OS_DYNLOAD_NOTIFY_VALUE _ \<Rightarrow> Inr w)"

section \<open>Applications\<close>

definition wums_application_starts :: "'s os_api \<Rightarrow> 's world \<Rightarrow> halt + 's world" where
  "wums_application_starts A w =
     (let upid = OSGetUPID A (os w)
      in if upid \<noteq> 2 \<and> upid \<noteq> 15 then Inr w
         else
           let w1 = log_event EvOSReport w;
               w2 = w1\<lparr>gMEMAllocFromDefaultHeapExForThreads := MEMAllocFromDefaultHeapEx_code A,
                       gMEMFreeToDefaultHeapForThreads := MEMFreeToDefaultHeap_code A\<rparr>;
               w3 = lock (initLogging w2)
           in (case CheckIfPatchedFunctionsAreStillInMemory A w3 of
                 Inl e \<Rightarrow> Inl e
               | Inr w4 \<Rightarrow>
                   (case for_each (PatchFunction A) (gPatchedFunctions w4) w4 of
                      Inl e \<Rightarrow> Inl e
                    | Inr w5 \<Rightarrow>
                        let w6 = log_event EvOSMemoryBarrier w5;
                            w7 = log_event EvAddNotifyCallback
                                   (w6\<lparr>os := OSDynLoad_AddNotifyCallback A (os w6)\<rparr>)
                        in Inr (unlock w7))))"

definition wums_application_requests_exit :: "'s world \<Rightarrow> 's world" where
  "wums_application_requests_exit w = deinitLogging w"

definition wums_application_ends :: "'s world \<Rightarrow> 's world" where
  "wums_application_ends w = resetHandles w"

end
