(* ===== verification/Frames.thy ===== *)
theory Frames
  imports Patcher
begin

text \<open>
  What the operations leave alone. \<open>keeps\<close> is the part of the world no resolution, code generation
  or thread touches: the objects, the list of patches, the globals, the mutex, the running core and
  the history of the heap. \<open>object_steps H\<close> allows the objects in \<open>H\<close> to change their addresses,
  instructions and mark as well. The locale lifts this contract from one operation on an object to
  loops over the list.
\<close>

section \<open>The frame\<close>

fun heap_event :: "event \<Rightarrow> bool" where
  "heap_event (EvHeapAlloc h p) = True"
| "heap_event (EvHeapFree h p) = True"
| "heap_event (EvNew p) = True"
| "heap_event (EvDelete p) = True"
| "heap_event _ = False"

definition heap_log :: "'s world \<Rightarrow> event list" where
  "heap_log w = filter heap_event (map snd (trace w))"

text \<open>The libraries of the handle table and their file names, without the handles.\<close>

definition table_names :: "'s world \<Rightarrow> (function_replacement_library_type_t \<times> string) list" where
  "table_names w = map (\<lambda>r. (rh_library r, rh_rplname r)) (rpl_handles w)"

definition keeps_globals :: "'s world \<Rightarrow> 's world \<Rightarrow> bool" where
  "keeps_globals w w' \<longleftrightarrow>
     gPatchedFunctions w' = gPatchedFunctions w \<and> gJumpHeapHandle w' = gJumpHeapHandle w
     \<and> gMEMAllocFromDefaultHeapExForThreads w' = gMEMAllocFromDefaultHeapExForThreads w
     \<and> gMEMFreeToDefaultHeapForThreads w' = gMEMFreeToDefaultHeapForThreads w
     \<and> gPatchedFunctionsMutex w' = gPatchedFunctionsMutex w \<and> core w' = core w
     \<and> table_names w' = table_names w \<and> heap_log w' = heap_log w"

definition keeps :: "'s world \<Rightarrow> 's world \<Rightarrow> bool" where
  "keeps w w' \<longleftrightarrow> objs w' = objs w \<and> keeps_globals w w'"

named_theorems frame \<open>operations that keep the frame\<close>

lemma keeps_refl [simp]: "keeps w w"
  by (simp add: keeps_def keeps_globals_def)

lemma keeps_trans: "keeps w w' \<Longrightarrow> keeps w' w'' \<Longrightarrow> keeps w w''"
  by (simp add: keeps_def keeps_globals_def)

lemma heap_log_log_event: "heap_log (log_event e w) = heap_log w @ (if heap_event e then [e] else [])"
  by (simp add: heap_log_def log_event_def)

lemma keeps_log_event [frame]: "\<not> heap_event e \<Longrightarrow> keeps w (log_event e w)"
  by (simp add: keeps_def keeps_globals_def heap_log_def log_event_def table_names_def)

lemma keeps_updates [frame]:
  "keeps w (w\<lparr>mem := m\<rparr>)" "keeps w (w\<lparr>os := s\<rparr>)"
  by (simp_all add: keeps_def keeps_globals_def heap_log_def table_names_def)

lemma keeps_store32 [frame]: "keeps w (store32 A a v w)"
  by (simp add: store32_def frame)

lemma keeps_store8 [frame]: "keeps w (store8 A a v w)"
  by (simp add: store8_def frame)

lemma keeps_copy_data [frame]: "keeps w (copy_data A d s n w)"
  by (simp add: copy_data_def log_event_def keeps_def keeps_globals_def heap_log_def table_names_def)

section \<open>Resolution and code generation\<close>

lemma keeps_shouldBePatched:
  assumes "shouldBePatched A d w = Inr (b, w')"
  shows "keeps w w'"
proof -
  have "keeps w (log_event (EvMCP_Close h) (log_event (EvMCP_Close h) (log_event (EvMCP_Open h) w)))" for h
    by (intro keeps_trans [OF keeps_trans [OF keeps_log_event keeps_log_event] keeps_log_event]) simp_all
  then show ?thesis
    using assms by (auto simp: shouldBePatched_def Let_def split: if_splits prod.splits)
qed

lemma keeps_KernelFindExport:
  assumes "KernelFindExport A rpl f w = Inr (r, w')"
  shows "keeps w w'"
proof -
  let ?w1 = "log_event EvOSMemoryBarrier (log_event (EvKernelPatchSyscall 0x51) w)"
  have "keeps w ?w1" by (intro keeps_trans [OF keeps_log_event keeps_log_event]) simp_all
  moreover have "w' = ?w1 \<or> (\<exists>s. w' = ?w1\<lparr>os := s\<rparr>)"
    using assms
    by (auto simp: KernelFindExport_def SC_0x51_def FindExportKernel_def Let_def
        split: if_splits prod.splits option.splits)
  ultimately show ?thesis using keeps_trans keeps_updates(2) by metis
qed

lemma find_rpl_handle_names:
  "map (\<lambda>r. (rh_library r, rh_rplname r)) (snd (find_rpl_handle A s l t))
     = map (\<lambda>r. (rh_library r, rh_rplname r)) t"
  by (induction t) (auto split: prod.splits)

lemma keeps_getEffectiveAddress:
  "keeps w (snd (getEffectiveAddressOfFunction A lib f w))"
  by (simp add: getEffectiveAddress_world keeps_def keeps_globals_def heap_log_def table_names_def
      find_rpl_handle_names)

text \<open>The addresses are the only fields that \<open>updateFunctionAddresses\<close> changes.\<close>

lemma set_addresses_frame:
  "set_addresses A d a w = Inr ((b, d'), w') \<Longrightarrow>
     w' = w \<and> (\<exists>e p. d' = d\<lparr>realEffectiveFunctionAddress := e, realPhysicalFunctionAddress := p\<rparr>)"
  by (auto simp: set_addresses_def Let_def split: if_splits)

lemma getAddressForExecutable_keeps:
  "getAddressForExecutable A d b w = Inr (r, w') \<Longrightarrow> keeps w w'"
  by (auto simp: getAddressForExecutable_def Let_def keeps_KernelFindExport
      split: if_splits option.splits prod.splits sum.splits)

lemma addresses_only: "\<exists>e p. d = d\<lparr>realEffectiveFunctionAddress := e, realPhysicalFunctionAddress := p\<rparr>"
  by (rule exI [of _ "realEffectiveFunctionAddress d"], rule exI [of _ "realPhysicalFunctionAddress d"]) simp

lemma updateFunctionAddresses_frame:
  assumes "updateFunctionAddresses A d w = Inr ((b, d'), w')"
  shows "keeps w w'"
    and "\<exists>e p. d' = d\<lparr>realEffectiveFunctionAddress := e, realPhysicalFunctionAddress := p\<rparr>"
proof -
  have s: "keeps w w1" if "getEffectiveAddressOfFunction A lib f w = (r, w1)" for lib f r w1
    using keeps_getEffectiveAddress [of w A lib f] that by simp
  show "keeps w w'"
    using assms
    by (auto simp: updateFunctionAddresses_def Let_def
        dest: set_addresses_frame getAddressForExecutable_keeps s
        split: if_splits option.splits prod.splits sum.splits)
  show "\<exists>e p. d' = d\<lparr>realEffectiveFunctionAddress := e, realPhysicalFunctionAddress := p\<rparr>"
    using assms addresses_only [of d]
    by (auto simp: updateFunctionAddresses_def Let_def
        dest: set_addresses_frame
        split: if_splits option.splits prod.splits sum.splits)
qed

text \<open>The code generators: a chain of stores.\<close>

lemma keeps_put_word: "keeps w w1 \<Longrightarrow> keeps w (put_word A buf k v w1)"
  unfolding put_word_def by (rule keeps_trans [OF _ keeps_store32])

lemma keeps_emit: "keeps w (snd ow) \<Longrightarrow> keeps w (snd (emit A buf v ow))"
  by (simp add: emit_def keeps_put_word)

lemma keeps_log_chain: "\<not> heap_event e \<Longrightarrow> keeps w w1 \<Longrightarrow> keeps w (log_event e w1)"
  by (rule keeps_trans [OF _ keeps_log_event])

lemma keeps_store_chain: "keeps w w1 \<Longrightarrow> keeps w (store32 A a v w1)"
  by (rule keeps_trans [OF _ keeps_store32])

lemmas keeps_chain = keeps_put_word keeps_emit keeps_log_chain keeps_store_chain

lemma keeps_generateJumpToOriginal:
  "generateJumpToOriginal A d w = Inr w' \<Longrightarrow> keeps w w'"
  by (auto simp: generateJumpToOriginal_def Let_def intro!: keeps_chain split: if_splits)

lemma keeps_emit_process_check: "keeps w (snd ow) \<Longrightarrow> keeps w (snd (emit_process_check A d ow))"
  by (simp add: emit_process_check_def Let_def keeps_emit)

lemma keeps_emit_myfunc: "keeps w (snd ow) \<Longrightarrow> keeps w (snd (emit_myfunc A d ow))"
  by (auto simp: emit_myfunc_def Let_def emit_def intro!: keeps_chain)

lemma generateReplacementJump_frame:
  assumes "generateReplacementJump A h d w = Inr (d', w')"
  shows "keeps w w'" and "\<exists>r. d' = d\<lparr>replaceWithInstruction := r\<rparr>"
proof -
  have m: "emit_myfunc A e (0, w) = (k, w2) \<Longrightarrow> keeps w w2"
    "emit_myfunc A e (emit_process_check A e (0, w)) = (k, w2) \<Longrightarrow> keeps w w2" for e k w2
    using keeps_emit_myfunc [of w "(0, w)" A e] keeps_emit_process_check [of w "(0, w)" A e]
      keeps_emit_myfunc [of w "emit_process_check A e (0, w)" A e]
    by auto
  show "keeps w w'"
    using assms m
    by (auto simp: generateReplacementJump_def Let_def intro!: keeps_log_chain
        split: if_splits prod.splits)
  show "\<exists>r. d' = d\<lparr>replaceWithInstruction := r\<rparr>"
    using assms by (auto simp: generateReplacementJump_def Let_def split: if_splits prod.splits)
qed

section \<open>Reading, writing, threads\<close>

lemma keeps_ReadFromPhysicalAddress:
  "ReadFromPhysicalAddress A p b w = (r, w') \<Longrightarrow> keeps w w'"
  by (auto simp: ReadFromPhysicalAddress_def Let_def intro!: keeps_log_chain keeps_copy_data
      split: if_splits)

lemma keeps_flush_object: "keeps w w1 \<Longrightarrow> keeps w (flush_object d w1)"
  by (auto simp: flush_object_def Let_def intro!: keeps_log_chain)

lemma keeps_writeDataAndFlushIC:
  assumes "writeDataAndFlushIC A h w = Inr w'"
  shows "keeps w w'"
proof -
  have "keeps w (log_event (EvICInvalidateRange e 4) (copy_data A p q 4 (flush_object d
      (log_event (EvDCFlushRange b 4) (log_event (EvDCFlushRange a 4) (store32 A a v w))))))" for e p q d a b v
    by (intro keeps_log_chain keeps_trans [OF _ keeps_copy_data] keeps_flush_object keeps_store32) simp_all
  then show ?thesis
    using assms by (auto simp: writeDataAndFlushIC_def Let_def split: option.splits)
qed

lemma keeps_thread_alloc: "thread_alloc A n a w = (p, w') \<Longrightarrow> keeps w w'"
  by (auto simp: thread_alloc_def Let_def intro!: keeps_log_chain keeps_updates split: prod.splits)

lemma keeps_thread_free: "keeps w w1 \<Longrightarrow> keeps w (thread_free A p n w1)"
  unfolding thread_free_def Let_def
  by (intro keeps_log_chain keeps_trans [OF _ keeps_updates(2)]) simp_all

lemma keeps_CThread_new: "CThread_new A at pr n c w = (t, w') \<Longrightarrow> keeps w w'"
  by (auto simp: CThread_new_def Let_def intro!: keeps_log_chain
      dest!: keeps_thread_alloc intro: keeps_trans split: prod.splits if_splits)

text \<open>A callback that keeps the frame may run on any core.\<close>

definition callback_keeps :: "'s callback \<Rightarrow> bool" where
  "callback_keeps cb \<longleftrightarrow> (\<forall>w w'. cb w = Inr w' \<longrightarrow> keeps w w')"

lemma keeps_join_thread:
  assumes "callback_keeps cb" and "pCallback t = Some cb" and "join_thread t w = Inr w'"
  shows "keeps w w'"
proof -
  from assms(2,3) obtain w1 where cb: "cb (w\<lparr>core := core_of_attributes (iAttributes t)\<rparr>) = Inr w1"
    and w': "w' = log_event (EvOSJoinThread (pThread t)) (w1\<lparr>core := core w\<rparr>)"
    by (auto simp: join_thread_def executeThread_def split: sum.splits)
  from assms(1) cb have "keeps (w\<lparr>core := core_of_attributes (iAttributes t)\<rparr>) w1"
    unfolding callback_keeps_def by blast
  then have "keeps w (w1\<lparr>core := core w\<rparr>)"
    by (simp add: keeps_def keeps_globals_def heap_log_def table_names_def)
  then show ?thesis unfolding w' by (intro keeps_log_chain) simp_all
qed

lemma keeps_shutdownThread:
  assumes "callback_keeps cb" and "pCallback t = Some cb" and "shutdownThread A t w = Inr (t', w')"
  shows "keeps w w'"
proof -
  have "keeps w w1" if "join_thread (t\<lparr>suspend_count := c\<rparr>) w = Inr w1" for c w1
    by (rule keeps_join_thread [OF assms(1) _ that]) (simp add: assms(2))
  then show ?thesis
    using assms(3)
    by (auto simp: shutdownThread_def Let_def intro!: keeps_thread_free
        split: if_splits sum.splits option.splits)
qed

lemma keeps_run_on_core:
  assumes "callback_keeps cb" and "run_on_core A cb a pr n i w = Inr w'"
  shows "keeps w w'"
proof -
  from assms(2) obtain t w1 t1 t2 where t: "CThread_new A (a OR i) pr n (Some cb) w = (t, w1)"
    and r: "resumeThread t = Inr t1" and s: "shutdownThread A t1 w1 = Inr (t2, w')"
    by (auto simp: run_on_core_def split: prod.splits sum.splits)
  have "pCallback t1 = Some cb" using CThread_new_callback [OF t] resumeThread_callback [OF r] by simp
  from keeps_trans [OF keeps_CThread_new [OF t] keeps_shutdownThread [OF assms(1) this s]] show ?thesis .
qed

lemma keeps_run_on_cores:
  assumes "callback_keeps cb"
  shows "run_on_cores A cb a pr n is w = Inr w' \<Longrightarrow> keeps w w'"
proof (induction "is" arbitrary: w)
  case (Cons i "is")
  then show ?case
    by (auto dest!: keeps_run_on_core [OF assms] split: sum.splits) (blast intro: keeps_trans)
qed simp

lemma keeps_runOnAllCores:
  "callback_keeps cb \<Longrightarrow> runOnAllCores A cb w = Inr w' \<Longrightarrow> keeps w w'"
  unfolding runOnAllCores_def by (rule keeps_run_on_cores)

lemma callback_keeps_write: "callback_keeps (writeDataAndFlushIC A h)"
  unfolding callback_keeps_def using keeps_writeDataAndFlushIC by blast

section \<open>Operations on objects\<close>

text \<open>The part of an object that is fixed by its construction.\<close>

definition anchor :: "PatchedFunctionData \<Rightarrow> PatchedFunctionData" where
  "anchor d = d\<lparr>realEffectiveFunctionAddress := 0, realPhysicalFunctionAddress := 0,
                replacedInstruction := 0, replaceWithInstruction := 0, isPatched := False\<rparr>"

definition object_steps :: "u32 set \<Rightarrow> 's world \<Rightarrow> 's world \<Rightarrow> bool" where
  "object_steps H w w' \<longleftrightarrow>
     keeps_globals w w' \<and> (\<forall>x. x \<notin> H \<longrightarrow> objs w' x = objs w x)
     \<and> (\<forall>x. map_option anchor (objs w' x) = map_option anchor (objs w x))"

lemma anchor_updates [simp]:
  "anchor (d\<lparr>realEffectiveFunctionAddress := a\<rparr>) = anchor d"
  "anchor (d\<lparr>realPhysicalFunctionAddress := a\<rparr>) = anchor d"
  "anchor (d\<lparr>replacedInstruction := a\<rparr>) = anchor d"
  "anchor (d\<lparr>replaceWithInstruction := a\<rparr>) = anchor d"
  "anchor (d\<lparr>isPatched := b\<rparr>) = anchor d"
  by (simp_all add: anchor_def)

lemma object_steps_refl [simp]: "object_steps H w w"
  by (simp add: object_steps_def keeps_globals_def)

lemma object_steps_keeps: "keeps w w' \<Longrightarrow> object_steps H w w'"
  by (simp add: object_steps_def keeps_def)

lemma object_steps_trans:
  "object_steps H w w' \<Longrightarrow> object_steps H' w' w'' \<Longrightarrow> object_steps (H \<union> H') w w''"
  by (simp add: object_steps_def keeps_globals_def)

lemma object_steps_mono: "object_steps H w w' \<Longrightarrow> H \<subseteq> H' \<Longrightarrow> object_steps H' w w'"
  unfolding object_steps_def by blast

lemma object_steps_trans_same:
  "object_steps H w w' \<Longrightarrow> object_steps H w' w'' \<Longrightarrow> object_steps H w w''"
  using object_steps_trans [of H w w' H w''] by simp

lemma object_steps_put:
  assumes "objs w h = Some d" and "anchor d' = anchor d"
  shows "object_steps {h} w (put_obj h d' w)"
  using assms by (simp add: object_steps_def put_obj_def keeps_globals_def heap_log_def table_names_def)

lemma object_steps_dom: "object_steps H w w' \<Longrightarrow> dom (objs w') = dom (objs w)"
  unfolding object_steps_def dom_def by (metis map_option_is_None)

lemma object_steps_live: "object_steps H w w' \<Longrightarrow> objs w h \<noteq> None \<Longrightarrow> objs w' h \<noteq> None"
  unfolding object_steps_def by (metis map_option_is_None)

lemma object_steps_anchor:
  "object_steps H w w' \<Longrightarrow> objs w h = Some d \<Longrightarrow> \<exists>d'. objs w' h = Some d' \<and> anchor d' = anchor d"
  unfolding object_steps_def by (metis (no_types, lifting) map_option_eq_Some option.map(2))

section \<open>Loops over the list of patches\<close>

lemma for_each_append:
  "for_each f (xs @ ys) w = (case for_each f xs w of Inl e \<Rightarrow> Inl e | Inr w1 \<Rightarrow> for_each f ys w1)"
  by (induction xs arbitrary: w) (auto split: sum.splits)

text \<open>The undefined behaviour of using an address with no object behind it.\<close>

definition dangling :: "halt + 'a \<Rightarrow> bool" where
  "dangling r \<longleftrightarrow> r = Inl (Undefined ''dangling PatchedFunctionData'')"

lemma dangling_simps [simp]:
  "\<not> dangling (Inr x)" "\<not> dangling (Inl (OSFatal m))" "\<not> dangling (Inl Diverges)"
  by (simp_all add: dangling_def)

text \<open>
  The contract of an operation on one object, as the module's loops rely on it: it changes that
  object only, and of it only what may change after construction.
\<close>

locale object_operation =
  fixes operate :: "u32 \<Rightarrow> 's world \<Rightarrow> halt + (bool \<times> 's world)"
  assumes operate_step: "operate h w = Inr (b, w') \<Longrightarrow> object_steps {h} w w'"
    and operate_live: "operate h w = Inr (b, w') \<Longrightarrow> objs w h \<noteq> None"
    and operate_defined: "objs w h \<noteq> None \<Longrightarrow> \<not> dangling (operate h w)"
begin

lemma loop_defined: "\<forall>h \<in> set hs. objs w h \<noteq> None \<Longrightarrow> \<not> dangling (for_each operate hs w)"
proof (induction hs arbitrary: w)
  case (Cons h hs)
  show ?case
  proof (cases "operate h w")
    case (Inl e)
    then show ?thesis using operate_defined [of w h] Cons.prems by (simp add: dangling_def)
  next
    case (Inr r)
    then obtain b w1 where o: "operate h w = Inr (b, w1)" by (cases r) simp
    have "\<forall>x \<in> set hs. objs w1 x \<noteq> None"
      using object_steps_live [OF operate_step [OF o]] Cons.prems by simp
    then show ?thesis using Cons.IH o by simp
  qed
qed simp

lemma loop_steps: "for_each operate hs w = Inr w' \<Longrightarrow> object_steps (set hs) w w'"
proof (induction hs arbitrary: w)
  case (Cons h hs)
  then obtain b w1 where "operate h w = Inr (b, w1)" and "for_each operate hs w1 = Inr w'"
    by (auto split: sum.splits)
  with Cons.IH operate_step show ?case
    using object_steps_trans [of "{h}" w w1 "set hs" w'] by simp
qed simp

lemma loop_live: "for_each operate hs w = Inr w' \<Longrightarrow> h \<in> set hs \<Longrightarrow> objs w h \<noteq> None"
proof (induction hs arbitrary: w)
  case (Cons x hs)
  then obtain b w1 where o: "operate x w = Inr (b, w1)" and l: "for_each operate hs w1 = Inr w'"
    by (auto split: sum.splits)
  show ?case
  proof (cases "h = x")
    case True
    then show ?thesis using operate_live [OF o] by simp
  next
    case False
    with Cons.prems l have "objs w1 h \<noteq> None" using Cons.IH by simp
    then show ?thesis
      using operate_step [OF o] False by (simp add: object_steps_def)
  qed
qed simp

lemma loop_untouched: "for_each operate hs w = Inr w' \<Longrightarrow> h \<notin> set hs \<Longrightarrow> objs w' h = objs w h"
  using loop_steps unfolding object_steps_def by blast

end

text \<open>Neither function ends with a dangling pointer on a live object.\<close>

lemma getAddressForExecutable_defined: "\<not> dangling (getAddressForExecutable A d b w)"
  by (auto simp: dangling_def getAddressForExecutable_def KernelFindExport_def SC_0x51_def
      FindExportKernel_def Let_def split: if_splits option.splits prod.splits sum.splits)

lemma resolve_defined:
  "\<not> dangling (shouldBePatched A d w)" "\<not> dangling (updateFunctionAddresses A d w)"
  "\<not> dangling (generateJumpToOriginal A d w)" "\<not> dangling (generateReplacementJump A h d w)"
  using getAddressForExecutable_defined [of A d True w]
  by (auto simp: dangling_def shouldBePatched_def updateFunctionAddresses_def set_addresses_def
      generateJumpToOriginal_def generateReplacementJump_def Let_def
      split: if_splits option.splits prod.splits sum.splits)

lemma run_on_core_defined:
  assumes "\<forall>w'. objs w' = objs w \<longrightarrow> \<not> dangling (cb w')"
  shows "\<not> dangling (run_on_core A cb a pr n i w)"
proof -
  obtain t w1 where t: "CThread_new A (a OR i) pr n (Some cb) w = (t, w1)" by fastforce
  have o: "objs w1 = objs w" using keeps_CThread_new [OF t] by (simp add: keeps_def)
  have j: "\<not> dangling (join_thread t' w1)" if "pCallback t' = Some cb" for t'
    using assms [rule_format, of "w1\<lparr>core := core_of_attributes (iAttributes t')\<rparr>"] o that
    by (auto simp: dangling_def join_thread_def executeThread_def split: sum.splits)
  have r: "\<not> dangling (resumeThread t)"
    by (auto simp: dangling_def resumeThread_def isThreadSuspended_def split: option.splits sum.splits if_splits)
  have s: "\<not> dangling (shutdownThread A t' w1)" if "pCallback t' = Some cb" for t'
    using j that by (auto simp: dangling_def shutdownThread_def Let_def split: option.splits sum.splits if_splits)
  have "pCallback t1 = Some cb" if "resumeThread t = Inr t1" for t1
    using resumeThread_callback [OF that] CThread_new_callback [OF t] by simp
  then show ?thesis using r s by (auto simp: dangling_def run_on_core_def t split: sum.splits)
qed

lemma run_on_cores_defined:
  assumes "callback_keeps cb"
  shows "\<forall>w'. objs w' = objs w \<longrightarrow> \<not> dangling (cb w') \<Longrightarrow> \<not> dangling (run_on_cores A cb a pr n is w)"
proof (induction "is" arbitrary: w)
  case (Cons i "is")
  show ?case
  proof (cases "run_on_core A cb a pr n i w")
    case (Inl e)
    then show ?thesis using run_on_core_defined [OF Cons.prems, where A = A and a = a and pr = pr and n = n and i = i] by (simp add: dangling_def)
  next
    case (Inr w1)
    then have "objs w1 = objs w" using keeps_run_on_core [OF assms Inr] by (simp add: keeps_def)
    then show ?thesis using Cons Inr by simp
  qed
qed simp

lemma runOnAllCores_defined:
  assumes "objs w h \<noteq> None"
  shows "\<not> dangling (runOnAllCores A (writeDataAndFlushIC A h) w)"
  unfolding runOnAllCores_def
proof (rule run_on_cores_defined [OF callback_keeps_write], intro allI impI)
  fix w' :: "'a world"
  assume "objs w' = objs w"
  then show "\<not> dangling (writeDataAndFlushIC A h w')"
    using assms by (auto simp: writeDataAndFlushIC_def Let_def)
qed

lemma PatchFunction_defined:
  assumes "objs w h \<noteq> None"
  shows "\<not> dangling (PatchFunction A h w)"
proof -
  have r: "\<not> dangling (runOnAllCores A (writeDataAndFlushIC A h) (put_obj h d v))" for d and v :: "'a world"
    by (rule runOnAllCores_defined) (simp add: put_obj_def)
  have "shouldBePatched A d v \<noteq> Inl (Undefined ''dangling PatchedFunctionData'')"
    "updateFunctionAddresses A d v \<noteq> Inl (Undefined ''dangling PatchedFunctionData'')"
    "generateJumpToOriginal A d v \<noteq> Inl (Undefined ''dangling PatchedFunctionData'')"
    "generateReplacementJump A h d v \<noteq> Inl (Undefined ''dangling PatchedFunctionData'')"
    "runOnAllCores A (writeDataAndFlushIC A h) (put_obj h d v) \<noteq> Inl (Undefined ''dangling PatchedFunctionData'')"
    for d and v :: "'a world"
    using resolve_defined [where A = A] r unfolding dangling_def by blast+
  then show ?thesis
    using assms
    by (auto simp: dangling_def PatchFunction_def Let_def split: if_splits option.splits prod.splits sum.splits)
qed

lemma RestoreFunction_defined: "objs w h \<noteq> None \<Longrightarrow> \<not> dangling (RestoreFunction A h w)"
  by (auto simp: RestoreFunction_def Let_def split: if_splits option.splits prod.splits)

text \<open>\<open>PatchFunction\<close> and \<open>RestoreFunction\<close> meet the contract, whatever the platform does.\<close>

lemma PatchFunction_steps:
  assumes "PatchFunction A h w = Inr (b, w')"
  shows "object_steps {h} w w'"
proof -
  from assms obtain d where d: "objs w h = Some d"
    by (auto simp: PatchFunction_def split: option.splits)
  show ?thesis
  proof (cases "isPatched d")
    case True
    then show ?thesis using assms d by (simp add: PatchFunction_def)
  next
    case False
    with assms d obtain s w1 where s: "shouldBePatched A d w = Inr (s, w1)"
      by (auto simp: PatchFunction_def split: sum.splits)
    have k1: "keeps w w1" by (rule keeps_shouldBePatched [OF s])
    show ?thesis
    proof (cases s)
      case False
      then show ?thesis using assms d s k1 \<open>\<not> isPatched d\<close>
        by (simp add: PatchFunction_def object_steps_keeps)
    next
      case True
      with assms d s False obtain u d1 w2 where u: "updateFunctionAddresses A d w1 = Inr ((u, d1), w2)"
        by (auto simp: PatchFunction_def split: sum.splits)
      have k2: "keeps w w2" using keeps_trans [OF k1 updateFunctionAddresses_frame(1) [OF u]] .
      have a1: "anchor d1 = anchor d" using updateFunctionAddresses_frame(2) [OF u] by auto
      have o2: "objs w2 h = Some d" using k2 d by (simp add: keeps_def)
      have fin: "object_steps {h} w (put_obj h e w3)" if "keeps w w3" "anchor e = anchor d" for e w3
        using object_steps_trans [OF object_steps_keeps [OF that(1), of "{h}"] object_steps_put [OF _ that(2), of w3 h]]
          that(1) d by (simp add: keeps_def)
      show ?thesis
      proof (cases u)
        case False
        then show ?thesis using assms d s u \<open>s\<close> \<open>\<not> isPatched d\<close> fin [OF k2 a1]
          by (simp add: PatchFunction_def)
      next
        case True
        with assms d s u \<open>s\<close> \<open>\<not> isPatched d\<close> obtain i w3 w4 d3 w5 w6 where
          r: "ReadFromPhysicalAddress A (realPhysicalFunctionAddress d1) True w2 = (Some i, w3)"
          and g: "generateJumpToOriginal A (d1\<lparr>replacedInstruction := i\<rparr>) w3 = Inr w4"
          and j: "generateReplacementJump A h (d1\<lparr>replacedInstruction := i\<rparr>) w4 = Inr (d3, w5)"
          and a: "runOnAllCores A (writeDataAndFlushIC A h) (put_obj h d3 w5) = Inr w6"
          and w': "w' = put_obj h (d3\<lparr>isPatched := True\<rparr>) w6"
          by (auto simp: PatchFunction_def Let_def split: sum.splits option.splits prod.splits)
        have k5: "keeps w w5"
          using keeps_trans [OF keeps_trans [OF keeps_trans [OF k2 keeps_ReadFromPhysicalAddress [OF r]]
                keeps_generateJumpToOriginal [OF g]] generateReplacementJump_frame(1) [OF j]] .
        have a3: "anchor d3 = anchor d" using generateReplacementJump_frame(2) [OF j] a1 by auto
        have k6: "keeps (put_obj h d3 w5) w6"
          by (rule keeps_runOnAllCores [OF callback_keeps_write a])
        have "object_steps {h} w w6"
          using object_steps_trans_same [OF fin [OF k5 a3] object_steps_keeps [OF k6]] .
        moreover have "objs w6 h = Some d3" using k6 by (simp add: keeps_def put_obj_def)
        ultimately show ?thesis
          using object_steps_trans_same [OF _ object_steps_put] unfolding w' by fastforce
      qed
    qed
  qed
qed

lemma RestoreFunction_steps:
  assumes "RestoreFunction A h w = Inr (b, w')"
  shows "object_steps {h} w w'"
proof -
  from assms obtain d where d: "objs w h = Some d"
    by (auto simp: RestoreFunction_def split: option.splits)
  have "w' = w \<or> (\<exists>r w1. ReadFromPhysicalAddress A (realPhysicalFunctionAddress d) True w = (r, w1) \<and>
      (w' = w1 \<or> (\<exists>p q a v e. w' = put_obj h (d\<lparr>isPatched := False\<rparr>)
         (log_event (EvDCFlushRange e 4) (log_event (EvICInvalidateRange e 4)
           (copy_data A p q 4 (store32 A a v w1)))))))"
    using assms d
    by (simp add: RestoreFunction_def Let_def split: if_splits prod.splits option.splits) blast+
  moreover have "keeps w (log_event (EvDCFlushRange e 4) (log_event (EvICInvalidateRange e 4)
           (copy_data A p q 4 (store32 A a v w1))))" if "keeps w w1" for p q a v e w1
    using that by (intro keeps_log_chain keeps_trans [OF _ keeps_copy_data] keeps_store_chain) simp_all
  ultimately have "keeps w w' \<or> (\<exists>w3. keeps w w3 \<and> w' = put_obj h (d\<lparr>isPatched := False\<rparr>) w3)"
    using keeps_ReadFromPhysicalAddress keeps_refl by metis
  then show ?thesis
  proof
    assume "\<exists>w3. keeps w w3 \<and> w' = put_obj h (d\<lparr>isPatched := False\<rparr>) w3"
    then obtain w3 where "keeps w w3" and "w' = put_obj h (d\<lparr>isPatched := False\<rparr>) w3" by blast
    moreover from this d have "objs w3 h = Some d" by (simp add: keeps_def)
    ultimately show ?thesis
      using object_steps_trans_same [OF object_steps_keeps object_steps_put] by fastforce
  qed (rule object_steps_keeps)
qed

interpretation patching: object_operation "PatchFunction A" for A
proof unfold_locales
  show "PatchFunction A h w = Inr (b, w') \<Longrightarrow> object_steps {h} w w'" for h b and w w' :: "'a world"
    by (rule PatchFunction_steps)
  show "PatchFunction A h w = Inr (b, w') \<Longrightarrow> objs w h \<noteq> None" for h b and w w' :: "'a world"
    by (cases "objs w h") (simp_all add: PatchFunction_def)
  show "objs w h \<noteq> None \<Longrightarrow> \<not> dangling (PatchFunction A h w)" for h and w :: "'a world"
    by (rule PatchFunction_defined)
qed

interpretation restoring: object_operation "RestoreFunction A" for A
proof unfold_locales
  show "RestoreFunction A h w = Inr (b, w') \<Longrightarrow> object_steps {h} w w'" for h b and w w' :: "'a world"
    by (rule RestoreFunction_steps)
  show "RestoreFunction A h w = Inr (b, w') \<Longrightarrow> objs w h \<noteq> None" for h b and w w' :: "'a world"
    by (cases "objs w h") (simp_all add: RestoreFunction_def)
  show "objs w h \<noteq> None \<Longrightarrow> \<not> dangling (RestoreFunction A h w)" for h and w :: "'a world"
    by (rule RestoreFunction_defined)
qed

end
