(* ===== verification/Object_Correct.thy ===== *)
theory Object_Correct
  imports Frames
begin

text \<open>
  Construction and destruction of patch objects: what a constructed object is known to satisfy
  (\<open>wf_object\<close>), which blocks of the heaps it owns, that a failed construction gives everything
  back, and that destruction frees exactly what the object owns. Below that, the decision whether
  the running title is a target and the resolution of addresses.
\<close>

section \<open>Blocks of the heaps\<close>

datatype (plugins only: size) block = HeapBlock u32 u32 | ObjectBlock u32

instantiation block :: equal
begin

definition equal_block :: "block \<Rightarrow> block \<Rightarrow> bool" where
  "equal_block a b \<longleftrightarrow>
     (case (a, b) of
        (HeapBlock h p, HeapBlock k q) \<Rightarrow> h = k \<and> p = q
      | (ObjectBlock p, ObjectBlock q) \<Rightarrow> p = q
      | _ \<Rightarrow> False)"

instance
  by standard (auto simp: equal_block_def split: block.splits)

end

text \<open>What one event of the history adds to the number of times a block is held.\<close>

fun block_delta :: "block \<Rightarrow> event \<Rightarrow> int" where
  "block_delta b (EvHeapAlloc h p) = (if b = HeapBlock h p then 1 else 0)"
| "block_delta b (EvHeapFree h p) = (if b = HeapBlock h p then -1 else 0)"
| "block_delta b (EvNew p) = (if b = ObjectBlock p then 1 else 0)"
| "block_delta b (EvDelete p) = (if b = ObjectBlock p then -1 else 0)"
| "block_delta b _ = 0"

definition balance :: "'s world \<Rightarrow> block \<Rightarrow> int" where
  "balance w b = sum_list (map (block_delta b) (heap_log w))"

definition owned :: "u32 \<Rightarrow> PatchedFunctionData \<Rightarrow> block \<Rightarrow> int" where
  "owned h d b =
     (if b = ObjectBlock h then 1 else 0)
     + (if jumpToOriginal d \<noteq> 0 \<and> b = HeapBlock (heapHandle d) (jumpToOriginal d) then 1 else 0)
     + (if jumpData d \<noteq> 0 \<and> b = HeapBlock (heapHandle d) (jumpData d) then 1 else 0)"

lemma balance_log_event: "balance (log_event e w) b = balance w b + block_delta b e"
  by (cases e) (simp_all add: balance_def heap_log_log_event)

lemma balance_keeps: "keeps_globals w w' \<Longrightarrow> balance w' = balance w"
  by (simp add: balance_def keeps_globals_def fun_eq_iff)

lemma balance_updates [simp]:
  "balance (w\<lparr>mem := m\<rparr>) = balance w" "balance (w\<lparr>os := s\<rparr>) = balance w"
  "balance (w\<lparr>objs := ob\<rparr>) = balance w" "balance (w\<lparr>gPatchedFunctions := l\<rparr>) = balance w"
  "balance (w\<lparr>gPatchedFunctionsMutex := n\<rparr>) = balance w"
  by (simp_all add: balance_def heap_log_def fun_eq_iff)

lemma owned_anchor: "anchor d' = anchor d \<Longrightarrow> owned h d' = owned h d"
proof -
  assume "anchor d' = anchor d"
  then have "jumpToOriginal (anchor d') = jumpToOriginal (anchor d)"
    "jumpData (anchor d') = jumpData (anchor d)" "heapHandle (anchor d') = heapHandle (anchor d)"
    by simp_all
  then show ?thesis by (simp add: anchor_def owned_def fun_eq_iff)
qed

section \<open>Well-formed objects\<close>

text \<open>The target of a patch is given completely: no field the resolution asks for is missing.\<close>

definition target_known :: "PatchedFunctionData \<Rightarrow> bool" where
  "target_known d \<longleftrightarrow>
     (case fp_type d of
        FUNCTION_PATCHER_REPLACE_FOR_EXECUTABLE_BY_ADDRESS \<Rightarrow> executableName d \<noteq> None
      | FUNCTION_PATCHER_REPLACE_FOR_EXECUTABLE_BY_NAME \<Rightarrow> executableName d \<noteq> None \<and> functionName d \<noteq> None
      | FUNCTION_PATCHER_REPLACE_BY_LIB_OR_ADDRESS \<Rightarrow>
          (case fp_library d of None \<Rightarrow> False | Some l \<Rightarrow> l = LIBRARY_OTHER \<or> functionName d \<noteq> None)
      | FUNCTION_PATCHER_TYPE_VALUE _ \<Rightarrow> False)"

text \<open>The addresses the expanded heaps of the system can hand out.\<close>

definition heap_block :: "'s os_api \<Rightarrow> u32 \<Rightarrow> bool" where
  "heap_block A p \<longleftrightarrow> p \<noteq> 0 \<and> (\<exists>s heap n al. fst (MEMAllocFromExpHeapEx A s heap n al) = p)"

definition wf_object :: "'s os_api \<Rightarrow> PatchedFunctionData \<Rightarrow> bool" where
  "wf_object A d \<longleftrightarrow>
     target_known d \<and> jumpToOriginal d \<noteq> 0 \<and> jumpDataSize d = 15
     \<and> needs_trampoline A d = (jumpData d \<noteq> 0)
     \<and> (jumpData d \<noteq> 0 \<longrightarrow> heap_block A (jumpData d))"

lemma wf_object_anchor: "anchor d' = anchor d \<Longrightarrow> wf_object A d' = wf_object A d"
proof -
  assume a: "anchor d' = anchor d"
  have "f (anchor d') = f (anchor d)" for f :: "PatchedFunctionData \<Rightarrow> 'b" using a by simp
  then have "fp_type (anchor d') = fp_type (anchor d)" "executableName (anchor d') = executableName (anchor d)"
    "functionName (anchor d') = functionName (anchor d)" "fp_library (anchor d') = fp_library (anchor d)"
    "jumpToOriginal (anchor d') = jumpToOriginal (anchor d)" "jumpData (anchor d') = jumpData (anchor d)"
    "jumpDataSize (anchor d') = jumpDataSize (anchor d)" "targetProcess (anchor d') = targetProcess (anchor d)"
    "replacementFunctionAddress (anchor d') = replacementFunctionAddress (anchor d)"
    using a by simp_all
  then show ?thesis
    by (cases "fp_type d"; cases "fp_library d")
      (simp_all add: anchor_def wf_object_def target_known_def needs_trampoline_def)
qed

lemma target_known_updates [simp]:
  "target_known (d\<lparr>jumpData := p\<rparr>) = target_known d"
  "target_known (d\<lparr>jumpToOriginal := p\<rparr>) = target_known d"
  by (cases "fp_type d"; cases "fp_library d"; simp add: target_known_def)+

text \<open>The constructors of the two struct versions fill in everything the type asks for.\<close>

definition known_type :: "FunctionPatcherFunctionType \<Rightarrow> bool" where
  "known_type t \<longleftrightarrow> (case t of FUNCTION_PATCHER_TYPE_VALUE _ \<Rightarrow> False | _ \<Rightarrow> True)"

lemma init_from_v3_known: "known_type (v3_type r) \<longleftrightarrow> target_known (init_from_v3 r heap)"
  by (cases "v3_type r")
    (simp_all add: init_from_v3_def target_known_def known_type_def fresh_pfd_def Let_def)

lemma init_from_v2_known: "target_known (init_from_v2 r heap)"
  by (simp add: init_from_v2_def target_known_def fresh_pfd_def Let_def)

definition unallocated :: "PatchedFunctionData \<Rightarrow> bool" where
  "unallocated d \<longleftrightarrow> jumpData d = 0 \<and> jumpToOriginal d = 0 \<and> jumpDataSize d = 15 \<and> \<not> isPatched d"

lemma init_unallocated: "unallocated (init_from_v3 r heap)" "unallocated (init_from_v2 r' heap)"
  by (auto simp: unallocated_def init_from_v3_def init_from_v2_def fresh_pfd_def Let_def
      split: FunctionPatcherFunctionType.splits)

section \<open>Construction\<close>

text \<open>The heap calls change the state of the platform and the history only.\<close>

definition heap_only :: "'s world \<Rightarrow> 's world \<Rightarrow> bool" where
  "heap_only w w' \<longleftrightarrow> w' = w\<lparr>os := os w', trace := trace w'\<rparr>"

lemma heap_only_refl [simp]: "heap_only w w"
  by (simp add: heap_only_def)

lemma heap_only_trans: "heap_only w w' \<Longrightarrow> heap_only w' w'' \<Longrightarrow> heap_only w w''"
  by (cases w; cases w'; cases w'') (simp add: heap_only_def)

lemma heap_only_simps [simp]:
  "heap_only w (w\<lparr>os := s\<rparr>)" "heap_only w (log_event e w)"
  "heap_only w (log_event e (w\<lparr>os := s\<rparr>))"
  by (simp_all add: heap_only_def log_event_def)

lemma heap_only_fields:
  assumes "heap_only w w'"
  shows "mem w' = mem w" "objs w' = objs w" "gPatchedFunctions w' = gPatchedFunctions w"
    "rpl_handles w' = rpl_handles w" "gJumpHeapHandle w' = gJumpHeapHandle w"
    "gPatchedFunctionsMutex w' = gPatchedFunctionsMutex w" "core w' = core w"
    "gMEMAllocFromDefaultHeapExForThreads w' = gMEMAllocFromDefaultHeapExForThreads w"
    "gMEMFreeToDefaultHeapForThreads w' = gMEMFreeToDefaultHeapForThreads w"
proof -
  from assms have e: "w' = w\<lparr>os := os w', trace := trace w'\<rparr>" by (simp add: heap_only_def)
  show "mem w' = mem w" "objs w' = objs w" "gPatchedFunctions w' = gPatchedFunctions w"
    "rpl_handles w' = rpl_handles w" "gJumpHeapHandle w' = gJumpHeapHandle w"
    "gPatchedFunctionsMutex w' = gPatchedFunctionsMutex w" "core w' = core w"
    "gMEMAllocFromDefaultHeapExForThreads w' = gMEMAllocFromDefaultHeapExForThreads w"
    "gMEMFreeToDefaultHeapForThreads w' = gMEMFreeToDefaultHeapForThreads w"
    by (subst e, simp)+
qed

lemma heap_alloc_effect:
  assumes "heap_alloc A heap n al w = (p, w')"
  shows "balance w' b = balance w b + (if p \<noteq> 0 \<and> b = HeapBlock heap p then 1 else 0)"
    and "heap_only w w'" and "p \<noteq> 0 \<Longrightarrow> heap_block A p"
proof -
  obtain p' s where s: "MEMAllocFromExpHeapEx A (os w) heap n al = (p', s)" by fastforce
  with assms have w': "w' = (if p = 0 then w\<lparr>os := s\<rparr> else log_event (EvHeapAlloc heap p) (w\<lparr>os := s\<rparr>))"
    by (auto simp: heap_alloc_def Let_def)
  show "balance w' b = balance w b + (if p \<noteq> 0 \<and> b = HeapBlock heap p then 1 else 0)"
    unfolding w' by (simp add: balance_log_event)
  show "heap_only w w'"
    unfolding w' by simp
  have "fst (MEMAllocFromExpHeapEx A (os w) heap n al) = p"
    using assms s by (auto simp: heap_alloc_def Let_def)
  then show "p \<noteq> 0 \<Longrightarrow> heap_block A p" unfolding heap_block_def by blast
qed

lemma heap_free_effect:
  "balance (heap_free A heap p w) b = balance w b - (if b = HeapBlock heap p then 1 else 0)"
  "heap_only w (heap_free A heap p w)"
  by (simp_all add: heap_free_def balance_log_event)

text \<open>Allocation either gives the object everything it needs, or leaves what it got to the destructor.\<close>

lemma allocateDataForJumps_effect:
  assumes "unallocated d" and "allocateDataForJumps A d w = ((ok, d1), w1)"
  shows "heap_only w w1"
    and "balance w1 b - balance w b = owned h d1 b - (if b = ObjectBlock h then 1 else 0)"
    and "\<exists>p q. d1 = d\<lparr>jumpData := p, jumpToOriginal := q\<rparr>"
    and "ok \<longleftrightarrow> jumpToOriginal d1 \<noteq> 0 \<and> needs_trampoline A d1 = (jumpData d1 \<noteq> 0)"
    and "jumpData d1 \<noteq> 0 \<Longrightarrow> heap_block A (jumpData d1)"
proof -
  from assms(1) have u: "jumpData d = 0" "jumpToOriginal d = 0" "jumpDataSize d = 15"
    by (simp_all add: unallocated_def)
  obtain p wp where p: "heap_alloc A (heapHandle d) 60 4 w = (p, wp)" by fastforce
  obtain q wq where q: "heap_alloc A (heapHandle d) 20 4 w = (q, wq)" by fastforce
  obtain r wr where r: "heap_alloc A (heapHandle d) 20 4 wp = (r, wr)" by fastforce
  note bal = heap_alloc_effect(1) [OF p, of b] heap_alloc_effect(1) [OF q, of b] heap_alloc_effect(1) [OF r, of b]
  have fr: "heap_only w wr" using heap_only_trans [OF heap_alloc_effect(2) [OF p] heap_alloc_effect(2) [OF r]] .
  have d15: "d\<lparr>jumpDataSize := 15\<rparr> = d" using u(3) by simp
  have c: "(needs_trampoline A d \<and> p = 0 \<and> \<not> ok \<and> d1 = d\<lparr>jumpData := 0\<rparr> \<and> w1 = wp)
      \<or> (needs_trampoline A d \<and> p \<noteq> 0 \<and> ok = (r \<noteq> 0) \<and> d1 = d\<lparr>jumpData := p, jumpToOriginal := r\<rparr> \<and> w1 = wr)
      \<or> (\<not> needs_trampoline A d \<and> ok = (q \<noteq> 0) \<and> d1 = d\<lparr>jumpToOriginal := q\<rparr> \<and> w1 = wq)"
    using assms(2) p q r unfolding allocateDataForJumps_def d15
    by (simp add: u Let_def split: if_splits)
  show "heap_only w w1"
    using c heap_alloc_effect(2) [OF p] heap_alloc_effect(2) [OF q] fr by blast
  show "balance w1 b - balance w b = owned h d1 b - (if b = ObjectBlock h then 1 else 0)"
    using c bal u by (auto simp: owned_def)
  have e: "d\<lparr>jumpData := 0\<rparr> = d\<lparr>jumpData := 0, jumpToOriginal := 0\<rparr>"
    "d\<lparr>jumpToOriginal := q\<rparr> = d\<lparr>jumpData := 0, jumpToOriginal := q\<rparr>" using u by simp_all
  show "\<exists>p q. d1 = d\<lparr>jumpData := p, jumpToOriginal := q\<rparr>"
    using c e by blast
  show "ok \<longleftrightarrow> jumpToOriginal d1 \<noteq> 0 \<and> needs_trampoline A d1 = (jumpData d1 \<noteq> 0)"
    using c u by (auto simp: needs_trampoline_def)
  show "jumpData d1 \<noteq> 0 \<Longrightarrow> heap_block A (jumpData d1)"
    using c u heap_alloc_effect(3) [OF p] by auto
qed

text \<open>The destructor frees exactly the buffers.\<close>

lemma delete_pfd_effect:
  shows "balance (delete_pfd A h d w) b = balance w b - owned h d b"
    and "objs (delete_pfd A h d w) = (objs w)(h := None)"
    and "mem (delete_pfd A h d w) = mem w"
    and "gPatchedFunctions (delete_pfd A h d w) = gPatchedFunctions w"
    and "gPatchedFunctionsMutex (delete_pfd A h d w) = gPatchedFunctionsMutex w"
    and "rpl_handles (delete_pfd A h d w) = rpl_handles w"
    and "gJumpHeapHandle (delete_pfd A h d w) = gJumpHeapHandle w"
    and "core (delete_pfd A h d w) = core w"
proof -
  obtain d1 w1 where d: "destruct_pfd A d w = (d1, w1)" by fastforce
  then have ho: "heap_only w w1"
    using heap_only_trans [OF heap_free_effect(2) heap_free_effect(2)] heap_free_effect(2)
    by (auto simp: destruct_pfd_def Let_def split: if_splits)
  have bal: "balance w1 b = balance w b - owned h d b + (if b = ObjectBlock h then 1 else 0)"
    using d by (auto simp: destruct_pfd_def Let_def heap_free_effect(1) owned_def split: if_splits)
  show "balance (delete_pfd A h d w) b = balance w b - owned h d b"
    by (simp add: delete_pfd_def d bal balance_log_event)
  show "objs (delete_pfd A h d w) = (objs w)(h := None)"
    "mem (delete_pfd A h d w) = mem w"
    "gPatchedFunctions (delete_pfd A h d w) = gPatchedFunctions w"
    "gPatchedFunctionsMutex (delete_pfd A h d w) = gPatchedFunctionsMutex w"
    "rpl_handles (delete_pfd A h d w) = rpl_handles w"
    "gJumpHeapHandle (delete_pfd A h d w) = gJumpHeapHandle w"
    "core (delete_pfd A h d w) = core w"
    using heap_only_fields [OF ho] by (simp_all add: delete_pfd_def d log_event_def)
qed

lemma new_pfd_effect:
  assumes "new_pfd A w = (h, w1)"
  shows "heap_only w w1" and "h = fst (operator_new A (os w))"
    and "balance w1 b = balance w b + (if h \<noteq> 0 \<and> b = ObjectBlock h then 1 else 0)"
proof -
  obtain h' s where s: "operator_new A (os w) = (h', s)" by fastforce
  with assms have h: "h = h'" "w1 = (if h = 0 then w\<lparr>os := s\<rparr> else log_event (EvNew h) (w\<lparr>os := s\<rparr>))"
    by (auto simp: new_pfd_def Let_def)
  show "heap_only w w1" "h = fst (operator_new A (os w))" using s h by simp_all
  show "balance w1 b = balance w b + (if h \<noteq> 0 \<and> b = ObjectBlock h then 1 else 0)"
    by (simp add: h(2) balance_log_event)
qed

text \<open>What both constructors do with the object they have filled in.\<close>

definition construct :: "'s os_api \<Rightarrow> PatchedFunctionData \<Rightarrow> 's world \<Rightarrow> u32 option \<times> 's world" where
  "construct A d w =
     (let (h, w1) = new_pfd A w in if h = 0 then (None, w1) else finish_make_shared A h d w1)"

lemma make_shared_construct:
  "make_shared_v3 A (Some r) heap w = construct A (init_from_v3 r heap) w"
  "make_shared_v2 A (Some r') heap w = construct A (init_from_v2 r' heap) w"
  by (simp_all add: make_shared_v3_def make_shared_v2_def construct_def)

definition globals_same :: "'s world \<Rightarrow> 's world \<Rightarrow> bool" where
  "globals_same w w' \<longleftrightarrow>
     gPatchedFunctions w' = gPatchedFunctions w \<and> gPatchedFunctionsMutex w' = gPatchedFunctionsMutex w
     \<and> gJumpHeapHandle w' = gJumpHeapHandle w \<and> core w' = core w \<and> table_names w' = table_names w"

lemma construct_effect:
  assumes d0: "unallocated d0" and c: "construct A d0 w = (res, w')"
    and fresh: "objs w (fst (operator_new A (os w))) = None"
  shows "mem w' = mem w \<and> rpl_handles w' = rpl_handles w \<and> globals_same w w' \<and>
     (case res of
        None \<Rightarrow> objs w' = objs w \<and> balance w' = balance w
      | Some h \<Rightarrow> h = fst (operator_new A (os w)) \<and> h \<noteq> 0 \<and>
          (\<exists>d. objs w' = (objs w)(h \<mapsto> d) \<and> (\<exists>p q. d = d0\<lparr>jumpData := p, jumpToOriginal := q\<rparr>)
             \<and> (target_known d0 \<longrightarrow> wf_object A d)
             \<and> (\<forall>b. balance w' b = balance w b + owned h d b)))"
proof -
  obtain h w1 where n: "new_pfd A w = (h, w1)" by fastforce
  note n1 = new_pfd_effect [OF n]
  show ?thesis
  proof (cases "h = 0")
    case True
    then show ?thesis using c n n1(3) heap_only_fields [OF n1(1)]
      by (simp add: construct_def globals_same_def table_names_def fun_eq_iff split: option.splits)
  next
    case False
    obtain ok d w2 where a: "allocateDataForJumps A d0 w1 = ((ok, d), w2)" by (metis prod.exhaust)
    note al = allocateDataForJumps_effect [OF d0 a]
    have ho: "heap_only w w2" using heap_only_trans [OF n1(1) al(1)] .
    have bal: "balance w2 b = balance w b + owned h d b" for b
      using al(2) [of b h] n1(3) [of b] False by simp
    from c n a False have r: "(res, w') = (if ok then (Some h, put_obj h d w2) else (None, delete_pfd A h d w2))"
      by (simp add: construct_def finish_make_shared_def)
    show ?thesis
    proof (cases ok)
      case True
      have "wf_object A d" if "target_known d0"
        using al(3,4,5) True that d0 by (auto simp: wf_object_def unallocated_def needs_trampoline_def)
      moreover have "balance (put_obj h d w2) = balance w2" by (simp add: put_obj_def)
      ultimately show ?thesis using r True False n1(2) al(3) bal heap_only_fields [OF ho]
        by (auto simp: put_obj_def globals_same_def table_names_def)
    next
      case no: False
      have "objs w h = None" using fresh n1(2) by simp
      then show ?thesis using r no bal heap_only_fields [OF ho] delete_pfd_effect [of A h d w2]
        by (simp add: globals_same_def table_names_def fun_eq_iff)
    qed
  qed
qed

text \<open>
  C21. Constructing a patch from a version 3 struct is all or nothing. When the object or one of its
  code buffers cannot be allocated, everything that was allocated for it has been freed again and
  no object is left; otherwise there is one new object, owning exactly the blocks it was given,
  with a buffer for the call to the original and a trampoline buffer exactly when the replacement
  is out of reach of a branch or the patch has a target process; and if the type is one of the
  three known ones, no field that resolving the target needs is missing.
\<close>

theorem make_shared_v3_all_or_nothing:
  assumes "make_shared_v3 A (Some r) heap w = (res, w')"
    and "objs w (fst (operator_new A (os w))) = None"
  shows "case res of
      None \<Rightarrow> objs w' = objs w \<and> balance w' = balance w
    | Some h \<Rightarrow> \<exists>d. objs w' = (objs w)(h \<mapsto> d) \<and> heapHandle d = heap \<and> \<not> isPatched d
         \<and> (known_type (v3_type r) \<longrightarrow> wf_object A d)
         \<and> (\<forall>b. balance w' b = balance w b + owned h d b)"
proof -
  have "heapHandle (init_from_v3 r heap) = heap" "\<not> isPatched (init_from_v3 r heap)"
    by (simp_all add: init_from_v3_def fresh_pfd_def Let_def split: FunctionPatcherFunctionType.splits)
  then show ?thesis
    using construct_effect [OF init_unallocated(1), of A r heap w res w'] assms init_from_v3_known [of r heap]
    by (auto simp: make_shared_construct split: option.splits)
qed

section \<open>The title decision\<close>

text \<open>
  The version of the running title as the code determines it: of the update when the title is a
  base title and an update is installed, else of the title itself.
\<close>

definition title_version :: "'s os_api \<Rightarrow> 's \<Rightarrow> u64 \<Rightarrow> u16 option" where
  "title_version A s t =
     (let mcp = MCP_Open A s;
          upd = MCP_GetTitleInfo A s mcp (t OR 0x0000000E00000000);
          base = MCP_GetTitleInfo A s mcp t
      in if t AND 0x0000000F00000000 = 0 \<and> fst upd = 0 then Some (snd upd)
         else if fst base = 0 then Some (snd base) else None)"

lemma insert_title_ids_eq: "insert_title_ids ids n S = ids ` {..<n} \<union> S"
  by (induction n arbitrary: S) (auto simp: lessThan_Suc)

definition executable_type :: "FunctionPatcherFunctionType \<Rightarrow> bool" where
  "executable_type t \<longleftrightarrow> t = FUNCTION_PATCHER_REPLACE_FOR_EXECUTABLE_BY_NAME
     \<or> t = FUNCTION_PATCHER_REPLACE_FOR_EXECUTABLE_BY_ADDRESS"

lemma shouldBePatched_eq:
  "shouldBePatched A d w =
     (let t = OSGetTitleID A (os w);
          closes = trace w @ [(core w, EvMCP_Open (MCP_Open A (os w))),
             (core w, EvMCP_Close (MCP_Open A (os w))), (core w, EvMCP_Close (MCP_Open A (os w)))]
      in if \<not> executable_type (fp_type d) then Inr (True, w)
         else if t \<notin> titleIds d then Inr (False, w)
         else case title_version A (os w) t of
           None \<Rightarrow> Inl (OSFatal (''Failed to get title version. This should not happen.'' @ [CHR 0x0A]
                            @ ''Please report this with a crash log.''))
         | Some v \<Rightarrow> Inr (titleVersionMin d \<le> v \<and> v \<le> titleVersionMax d, w\<lparr>trace := closes\<rparr>))"
  by (auto simp: shouldBePatched_def executable_type_def title_version_def Let_def log_event_def
      split: prod.splits)

text \<open>
  C22. A patch for an executable, as constructed from a version 3 struct, is due exactly when the
  running title is one of the listed ones and its version (of the installed update, if there is
  one) is within the bounds, both inclusive. If no version can be determined the console stops. On
  the way to either answer for a listed title, the handle to the title service is opened once and
  closed twice.
\<close>

theorem executable_patch_due:
  assumes "executable_type (v3_type r)"
  defines "rpx \<equiv> ReplaceInRPX r"
  shows "shouldBePatched A (init_from_v3 r heap) w =
     (let t = OSGetTitleID A (os w); mcp = MCP_Open A (os w)
      in if \<not> (\<exists>i < unat (targetTitleIdsCount rpx). targetTitleIds rpx i = t) then Inr (False, w)
         else case title_version A (os w) t of
           None \<Rightarrow> Inl (OSFatal (''Failed to get title version. This should not happen.'' @ [CHR 0x0A]
                            @ ''Please report this with a crash log.''))
         | Some v \<Rightarrow> Inr (versionMin rpx \<le> v \<and> v \<le> versionMax rpx,
             w\<lparr>trace := trace w @ [(core w, EvMCP_Open mcp), (core w, EvMCP_Close mcp), (core w, EvMCP_Close mcp)]\<rparr>))"
proof -
  have t: "titleIds (init_from_v3 r heap) = targetTitleIds rpx ` {..<unat (targetTitleIdsCount rpx)}"
    "titleVersionMin (init_from_v3 r heap) = versionMin rpx"
    "titleVersionMax (init_from_v3 r heap) = versionMax rpx"
    "fp_type (init_from_v3 r heap) = v3_type r"
    using assms(1) by (auto simp: executable_type_def init_from_v3_def fresh_pfd_def Let_def
        insert_title_ids_eq rpx_def)
  have mem: "OSGetTitleID A (os w) \<notin> targetTitleIds rpx ` {..<unat (targetTitleIdsCount rpx)} \<longleftrightarrow>
      \<not> (\<exists>i < unat (targetTitleIdsCount rpx). targetTitleIds rpx i = OSGetTitleID A (os w))"
    by (auto intro: image_eqI [OF sym])
  show ?thesis unfolding shouldBePatched_eq t mem Let_def by (simp only: assms(1) not_True_eq_False if_False)
qed

section \<open>Resolving the target\<close>

text \<open>
  C23. For a well-formed object the messages that ``should never happen'' do not happen: resolving
  its target never stops the console because a library, a function name or a known type is
  missing. If resolving succeeds, a target that was searched for has the physical address the
  system maps it to, and a target that was given by its addresses is taken as it is.
\<close>

theorem updateFunctionAddresses_complete:
  assumes "target_known d"
  shows "updateFunctionAddresses A d w \<notin>
      {Inl (OSFatal ''library was empty. This should never happen. Check logs for more information.''),
       Inl (OSFatal ''Function name was empty. This should never happen. Check logs for more information.''),
       Inl (OSFatal ''Unexpected function patching type.'')}
    \<and> (\<forall>d' w'. updateFunctionAddresses A d w = Inr ((True, d'), w') \<longrightarrow>
       (if fp_type d = FUNCTION_PATCHER_REPLACE_BY_LIB_OR_ADDRESS \<and> fp_library d = Some LIBRARY_OTHER
        then d' = d \<and> w' = w
        else realPhysicalFunctionAddress d' = OSEffectiveToPhysical A (os w') (realEffectiveFunctionAddress d')
             \<and> realPhysicalFunctionAddress d' \<noteq> 0))"
proof -
  note defs = updateFunctionAddresses_def set_addresses_def getAddressForExecutable_def Let_def
  note splits = if_splits option.splits prod.splits sum.splits
  consider
      (name) f e where "fp_type d = FUNCTION_PATCHER_REPLACE_FOR_EXECUTABLE_BY_NAME"
        "executableName d = Some e" "functionName d = Some f"
    | (address) e where "fp_type d = FUNCTION_PATCHER_REPLACE_FOR_EXECUTABLE_BY_ADDRESS" "executableName d = Some e"
    | (lib) l where "fp_type d = FUNCTION_PATCHER_REPLACE_BY_LIB_OR_ADDRESS" "fp_library d = Some l"
        "l = LIBRARY_OTHER \<or> functionName d \<noteq> None"
    using assms by (cases "fp_type d"; cases "fp_library d") (auto simp: target_known_def)
  then show ?thesis
  proof cases
    case name
    have k: "KernelFindExport A e f w \<noteq> Inl (OSFatal m)" for m
      by (auto simp: KernelFindExport_def SC_0x51_def FindExportKernel_def Let_def split: splits)
    from name k show ?thesis by (auto simp: defs split: splits)
  next
    case address
    then show ?thesis by (auto simp: defs split: splits)
  next
    case lib
    then show ?thesis by (auto simp: defs split: splits)
  qed
qed

end
