(* ===== verification/Patch_Correct.thy ===== *)
theory Patch_Correct
  imports Patcher
begin

text \<open>
  Correctness of patching and restoring: what the platform is relied on for, when the memory a
  patch touches is laid out properly, the effect of each step on memory, and the theorems about
  \<open>PatchFunction\<close> and \<open>RestoreFunction\<close> as a whole.
\<close>

section \<open>What the code relies on\<close>

text \<open>
  The window \<open>0x00800000\<close>..\<open>0x01000000\<close> is mapped to \<open>0x30800000\<close>, which
  \<open>OSEffectiveToPhysical\<close> need not know; that function answers with the mapping, or with 0.
\<close>

definition in_window :: "u32 \<Rightarrow> bool" where
  "in_window a \<longleftrightarrow> 0x00800000 \<le> a \<and> a < 0x01000000"

definition translation_ok :: "'s os_api \<Rightarrow> bool" where
  "translation_ok A \<longleftrightarrow>
     (\<forall>s a. (OSEffectiveToPhysical A s a = 0 \<or> OSEffectiveToPhysical A s a = mmu A s a)
            \<and> (in_window a \<longrightarrow> mmu A s a = a + 0x30000000))"

definition locals_mapped :: "'s os_api \<Rightarrow> bool" where
  "locals_mapped A \<longleftrightarrow>
     (\<forall>s c v. in_window (local_addr A s c v) \<or> OSEffectiveToPhysical A s (local_addr A s c v) \<noteq> 0)"

text \<open>The heap calls around a thread neither fail nor change the mapping of addresses.\<close>

definition maps_same :: "'s os_api \<Rightarrow> 's \<Rightarrow> 's \<Rightarrow> bool" where
  "maps_same A s s' \<longleftrightarrow>
     mmu A s' = mmu A s \<and> OSEffectiveToPhysical A s' = OSEffectiveToPhysical A s"

definition threads_ok :: "'s os_api \<Rightarrow> bool" where
  "threads_ok A \<longleftrightarrow>
     threads_available A
     \<and> (\<forall>f s n a. maps_same A s (snd (call_alloc A f s n a)) \<and> maps_same A s (call_free A f s n))"

definition memory_ok :: "'s os_api \<Rightarrow> bool" where
  "memory_ok A \<longleftrightarrow> copies_words A \<and> translation_ok A \<and> locals_mapped A"

definition platform_ok :: "'s os_api \<Rightarrow> bool" where
  "platform_ok A \<longleftrightarrow> memory_ok A \<and> threads_ok A"

lemma platform_memory: "platform_ok A \<Longrightarrow> memory_ok A"
  by (simp add: platform_ok_def)

lemma maps_same_refl [simp]: "maps_same A s s"
  by (simp add: maps_same_def)

lemma maps_same_trans: "maps_same A s s' \<Longrightarrow> maps_same A s' s'' \<Longrightarrow> maps_same A s s''"
  by (simp add: maps_same_def)

text \<open>The words of memory that the module's locals may occupy under the mapping of \<open>s\<close>.\<close>

definition local_words :: "'s os_api \<Rightarrow> 's \<Rightarrow> u32 set" where
  "local_words A s = {mmu A s (local_addr A s' c v) | s' c v. True}"

lemma local_words_maps_same: "maps_same A s s' \<Longrightarrow> local_words A s' = local_words A s"
  by (simp add: local_words_def maps_same_def)

lemma local_in_words [simp]: "mmu A s (local_addr A s' c v) \<in> local_words A s"
  by (auto simp: local_words_def)

text \<open>An address the code can translate: in the window, or known to the operating system.\<close>

definition translatable :: "'s os_api \<Rightarrow> 's \<Rightarrow> u32 \<Rightarrow> bool" where
  "translatable A s a \<longleftrightarrow> in_window a \<or> OSEffectiveToPhysical A s a \<noteq> 0"

lemma window_not_zero: "in_window a \<Longrightarrow> a + 0x30000000 \<noteq> 0"
proof
  assume "in_window a" and "a + 0x30000000 = 0"
  then have "a = - 0x30000000" by (simp add: eq_neg_iff_add_eq_0)
  with \<open>in_window a\<close> show False by (simp add: in_window_def)
qed

lemma code_translates:
  assumes "memory_ok A" and "translatable A s a"
  shows "mmu A s a \<noteq> 0"
    and "local_to_physical A s a = mmu A s a"
    and "source_to_physical A s a = mmu A s a"
proof -
  have t: "OSEffectiveToPhysical A s a = 0 \<or> OSEffectiveToPhysical A s a = mmu A s a"
    and win: "in_window a \<Longrightarrow> mmu A s a = a + 0x30000000"
    using assms(1) unfolding memory_ok_def translation_ok_def by blast+
  show nz: "mmu A s a \<noteq> 0"
    using t win window_not_zero [of a] assms(2) unfolding translatable_def by auto
  show "local_to_physical A s a = mmu A s a"
  proof (cases "in_window a")
    case True
    then show ?thesis
      using win by (simp add: local_to_physical_def in_window_def not_less [symmetric] add.commute)
  next
    case False
    then have "\<not> (0x00800000 \<le> a \<and> a < 0x01000000)" by (simp add: in_window_def)
    then have "local_to_physical A s a = OSEffectiveToPhysical A s a"
      by (auto simp: local_to_physical_def not_less not_le)
    with False t assms(2) show ?thesis by (auto simp: translatable_def)
  qed
  show "source_to_physical A s a = mmu A s a"
    using t win assms(2) by (auto simp: source_to_physical_def translatable_def in_window_def Let_def)
qed

lemma code_translates_local:
  assumes "memory_ok A" and "a = local_addr A s c v"
  shows "local_to_physical A s a = mmu A s a"
    and "mmu A s a \<noteq> 0"
  using code_translates [OF assms(1), of s a] assms
  by (simp_all add: memory_ok_def locals_mapped_def translatable_def)

section \<open>Reading and writing one instruction\<close>

lemma copy_data_word:
  "memory_ok A \<Longrightarrow> copy_data A dst src 4 w =
     w\<lparr>mem := write32 (mem w) dst (read32 (mem w) src),
       trace := trace w @ [(core w, EvKernelCopyData dst src 4)]\<rparr>"
  by (simp add: copy_data_def log_event_def memory_ok_def copies_words_def)

lemma ReadFromPhysicalAddress_ok:
  assumes "memory_ok A"
  shows "\<exists>l tr. l \<in> local_words A (os w) \<and>
     ReadFromPhysicalAddress A p True w =
       (Some (read32 (mem w) p),
        w\<lparr>mem := write32 (mem w) l (read32 (mem w) p), trace := trace w @ tr\<rparr>)"
proof -
  let ?a = "local_addr A (os w) (core w) L_currentInstruction"
  note t = code_translates_local [OF assms refl, of "os w" "core w" L_currentInstruction]
  show ?thesis
    by (intro exI [of _ "mmu A (os w) ?a"]
        exI [of _ "[(core w, EvKernelCopyData (mmu A (os w) ?a) p 4), (core w, EvDCFlushRange ?a 4)]"])
      (simp add: ReadFromPhysicalAddress_def Let_def t copy_data_word [OF assms] log_event_def load32_def)
qed

text \<open>The two events that make a core see the new instruction.\<close>

definition writes_and_invalidates :: "nat \<Rightarrow> u32 \<Rightarrow> u32 \<Rightarrow> (nat \<times> event) list \<Rightarrow> bool" where
  "writes_and_invalidates c phys eff tr \<longleftrightarrow>
     (\<exists>src pre post. tr = pre @ [(c, EvKernelCopyData phys src 4), (c, EvICInvalidateRange eff 4)] @ post)"

lemma writes_and_invalidates_mono:
  assumes "writes_and_invalidates c p e tr"
  shows "writes_and_invalidates c p e (a @ tr @ b)"
proof -
  from assms obtain src pre post where
    "tr = pre @ [(c, EvKernelCopyData p src 4), (c, EvICInvalidateRange e 4)] @ post"
    unfolding writes_and_invalidates_def by blast
  then have "a @ tr @ b = (a @ pre) @ [(c, EvKernelCopyData p src 4), (c, EvICInvalidateRange e 4)]
      @ (post @ b)" by simp
  then show ?thesis unfolding writes_and_invalidates_def by blast
qed

lemma flush_object_trace: "\<exists>tr. flush_object d w = w\<lparr>trace := trace w @ tr\<rparr>"
proof -
  have 1: "\<exists>tr. (if b then log_event e1 (log_event e2 u) else u) = u\<lparr>trace := trace u @ tr\<rparr>"
    for b e1 e2 and u :: "'a world"
    by (cases b) (auto simp: log_event_def intro: exI [of _ "[]"])
  have 2: "\<exists>tr. u' = u\<lparr>trace := trace u @ tr\<rparr> \<Longrightarrow> \<exists>tr. u'' = u'\<lparr>trace := trace u' @ tr\<rparr>
      \<Longrightarrow> \<exists>tr. u'' = u\<lparr>trace := trace u @ tr\<rparr>" for u u' u'' :: "'a world"
    by auto
  show ?thesis unfolding flush_object_def Let_def by (intro 2 [OF 2 [OF 1 1] 1])
qed

lemma writeDataAndFlushIC_ok:
  assumes "memory_ok A" and "objs w h = Some d"
  shows "\<exists>l tr. l \<in> local_words A (os w)
     \<and> writes_and_invalidates (core w) (realPhysicalFunctionAddress d) (realEffectiveFunctionAddress d) tr
     \<and> writeDataAndFlushIC A h w =
         Inr (w\<lparr>mem := write32 (write32 (mem w) l (replaceWithInstruction d))
                        (realPhysicalFunctionAddress d) (replaceWithInstruction d),
                trace := trace w @ tr\<rparr>)"
proof -
  let ?a = "local_addr A (os w) (core w) L_replace_instruction"
  let ?b = "local_addr A (os w) (core w) L_physical_address"
  let ?l = "mmu A (os w) ?a" and ?p = "realPhysicalFunctionAddress d"
  let ?w2 = "log_event (EvDCFlushRange ?b 4) (log_event (EvDCFlushRange ?a 4)
      (store32 A ?a (replaceWithInstruction d) w))"
  note t = code_translates_local [OF assms(1) refl, of "os w" "core w" L_replace_instruction]
  obtain tr where tr: "flush_object d ?w2 = ?w2\<lparr>trace := trace ?w2 @ tr\<rparr>"
    using flush_object_trace by blast
  let ?fin = "[(core w, EvKernelCopyData ?p ?l 4),
               (core w, EvICInvalidateRange (realEffectiveFunctionAddress d) 4)]"
  let ?tr = "([(core w, EvDCFlushRange ?a 4), (core w, EvDCFlushRange ?b 4)] @ tr) @ ?fin"
  have eq: "writeDataAndFlushIC A h w =
         Inr (w\<lparr>mem := write32 (write32 (mem w) ?l (replaceWithInstruction d)) ?p (replaceWithInstruction d),
                trace := trace w @ ?tr\<rparr>)"
    unfolding writeDataAndFlushIC_def assms(2) option.case Let_def tr copy_data_word [OF assms(1)]
    by (simp add: log_event_def store32_def t)
  have wi: "writes_and_invalidates (core w) ?p (realEffectiveFunctionAddress d) ?tr"
    unfolding writes_and_invalidates_def by (metis append.right_neutral)
  show ?thesis by (intro exI conjI) (rule local_in_words, rule wi, rule eq)
qed

section \<open>One thread per core\<close>

lemma thread_alloc_ok:
  assumes "threads_ok A"
  shows "\<exists>p s tr. thread_alloc A n al w = (p, w\<lparr>os := s, trace := trace w @ tr\<rparr>)
           \<and> p \<noteq> 0 \<and> maps_same A (os w) s"
proof -
  obtain p s where ca: "call_alloc A (gMEMAllocFromDefaultHeapExForThreads w) (os w) n al = (p, s)"
    by fastforce
  with assms have "p \<noteq> 0" and "maps_same A (os w) s"
    unfolding threads_ok_def threads_available_def by (metis fst_conv, metis snd_conv)
  with ca show ?thesis by (auto simp: thread_alloc_def log_event_def)
qed

lemma thread_free_ok:
  assumes "threads_ok A"
  shows "\<exists>s tr. thread_free A p n w = w\<lparr>os := s, trace := trace w @ tr\<rparr> \<and> maps_same A (os w) s"
  using assms by (auto simp: thread_free_def threads_ok_def log_event_def)

lemma CThread_new_ok:
  assumes "threads_ok A"
  shows "\<exists>t s tr. CThread_new A at pr n cb w = (t, w\<lparr>os := s, trace := trace w @ tr\<rparr>)
     \<and> pThread t \<noteq> 0 \<and> pThreadStack t \<noteq> 0 \<and> suspend_count t = Some 1 \<and> iAttributes t = at \<and> pCallback t = cb
     \<and> maps_same A (os w) s"
proof -
  obtain p1 s1 tr1 where a1: "thread_alloc A (sizeof_OSThread A) 0x10 w = (p1, w\<lparr>os := s1, trace := trace w @ tr1\<rparr>)"
    and "p1 \<noteq> 0" and m1: "maps_same A (os w) s1"
    using thread_alloc_ok [OF assms] by blast
  let ?w1 = "w\<lparr>os := s1, trace := trace w @ tr1\<rparr>"
  obtain p2 s2 tr2 where a2: "thread_alloc A n 0x20 ?w1 = (p2, ?w1\<lparr>os := s2, trace := trace ?w1 @ tr2\<rparr>)"
    and "p2 \<noteq> 0" and m2: "maps_same A (os ?w1) s2"
    using thread_alloc_ok [OF assms] by blast
  from maps_same_trans [OF m1] m2 have "maps_same A (os w) s2" by simp
  with \<open>p1 \<noteq> 0\<close> \<open>p2 \<noteq> 0\<close> show ?thesis
    by (intro exI [of _ "\<lparr>iStackSize = n, iAttributes = at, pThread = p1, pThreadStack = p2, pCallback = cb,
          suspend_count = Some 1\<rparr>"] exI [of _ s2] exI [of _ "tr1 @ tr2 @ [(core w, EvOSCreateThread p1 (p2 + n) n pr at)]"])
      (simp add: CThread_new_def a1 a2 log_event_def)
qed

lemma run_on_core_ok:
  assumes "threads_ok A" and "(iAttr OR i) AND eAttributeDetach = 0"
  shows "\<exists>s1 tr1. maps_same A (os w) s1 \<and>
     (\<forall>w2. cb (w\<lparr>os := s1, trace := trace w @ tr1, core := core_of_attributes (iAttr OR i)\<rparr>) = Inr w2 \<longrightarrow>
        (\<exists>s2 tr2. maps_same A (os w2) s2 \<and>
           run_on_core A cb iAttr pr n i w = Inr (w2\<lparr>os := s2, core := core w, trace := trace w2 @ tr2\<rparr>)))"
proof -
  obtain t s1 tr1 where new: "CThread_new A (iAttr OR i) pr n (Some cb) w = (t, w\<lparr>os := s1, trace := trace w @ tr1\<rparr>)"
    and t: "pThread t \<noteq> 0" "pThreadStack t \<noteq> 0" "suspend_count t = Some 1" "iAttributes t = iAttr OR i"
      "pCallback t = Some cb"
    and m1: "maps_same A (os w) s1"
    using CThread_new_ok [OF assms(1)] by blast
  let ?w1 = "w\<lparr>os := s1, trace := trace w @ tr1\<rparr>"
  have r: "resumeThread t = Inr (t\<lparr>suspend_count := Some 0\<rparr>)"
    using t by (simp add: resumeThread_def isThreadSuspended_def)
  have "\<exists>s2 tr2. maps_same A (os w2) s2 \<and>
      run_on_core A cb iAttr pr n i w = Inr (w2\<lparr>os := s2, core := core w, trace := trace w2 @ tr2\<rparr>)"
    if cb: "cb (w\<lparr>os := s1, trace := trace w @ tr1, core := core_of_attributes (iAttr OR i)\<rparr>) = Inr w2" for w2
  proof -
    let ?w3 = "log_event (EvOSJoinThread (pThread t)) (w2\<lparr>core := core w\<rparr>)"
    have j: "join_thread (t\<lparr>suspend_count := Some 0\<rparr>) ?w1 = Inr ?w3"
      using cb t by (simp add: join_thread_def executeThread_def)
    obtain s3 tr3 where f1: "thread_free A (pThreadStack t) (iStackSize t) ?w3
        = ?w3\<lparr>os := s3, trace := trace ?w3 @ tr3\<rparr>" and m3: "maps_same A (os ?w3) s3"
      using thread_free_ok [OF assms(1)] by blast
    let ?w4 = "?w3\<lparr>os := s3, trace := trace ?w3 @ tr3\<rparr>"
    obtain s4 tr4 where f2: "thread_free A (pThread t) (sizeof_OSThread A) ?w4
        = ?w4\<lparr>os := s4, trace := trace ?w4 @ tr4\<rparr>" and m4: "maps_same A (os ?w4) s4"
      using thread_free_ok [OF assms(1)] by blast
    have "run_on_core A cb iAttr pr n i w = Inr (?w4\<lparr>os := s4, trace := trace ?w4 @ tr4\<rparr>)"
      using t assms(2) by (simp add: run_on_core_def new r shutdownThread_def j f1 f2)
    moreover have "maps_same A (os w2) s4"
      using maps_same_trans [OF m3] m4 by (simp add: log_event_def)
    ultimately show ?thesis
      by (intro exI [of _ s4] exI [of _ "(core w, EvOSJoinThread (pThread t)) # tr3 @ tr4"])
        (simp add: log_event_def)
  qed
  with m1 show ?thesis by blast
qed

text \<open>
  The instruction is written once per core, and each core drops it from its instruction cache after
  a write.
\<close>

lemma run_write_on_core:
  assumes "platform_ok A" and "objs w h = Some d" and "i AND eAttributeDetach = 0"
  shows "\<exists>l s tr. l \<in> local_words A (os w) \<and> maps_same A (os w) s
     \<and> writes_and_invalidates (core_of_attributes i) (realPhysicalFunctionAddress d)
           (realEffectiveFunctionAddress d) tr
     \<and> run_on_core A (writeDataAndFlushIC A h) 0 pr n i w =
         Inr (w\<lparr>mem := write32 (write32 (mem w) l (replaceWithInstruction d))
                        (realPhysicalFunctionAddress d) (replaceWithInstruction d),
                os := s, trace := trace w @ tr\<rparr>)"
proof -
  from assms(1) have tok: "threads_ok A" by (simp add: platform_ok_def)
  have at: "(0 OR i) AND eAttributeDetach = 0" using assms(3) by simp
  obtain s1 tr1 where m1: "maps_same A (os w) s1" and run:
    "\<forall>w2. writeDataAndFlushIC A h (w\<lparr>os := s1, trace := trace w @ tr1, core := core_of_attributes (0 OR i)\<rparr>) = Inr w2 \<longrightarrow>
        (\<exists>s2 tr2. maps_same A (os w2) s2 \<and>
           run_on_core A (writeDataAndFlushIC A h) 0 pr n i w = Inr (w2\<lparr>os := s2, core := core w, trace := trace w2 @ tr2\<rparr>))"
    using run_on_core_ok [OF tok at, of w "writeDataAndFlushIC A h" pr n] by blast
  let ?w1 = "w\<lparr>os := s1, trace := trace w @ tr1, core := core_of_attributes (0 OR i)\<rparr>"
  have o1: "objs ?w1 h = Some d" using assms(2) by simp
  obtain l tr where l: "l \<in> local_words A (os ?w1)"
    and wi: "writes_and_invalidates (core ?w1) (realPhysicalFunctionAddress d) (realEffectiveFunctionAddress d) tr"
    and w2: "writeDataAndFlushIC A h ?w1 =
         Inr (?w1\<lparr>mem := write32 (write32 (mem ?w1) l (replaceWithInstruction d))
                        (realPhysicalFunctionAddress d) (replaceWithInstruction d),
                trace := trace ?w1 @ tr\<rparr>)"
    using writeDataAndFlushIC_ok [OF platform_memory [OF assms(1)] o1] by blast
  from run w2 obtain s2 tr2 where m2: "maps_same A s1 s2" and
    res: "run_on_core A (writeDataAndFlushIC A h) 0 pr n i w =
       Inr (w\<lparr>mem := write32 (write32 (mem w) l (replaceWithInstruction d))
                        (realPhysicalFunctionAddress d) (replaceWithInstruction d),
                os := s2, trace := trace w @ (tr1 @ tr @ tr2)\<rparr>)"
    by fastforce
  have "l \<in> local_words A (os w)" using l local_words_maps_same [OF m1] by simp
  moreover have "writes_and_invalidates (core_of_attributes i) (realPhysicalFunctionAddress d)
      (realEffectiveFunctionAddress d) (tr1 @ tr @ tr2)"
    using writes_and_invalidates_mono [OF wi] by simp
  ultimately show ?thesis using res maps_same_trans [OF m1 m2] by blast
qed

lemma runOnAllCores_write:
  assumes "platform_ok A" and "objs w h = Some d"
  shows "\<exists>m s tr. runOnAllCores A (writeDataAndFlushIC A h) w = Inr (w\<lparr>mem := m, os := s, trace := trace w @ tr\<rparr>)
     \<and> maps_same A (os w) s
     \<and> read32 m (realPhysicalFunctionAddress d) = replaceWithInstruction d
     \<and> same_outside (insert (realPhysicalFunctionAddress d) (local_words A (os w))) (mem w) m
     \<and> (\<forall>c \<in> {0, 1, 2}. writes_and_invalidates c (realPhysicalFunctionAddress d)
           (realEffectiveFunctionAddress d) tr)"
proof -
  let ?P = "realPhysicalFunctionAddress d" and ?r = "replaceWithInstruction d"
    and ?E = "realEffectiveFunctionAddress d"
  let ?S = "insert ?P (local_words A (os w))"
  have nodetach: "eAttributeAffCore2 AND eAttributeDetach = 0" "eAttributeAffCore1 AND eAttributeDetach = 0"
      "eAttributeAffCore0 AND eAttributeDetach = 0"
    by (simp_all add: eAttributeAffCore0_def eAttributeAffCore1_def eAttributeAffCore2_def eAttributeDetach_def)
  obtain l1 s1 tr1 where l1: "l1 \<in> local_words A (os w)" and m1: "maps_same A (os w) s1"
    and wi1: "writes_and_invalidates 2 ?P ?E tr1"
    and r1: "run_on_core A (writeDataAndFlushIC A h) 0 16 0x8000 eAttributeAffCore2 w
        = Inr (w\<lparr>mem := write32 (write32 (mem w) l1 ?r) ?P ?r, os := s1, trace := trace w @ tr1\<rparr>)"
    using run_write_on_core [OF assms nodetach(1), of 16 "0x8000"] by auto
  let ?w1 = "w\<lparr>mem := write32 (write32 (mem w) l1 ?r) ?P ?r, os := s1, trace := trace w @ tr1\<rparr>"
  have o1: "objs ?w1 h = Some d" using assms(2) by simp
  obtain l2 s2 tr2 where l2: "l2 \<in> local_words A (os ?w1)" and m2: "maps_same A (os ?w1) s2"
    and wi2: "writes_and_invalidates 1 ?P ?E tr2"
    and r2: "run_on_core A (writeDataAndFlushIC A h) 0 16 0x8000 eAttributeAffCore1 ?w1
        = Inr (?w1\<lparr>mem := write32 (write32 (mem ?w1) l2 ?r) ?P ?r, os := s2, trace := trace ?w1 @ tr2\<rparr>)"
    using run_write_on_core [OF assms(1) o1 nodetach(2), of 16 "0x8000"] by auto
  let ?w2 = "?w1\<lparr>mem := write32 (write32 (mem ?w1) l2 ?r) ?P ?r, os := s2, trace := trace ?w1 @ tr2\<rparr>"
  have o2: "objs ?w2 h = Some d" using assms(2) by simp
  obtain l3 s3 tr3 where l3: "l3 \<in> local_words A (os ?w2)" and m3: "maps_same A (os ?w2) s3"
    and wi3: "writes_and_invalidates 0 ?P ?E tr3"
    and r3: "run_on_core A (writeDataAndFlushIC A h) 0 16 0x8000 eAttributeAffCore0 ?w2
        = Inr (?w2\<lparr>mem := write32 (write32 (mem ?w2) l3 ?r) ?P ?r, os := s3, trace := trace ?w2 @ tr3\<rparr>)"
    using run_write_on_core [OF assms(1) o2 nodetach(3), of 16 "0x8000"] by auto
  have m12: "maps_same A (os w) s2" using maps_same_trans [OF m1] m2 by simp
  have m13: "maps_same A (os w) s3" using maps_same_trans [OF m12] m3 by simp
  have l23: "l2 \<in> local_words A (os w)" "l3 \<in> local_words A (os w)"
    using l2 l3 local_words_maps_same [OF m1] local_words_maps_same [OF m12] by simp_all
  let ?m = "write32 (write32 (mem ?w2) l3 ?r) ?P ?r"
  have wr: "same_outside ?S m (write32 (write32 m l ?r) ?P ?r)" if "l \<in> local_words A (os w)" for m l
    using that by (intro same_outside_trans [OF same_outside_write same_outside_write]) simp_all
  have "same_outside ?S (mem w) ?m"
    using same_outside_trans [OF same_outside_trans [OF wr [OF l1] wr [OF l23(1)]] wr [OF l23(2)]] by simp
  moreover have "runOnAllCores A (writeDataAndFlushIC A h) w
      = Inr (w\<lparr>mem := ?m, os := s3, trace := trace w @ (tr1 @ tr2 @ tr3)\<rparr>)"
    using r1 r2 r3 by (simp add: runOnAllCores_def)
  moreover have "\<forall>c \<in> {0, 1, 2}. writes_and_invalidates c ?P ?E (tr1 @ tr2 @ tr3)"
    using writes_and_invalidates_mono [OF wi1, of "[]" "tr2 @ tr3"]
      writes_and_invalidates_mono [OF wi2, of tr1 tr3] writes_and_invalidates_mono [OF wi3, of "tr1 @ tr2" "[]"]
    by simp
  ultimately show ?thesis using m13
    by (intro exI [of _ ?m] exI [of _ s3] exI [of _ "tr1 @ tr2 @ tr3"]) simp
qed

section \<open>The layout of a patch in memory\<close>

text \<open>
  The words a patch reads and writes: the first instruction of the function, the pointer handed to
  the caller, the first two instructions of \<open>OSGetUPID\<close>, and the code buffers. A site is proper
  when the buffers were allocated where they can be used, the words are pairwise separate, and the
  module's stacks are separate from all of them.
\<close>

definition site_words :: "'s os_api \<Rightarrow> 's \<Rightarrow> PatchedFunctionData \<Rightarrow> u32 list" where
  "site_words A s d =
     [realPhysicalFunctionAddress d, mmu A s (realCallFunctionAddressPtr d),
      mmu A s (OSGetUPID_code A), mmu A s (OSGetUPID_code A + 4)]
     @ buffer_words A s (jumpToOriginal d) 5
     @ (if needs_trampoline A d then buffer_words A s (jumpData d) 15 else [])"

definition site_ok :: "'s os_api \<Rightarrow> 's \<Rightarrow> PatchedFunctionData \<Rightarrow> bool" where
  "site_ok A s d \<longleftrightarrow>
     jumpToOriginal d \<noteq> 0 \<and> jumpDataSize d = 15
     \<and> replacementFunctionAddress d AND 0xFFFFFFFC = replacementFunctionAddress d
     \<and> (needs_trampoline A d \<longrightarrow> jumpData d \<noteq> 0 \<and> short_branch_possible (jumpData d))
     \<and> sorted_wrt disj4 (site_words A s d)
     \<and> (\<forall>l \<in> local_words A s. \<forall>p \<in> set (site_words A s d). disj4 l p)"

text \<open>The words \<open>ws\<close> are the code at the effective address \<open>buf\<close>.\<close>

definition code_in :: "bytes \<Rightarrow> (u32 \<Rightarrow> u32) \<Rightarrow> u32 \<Rightarrow> u32 list \<Rightarrow> bool" where
  "code_in m tr buf ws \<longleftrightarrow> (\<forall>i < length ws. read32 m (tr (buf + 4 * of_nat i)) = ws ! i)"

lemma code_in_put_words:
  assumes "sorted_wrt disj4 (buffer_words A (os w) buf n)" and "length ws \<le> n"
  shows "code_in (mem (put_words A buf 0 ws w)) (mmu A (os w)) buf ws"
  using put_words_read [OF sorted_wrt_disj4_buffer [OF assms(1)] assms(2)]
  by (simp add: code_in_def load32_def)

lemma code_in_outside:
  assumes "code_in m (mmu A s) buf ws" and "same_outside S m m'" and "length ws \<le> n"
    and "\<And>q p. q \<in> S \<Longrightarrow> p \<in> set (buffer_words A s buf n) \<Longrightarrow> disj4 q p"
  shows "code_in m' (mmu A s) buf ws"
  unfolding code_in_def
proof (intro allI impI)
  fix i assume i: "i < length ws"
  then have "mmu A s (buf + 4 * of_nat i) \<in> set (buffer_words A s buf n)"
    using assms(3) by (auto simp: buffer_words_def)
  then have "read32 m' (mmu A s (buf + 4 * of_nat i)) = read32 m (mmu A s (buf + 4 * of_nat i))"
    using same_outside_read [OF assms(2)] assms(4) by blast
  then show "read32 m' (mmu A s (buf + 4 * of_nat i)) = ws ! i"
    using assms(1) i by (simp add: code_in_def)
qed

lemma site_separate:
  assumes "site_ok A s d"
  defines "P \<equiv> realPhysicalFunctionAddress d" and "C \<equiv> mmu A s (realCallFunctionAddressPtr d)"
    and "U \<equiv> {mmu A s (OSGetUPID_code A), mmu A s (OSGetUPID_code A + 4)}"
    and "J \<equiv> set (buffer_words A s (jumpToOriginal d) 5)"
    and "T \<equiv> (if needs_trampoline A d then set (buffer_words A s (jumpData d) 15) else {})"
    and "L \<equiv> local_words A s"
  shows "disj4 C P" and "\<And>q p. q \<in> J \<union> T \<union> L \<Longrightarrow> p \<in> {P, C} \<union> U \<Longrightarrow> disj4 q p"
    and "\<And>p. p \<in> U \<Longrightarrow> disj4 C p"
    and "\<And>q p. q \<in> {P, C} \<union> T \<union> L \<Longrightarrow> p \<in> J \<Longrightarrow> disj4 q p"
    and "\<And>q p. q \<in> {P, C} \<union> J \<union> L \<Longrightarrow> p \<in> T \<Longrightarrow> disj4 q p"
    and "sorted_wrt disj4 (buffer_words A s (jumpToOriginal d) 5)"
    and "needs_trampoline A d \<Longrightarrow> sorted_wrt disj4 (buffer_words A s (jumpData d) 15)"
proof -
  have s: "sorted_wrt disj4 (site_words A s d)"
    and l: "\<forall>l \<in> local_words A s. \<forall>p \<in> set (site_words A s d). disj4 l p"
    using assms(1) by (simp_all add: site_ok_def)
  note defs = P_def C_def U_def J_def T_def L_def
  from s have s': "disj4 P C" "\<forall>u \<in> U. disj4 P u \<and> disj4 C u" "\<forall>x \<in> J \<union> T. disj4 P x \<and> disj4 C x"
    "\<forall>u \<in> U. \<forall>x \<in> J \<union> T. disj4 u x" "\<forall>x \<in> J. \<forall>y \<in> T. disj4 x y"
    "sorted_wrt disj4 (buffer_words A s (jumpToOriginal d) 5)"
    "needs_trampoline A d \<Longrightarrow> sorted_wrt disj4 (buffer_words A s (jumpData d) 15)"
    unfolding site_words_def by (auto simp: sorted_wrt_append defs split: if_splits)
  from l have l': "\<forall>x \<in> L. \<forall>p \<in> {P, C} \<union> U \<union> J \<union> T. disj4 x p"
    unfolding site_words_def by (auto simp: defs split: if_splits)
  show "disj4 C P" "sorted_wrt disj4 (buffer_words A s (jumpToOriginal d) 5)"
    "needs_trampoline A d \<Longrightarrow> sorted_wrt disj4 (buffer_words A s (jumpData d) 15)"
    using s' disj4_sym by blast+
  show "\<And>p. p \<in> U \<Longrightarrow> disj4 C p" using s' by blast
  show "\<And>q p. q \<in> J \<union> T \<union> L \<Longrightarrow> p \<in> {P, C} \<union> U \<Longrightarrow> disj4 q p"
    using s' l' disj4_sym by (metis Un_iff insertE singletonD)
  show "\<And>q p. q \<in> {P, C} \<union> T \<union> L \<Longrightarrow> p \<in> J \<Longrightarrow> disj4 q p"
    using s' l' disj4_sym by (metis Un_iff insertE singletonD)
  show "\<And>q p. q \<in> {P, C} \<union> J \<union> L \<Longrightarrow> p \<in> T \<Longrightarrow> disj4 q p"
    using s' l' disj4_sym by (metis Un_iff insertE singletonD)
qed

section \<open>What a successful patch establishes\<close>

definition branch_to :: "u32 \<Rightarrow> u32" where
  "branch_to t = 0x48000002 OR (t AND 0x01FFFFFC)"

text \<open>
  The patch of \<open>d\<close> is in memory \<open>m\<close>: the function's first word branches to the replacement or to the
  trampoline, the code buffers hold what was generated, and the caller's pointer leads to the code
  that runs the original.
\<close>

definition entry_target :: "'s os_api \<Rightarrow> PatchedFunctionData \<Rightarrow> u32" where
  "entry_target A d = (if needs_trampoline A d then jumpData d else replacementFunctionAddress d)"

definition patch_installed :: "'s os_api \<Rightarrow> 's \<Rightarrow> bytes \<Rightarrow> PatchedFunctionData \<Rightarrow> bool" where
  "patch_installed A s m d \<longleftrightarrow>
     read32 m (realPhysicalFunctionAddress d) = replaceWithInstruction d
     \<and> replaceWithInstruction d = branch_to (entry_target A d)
     \<and> short_branch_possible (entry_target A d)
     \<and> read32 m (mmu A s (realCallFunctionAddressPtr d)) = jumpToOriginal d
     \<and> code_in m (mmu A s) (jumpToOriginal d) (original_words d)
     \<and> (needs_trampoline A d \<longrightarrow>
          code_in m (mmu A s) (jumpData d)
            (trampoline_words A (read32 m (mmu A s (OSGetUPID_code A)))
               (read32 m (mmu A s (OSGetUPID_code A + 4))) d))"

text \<open>The words the generators write, and all the words a patch may change.\<close>

definition code_words :: "'s os_api \<Rightarrow> 's \<Rightarrow> PatchedFunctionData \<Rightarrow> u32 set" where
  "code_words A s d =
     insert (mmu A s (realCallFunctionAddressPtr d)) (set (buffer_words A s (jumpToOriginal d) 5))
     \<union> (if needs_trampoline A d then set (buffer_words A s (jumpData d) 15) else {})"

definition patch_footprint :: "'s os_api \<Rightarrow> 's \<Rightarrow> PatchedFunctionData \<Rightarrow> u32 set" where
  "patch_footprint A s d =
     insert (realPhysicalFunctionAddress d) (code_words A s d \<union> local_words A s)"

lemma original_words_ignores [simp]:
  "original_words (d\<lparr>replaceWithInstruction := x\<rparr>) = original_words d"
  "original_words (d\<lparr>isPatched := b\<rparr>) = original_words d"
  by (simp_all add: original_words_def Let_def)

lemma trampoline_words_ignores_patched [simp]:
  "trampoline_words A u0 u1 (d\<lparr>isPatched := b\<rparr>) = trampoline_words A u0 u1 d"
  by (simp add: trampoline_words_def check_words_def select_words_def cong: if_cong)

lemma needs_trampoline_ignores [simp]:
  "needs_trampoline A (d\<lparr>replacedInstruction := x\<rparr>) = needs_trampoline A d"
  "needs_trampoline A (d\<lparr>replaceWithInstruction := x\<rparr>) = needs_trampoline A d"
  "needs_trampoline A (d\<lparr>isPatched := b\<rparr>) = needs_trampoline A d"
  by (simp_all add: needs_trampoline_def)

lemma site_words_ignores [simp]:
  "site_words A s (d\<lparr>replacedInstruction := x\<rparr>) = site_words A s d"
  "site_words A s (d\<lparr>replaceWithInstruction := x\<rparr>) = site_words A s d"
  "site_words A s (d\<lparr>isPatched := b\<rparr>) = site_words A s d"
  by (simp_all add: site_words_def)

lemma site_ok_ignores [simp]:
  "site_ok A s (d\<lparr>replacedInstruction := x\<rparr>) = site_ok A s d"
  "site_ok A s (d\<lparr>replaceWithInstruction := x\<rparr>) = site_ok A s d"
  "site_ok A s (d\<lparr>isPatched := b\<rparr>) = site_ok A s d"
  by (simp_all add: site_ok_def)

text \<open>Without a trampoline the branch reaches the replacement if its address is a word address.\<close>

lemma direct_branch_possible:
  assumes "\<not> needs_trampoline A d"
    and "replacementFunctionAddress d AND 0xFFFFFFFC = replacementFunctionAddress d"
  shows "short_branch_possible (replacementFunctionAddress d)"
proof -
  let ?r = "replacementFunctionAddress d"
  from assms(1) have "?r < 2 ^ 25"
    by (simp add: needs_trampoline_def word_less_def word_le_def)
  then have "?r AND mask 25 = ?r" by (rule less_mask_eq)
  then have "?r AND 0x01FFFFFF = ?r" by (simp add: mask_eq_exp_minus_1)
  then have m: "?r AND 0x01FFFFFF = ?r" by (simp add: mask_eq_exp_minus_1)
  have "?r AND 0x01FFFFFC = (?r AND 0x01FFFFFF) AND 0xFFFFFFFC" by (simp add: and.assoc)
  also have "\<dots> = ?r" by (simp only: m assms(2))
  finally show ?thesis by (simp only: short_branch_possible_def)
qed

section \<open>Patching as a whole\<close>

lemma buffer_distinct_from:
  assumes "site_ok A s d" and "needs_trampoline A d"
  shows "disj4 (mmu A s (jumpData d)) (mmu A s (OSGetUPID_code A + 4))"
proof -
  have "mmu A s (jumpData d) \<in> set (buffer_words A s (jumpData d) 15)"
    unfolding buffer_words_def by (auto intro!: image_eqI [of _ _ 0])
  with site_separate(2) [OF assms(1)] assms(2) show ?thesis by auto
qed

text \<open>The first generator: the pointer and the code behind it.\<close>

lemma jump_to_original_stage:
  assumes ok: "site_ok A (os w) d"
  shows "\<exists>m tr. generateJumpToOriginal A d w = Inr (w\<lparr>mem := m, trace := trace w @ tr\<rparr>)
     \<and> same_outside (insert (mmu A (os w) (realCallFunctionAddressPtr d))
          (set (buffer_words A (os w) (jumpToOriginal d) 5))) (mem w) m
     \<and> read32 m (mmu A (os w) (realCallFunctionAddressPtr d)) = jumpToOriginal d
     \<and> code_in m (mmu A (os w)) (jumpToOriginal d) (original_words d)"
proof -
  let ?C = "mmu A (os w) (realCallFunctionAddressPtr d)" and ?j = "jumpToOriginal d"
  let ?J = "set (buffer_words A (os w) ?j 5)"
  obtain m1 where p: "put_words A ?j 0 (original_words d) w = w\<lparr>mem := m1\<rparr>"
    using put_words_mem_only by blast
  let ?m = "write32 m1 ?C ?j"
  have j: "?j \<noteq> 0" using ok by (simp add: site_ok_def)
  have "code_in m1 (mmu A (os w)) ?j (original_words d)"
    using code_in_put_words [OF site_separate(6) [OF ok] original_length [of d]] by (simp add: p)
  moreover have "same_outside {?C} m1 ?m" by (simp add: same_outside_write)
  ultimately have "code_in ?m (mmu A (os w)) ?j (original_words d)"
    using code_in_outside [OF _ _ original_length] site_separate(4) [OF ok] by fastforce
  moreover have "same_outside (insert ?C ?J) (mem w) ?m"
  proof (rule same_outside_trans)
    show "same_outside (insert ?C ?J) (mem w) m1"
      using put_words_outside [OF original_length [of d], of A w ?j]
      by (auto simp: p intro: same_outside_mono)
  qed (simp add: same_outside_write)
  moreover have "generateJumpToOriginal A d w =
      Inr (w\<lparr>mem := ?m, trace := trace w @ [(core w, EvDCFlushRange ?j 20),
             (core w, EvICInvalidateRange ?j 20), (core w, EvOSMemoryBarrier)]\<rparr>)"
    by (simp add: generateJumpToOriginal_eq [OF j] p log_event_def store32_def)
  ultimately show ?thesis by (intro exI conjI) (assumption, simp_all)
qed

text \<open>The second generator: the trampoline, if there is one, and the branch to it.\<close>

lemma replacement_jump_stage:
  assumes ok: "site_ok A (os w) d"
  defines "T \<equiv> (if needs_trampoline A d then set (buffer_words A (os w) (jumpData d) 15) else {})"
  shows "\<exists>m tr. generateReplacementJump A h d w =
         Inr (d\<lparr>replaceWithInstruction := branch_to (entry_target A d)\<rparr>, w\<lparr>mem := m, trace := trace w @ tr\<rparr>)
     \<and> same_outside T (mem w) m
     \<and> (needs_trampoline A d \<longrightarrow>
          code_in m (mmu A (os w)) (jumpData d)
            (trampoline_words A (read32 (mem w) (mmu A (os w) (OSGetUPID_code A)))
               (read32 (mem w) (mmu A (os w) (OSGetUPID_code A + 4))) d))"
proof (cases "needs_trampoline A d")
  case True
  let ?ws = "trampoline_words A (read32 (mem w) (mmu A (os w) (OSGetUPID_code A)))
               (read32 (mem w) (mmu A (os w) (OSGetUPID_code A + 4))) d"
  obtain m where p: "put_words A (jumpData d) 0 ?ws w = w\<lparr>mem := m\<rparr>"
    using put_words_mem_only by blast
  have s: "jumpDataSize d = 15" "jumpData d \<noteq> 0" "short_branch_possible (jumpData d)"
    using ok True by (simp_all add: site_ok_def)
  have "\<exists>tr. generateReplacementJump A h d w =
      Inr (d\<lparr>replaceWithInstruction := branch_to (entry_target A d)\<rparr>, w\<lparr>mem := m, trace := trace w @ tr\<rparr>)"
    using generateReplacementJump_eq [OF s(1) buffer_distinct_from [OF ok], of h] True s(2,3)
    by (simp add: Let_def load32_def p log_event_def branch_to_def entry_target_def) (rule exI, rule refl)
  moreover have "code_in m (mmu A (os w)) (jumpData d) ?ws"
    using code_in_put_words [OF site_separate(7) [OF ok True], of ?ws]
      trampoline_length(2) [of A _ _ d] by (simp add: p)
  moreover have "same_outside T (mem w) m"
    using put_words_outside [of ?ws 15 A w "jumpData d"] trampoline_length(2) [of A _ _ d] True
    by (simp add: T_def p)
  ultimately show ?thesis by blast
next
  case False
  have s: "jumpDataSize d = 15" using ok by (simp add: site_ok_def)
  have "\<exists>tr. generateReplacementJump A h d w =
      Inr (d\<lparr>replaceWithInstruction := branch_to (entry_target A d)\<rparr>,
           w\<lparr>mem := mem w, trace := trace w @ tr\<rparr>)"
    using generateReplacementJump_eq [OF s, of A w h] False
    by (simp add: Let_def log_event_def branch_to_def entry_target_def) (rule exI, rule refl)
  then show ?thesis using False by fastforce
qed

text \<open>Both stages, on a fixed address map.\<close>

lemma site_ok_maps_same: "maps_same A s s' \<Longrightarrow> site_ok A s' d = site_ok A s d"
  by (simp add: site_ok_def site_words_def buffer_words_def maps_same_def local_words_def)

lemma code_words_separate:
  assumes "site_ok A s d" and "q \<in> code_words A s d"
  shows "disj4 q (realPhysicalFunctionAddress d)"
    and "disj4 q (mmu A s (OSGetUPID_code A))" and "disj4 q (mmu A s (OSGetUPID_code A + 4))"
    and "l \<in> local_words A s \<Longrightarrow> disj4 l q"
proof -
  note sep = site_separate [OF assms(1)]
  show "disj4 q (realPhysicalFunctionAddress d)"
    "disj4 q (mmu A s (OSGetUPID_code A))" "disj4 q (mmu A s (OSGetUPID_code A + 4))"
    using assms(2) sep(1) sep(2) [of q] sep(3) unfolding code_words_def by auto
  show "disj4 l q" if "l \<in> local_words A s"
    using assms that unfolding site_ok_def site_words_def code_words_def by (auto split: if_splits)
qed

lemma generate_both:
  assumes ok: "site_ok A (os w) d"
  shows "\<exists>w4 m tr. generateJumpToOriginal A d w = Inr w4
     \<and> generateReplacementJump A h d w4 =
         Inr (d\<lparr>replaceWithInstruction := branch_to (entry_target A d)\<rparr>, w\<lparr>mem := m, trace := trace w @ tr\<rparr>)
     \<and> same_outside (code_words A (os w) d) (mem w) m
     \<and> read32 m (mmu A (os w) (realCallFunctionAddressPtr d)) = jumpToOriginal d
     \<and> code_in m (mmu A (os w)) (jumpToOriginal d) (original_words d)
     \<and> (needs_trampoline A d \<longrightarrow>
          code_in m (mmu A (os w)) (jumpData d)
            (trampoline_words A (read32 (mem w) (mmu A (os w) (OSGetUPID_code A)))
               (read32 (mem w) (mmu A (os w) (OSGetUPID_code A + 4))) d))"
proof -
  let ?s = "os w"
  let ?C = "mmu A ?s (realCallFunctionAddressPtr d)" and ?J = "set (buffer_words A ?s (jumpToOriginal d) 5)"
  let ?T = "if needs_trampoline A d then set (buffer_words A ?s (jumpData d) 15) else {}"
  let ?U = "mmu A ?s (OSGetUPID_code A)" and ?V = "mmu A ?s (OSGetUPID_code A + 4)"
  obtain m1 tr1 where g1: "generateJumpToOriginal A d w = Inr (w\<lparr>mem := m1, trace := trace w @ tr1\<rparr>)"
    and f1: "same_outside (insert ?C ?J) (mem w) m1"
    and C: "read32 m1 ?C = jumpToOriginal d"
    and c1: "code_in m1 (mmu A ?s) (jumpToOriginal d) (original_words d)"
    using jump_to_original_stage [OF ok] by blast
  let ?w4 = "w\<lparr>mem := m1, trace := trace w @ tr1\<rparr>"
  have os4: "os ?w4 = ?s" and mem4: "mem ?w4 = m1" by simp_all
  have "site_ok A (os ?w4) d" using ok by simp
  from replacement_jump_stage [OF this, of h, unfolded os4 mem4] obtain m tr2 where
    g: "generateReplacementJump A h d ?w4 = Inr (d\<lparr>replaceWithInstruction := branch_to (entry_target A d)\<rparr>,
           ?w4\<lparr>mem := m, trace := trace ?w4 @ tr2\<rparr>)"
    and f2: "same_outside ?T m1 m"
    and c2: "needs_trampoline A d \<longrightarrow> code_in m (mmu A ?s) (jumpData d)
            (trampoline_words A (read32 m1 ?U) (read32 m1 ?V) d)"
    by blast
  from g have g2: "generateReplacementJump A h d ?w4 =
      Inr (d\<lparr>replaceWithInstruction := branch_to (entry_target A d)\<rparr>,
           w\<lparr>mem := m, trace := trace w @ (tr1 @ tr2)\<rparr>)" by simp
  have sub: "insert ?C ?J \<subseteq> code_words A ?s d" "?T \<subseteq> code_words A ?s d"
    by (auto simp: code_words_def)
  have U: "read32 m1 ?U = read32 (mem w) ?U" "read32 m1 ?V = read32 (mem w) ?V"
    using same_outside_read [OF same_outside_mono [OF f1 sub(1)]] code_words_separate(2,3) [OF ok] by blast+
  have "same_outside (code_words A ?s d) (mem w) m"
    using same_outside_trans [OF same_outside_mono [OF f1 sub(1)] same_outside_mono [OF f2 sub(2)]] .
  moreover have "read32 m ?C = jumpToOriginal d"
  proof -
    have "disj4 q ?C" if "q \<in> ?T" for q using site_separate(2) [OF ok, of q ?C] that by blast
    then show ?thesis using same_outside_read [OF f2] C by simp
  qed
  moreover have "code_in m (mmu A ?s) (jumpToOriginal d) (original_words d)"
    using code_in_outside [OF c1 f2 original_length] site_separate(4) [OF ok] by blast
  ultimately show ?thesis using g1 g2 c2 unfolding U by (intro exI conjI) assumption+
qed

text \<open>
  The world after a successful patch: memory and the operating system changed as the stages say, the
  object holds the displaced instruction and is marked, nothing else changed.
\<close>

definition patched_object :: "'s os_api \<Rightarrow> bytes \<Rightarrow> PatchedFunctionData \<Rightarrow> PatchedFunctionData" where
  "patched_object A m d =
     d\<lparr>replacedInstruction := read32 m (realPhysicalFunctionAddress d),
       replaceWithInstruction := branch_to (entry_target A d), isPatched := True\<rparr>"

definition seen_by_all_cores :: "PatchedFunctionData \<Rightarrow> (nat \<times> event) list \<Rightarrow> bool" where
  "seen_by_all_cores d tr \<longleftrightarrow>
     (\<forall>c \<in> {0, 1, 2}. writes_and_invalidates c (realPhysicalFunctionAddress d)
           (realEffectiveFunctionAddress d) tr)"

lemma entry_target_ignores [simp]:
  "entry_target A (d\<lparr>replacedInstruction := x\<rparr>) = entry_target A d"
  "entry_target A (d\<lparr>replaceWithInstruction := x\<rparr>) = entry_target A d"
  "entry_target A (d\<lparr>isPatched := b\<rparr>) = entry_target A d"
  by (simp_all add: entry_target_def)

lemma code_words_ignores [simp]:
  "code_words A s (d\<lparr>replacedInstruction := x\<rparr>) = code_words A s d"
  "code_words A s (d\<lparr>replaceWithInstruction := x\<rparr>) = code_words A s d"
  "code_words A s (d\<lparr>isPatched := b\<rparr>) = code_words A s d"
  by (simp_all add: code_words_def)

lemma entry_target_short:
  "site_ok A s d \<Longrightarrow> short_branch_possible (entry_target A d)"
  using direct_branch_possible by (auto simp: site_ok_def entry_target_def)

text \<open>What reading the instruction and writing the branch leave of the generated code.\<close>

lemma installed_after_write:
  assumes ok: "site_ok A s d" and maps: "maps_same A s s'"
    and gen: "same_outside (code_words A s d) m0 m" "read32 m (mmu A s (realCallFunctionAddressPtr d)) = jumpToOriginal d"
      "code_in m (mmu A s) (jumpToOriginal d) (original_words d)"
      "needs_trampoline A d \<longrightarrow>
          code_in m (mmu A s) (jumpData d)
            (trampoline_words A (read32 m0 (mmu A s (OSGetUPID_code A))) (read32 m0 (mmu A s (OSGetUPID_code A + 4))) d)"
    and wr: "read32 m' (realPhysicalFunctionAddress d) = replaceWithInstruction d"
      "same_outside (insert (realPhysicalFunctionAddress d) (local_words A s)) m m'"
    and br: "replaceWithInstruction d = branch_to (entry_target A d)"
  shows "patch_installed A s' m' d"
proof -
  let ?P = "realPhysicalFunctionAddress d" and ?C = "mmu A s (realCallFunctionAddressPtr d)"
  let ?U = "mmu A s (OSGetUPID_code A)" and ?V = "mmu A s (OSGetUPID_code A + 4)"
  let ?S = "insert ?P (local_words A s)"
  note sep = site_separate [OF ok]
  have u: "read32 m' p = read32 m0 p" if "p = ?U \<or> p = ?V" for p
  proof -
    have "disj4 q p" if "q \<in> ?S" for q
      using that \<open>p = ?U \<or> p = ?V\<close> ok unfolding site_ok_def site_words_def by auto
    then have "read32 m' p = read32 m p" using same_outside_read [OF wr(2)] by blast
    also have "\<dots> = read32 m0 p"
      using same_outside_read [OF gen(1)] code_words_separate(2,3) [OF ok] that by blast
    finally show ?thesis .
  qed
  have "read32 m' ?C = jumpToOriginal d"
  proof -
    have "disj4 q ?C" if "q \<in> ?S" for q
      using that sep(1) sep(2) [of q ?C] disj4_sym by blast
    then show ?thesis using same_outside_read [OF wr(2)] gen(2) by simp
  qed
  moreover have "code_in m' (mmu A s) (jumpToOriginal d) (original_words d)"
    using code_in_outside [OF gen(3) wr(2) original_length] sep(4) by blast
  moreover have "code_in m' (mmu A s) (jumpData d)
      (trampoline_words A (read32 m' ?U) (read32 m' ?V) d)" if "needs_trampoline A d"
    using code_in_outside [OF gen(4) [rule_format, OF that] wr(2) trampoline_length(2)] sep(5) that u
    by auto
  moreover have "mmu A s' = mmu A s" using maps by (simp add: maps_same_def)
  ultimately show ?thesis
    using wr(1) br entry_target_short [OF ok] by (simp add: patch_installed_def)
qed

lemma PatchFunction_prepares:
  assumes plat: "memory_ok A"
    and obj: "objs w h = Some d0" and np: "\<not> isPatched d0"
    and should: "shouldBePatched A d0 w = Inr (True, w1)"
    and upd: "updateFunctionAddresses A d0 w1 = Inr ((True, d), w2)"
    and ok: "site_ok A (os w2) d"
  defines "d3 \<equiv> d\<lparr>replacedInstruction := read32 (mem w2) (realPhysicalFunctionAddress d),
                 replaceWithInstruction := branch_to (entry_target A d)\<rparr>"
  shows "\<exists>l m5 tr. l \<in> local_words A (os w2)
     \<and> PatchFunction A h w =
         (case runOnAllCores A (writeDataAndFlushIC A h)
                 (put_obj h d3 (w2\<lparr>mem := m5, trace := trace w2 @ tr\<rparr>)) of
            Inl e \<Rightarrow> Inl e
          | Inr w6 \<Rightarrow> Inr (True, put_obj h (d3\<lparr>isPatched := True\<rparr>) w6))
     \<and> same_outside (code_words A (os w2) d)
         (write32 (mem w2) l (read32 (mem w2) (realPhysicalFunctionAddress d))) m5
     \<and> read32 m5 (mmu A (os w2) (realCallFunctionAddressPtr d)) = jumpToOriginal d
     \<and> code_in m5 (mmu A (os w2)) (jumpToOriginal d) (original_words d3)
     \<and> (needs_trampoline A d \<longrightarrow>
          code_in m5 (mmu A (os w2)) (jumpData d)
            (trampoline_words A
               (read32 (write32 (mem w2) l (read32 (mem w2) (realPhysicalFunctionAddress d)))
                  (mmu A (os w2) (OSGetUPID_code A)))
               (read32 (write32 (mem w2) l (read32 (mem w2) (realPhysicalFunctionAddress d)))
                  (mmu A (os w2) (OSGetUPID_code A + 4))) d3))"
proof -
  let ?P = "realPhysicalFunctionAddress d"
  let ?i = "read32 (mem w2) ?P"
  let ?d2 = "d\<lparr>replacedInstruction := ?i\<rparr>"
  obtain l tr1 where l: "l \<in> local_words A (os w2)" and rd: "ReadFromPhysicalAddress A ?P True w2 =
      (Some ?i, w2\<lparr>mem := write32 (mem w2) l ?i, trace := trace w2 @ tr1\<rparr>)"
    using ReadFromPhysicalAddress_ok [OF plat] by blast
  let ?w3 = "w2\<lparr>mem := write32 (mem w2) l ?i, trace := trace w2 @ tr1\<rparr>"
  have "site_ok A (os ?w3) ?d2" using ok by simp
  from generate_both [OF this, of h] obtain w4 m5 tr2 where
    g1: "generateJumpToOriginal A ?d2 ?w3 = Inr w4"
    and g2: "generateReplacementJump A h ?d2 w4 = Inr (d3, w2\<lparr>mem := m5, trace := trace w2 @ (tr1 @ tr2)\<rparr>)"
    and rest: "same_outside (code_words A (os w2) d) (write32 (mem w2) l ?i) m5"
      "read32 m5 (mmu A (os w2) (realCallFunctionAddressPtr d)) = jumpToOriginal d"
      "code_in m5 (mmu A (os w2)) (jumpToOriginal d) (original_words d3)"
      "needs_trampoline A d \<longrightarrow>
          code_in m5 (mmu A (os w2)) (jumpData d)
            (trampoline_words A (read32 (write32 (mem w2) l ?i) (mmu A (os w2) (OSGetUPID_code A)))
               (read32 (write32 (mem w2) l ?i) (mmu A (os w2) (OSGetUPID_code A + 4))) d3)"
    unfolding d3_def by auto
  have "PatchFunction A h w =
         (case runOnAllCores A (writeDataAndFlushIC A h)
                 (put_obj h d3 (w2\<lparr>mem := m5, trace := trace w2 @ (tr1 @ tr2)\<rparr>)) of
            Inl e \<Rightarrow> Inl e
          | Inr w6 \<Rightarrow> Inr (True, put_obj h (d3\<lparr>isPatched := True\<rparr>) w6))"
    using np by (simp add: PatchFunction_def obj should upd rd g1 g2 Let_def)
  with l rest show ?thesis by blast
qed

lemma PatchFunction_installs:
  assumes plat: "platform_ok A"
    and obj: "objs w h = Some d0" and "\<not> isPatched d0"
    and should: "shouldBePatched A d0 w = Inr (True, w1)"
    and upd: "updateFunctionAddresses A d0 w1 = Inr ((True, d), w2)"
    and ok: "site_ok A (os w2) d"
  shows "\<exists>m s tr.
     PatchFunction A h w = Inr (True,
       w2\<lparr>mem := m, os := s, objs := (objs w2)(h \<mapsto> patched_object A (mem w2) d), trace := trace w2 @ tr\<rparr>)
     \<and> patch_installed A s m (patched_object A (mem w2) d)
     \<and> same_outside (patch_footprint A (os w2) d) (mem w2) m
     \<and> maps_same A (os w2) s
     \<and> seen_by_all_cores d tr"
proof -
  let ?P = "realPhysicalFunctionAddress d" and ?L = "local_words A (os w2)"
  let ?i = "read32 (mem w2) ?P"
  let ?d3 = "d\<lparr>replacedInstruction := ?i, replaceWithInstruction := branch_to (entry_target A d)\<rparr>"
  obtain l m5 tr1 where l: "l \<in> ?L" and
    pf: "PatchFunction A h w =
         (case runOnAllCores A (writeDataAndFlushIC A h)
                 (put_obj h ?d3 (w2\<lparr>mem := m5, trace := trace w2 @ tr1\<rparr>)) of
            Inl e \<Rightarrow> Inl e
          | Inr w6 \<Rightarrow> Inr (True, put_obj h (?d3\<lparr>isPatched := True\<rparr>) w6))"
    and f5: "same_outside (code_words A (os w2) d) (write32 (mem w2) l ?i) m5"
    and C5: "read32 m5 (mmu A (os w2) (realCallFunctionAddressPtr d)) = jumpToOriginal d"
    and O5: "code_in m5 (mmu A (os w2)) (jumpToOriginal d) (original_words ?d3)"
    and T5: "needs_trampoline A d \<longrightarrow>
          code_in m5 (mmu A (os w2)) (jumpData d)
            (trampoline_words A (read32 (write32 (mem w2) l ?i) (mmu A (os w2) (OSGetUPID_code A)))
               (read32 (write32 (mem w2) l ?i) (mmu A (os w2) (OSGetUPID_code A + 4))) ?d3)"
    using PatchFunction_prepares [OF platform_memory [OF plat] obj assms(3) should upd ok] by blast
  let ?w5 = "put_obj h ?d3 (w2\<lparr>mem := m5, trace := trace w2 @ tr1\<rparr>)"
  have "objs ?w5 h = Some ?d3" by (simp add: put_obj_def)
  from runOnAllCores_write [OF plat this] obtain m s tr3 where
    run: "runOnAllCores A (writeDataAndFlushIC A h) ?w5 = Inr (?w5\<lparr>mem := m, os := s, trace := trace ?w5 @ tr3\<rparr>)"
    and maps: "maps_same A (os w2) s" and P: "read32 m ?P = branch_to (entry_target A d)"
    and f6: "same_outside (insert ?P ?L) m5 m"
    and seen: "seen_by_all_cores d tr3"
    by (auto simp: put_obj_def seen_by_all_cores_def)
  have "PatchFunction A h w = Inr (True,
       w2\<lparr>mem := m, os := s, objs := (objs w2)(h \<mapsto> patched_object A (mem w2) d),
          trace := trace w2 @ (tr1 @ tr3)\<rparr>)"
    by (simp add: pf run) (simp add: put_obj_def patched_object_def)
  moreover have "patch_installed A s m ?d3"
    by (rule installed_after_write [OF _ maps, of ?d3 "write32 (mem w2) l ?i" m5])
      (use ok f5 C5 O5 T5 P f6 in simp_all)
  then have "patch_installed A s m (patched_object A (mem w2) d)"
    by (simp add: patch_installed_def patched_object_def)
  moreover have "same_outside (patch_footprint A (os w2) d) (mem w2) m"
  proof -
    have sub: "{l} \<subseteq> patch_footprint A (os w2) d" "code_words A (os w2) d \<subseteq> patch_footprint A (os w2) d"
      "insert ?P ?L \<subseteq> patch_footprint A (os w2) d"
      using l by (auto simp: patch_footprint_def)
    have "same_outside {l} (mem w2) (write32 (mem w2) l ?i)" by (simp add: same_outside_write)
    from same_outside_trans [OF same_outside_trans [OF same_outside_mono [OF this sub(1)]
        same_outside_mono [OF f5 sub(2)]] same_outside_mono [OF f6 sub(3)]]
    show ?thesis .
  qed
  moreover have "seen_by_all_cores d (tr1 @ tr3)"
    using seen writes_and_invalidates_mono [of _ ?P "realEffectiveFunctionAddress d" tr3 tr1 "[]"]
    by (auto simp: seen_by_all_cores_def)
  ultimately show ?thesis using maps by blast
qed

section \<open>Restoring\<close>

text \<open>
  What \<open>RestoreFunction\<close> needs to know about an object it can restore: it has a displaced
  instruction and an address, the address still maps to the physical address it was found at, and
  the field it copies from can be translated and is apart from the function.
\<close>

definition source_word :: "'s os_api \<Rightarrow> 's \<Rightarrow> u32 \<Rightarrow> u32" where
  "source_word A s h = mmu A s (h + replacedInstruction_offset)"

definition restorable :: "'s os_api \<Rightarrow> 's \<Rightarrow> u32 \<Rightarrow> PatchedFunctionData \<Rightarrow> bool" where
  "restorable A s h d \<longleftrightarrow>
     replacedInstruction d \<noteq> 0 \<and> realEffectiveFunctionAddress d \<noteq> 0
     \<and> (fp_library d \<noteq> Some LIBRARY_OTHER \<longrightarrow>
          OSEffectiveToPhysical A s (realEffectiveFunctionAddress d) = realPhysicalFunctionAddress d)
     \<and> translatable A s (h + replacedInstruction_offset)
     \<and> (\<forall>l \<in> local_words A s. disj4 l (realPhysicalFunctionAddress d))
     \<and> disj4 (source_word A s h) (realPhysicalFunctionAddress d)"

lemma restorable_maps_same: "maps_same A s s' \<Longrightarrow> restorable A s' h d = restorable A s h d"
  by (simp add: restorable_def source_word_def maps_same_def local_words_def translatable_def)

lemma restorable_ignores [simp]:
  "restorable A s h (d\<lparr>replaceWithInstruction := x\<rparr>) = restorable A s h d"
  "restorable A s h (d\<lparr>isPatched := b\<rparr>) = restorable A s h d"
  by (simp_all add: restorable_def)

lemma RestoreFunction_restores:
  assumes plat: "memory_ok A"
    and obj: "objs w h = Some d" and pd: "isPatched d"
    and ok: "restorable A (os w) h d"
    and there: "read32 (mem w) (realPhysicalFunctionAddress d) = replaceWithInstruction d"
  shows "\<exists>m tr. RestoreFunction A h w = Inr (True,
       w\<lparr>mem := m, trace := trace w @ tr, objs := (objs w)(h \<mapsto> d\<lparr>isPatched := False\<rparr>)\<rparr>)
     \<and> read32 m (realPhysicalFunctionAddress d) = replacedInstruction d
     \<and> same_outside ({realPhysicalFunctionAddress d, source_word A (os w) h} \<union> local_words A (os w))
         (mem w) m"
proof -
  let ?P = "realPhysicalFunctionAddress d" and ?a = "h + replacedInstruction_offset"
  let ?F = "source_word A (os w) h" and ?S = "{?P, source_word A (os w) h} \<union> local_words A (os w)"
  obtain l tr1 where l: "l \<in> local_words A (os w)" and rd: "ReadFromPhysicalAddress A ?P True w =
      (Some (replaceWithInstruction d),
       w\<lparr>mem := write32 (mem w) l (replaceWithInstruction d), trace := trace w @ tr1\<rparr>)"
    using ReadFromPhysicalAddress_ok [OF plat, of w ?P] there by auto
  let ?m1 = "write32 (mem w) l (replaceWithInstruction d)"
  let ?m2 = "write32 ?m1 ?F (replacedInstruction d)"
  let ?m = "write32 ?m2 ?P (replacedInstruction d)"
  from ok have ta: "translatable A (os w) ?a" by (simp add: restorable_def)
  have tgt: "(if fp_library d \<noteq> Some LIBRARY_OTHER
              then OSEffectiveToPhysical A (os w) (realEffectiveFunctionAddress d) else ?P) = ?P"
    using ok by (simp add: restorable_def)
  have src: "source_to_physical A (os w) ?a = ?F"
    using code_translates(3) [OF plat ta] by (simp add: source_word_def)
  have F: "?F \<noteq> 0" using code_translates(1) [OF plat ta] by (simp add: source_word_def)
  have "\<exists>tr. RestoreFunction A h w = Inr (True,
       w\<lparr>mem := ?m, trace := trace w @ tr, objs := (objs w)(h \<mapsto> d\<lparr>isPatched := False\<rparr>)\<rparr>)"
    using ok pd
    by (simp add: RestoreFunction_def obj rd restorable_def tgt Let_def store32_def src F
        copy_data_word [OF plat] source_word_def [symmetric] log_event_def put_obj_def)
      (rule exI, rule refl)
  moreover have "same_outside ?S (mem w) ?m"
    using l by (intro same_outside_trans [OF same_outside_write same_outside_trans [OF same_outside_write same_outside_write]])
      simp_all
  ultimately show ?thesis by fastforce
qed

end
