(* ===== verification/Patched_Calls.thy ===== *)
theory Patched_Calls
  imports Patch_Correct
begin

text \<open>
  What a patch does to the programs that run afterwards. A processor that sees the memory
  \<open>PatchFunction\<close> leaves behind and calls the patched function ends in the replacement or in the
  original, as the target process says; calling through the pointer handed out runs the original;
  \<open>RestoreFunction\<close> undoes a patch, and leaves a function alone that it does not recognise.
\<close>

section \<open>A processor in a patched world\<close>

definition sees :: "'s os_api \<Rightarrow> 's world \<Rightarrow> cpu \<Rightarrow> bool" where
  "sees A w c \<longleftrightarrow> view c = (\<lambda>a. load32 A a w)"

text \<open>The number of the running process, as the loads of the trampoline find it.\<close>

definition upid_word :: "'s os_api \<Rightarrow> 's world \<Rightarrow> u32" where
  "upid_word A w =
     load32 A (upid_address (load32 A (OSGetUPID_code A) w) (load32 A (OSGetUPID_code A + 4) w)) w"

text \<open>The patch \<open>h\<close> is due in \<open>w\<close>: \<open>d\<close> is the object with its addresses found, \<open>w2\<close> the world then.\<close>

definition patch_applies :: "'s os_api \<Rightarrow> u32 \<Rightarrow> 's world \<Rightarrow> PatchedFunctionData \<Rightarrow> 's world \<Rightarrow> bool" where
  "patch_applies A h w d w2 \<longleftrightarrow>
     (\<exists>d0 w1. objs w h = Some d0 \<and> \<not> isPatched d0
        \<and> shouldBePatched A d0 w = Inr (True, w1)
        \<and> updateFunctionAddresses A d0 w1 = Inr ((True, d), w2))"

definition target_mapped :: "'s os_api \<Rightarrow> 's \<Rightarrow> PatchedFunctionData \<Rightarrow> bool" where
  "target_mapped A s d \<longleftrightarrow>
     mmu A s (realEffectiveFunctionAddress d) = realPhysicalFunctionAddress d
     \<and> realEffectiveFunctionAddress d AND 0xFFFFFFFC = realEffectiveFunctionAddress d"

lemma code_in_code_at:
  assumes "code_in m tr buf ws" and "view c = (\<lambda>a. read32 m (tr a))"
  shows "code_at c buf ws"
proof -
  have "code_at c (buf + 4 * of_nat k) (drop k ws)" if "k \<le> length ws" for k
    using that
  proof (induction "length ws - k" arbitrary: k)
    case (Suc n)
    then have k: "k < length ws" by simp
    from Suc.hyps(1) [of "Suc k"] Suc.hyps(2) k
    have "code_at c (buf + 4 * of_nat (Suc k)) (drop (Suc k) ws)" by simp
    with assms k show ?case by (simp add: code_in_def Cons_nth_drop_Suc [symmetric] algebra_simps)
  qed simp
  from this [of 0] show ?thesis by simp
qed

lemma next_word_aligned:
  fixes a :: u32
  assumes "a AND 0xFFFFFFFC = a"
  shows "(a + 4) AND 0xFFFFFFFC = a + 4"
proof -
  have n: "(0xFFFFFFFC :: u32) = NOT (mask 2)" by (simp add: mask_eq_exp_minus_1)
  have iff: "x AND 0xFFFFFFFC = x \<longleftrightarrow> x AND mask 2 = 0" for x :: u32
    unfolding n by (auto simp: bit_eq_iff bit_simps)
  have "4 dvd unat (x + 4)" if "4 dvd unat x" for x :: u32
    using that by (simp add: unat_word_ariths dvd_mod)
  with assms show ?thesis
    unfolding iff and_mask_dvd_nat [symmetric] by simp
qed

lemma enter_patch:
  assumes "patch_installed A s m d" and "target_mapped A s d"
    and "view c = (\<lambda>a. read32 m (mmu A s a))" and "pc c = realEffectiveFunctionAddress d"
  shows "run X (Suc 0) c = Some (c\<lparr>pc := entry_target A d\<rparr>)"
  using assms
  by (simp add: patch_installed_def target_mapped_def step_def branch_to_def decode_ba_short
      short_branch_possible_def)

lemma installed_code:
  assumes "patch_installed A s m d" and "view c = (\<lambda>a. read32 m (mmu A s a))"
  shows "code_at c (jumpToOriginal d) (original_words d)"
    and "needs_trampoline A d \<Longrightarrow> code_at c (jumpData d)
      (trampoline_words A (view c (OSGetUPID_code A)) (view c (OSGetUPID_code A + 4)) d)"
  using assms code_in_code_at by (auto simp: patch_installed_def)

lemma target_process_all: "\<not> needs_trampoline A d \<Longrightarrow> targetProcess d = FP_TARGET_PROCESS_ALL A"
  by (simp add: needs_trampoline_def)

lemma same_but_scratch_pc [simp]: "same_but_scratch c (c\<lparr>pc := x\<rparr>)"
  by (simp add: same_but_scratch_def)

section \<open>Calls of a patched function\<close>

lemma installed_reaches_replacement:
  assumes inst: "patch_installed A s m d" and tm: "target_mapped A s d"
    and view: "view c = (\<lambda>a. read32 m (mmu A s a))" and pc: "pc c = realEffectiveFunctionAddress d"
    and sel: "targetProcess d = FP_TARGET_PROCESS_ALL A \<or>
         process_ids_small A d \<and> upid_selected A d
           (view c (upid_address (view c (OSGetUPID_code A)) (view c (OSGetUPID_code A + 4))))"
    and al: "replacementFunctionAddress d AND 0xFFFFFFFC = replacementFunctionAddress d"
  shows "\<exists>n c'. run X n c = Some c' \<and> pc c' = replacementFunctionAddress d \<and> same_but_scratch c c'"
proof (cases "needs_trampoline A d")
  case False
  then show ?thesis using enter_patch [OF inst tm view pc, of X]
    by (intro exI [of _ "Suc 0"] exI [of _ "c\<lparr>pc := entry_target A d\<rparr>"]) (simp add: entry_target_def)
next
  case True
  let ?c1 = "c\<lparr>pc := entry_target A d\<rparr>"
  have v: "view ?c1 = view c" by simp
  have code: "code_at ?c1 (pc ?c1) (trampoline_words A (view c (OSGetUPID_code A)) (view c (OSGetUPID_code A + 4)) d)"
    using installed_code(2) [OF inst, of ?c1] view True by (simp add: entry_target_def)
  from trampoline_reaches_replacement [OF code _ al, of X] sel obtain n c' where
    "run X n ?c1 = Some c'" "pc c' = replacementFunctionAddress d" "same_but_scratch ?c1 c'"
    unfolding v by blast
  with run_trans [OF enter_patch [OF inst tm view pc]] show ?thesis
    using same_but_scratch_trans [OF same_but_scratch_pc] by blast
qed

lemma installed_passes_through:
  assumes inst: "patch_installed A s m d" and tm: "target_mapped A s d"
    and view: "view c = (\<lambda>a. read32 m (mmu A s a))" and pc: "pc c = realEffectiveFunctionAddress d"
    and sel: "targetProcess d \<noteq> FP_TARGET_PROCESS_ALL A" "process_ids_small A d"
      "\<not> upid_selected A d
           (view c (upid_address (view c (OSGetUPID_code A)) (view c (OSGetUPID_code A + 4))))"
    and ft: "falls_through X (replacedInstruction d) f c (jumpData d)
      (trampoline_words A (view c (OSGetUPID_code A)) (view c (OSGetUPID_code A + 4)) d)"
  shows "\<exists>n c1 c'. run X n c = Some c' \<and> pc c' = realEffectiveFunctionAddress d + 4
           \<and> same_but_scratch c c1 \<and> same_but_scratch (f c1) c'"
proof -
  let ?c1 = "c\<lparr>pc := jumpData d\<rparr>"
  have nt: "needs_trampoline A d" using sel(1) by (simp add: needs_trampoline_def)
  have v: "view ?c1 = view c" and p: "pc ?c1 = jumpData d" by simp_all
  have ft1: "falls_through X (replacedInstruction d) f ?c1 (jumpData d)
      (trampoline_words A (view c (OSGetUPID_code A)) (view c (OSGetUPID_code A + 4)) d)"
    using ft by (auto simp: falls_through_def same_but_scratch_def)
  have code: "code_at ?c1 (jumpData d) (trampoline_words A (view c (OSGetUPID_code A)) (view c (OSGetUPID_code A + 4)) d)"
    using installed_code(2) [OF inst, of ?c1] view nt by simp
  have al: "(realEffectiveFunctionAddress d + 4) AND 0xFFFFFFFC = realEffectiveFunctionAddress d + 4"
    using tm next_word_aligned by (simp add: target_mapped_def)
  from trampoline_passes_through [of ?c1, unfolded v p, OF code sel ft1 al] obtain n c1 c' where
    r: "run X n ?c1 = Some c'" and res: "pc c' = realEffectiveFunctionAddress d + 4"
      "same_but_scratch ?c1 c1" "same_but_scratch (f c1) c'"
    by blast
  have "run X (Suc 0) c = Some ?c1"
    using enter_patch [OF inst tm view pc] nt by (simp add: entry_target_def)
  from run_trans [OF this r] res show ?thesis
    using same_but_scratch_trans [OF same_but_scratch_pc] by blast
qed

text \<open>The world after a due patch, as the processors see it.\<close>

lemma patch_outcome:
  assumes "platform_ok A" and "patch_applies A h w d w2"
    and "site_ok A (os w2) d" and "target_mapped A (os w2) d"
  obtains w' where "PatchFunction A h w = Inr (True, w')"
    and "objs w' h = Some (patched_object A (mem w2) d)"
    and "patch_installed A (os w') (mem w') (patched_object A (mem w2) d)"
    and "target_mapped A (os w') (patched_object A (mem w2) d)"
proof -
  let ?d = "patched_object A (mem w2) d"
  obtain m s tr where P: "PatchFunction A h w = Inr (True,
       w2\<lparr>mem := m, os := s, objs := (objs w2)(h \<mapsto> ?d), trace := trace w2 @ tr\<rparr>)"
    and inst: "patch_installed A s m ?d" and maps: "maps_same A (os w2) s"
    using PatchFunction_installs [OF assms(1)] assms(2,3) unfolding patch_applies_def by blast
  have "target_mapped A s ?d"
    using assms(4) maps by (simp add: target_mapped_def patched_object_def maps_same_def)
  with inst show ?thesis by (intro that [OF P]) simp_all
qed

lemma sees_view: "sees A w c \<Longrightarrow> view c = (\<lambda>a. read32 (mem w) (mmu A (os w) a))"
  by (simp add: sees_def load32_def)

lemma sees_upid:
  "sees A w c \<Longrightarrow>
     view c (upid_address (view c (OSGetUPID_code A)) (view c (OSGetUPID_code A + 4))) = upid_word A w"
  by (simp add: sees_def upid_word_def)

lemma patched_object_fields [simp]:
  "targetProcess (patched_object A m d) = targetProcess d"
  "replacementFunctionAddress (patched_object A m d) = replacementFunctionAddress d"
  "realEffectiveFunctionAddress (patched_object A m d) = realEffectiveFunctionAddress d"
  "realPhysicalFunctionAddress (patched_object A m d) = realPhysicalFunctionAddress d"
  "realCallFunctionAddressPtr (patched_object A m d) = realCallFunctionAddressPtr d"
  "jumpToOriginal (patched_object A m d) = jumpToOriginal d"
  "jumpData (patched_object A m d) = jumpData d"
  "fp_library (patched_object A m d) = fp_library d"
  "replacedInstruction (patched_object A m d) = read32 m (realPhysicalFunctionAddress d)"
  "replaceWithInstruction (patched_object A m d) = branch_to (entry_target A d)"
  "isPatched (patched_object A m d)"
  "process_ids_small A (patched_object A m d) = process_ids_small A d"
  "upid_selected A (patched_object A m d) u = upid_selected A d u"
  by (simp_all add: patched_object_def process_ids_small_def upid_selected_def)

text \<open>
  C1. After a successful \<open>PatchFunction\<close>, a call of the patched function by a process the patch is
  for ends at the replacement function, with memory and every register as the caller left them
  (register 11, the count register and condition field 0 apart, which a callee may use). The
  hypotheses ask for a patch that is due, at a properly laid out site.
\<close>

theorem patched_call_reaches_replacement:
  assumes "platform_ok A" and "patch_applies A h w d w2"
    and "site_ok A (os w2) d" and "target_mapped A (os w2) d"
    and "targetProcess d = FP_TARGET_PROCESS_ALL A \<or> process_ids_small A d"
  shows "\<exists>w'. PatchFunction A h w = Inr (True, w') \<and>
     (\<forall>X c. sees A w' c \<and> pc c = realEffectiveFunctionAddress d
         \<and> (targetProcess d = FP_TARGET_PROCESS_ALL A \<or> upid_selected A d (upid_word A w'))
       \<longrightarrow> (\<exists>n c'. run X n c = Some c' \<and> pc c' = replacementFunctionAddress d \<and> same_but_scratch c c'))"
proof -
  obtain w' where P: "PatchFunction A h w = Inr (True, w')"
    and inst: "patch_installed A (os w') (mem w') (patched_object A (mem w2) d)"
    and tm: "target_mapped A (os w') (patched_object A (mem w2) d)"
    using patch_outcome [OF assms(1-4)] by blast
  have al: "replacementFunctionAddress d AND 0xFFFFFFFC = replacementFunctionAddress d"
    using assms(3) by (simp add: site_ok_def)
  have "\<exists>n c'. run X n c = Some c' \<and> pc c' = replacementFunctionAddress d \<and> same_but_scratch c c'"
    if "sees A w' c" and "pc c = realEffectiveFunctionAddress d"
      and "targetProcess d = FP_TARGET_PROCESS_ALL A \<or> upid_selected A d (upid_word A w')" for X c
    using installed_reaches_replacement [OF inst tm sees_view [OF that(1)], of X] that(2,3)
      sees_upid [OF that(1)] assms(5) al by auto
  with P show ?thesis by blast
qed

text \<open>
  C2. After a successful \<open>PatchFunction\<close> with a target process, a call of the patched function by
  any other process executes the displaced instruction once, on a state that differs from the
  caller's in scratch state only, and continues at the second instruction of the original.
\<close>

theorem patched_call_passes_through:
  assumes "platform_ok A" and "patch_applies A h w d w2"
    and "site_ok A (os w2) d" and "target_mapped A (os w2) d"
    and "targetProcess d \<noteq> FP_TARGET_PROCESS_ALL A" and "process_ids_small A d"
  shows "\<exists>w' d'. PatchFunction A h w = Inr (True, w') \<and> objs w' h = Some d'
     \<and> replacedInstruction d' = read32 (mem w2) (realPhysicalFunctionAddress d) \<and>
     (\<forall>X c f. sees A w' c \<and> pc c = realEffectiveFunctionAddress d
         \<and> \<not> upid_selected A d (upid_word A w')
         \<and> falls_through X (replacedInstruction d') f c (jumpData d')
             (trampoline_words A (view c (OSGetUPID_code A)) (view c (OSGetUPID_code A + 4)) d')
       \<longrightarrow> (\<exists>n c1 c'. run X n c = Some c' \<and> pc c' = realEffectiveFunctionAddress d + 4
             \<and> same_but_scratch c c1 \<and> same_but_scratch (f c1) c'))"
proof -
  let ?d = "patched_object A (mem w2) d"
  obtain w' where P: "PatchFunction A h w = Inr (True, w')" and o: "objs w' h = Some ?d"
    and inst: "patch_installed A (os w') (mem w') ?d" and tm: "target_mapped A (os w') ?d"
    using patch_outcome [OF assms(1-4)] by blast
  have "\<exists>n c1 c'. run X n c = Some c' \<and> pc c' = realEffectiveFunctionAddress d + 4
             \<and> same_but_scratch c c1 \<and> same_but_scratch (f c1) c'"
    if "sees A w' c" and "pc c = realEffectiveFunctionAddress d"
      and "\<not> upid_selected A d (upid_word A w')"
      and "falls_through X (replacedInstruction ?d) f c (jumpData ?d)
             (trampoline_words A (view c (OSGetUPID_code A)) (view c (OSGetUPID_code A + 4)) ?d)" for X c f
    using installed_passes_through [OF inst tm sees_view [OF that(1)] _ _ _ _ that(4)] that(2,3)
      sees_upid [OF that(1)] assms(5,6)
    by simp
  with P o show ?thesis by (intro exI [of _ w'] exI [of _ ?d]) simp
qed

text \<open>
  C3. After a successful \<open>PatchFunction\<close>, the word behind the caller's \<open>replaceCall\<close> pointer is the
  address of code that runs the original function: it executes the displaced instruction, on a
  state that differs from the caller's in scratch state only, and continues at the second
  instruction of the original.
\<close>

theorem call_through_pointer_runs_original:
  assumes "platform_ok A" and "patch_applies A h w d w2"
    and "site_ok A (os w2) d" and "target_mapped A (os w2) d"
  shows "\<exists>w' d'. PatchFunction A h w = Inr (True, w') \<and> objs w' h = Some d'
     \<and> replacedInstruction d' = read32 (mem w2) (realPhysicalFunctionAddress d) \<and>
     (\<forall>X c f. sees A w' c \<and> pc c = load32 A (realCallFunctionAddressPtr d) w'
         \<and> falls_through X (replacedInstruction d') f c (pc c) (original_words d')
       \<longrightarrow> (\<exists>n c1. run X n c = Some ((f c1)\<lparr>pc := realEffectiveFunctionAddress d + 4\<rparr>)
             \<and> same_but_scratch c c1 \<and> cr c1 = cr c))"
proof -
  let ?d = "patched_object A (mem w2) d"
  obtain w' where P: "PatchFunction A h w = Inr (True, w')" and o: "objs w' h = Some ?d"
    and inst: "patch_installed A (os w') (mem w') ?d" and tm: "target_mapped A (os w') ?d"
    using patch_outcome [OF assms] by blast
  have al: "(realEffectiveFunctionAddress ?d + 4) AND 0xFFFFFFFC = realEffectiveFunctionAddress ?d + 4"
    using assms(4) next_word_aligned by (simp add: target_mapped_def)
  have ptr: "load32 A (realCallFunctionAddressPtr d) w' = jumpToOriginal ?d"
    using inst by (simp add: patch_installed_def load32_def)
  have "\<exists>n c1. run X n c = Some ((f c1)\<lparr>pc := realEffectiveFunctionAddress d + 4\<rparr>)
             \<and> same_but_scratch c c1 \<and> cr c1 = cr c"
    if "sees A w' c" and "pc c = load32 A (realCallFunctionAddressPtr d) w'"
      and "falls_through X (replacedInstruction ?d) f c (pc c) (original_words ?d)" for X c f
    using jump_to_original_runs_original [OF _ that(3) al] installed_code(1) [OF inst sees_view [OF that(1)]]
      that(2) unfolding ptr by simp
  with P o show ?thesis
    by (intro exI [of _ w'] exI [of _ ?d] conjI allI impI) (simp, simp, simp, blast)
qed

section \<open>Taking a patch back\<close>

text \<open>
  C4. A due patch changes exactly what it has to: the object, the function's first word, the code
  buffers, the word behind the caller's pointer and the module's scratch words. Every other byte,
  every other object and every global is as before. All three cores run the copy of the branch
  over the function's first instruction, each followed by the invalidation of that core's
  instruction cache for it.
\<close>

theorem patch_seen_by_all_cores:
  assumes "platform_ok A" and "patch_applies A h w d w2" and "site_ok A (os w2) d"
  shows "\<exists>m s tr. PatchFunction A h w = Inr (True,
       w2\<lparr>mem := m, os := s, objs := (objs w2)(h \<mapsto> patched_object A (mem w2) d), trace := trace w2 @ tr\<rparr>)
     \<and> same_outside (patch_footprint A (os w2) d) (mem w2) m
     \<and> read32 m (realPhysicalFunctionAddress d) = branch_to (entry_target A d)
     \<and> seen_by_all_cores d tr"
proof -
  have "patch_installed A s m (patched_object A (mem w2) d) \<Longrightarrow>
      read32 m (realPhysicalFunctionAddress d) = branch_to (entry_target A d)" for s m
    by (simp add: patch_installed_def)
  with PatchFunction_installs [OF assms(1)] assms(2,3) show ?thesis
    unfolding patch_applies_def by blast
qed

lemma patch_then_restore:
  assumes plat: "platform_ok A" and app: "patch_applies A h w d w2"
    and ok: "site_ok A (os w2) d"
    and rest: "restorable A (os w2) h (patched_object A (mem w2) d)"
  shows "\<exists>w3 tr3 w4 m4 tr4. PatchFunction A h w = Inr (True, w3) \<and> objs w3 h = Some (patched_object A (mem w2) d)
     \<and> core w3 = core w2 \<and> trace w3 = trace w2 @ tr3 \<and> seen_by_all_cores d tr3
     \<and> RestoreFunction A h w3 = Inr (True, w4)
     \<and> w4 = w3\<lparr>mem := m4, trace := trace w3 @ tr4,
               objs := (objs w3)(h \<mapsto> (patched_object A (mem w2) d)\<lparr>isPatched := False\<rparr>)\<rparr>
     \<and> restorable A (os w3) h (patched_object A (mem w2) d)
     \<and> read32 m4 (realPhysicalFunctionAddress d) = read32 (mem w2) (realPhysicalFunctionAddress d)
     \<and> same_outside (patch_footprint A (os w2) d \<union> {source_word A (os w2) h}) (mem w2) m4"
proof -
  let ?d = "patched_object A (mem w2) d" and ?S = "patch_footprint A (os w2) d \<union> {source_word A (os w2) h}"
  obtain m s tr where P: "PatchFunction A h w = Inr (True,
       w2\<lparr>mem := m, os := s, objs := (objs w2)(h \<mapsto> ?d), trace := trace w2 @ tr\<rparr>)"
    and inst: "patch_installed A s m ?d" and maps: "maps_same A (os w2) s"
    and f1: "same_outside (patch_footprint A (os w2) d) (mem w2) m" and seen: "seen_by_all_cores d tr"
    using PatchFunction_installs [OF plat] app ok unfolding patch_applies_def by blast
  let ?w3 = "w2\<lparr>mem := m, os := s, objs := (objs w2)(h \<mapsto> ?d), trace := trace w2 @ tr\<rparr>"
  have "objs ?w3 h = Some ?d" and "isPatched ?d" by simp_all
  moreover have r3: "restorable A (os ?w3) h ?d" using rest restorable_maps_same [OF maps] by simp
  moreover have "read32 (mem ?w3) (realPhysicalFunctionAddress ?d) = replaceWithInstruction ?d"
    using inst by (simp only: patch_installed_def) simp
  ultimately obtain m4 tr4 where R: "RestoreFunction A h ?w3 = Inr (True,
       ?w3\<lparr>mem := m4, trace := trace ?w3 @ tr4, objs := (objs ?w3)(h \<mapsto> ?d\<lparr>isPatched := False\<rparr>)\<rparr>)"
    and p4: "read32 m4 (realPhysicalFunctionAddress ?d) = replacedInstruction ?d"
    and f4: "same_outside ({realPhysicalFunctionAddress ?d, source_word A (os ?w3) h} \<union> local_words A (os ?w3))
         (mem ?w3) m4"
    using RestoreFunction_restores [OF platform_memory [OF plat]] by blast
  have "{realPhysicalFunctionAddress ?d, source_word A (os ?w3) h} \<union> local_words A (os ?w3) \<subseteq> ?S"
    using local_words_maps_same [OF maps] maps
    by (auto simp: patch_footprint_def source_word_def maps_same_def)
  then have "same_outside ?S (mem w2) m4"
    using same_outside_trans [OF same_outside_mono [OF f1, of ?S]] same_outside_mono [OF f4, of ?S] by auto
  with P R p4 seen r3 show ?thesis
    by (intro exI [of _ ?w3] exI [of _ tr] exI [of _ "?w3\<lparr>mem := m4, trace := trace ?w3 @ tr4,
          objs := (objs ?w3)(h \<mapsto> ?d\<lparr>isPatched := False\<rparr>)\<rparr>"] exI [of _ m4] exI [of _ tr4] conjI)
      simp_all
qed

text \<open>
  C5. \<open>RestoreFunction\<close> after \<open>PatchFunction\<close> is a round trip: it succeeds, the function's first
  instruction is what it was, the object is marked as not patched, and only the words that patching
  uses (code buffers, the caller's pointer, stack locals) and the object's own field have changed.
\<close>

theorem restore_undoes_patch:
  assumes plat: "platform_ok A" and app: "patch_applies A h w d w2"
    and ok: "site_ok A (os w2) d"
    and rest: "restorable A (os w2) h (patched_object A (mem w2) d)"
  shows "\<exists>w3 w4 d'. PatchFunction A h w = Inr (True, w3) \<and> RestoreFunction A h w3 = Inr (True, w4)
     \<and> read32 (mem w4) (realPhysicalFunctionAddress d) = read32 (mem w2) (realPhysicalFunctionAddress d)
     \<and> objs w4 h = Some d' \<and> \<not> isPatched d'
     \<and> same_outside (patch_footprint A (os w2) d \<union> {source_word A (os w2) h}) (mem w2) (mem w4)"
proof -
  obtain w3 w4 m4 tr4 where "PatchFunction A h w = Inr (True, w3)" and "RestoreFunction A h w3 = Inr (True, w4)"
    and "w4 = w3\<lparr>mem := m4, trace := trace w3 @ tr4,
           objs := (objs w3)(h \<mapsto> (patched_object A (mem w2) d)\<lparr>isPatched := False\<rparr>)\<rparr>"
    and "read32 m4 (realPhysicalFunctionAddress d) = read32 (mem w2) (realPhysicalFunctionAddress d)"
    and "same_outside (patch_footprint A (os w2) d \<union> {source_word A (os w2) h}) (mem w2) m4"
    using patch_then_restore [OF assms] by blast
  then show ?thesis by (intro exI [of _ w3] exI [of _ w4]) simp
qed

lemma RestoreFunction_refuses:
  assumes plat: "memory_ok A" and "objs w h = Some d" and "isPatched d"
    and "read32 (mem w) (realPhysicalFunctionAddress d) \<noteq> replaceWithInstruction d"
  shows "\<exists>m tr. RestoreFunction A h w = Inr (False, w\<lparr>mem := m, trace := trace w @ tr\<rparr>)
     \<and> same_outside (local_words A (os w)) (mem w) m"
proof (cases "replacedInstruction d = 0 \<or> realEffectiveFunctionAddress d = 0")
  case True
  then show ?thesis using assms by (intro exI [of _ "mem w"] exI [of _ "[]"]) (simp add: RestoreFunction_def)
next
  case False
  obtain l tr where "l \<in> local_words A (os w)" and
    rd: "ReadFromPhysicalAddress A (realPhysicalFunctionAddress d) True w =
      (Some (read32 (mem w) (realPhysicalFunctionAddress d)),
       w\<lparr>mem := write32 (mem w) l (read32 (mem w) (realPhysicalFunctionAddress d)), trace := trace w @ tr\<rparr>)"
    using ReadFromPhysicalAddress_ok [OF plat] by blast
  then show ?thesis using assms False
    by (intro exI [of _ "write32 (mem w) l (read32 (mem w) (realPhysicalFunctionAddress d))"] exI [of _ tr])
      (simp add: RestoreFunction_def Let_def same_outside_write)
qed

text \<open>
  C6. \<open>RestoreFunction\<close> does not touch a function whose first instruction is not the branch that
  \<open>PatchFunction\<close> wrote (the library was unloaded, or someone else patched it again): it fails,
  objects and lists stay as they are, and only stack locals have changed in memory.
\<close>

theorem restore_refuses_foreign_code:
  assumes plat: "memory_ok A" and "objs w h = Some d" and "isPatched d"
    and "read32 (mem w) (realPhysicalFunctionAddress d) \<noteq> replaceWithInstruction d"
  shows "\<exists>m tr. RestoreFunction A h w = Inr (False, w\<lparr>mem := m, trace := trace w @ tr\<rparr>)
     \<and> same_outside (local_words A (os w)) (mem w) m"
  using assms by (rule RestoreFunction_refuses)

section \<open>When no thread can be had\<close>

text \<open>No memory for threads: both allocations of \<open>CThread\<close> fail, without effect.\<close>

definition no_threads :: "'s os_api \<Rightarrow> bool" where
  "no_threads A \<longleftrightarrow> (\<forall>f s n a. call_alloc A f s n a = (0, s))"

lemma run_on_core_without_threads: "no_threads A \<Longrightarrow> run_on_core A cb a pr n i w = Inr w"
  by (simp add: run_on_core_def CThread_new_def thread_alloc_def no_threads_def resumeThread_def
      isThreadSuspended_def shutdownThread_def Let_def)

text \<open>
  C38. If no memory for threads can be had, \<open>PatchFunction\<close> reports success and marks the patch, but
  the function is not patched: its first instruction is what it was, because the callback that
  writes it never runs and nobody looks.
\<close>

theorem unstarted_threads_report_success:
  assumes "memory_ok A" and "no_threads A" and app: "patch_applies A h w d w2"
    and ok: "site_ok A (os w2) d"
  shows "\<exists>w'. PatchFunction A h w = Inr (True, w') \<and> isPatched (the (objs w' h))
     \<and> read32 (mem w') (realPhysicalFunctionAddress d) = read32 (mem w2) (realPhysicalFunctionAddress d)"
proof -
  let ?P = "realPhysicalFunctionAddress d"
  let ?d3 = "d\<lparr>replacedInstruction := read32 (mem w2) ?P, replaceWithInstruction := branch_to (entry_target A d)\<rparr>"
  obtain l m5 tr1 where l: "l \<in> local_words A (os w2)" and
    pf: "PatchFunction A h w =
         (case runOnAllCores A (writeDataAndFlushIC A h)
                 (put_obj h ?d3 (w2\<lparr>mem := m5, trace := trace w2 @ tr1\<rparr>)) of
            Inl e \<Rightarrow> Inl e
          | Inr w6 \<Rightarrow> Inr (True, put_obj h (?d3\<lparr>isPatched := True\<rparr>) w6))"
    and f5: "same_outside (code_words A (os w2) d) (write32 (mem w2) l (read32 (mem w2) ?P)) m5"
    using PatchFunction_prepares [OF assms(1)] app ok unfolding patch_applies_def by blast
  let ?w' = "put_obj h (?d3\<lparr>isPatched := True\<rparr>) (put_obj h ?d3 (w2\<lparr>mem := m5, trace := trace w2 @ tr1\<rparr>))"
  have "PatchFunction A h w = Inr (True, ?w')"
    by (simp add: pf runOnAllCores_def run_on_core_without_threads [OF assms(2)])
  moreover have "read32 m5 ?P = read32 (mem w2) ?P"
  proof -
    have "disj4 l ?P" using l ok by (auto simp: site_ok_def site_words_def)
    moreover have "read32 m5 ?P = read32 (write32 (mem w2) l (read32 (mem w2) ?P)) ?P"
      by (rule same_outside_read [OF f5]) (rule code_words_separate(1) [OF ok])
    ultimately show ?thesis by (simp add: read32_write32_other)
  qed
  ultimately show ?thesis by (intro exI [of _ ?w']) (simp add: put_obj_def)
qed

end
