(* ===== verification/Export_Correct.thy ===== *)
theory Export_Correct
  imports Export_API Object_Correct Patched_Calls
begin

text \<open>
  Correctness of the exported functions: what adding and removing do to the list, the objects, the
  heaps and the mutex; which later patches a removal takes off; that taking patches off in reverse
  order unwinds a stack of patches of one function; and what becomes of the later patches.
\<close>

section \<open>The search loop of a removal\<close>

definition phys_of :: "(u32 \<rightharpoonup> PatchedFunctionData) \<Rightarrow> u32 \<Rightarrow> u32 option" where
  "phys_of ob h = map_option realPhysicalFunctionAddress (ob h)"

definition all_live :: "(u32 \<rightharpoonup> PatchedFunctionData) \<Rightarrow> u32 list \<Rightarrow> bool" where
  "all_live ob hs \<longleftrightarrow> (\<forall>h \<in> set hs. ob h \<noteq> None)"

lemma all_live_simps [simp]:
  "all_live ob []" "all_live ob (h # hs) \<longleftrightarrow> ob h \<noteq> None \<and> all_live ob hs"
  "all_live ob (xs @ ys) \<longleftrightarrow> all_live ob xs \<and> all_live ob ys"
  by (auto simp: all_live_def)

lemma remove_loop_absent:
  "all_live ob hs \<Longrightarrow> h \<notin> set hs \<Longrightarrow>
     remove_loop ob h hs \<lparr>toBeRemoved = None, erasePosition = n, toBeTempRestored = ts\<rparr> =
       Some \<lparr>toBeRemoved = None, erasePosition = n + length hs, toBeTempRestored = ts\<rparr>"
  by (induction hs arbitrary: n) auto

lemma remove_loop_before:
  "all_live ob pre \<Longrightarrow> h \<notin> set pre \<Longrightarrow>
     remove_loop ob h (pre @ hs) \<lparr>toBeRemoved = None, erasePosition = n, toBeTempRestored = ts\<rparr> =
     remove_loop ob h hs \<lparr>toBeRemoved = None, erasePosition = n + length pre, toBeTempRestored = ts\<rparr>"
  by (induction pre arbitrary: n) auto

lemma remove_loop_after:
  "all_live ob post \<Longrightarrow> h \<notin> set post \<Longrightarrow> ob h \<noteq> None \<Longrightarrow>
     remove_loop ob h post \<lparr>toBeRemoved = Some h, erasePosition = n, toBeTempRestored = ts\<rparr> =
     Some \<lparr>toBeRemoved = Some h, erasePosition = n,
       toBeTempRestored = ts @ filter (\<lambda>x. phys_of ob x = phys_of ob h) post\<rparr>"
  by (induction post arbitrary: ts) (auto simp: phys_of_def)

text \<open>
  The later patches that come off first: those behind \<open>h\<close> in the list that patch the same physical
  address, in list order, and none if \<open>h\<close> itself is not in memory.
\<close>

definition later_patches :: "'s world \<Rightarrow> u32 \<Rightarrow> u32 list \<Rightarrow> u32 list" where
  "later_patches w h post =
     (if is_patched w h then filter (\<lambda>x. phys_of (objs w) x = phys_of (objs w) h) post else [])"

lemma remove_loop_found:
  assumes "all_live (objs w) (pre @ h # post)" and "distinct (pre @ h # post)"
  shows "remove_loop (objs w) h (pre @ h # post)
           \<lparr>toBeRemoved = None, erasePosition = 0, toBeTempRestored = []\<rparr> =
     Some \<lparr>toBeRemoved = Some h, erasePosition = length pre, toBeTempRestored = later_patches w h post\<rparr>"
proof -
  obtain d where d: "objs w h = Some d" using assms(1) by auto
  show ?thesis
    using assms remove_loop_before [of "objs w" pre h "h # post" 0 "[]"]
      remove_loop_after [of "objs w" post h "length pre" "[]"] d
    by (simp add: later_patches_def is_patched_def)
qed

lemma erase_at_middle: "erase_at (length pre) (pre @ h # post) = pre @ post"
  by (simp add: erase_at_def)

section \<open>Removing\<close>

text \<open>The lock is taken and released again around everything.\<close>

lemma lock_fields [simp]:
  "objs (lock w) = objs w" "gPatchedFunctions (lock w) = gPatchedFunctions w" "mem (lock w) = mem w"
  "os (lock w) = os w" "unlock (lock w) = w" "is_patched (lock w) = is_patched w"
  "gPatchedFunctionsMutex (lock w) = Suc (gPatchedFunctionsMutex w)" "balance (lock w) = balance w"
  by (simp_all add: lock_def unlock_def is_patched_def fun_eq_iff)

lemma unlock_fields [simp]:
  "objs (unlock w) = objs w" "gPatchedFunctions (unlock w) = gPatchedFunctions w" "mem (unlock w) = mem w"
  "os (unlock w) = os w" "is_patched (unlock w) = is_patched w"
  "gPatchedFunctionsMutex (unlock w) = gPatchedFunctionsMutex w - 1" "balance (unlock w) = balance w"
  by (simp_all add: unlock_def is_patched_def fun_eq_iff)

lemma log_event_fields [simp]:
  "objs (log_event e w) = objs w" "gPatchedFunctions (log_event e w) = gPatchedFunctions w"
  "mem (log_event e w) = mem w" "os (log_event e w) = os w" "is_patched (log_event e w) = is_patched w"
  "gPatchedFunctionsMutex (log_event e w) = gPatchedFunctionsMutex w"
  "gJumpHeapHandle (log_event e w) = gJumpHeapHandle w" "table_names (log_event e w) = table_names w"
  by (simp_all add: log_event_def is_patched_def table_names_def fun_eq_iff)

text \<open>
  Removing with a handle that is not in the list has no effect and says so.
\<close>

lemma remove_unknown_handle:
  assumes "all_live (objs w) (gPatchedFunctions w)" and "h \<notin> set (gPatchedFunctions w)"
  shows "FPRemoveFunctionPatch A h w = Inr (FUNCTION_PATCHER_RESULT_PATCH_NOT_FOUND, w)"
  using assms by (simp add: FPRemoveFunctionPatch_def remove_loop_absent)

text \<open>A removal that finds its handle, split into its stages.\<close>

lemma remove_stages:
  assumes l: "gPatchedFunctions w = pre @ h # post"
    and live: "all_live (objs w) (gPatchedFunctions w)" and dist: "distinct (gPatchedFunctions w)"
    and r: "FPRemoveFunctionPatch A h w = Inr (st, w')"
  obtains w2 w4 d where "st = FUNCTION_PATCHER_RESULT_SUCCESS"
    and "(if is_patched w h
          then for_each (RestoreFunction A) (rev (later_patches w h post) @ [h]) (lock w)
          else Inr (lock w)) = Inr w2"
    and "(if is_patched w2 h
          then for_each (PatchFunction A) (later_patches w h post) (w2\<lparr>gPatchedFunctions := pre @ post\<rparr>)
          else Inr (w2\<lparr>gPatchedFunctions := pre @ post\<rparr>)) = Inr w4"
    and "objs w4 h = Some d"
    and "w' = unlock (delete_pfd A h d (log_event EvOSMemoryBarrier w4))"
proof -
  have live': "all_live (objs w) (pre @ h # post)" and dist': "distinct (pre @ h # post)"
    using live dist by (simp_all only: l)
  let ?loop = "if is_patched w h
     then for_each (RestoreFunction A) (rev (later_patches w h post) @ [h]) (lock w) else Inr (lock w)"
  have two: "(case for_each (RestoreFunction A) ts v of Inl e \<Rightarrow> Inl e
      | Inr w1 \<Rightarrow> for_each (RestoreFunction A) [h] w1) = for_each (RestoreFunction A) (ts @ [h]) v" for ts v
    by (simp add: for_each_append split: sum.splits)
  from r obtain w2 where w2: "?loop = Inr w2"
    by (cases ?loop)
      (auto simp: FPRemoveFunctionPatch_def l remove_loop_found [OF live' dist'] two Let_def
        simp del: for_each.simps split: if_splits)
  have "gPatchedFunctions w2 = pre @ h # post"
    using w2 restoring.loop_steps [of A "rev (later_patches w h post) @ [h]" "lock w" w2] l
    by (auto simp: object_steps_def keeps_globals_def split: if_splits)
  then have e: "erase_at (length pre) (gPatchedFunctions w2) = pre @ post" by (simp add: erase_at_middle)
  let ?loop2 = "if is_patched w2 h
     then for_each (PatchFunction A) (later_patches w h post) (w2\<lparr>gPatchedFunctions := pre @ post\<rparr>)
     else Inr (w2\<lparr>gPatchedFunctions := pre @ post\<rparr>)"
  have ip: "is_patched (w2\<lparr>gPatchedFunctions := pre @ post\<rparr>) h = is_patched w2 h" by (simp add: is_patched_def)
  from r w2 obtain w4 where w4: "?loop2 = Inr w4"
    by (cases ?loop2)
      (auto simp: FPRemoveFunctionPatch_def l remove_loop_found [OF live' dist'] two Let_def e ip
        simp del: for_each.simps split: if_splits)
  from r w2 w4 have "case objs w4 h of None \<Rightarrow> False
      | Some d \<Rightarrow> st = FUNCTION_PATCHER_RESULT_SUCCESS
          \<and> w' = unlock (delete_pfd A h d (log_event EvOSMemoryBarrier w4))"
    by (auto simp: FPRemoveFunctionPatch_def l remove_loop_found [OF live' dist'] two Let_def e ip log_event_def
        simp del: for_each.simps split: if_splits option.splits)
  with w2 w4 show thesis by (auto intro: that split: option.splits)
qed

lemma is_patched_gpf [simp]: "is_patched (w\<lparr>gPatchedFunctions := l\<rparr>) h = is_patched w h"
  by (simp add: is_patched_def)

lemma object_steps_gpf:
  "object_steps H (w\<lparr>gPatchedFunctions := l\<rparr>) w' \<Longrightarrow>
     object_steps H w (w'\<lparr>gPatchedFunctions := gPatchedFunctions w\<rparr>) \<and> gPatchedFunctions w' = l"
  by (simp add: object_steps_def keeps_globals_def heap_log_def table_names_def)

text \<open>The two loops of a removal, as one step on the objects of the later patches and \<open>h\<close>.\<close>

lemma remove_loops_steps:
  assumes "(if b then for_each (RestoreFunction A) (rev ts @ [h]) v else Inr v) = Inr w2"
    and "(if b' then for_each (PatchFunction A) ts (w2\<lparr>gPatchedFunctions := l\<rparr>)
          else Inr (w2\<lparr>gPatchedFunctions := l\<rparr>)) = Inr w4"
  shows "object_steps (insert h (set ts)) v (w4\<lparr>gPatchedFunctions := gPatchedFunctions v\<rparr>)
    \<and> gPatchedFunctions w4 = l"
proof -
  have 1: "object_steps (insert h (set ts)) v w2"
    using assms(1) restoring.loop_steps [of A "rev ts @ [h]" v w2] by (simp split: if_splits)
  have "object_steps (set ts) (w2\<lparr>gPatchedFunctions := l\<rparr>) w4"
    using assms(2) patching.loop_steps [of A ts "w2\<lparr>gPatchedFunctions := l\<rparr>" w4] by (simp split: if_splits)
  then have 2: "object_steps (set ts) w2 (w4\<lparr>gPatchedFunctions := gPatchedFunctions w2\<rparr>)"
    and 3: "gPatchedFunctions w4 = l" using object_steps_gpf by blast+
  have 4: "gPatchedFunctions w2 = gPatchedFunctions v"
    using 1 by (simp add: object_steps_def keeps_globals_def)
  show ?thesis
    using object_steps_trans [OF 1 2] 3 unfolding 4 by (simp add: insert_absorb)
qed

text \<open>
  A successful removal takes exactly that patch out of the list, deletes its object and frees
  exactly the blocks the object owned; every other object keeps what its construction fixed, objects
  of patches that are not later patches of the same function are untouched, and the mutex is as
  free as before.
\<close>

lemma remove_effect:
  assumes "gPatchedFunctions w = pre @ h # post"
    and "all_live (objs w) (gPatchedFunctions w)" and "distinct (gPatchedFunctions w)"
    and "objs w h = Some d"
    and "FPRemoveFunctionPatch A h w = Inr (st, w')"
  shows "st = FUNCTION_PATCHER_RESULT_SUCCESS
     \<and> gPatchedFunctions w' = pre @ post \<and> objs w' h = None
     \<and> (\<forall>x. x \<noteq> h \<longrightarrow> map_option anchor (objs w' x) = map_option anchor (objs w x))
     \<and> (\<forall>x. x \<noteq> h \<and> x \<notin> set (later_patches w h post) \<longrightarrow> objs w' x = objs w x)
     \<and> (\<forall>b. balance w' b = balance w b - owned h d b)
     \<and> gPatchedFunctionsMutex w' = gPatchedFunctionsMutex w \<and> table_names w' = table_names w"
proof -
  obtain w2 w4 d4 where st: "st = FUNCTION_PATCHER_RESULT_SUCCESS"
    and l1: "(if is_patched w h
          then for_each (RestoreFunction A) (rev (later_patches w h post) @ [h]) (lock w)
          else Inr (lock w)) = Inr w2"
    and l2: "(if is_patched w2 h
          then for_each (PatchFunction A) (later_patches w h post) (w2\<lparr>gPatchedFunctions := pre @ post\<rparr>)
          else Inr (w2\<lparr>gPatchedFunctions := pre @ post\<rparr>)) = Inr w4"
    and d4: "objs w4 h = Some d4"
    and w': "w' = unlock (delete_pfd A h d4 (log_event EvOSMemoryBarrier w4))"
    using remove_stages [OF assms(1,2,3,5)] by metis
  from remove_loops_steps [OF l1 l2] have
    s: "object_steps (insert h (set (later_patches w h post))) (lock w)
          (w4\<lparr>gPatchedFunctions := gPatchedFunctions (lock w)\<rparr>)" and g: "gPatchedFunctions w4 = pre @ post"
    by blast+
  have a: "anchor d4 = anchor d"
    using object_steps_anchor [OF s, of h d] d4 assms(4) by simp
  have bal: "balance w4 = balance w"
    using s balance_keeps unfolding object_steps_def by fastforce
  have m: "gPatchedFunctionsMutex w4 = Suc (gPatchedFunctionsMutex w)"
    using s by (simp add: object_steps_def keeps_globals_def)
  have tn: "table_names w4 = table_names w"
    using s by (simp add: object_steps_def keeps_globals_def table_names_def lock_def)
  have tn': "table_names (unlock v) = table_names v" "table_names (delete_pfd A h d4 v) = table_names v"
    for v :: "'a world"
    by (simp_all add: table_names_def delete_pfd_effect unlock_def)
  have ob: "map_option anchor (objs w4 x) = map_option anchor (objs w x)"
    "x \<notin> insert h (set (later_patches w h post)) \<Longrightarrow> objs w4 x = objs w x" for x
    using s by (simp_all add: object_steps_def)
  show ?thesis
    using st g m ob tn owned_anchor [OF a]
    by (auto simp: w' delete_pfd_effect balance_log_event bal tn')
qed

text \<open>
  C15. A removal that returns takes exactly that patch out of the list, deletes its object and frees
  exactly the blocks the object owned. Every other object keeps what its construction fixed;
  objects that are not later patches of the same function are untouched; the mutex is as free as
  before.
\<close>

theorem remove_deletes_patch:
  assumes "gPatchedFunctions w = pre @ h # post"
    and "all_live (objs w) (gPatchedFunctions w)" and "distinct (gPatchedFunctions w)"
    and "objs w h = Some d" and "FPRemoveFunctionPatch A h w = Inr (st, w')"
  shows "st = FUNCTION_PATCHER_RESULT_SUCCESS
     \<and> gPatchedFunctions w' = pre @ post \<and> objs w' h = None
     \<and> (\<forall>x. x \<noteq> h \<longrightarrow> map_option anchor (objs w' x) = map_option anchor (objs w x))
     \<and> (\<forall>x. x \<noteq> h \<and> x \<notin> set (later_patches w h post) \<longrightarrow> objs w' x = objs w x)
     \<and> (\<forall>b. balance w' b = balance w b - owned h d b)
     \<and> gPatchedFunctionsMutex w' = gPatchedFunctionsMutex w"
  using remove_effect [OF assms] by blast

section \<open>Stacks of patches of one function\<close>

text \<open>
  Patches that were applied to the same function one after the other, newest first: each one's
  displaced instruction is the branch of the one before it.
\<close>

fun stacked :: "(u32 \<rightharpoonup> PatchedFunctionData) \<Rightarrow> u32 \<Rightarrow> u32 \<Rightarrow> u32 list \<Rightarrow> bool" where
  "stacked ob P x [] \<longleftrightarrow> True"
| "stacked ob P x (h # hs) \<longleftrightarrow>
     (case ob h of
        None \<Rightarrow> False
      | Some d \<Rightarrow> isPatched d \<and> realPhysicalFunctionAddress d = P \<and> replaceWithInstruction d = x
          \<and> stacked ob P (replacedInstruction d) hs)"

fun stack_bottom :: "(u32 \<rightharpoonup> PatchedFunctionData) \<Rightarrow> u32 \<Rightarrow> u32 list \<Rightarrow> u32" where
  "stack_bottom ob x [] = x"
| "stack_bottom ob x (h # hs) =
     stack_bottom ob (case ob h of None \<Rightarrow> x | Some d \<Rightarrow> replacedInstruction d) hs"

lemma stacked_cong:
  "(\<And>h. h \<in> set hs \<Longrightarrow> ob' h = ob h) \<Longrightarrow> stacked ob' P x hs = stacked ob P x hs"
  by (induction hs arbitrary: x) (auto split: option.splits)

lemma stack_bottom_cong:
  "(\<And>h. h \<in> set hs \<Longrightarrow> ob' h = ob h) \<Longrightarrow> stack_bottom ob' x hs = stack_bottom ob x hs"
  by (induction hs arbitrary: x) (auto split: option.splits)

lemma stack_bottom_append: "stack_bottom ob x (xs @ ys) = stack_bottom ob (stack_bottom ob x xs) ys"
  by (induction xs arbitrary: x) auto

definition unpatch :: "u32 set \<Rightarrow> (u32 \<rightharpoonup> PatchedFunctionData) \<Rightarrow> u32 \<rightharpoonup> PatchedFunctionData" where
  "unpatch H ob = (\<lambda>x. if x \<in> H then map_option (\<lambda>d. d\<lparr>isPatched := False\<rparr>) (ob x) else ob x)"

definition all_restorable :: "'s os_api \<Rightarrow> 's world \<Rightarrow> u32 list \<Rightarrow> bool" where
  "all_restorable A w hs \<longleftrightarrow> (\<forall>h \<in> set hs. \<forall>d. objs w h = Some d \<longrightarrow> restorable A (os w) h d)"

definition restore_footprint :: "'s os_api \<Rightarrow> 's \<Rightarrow> u32 \<Rightarrow> u32 list \<Rightarrow> u32 set" where
  "restore_footprint A s P hs = {P} \<union> source_word A s ` set hs \<union> local_words A s"

lemma unwind:
  assumes "memory_ok A"
  shows "distinct hs \<Longrightarrow> stacked (objs w) P (read32 (mem w) P) hs \<Longrightarrow> all_restorable A w hs \<Longrightarrow>
     \<exists>m tr. for_each (RestoreFunction A) hs w =
         Inr (w\<lparr>mem := m, trace := trace w @ tr, objs := unpatch (set hs) (objs w)\<rparr>)
       \<and> read32 m P = stack_bottom (objs w) (read32 (mem w) P) hs
       \<and> same_outside (restore_footprint A (os w) P hs) (mem w) m"
proof (induction hs arbitrary: w)
  case Nil
  have "unpatch {} (objs w) = objs w" by (simp add: unpatch_def fun_eq_iff)
  then show ?case by (intro exI [of _ "mem w"] exI [of _ "[]"]) simp
next
  case (Cons h hs)
  from Cons.prems(2) obtain d where d: "objs w h = Some d" "isPatched d"
    "realPhysicalFunctionAddress d = P" "replaceWithInstruction d = read32 (mem w) P"
    and st: "stacked (objs w) P (replacedInstruction d) hs"
    by (auto split: option.splits)
  have rest: "restorable A (os w) h d" using Cons.prems(3) d(1) by (simp add: all_restorable_def)
  have there: "read32 (mem w) (realPhysicalFunctionAddress d) = replaceWithInstruction d"
    using d by simp
  obtain m1 tr1 where r1: "RestoreFunction A h w = Inr (True,
       w\<lparr>mem := m1, trace := trace w @ tr1, objs := (objs w)(h \<mapsto> d\<lparr>isPatched := False\<rparr>)\<rparr>)"
    and p1: "read32 m1 P = replacedInstruction d"
    and f1: "same_outside ({P, source_word A (os w) h} \<union> local_words A (os w)) (mem w) m1"
    using RestoreFunction_restores [OF assms d(1,2) rest there] unfolding d(3) by blast
  let ?w1 = "w\<lparr>mem := m1, trace := trace w @ tr1, objs := (objs w)(h \<mapsto> d\<lparr>isPatched := False\<rparr>)\<rparr>"
  have cong: "x \<in> set hs \<Longrightarrow> objs ?w1 x = objs w x" for x using Cons.prems(1) by auto
  have stk: "stacked (objs ?w1) P (read32 (mem ?w1) P) hs"
    using st stacked_cong [of hs "objs ?w1" "objs w", OF cong] p1 by simp
  have ar: "all_restorable A ?w1 hs"
    using Cons.prems(1,3) by (auto simp: all_restorable_def)
  have "distinct hs" using Cons.prems(1) by simp
  from Cons.IH [OF this stk ar] obtain m2 tr2 where r2: "for_each (RestoreFunction A) hs ?w1 =
         Inr (?w1\<lparr>mem := m2, trace := trace ?w1 @ tr2, objs := unpatch (set hs) (objs ?w1)\<rparr>)"
    and p2: "read32 m2 P = stack_bottom (objs ?w1) (read32 (mem ?w1) P) hs"
    and f2: "same_outside (restore_footprint A (os ?w1) P hs) (mem ?w1) m2"
    by blast
  have ob: "unpatch (set hs) (objs ?w1) = unpatch (set (h # hs)) (objs w)"
    using Cons.prems(1) d(1) by (auto simp: unpatch_def fun_eq_iff)
  have sub: "{P, source_word A (os w) h} \<union> local_words A (os w) \<subseteq> restore_footprint A (os w) P (h # hs)"
    "restore_footprint A (os ?w1) P hs \<subseteq> restore_footprint A (os w) P (h # hs)"
    by (auto simp: restore_footprint_def)
  have "same_outside (restore_footprint A (os w) P (h # hs)) (mem w) m2"
    using same_outside_trans [OF same_outside_mono [OF f1 sub(1)]] same_outside_mono [OF f2 sub(2)] by simp
  moreover have "for_each (RestoreFunction A) (h # hs) w =
      Inr (w\<lparr>mem := m2, trace := trace w @ (tr1 @ tr2), objs := unpatch (set (h # hs)) (objs w)\<rparr>)"
    using r1 r2 unfolding ob by simp
  moreover have "read32 m2 P = stack_bottom (objs w) (read32 (mem w) P) (h # hs)"
    using p2 p1 d(1) stack_bottom_cong [of hs "objs ?w1" "objs w", OF cong] by simp
  ultimately show ?case by blast
qed

text \<open>
  C20. Taking the patches of one function off, the newest first, unwinds their stack: every
  \<open>RestoreFunction\<close> of the loop finds its own branch in memory, the function ends with the
  instruction the oldest patch displaced, all marks are cleared, and nothing else is touched but
  the module's scratch words and the cells the instructions are copied from.
\<close>

theorem reverse_restore_unwinds:
  assumes "memory_ok A" and "distinct hs" and "stacked (objs w) P (read32 (mem w) P) hs"
    and "all_restorable A w hs"
  shows "\<exists>m tr. for_each (RestoreFunction A) hs w =
         Inr (w\<lparr>mem := m, trace := trace w @ tr, objs := unpatch (set hs) (objs w)\<rparr>)
       \<and> read32 m P = stack_bottom (objs w) (read32 (mem w) P) hs
       \<and> same_outside (restore_footprint A (os w) P hs) (mem w) m"
  using assms by (rule unwind)

lemma delete_is_patched: "x \<noteq> h \<Longrightarrow> is_patched (delete_pfd A h d w) x = is_patched w x"
  by (simp add: is_patched_def delete_pfd_effect)

text \<open>
  C14. Removing the bottom patch of a stack that is completely in memory restores the original first
  instruction of the function and touches nothing else but its scratch words. But the later
  patches of the stack stay in the list and are not in effect any more: the code tests the mark of
  the removed patch a second time, after \<open>RestoreFunction\<close> has cleared it, and so never applies
  the others again, against its own comment.
\<close>

theorem remove_drops_later_patches:
  assumes plat: "memory_ok A"
    and l: "gPatchedFunctions w = pre @ h # post"
    and live: "all_live (objs w) (gPatchedFunctions w)" and dist: "distinct (gPatchedFunctions w)"
    and d: "objs w h = Some d" and pd: "isPatched d"
    and st: "stacked (objs w) (realPhysicalFunctionAddress d) (read32 (mem w) (realPhysicalFunctionAddress d))
           (rev (later_patches w h post) @ [h])"
    and rest: "all_restorable A w (rev (later_patches w h post) @ [h])"
  shows "\<exists>w'. FPRemoveFunctionPatch A h w = Inr (FUNCTION_PATCHER_RESULT_SUCCESS, w')
     \<and> gPatchedFunctions w' = pre @ post
     \<and> read32 (mem w') (realPhysicalFunctionAddress d) = replacedInstruction d
     \<and> same_outside (restore_footprint A (os w) (realPhysicalFunctionAddress d)
           (rev (later_patches w h post) @ [h])) (mem w) (mem w')
     \<and> (\<forall>x \<in> set (later_patches w h post). x \<in> set (gPatchedFunctions w') \<and> \<not> is_patched w' x)"
proof -
  let ?P = "realPhysicalFunctionAddress d" and ?ts = "later_patches w h post"
  let ?hs = "rev ?ts @ [h]" and ?w = "lock w"
  have dist': "distinct (pre @ h # post)" and live': "all_live (objs w) (pre @ h # post)"
    using dist live by (simp_all only: l)
  have sub: "set ?ts \<subseteq> set post" by (auto simp: later_patches_def)
  have dh: "distinct ?hs" using dist' sub by (auto simp: later_patches_def)
  have "stacked (objs ?w) ?P (read32 (mem ?w) ?P) ?hs" "all_restorable A ?w ?hs"
    using st rest by (simp_all add: all_restorable_def)
  from unwind [OF plat dh this] obtain m tr where
    u: "for_each (RestoreFunction A) ?hs ?w =
         Inr (?w\<lparr>mem := m, trace := trace ?w @ tr, objs := unpatch (set ?hs) (objs w)\<rparr>)"
    and p: "read32 m ?P = replacedInstruction d"
    and f: "same_outside (restore_footprint A (os w) ?P ?hs) (mem w) m"
    using d by (auto simp: stack_bottom_append)
  let ?w2 = "?w\<lparr>mem := m, trace := trace ?w @ tr, objs := unpatch (set ?hs) (objs w)\<rparr>"
  let ?w4 = "?w2\<lparr>gPatchedFunctions := pre @ post\<rparr>" and ?d = "d\<lparr>isPatched := False\<rparr>"
  let ?w' = "unlock (delete_pfd A h ?d (log_event EvOSMemoryBarrier ?w4))"
  have two: "(case for_each (RestoreFunction A) (rev ?ts) v of Inl e \<Rightarrow> Inl e
      | Inr w1 \<Rightarrow> for_each (RestoreFunction A) [h] w1) = for_each (RestoreFunction A) ?hs v" for v
    by (simp add: for_each_append split: sum.splits)
  have np: "\<not> is_patched ?w2 x" if "x \<in> set ?hs" for x
    using that by (auto simp: is_patched_def unpatch_def split: option.splits)
  have "FPRemoveFunctionPatch A h w = Inr (FUNCTION_PATCHER_RESULT_SUCCESS, ?w')"
    using d pd np [of h]
    by (simp add: FPRemoveFunctionPatch_def l remove_loop_found [OF live' dist'] two u Let_def
        erase_at_middle is_patched_def unpatch_def del: for_each.simps)
  moreover have "\<not> is_patched ?w' x" if "x \<in> set ?ts" for x
  proof -
    have "x \<noteq> h" using that sub dist' by auto
    then show ?thesis using np [of x] that by (simp add: delete_is_patched)
  qed
  ultimately show ?thesis
    using p f sub by (auto simp: delete_pfd_effect)
qed

section \<open>Results tell the state\<close>

lemma is_patched_put_obj [simp]: "is_patched (put_obj h d w) h = isPatched d"
  by (simp add: is_patched_def put_obj_def)

text \<open>The result of \<open>PatchFunction\<close> is the mark of the object afterwards, on every path.\<close>

lemma PatchFunction_mark:
  assumes "PatchFunction A h w = Inr (b, w')"
  shows "is_patched w' h = b"
proof -
  from assms obtain d where d: "objs w h = Some d"
    by (cases "objs w h") (simp_all add: PatchFunction_def)
  have k: "is_patched w1 h = isPatched d" if "keeps w w1" for w1
    using that d by (simp add: is_patched_def keeps_def)
  have s: "is_patched w1 h = isPatched d" if "shouldBePatched A d w = Inr (r, w1)" for r w1
    using k [OF keeps_shouldBePatched [OF that]] .
  have u: "isPatched d1 = isPatched d" if "updateFunctionAddresses A d w1 = Inr ((r, d1), w2)" for r d1 w1 w2
    using updateFunctionAddresses_frame(2) [OF that] by auto
  show ?thesis
    using assms d k s u
    by (auto simp: PatchFunction_def Let_def split: if_splits sum.splits option.splits prod.splits)
qed

text \<open>\<open>RestoreFunction\<close> succeeds exactly when the mark is off afterwards.\<close>

lemma RestoreFunction_mark:
  assumes "RestoreFunction A h w = Inr (b, w')"
  shows "is_patched w' h = (\<not> b)"
proof -
  from assms obtain d where d: "objs w h = Some d"
    by (cases "objs w h") (simp_all add: RestoreFunction_def)
  have k: "is_patched w1 h = isPatched d"
    if "ReadFromPhysicalAddress A p b w = (r, w1)" for r w1 p b
    using keeps_ReadFromPhysicalAddress [OF that] d by (simp add: is_patched_def keeps_def)
  have o: "is_patched w h = isPatched d" using d by (simp add: is_patched_def)
  show ?thesis
    using assms d k o
    by (auto simp: RestoreFunction_def Let_def split: if_splits option.splits prod.splits)
qed

section \<open>Adding\<close>

definition init_object :: "function_replacement_data_t \<Rightarrow> u32 \<Rightarrow> PatchedFunctionData" where
  "init_object fd heap =
     (if fd_version fd = 2 then init_from_v2 (as_v2 fd) heap else init_from_v3 (as_v3 fd) heap)"

text \<open>
  The configuration of an object: what the request fixed, without the addresses that are found and
  the buffers that are allocated later.
\<close>

definition config :: "PatchedFunctionData \<Rightarrow> PatchedFunctionData" where
  "config d = (anchor d)\<lparr>jumpToOriginal := 0, jumpData := 0\<rparr>"

lemma config_anchor: "anchor d' = anchor d \<Longrightarrow> config d' = config d"
  by (simp add: config_def)

lemma config_buffers: "config (d\<lparr>jumpData := p, jumpToOriginal := q\<rparr>) = config d"
  by (simp add: config_def anchor_def)

lemma config_heap: "config d' = config d \<Longrightarrow> heapHandle d' = heapHandle d"
proof -
  assume "config d' = config d"
  then have "heapHandle (config d') = heapHandle (config d)" by simp
  then show ?thesis by (simp add: config_def anchor_def)
qed

definition accepted_version :: "function_replacement_data_t \<Rightarrow> bool" where
  "accepted_version fd \<longleftrightarrow> fd_version fd = 2 \<or> fd_version fd = 3"

lemma version_bounds: "(v < 2 \<or> v > 3) = (v \<noteq> 2 \<and> v \<noteq> (3 :: u32))"
proof -
  have "v = 2 \<or> v = 3 \<longleftrightarrow> unat v = 2 \<or> unat v = 3" by (simp add: word_unat_eq_iff)
  then show ?thesis by (auto simp: word_less_nat_alt)
qed

lemma FPAddFunctionPatch_eq:
  "FPAddFunctionPatch A (Some fd) outHandle outHasBeenPatched w =
     (if \<not> accepted_version fd then Inr (FUNCTION_PATCHER_RESULT_UNSUPPORTED_STRUCT_VERSION, w)
      else case construct A (init_object fd (gJumpHeapHandle w)) w of
        (None, w1) \<Rightarrow> Inr (FUNCTION_PATCHER_RESULT_UNKNOWN_ERROR, w1)
      | (Some h, w1) \<Rightarrow>
          (case PatchFunction A h w1 of
             Inl e \<Rightarrow> Inl e
           | Inr (patchResult, w2) \<Rightarrow>
               let w3 = (if outHasBeenPatched \<noteq> 0
                         then store8 A outHasBeenPatched (if patchResult then 1 else 0) w2 else w2);
                   w4 = (if outHandle \<noteq> 0 then store32 A outHandle h w3 else w3);
                   w5 = lock w4;
                   w6 = w5\<lparr>gPatchedFunctions := gPatchedFunctions w5 @ [h]\<rparr>;
                   w7 = log_event EvOSMemoryBarrier w6
               in Inr (FUNCTION_PATCHER_RESULT_SUCCESS, unlock w7)))"
  by (cases "fd_version fd = 2"; cases "fd_version fd = 3")
    (simp_all add: FPAddFunctionPatch_def version_bounds accepted_version_def init_object_def
      make_shared_construct)

lemma init_object_unallocated: "unallocated (init_object fd heap)"
  by (simp add: init_object_def init_unallocated)

lemma init_object_known:
  "fd_version fd = 2 \<or> known_type (v3_type (as_v3 fd)) \<Longrightarrow> target_known (init_object fd heap)"
  using init_from_v3_known init_from_v2_known by (auto simp: init_object_def)

text \<open>
  What adding a patch does. A struct version other than 2 and 3 changes nothing; if the object
  cannot be built, the list, the objects and the heaps are as before; else the list has grown by
  exactly the new handle, which is what the caller's pointer receives, all other objects are
  untouched, the new one is configured as the request says, is well-formed (for a known type) and
  owns exactly the blocks that were allocated. The mutex is as free as before.
\<close>

lemma add_effect:
  assumes "FPAddFunctionPatch A (Some fd) outHandle outHasBeenPatched w = Inr (st, w')"
    and "objs w (fst (operator_new A (os w))) = None"
  shows "(if \<not> accepted_version fd
          then st = FUNCTION_PATCHER_RESULT_UNSUPPORTED_STRUCT_VERSION \<and> w' = w
          else st = FUNCTION_PATCHER_RESULT_UNKNOWN_ERROR \<and> objs w' = objs w \<and> balance w' = balance w
                 \<and> gPatchedFunctions w' = gPatchedFunctions w
             \<or> st = FUNCTION_PATCHER_RESULT_SUCCESS \<and>
               (\<exists>h d. objs w h = None \<and> gPatchedFunctions w' = gPatchedFunctions w @ [h]
                  \<and> objs w' = (objs w)(h \<mapsto> d) \<and> heapHandle d = gJumpHeapHandle w
                  \<and> config d = config (init_object fd (gJumpHeapHandle w))
                  \<and> (fd_version fd = 2 \<or> known_type (v3_type (as_v3 fd)) \<longrightarrow> wf_object A d)
                  \<and> (\<forall>b. balance w' b = balance w b + owned h d b)
                  \<and> (outHandle \<noteq> 0 \<longrightarrow> load32 A outHandle w' = h)))
     \<and> gPatchedFunctionsMutex w' = gPatchedFunctionsMutex w \<and> gJumpHeapHandle w' = gJumpHeapHandle w
     \<and> table_names w' = table_names w"
proof (cases "accepted_version fd")
  case False
  then show ?thesis using assms(1) by (simp add: FPAddFunctionPatch_eq)
next
  case True
  let ?d0 = "init_object fd (gJumpHeapHandle w)"
  have heap: "heapHandle ?d0 = gJumpHeapHandle w"
    by (simp add: init_object_def init_from_v2_def init_from_v3_def fresh_pfd_def Let_def
        split: FunctionPatcherFunctionType.splits)
  obtain res w1 where c: "construct A ?d0 w = (res, w1)" by fastforce
  note ce = construct_effect [OF init_object_unallocated c assms(2)]
  show ?thesis
  proof (cases res)
    case None
    then show ?thesis using assms(1) c ce True by (auto simp: FPAddFunctionPatch_eq globals_same_def)
  next
    case (Some h)
    with ce heap obtain d1 where h: "objs w h = None" and o1: "objs w1 = (objs w)(h \<mapsto> d1)"
      and hh: "config d1 = config ?d0"
      and wf: "target_known ?d0 \<longrightarrow> wf_object A d1"
      and b1: "\<forall>b. balance w1 b = balance w b + owned h d1 b" and g1: "globals_same w w1"
      using assms(2) config_buffers by auto
    from assms(1) True c Some obtain b w2 where p: "PatchFunction A h w1 = Inr (b, w2)"
      by (auto simp: FPAddFunctionPatch_eq Let_def split: sum.splits)
    have s: "object_steps {h} w1 w2" by (rule PatchFunction_steps [OF p])
    obtain d2 where d2: "objs w2 h = Some d2" and a2: "anchor d2 = anchor d1"
      using object_steps_anchor [OF s, of h d1] o1 by auto
    have o2: "objs w2 = (objs w)(h \<mapsto> d2)"
      using s o1 d2 by (auto simp: object_steps_def fun_eq_iff)
    have b2: "balance w2 = balance w1" using s by (simp add: balance_keeps object_steps_def)
    have cf: "config d2 = config ?d0" using config_anchor [OF a2] hh by simp
    have heap2: "heapHandle d2 = gJumpHeapHandle w" using config_heap [OF cf] heap by simp
    let ?w3 = "if outHasBeenPatched \<noteq> 0 then store8 A outHasBeenPatched (if b then 1 else 0) w2 else w2"
    let ?w4 = "if outHandle \<noteq> 0 then store32 A outHandle h ?w3 else ?w3"
    have w': "st = FUNCTION_PATCHER_RESULT_SUCCESS"
      "w' = unlock (log_event EvOSMemoryBarrier
         ((lock ?w4)\<lparr>gPatchedFunctions := gPatchedFunctions ?w4 @ [h]\<rparr>))"
      using assms(1) True c Some p by (simp_all add: FPAddFunctionPatch_eq Let_def)
    have k4: "keeps w2 ?w4" using keeps_trans [OF keeps_store8 keeps_store32] keeps_store8 keeps_store32 by auto
    have "load32 A outHandle w' = h" if "outHandle \<noteq> 0"
      using that by (simp add: w'(2) load32_def store32_def store8_def)
    moreover have "balance w' b = balance w b + owned h d2 b" for b
    proof -
      have "balance ?w4 = balance w2" using k4 by (intro balance_keeps) (simp only: keeps_def)
      then show ?thesis
        using b1 b2 owned_anchor [OF a2, of h] by (simp add: w'(2) balance_log_event)
    qed
    moreover have "objs w' = (objs w)(h \<mapsto> d2)" using k4 o2 by (simp add: w'(2) keeps_def)
    moreover have "gPatchedFunctions w' = gPatchedFunctions w @ [h]
        \<and> gPatchedFunctionsMutex w' = gPatchedFunctionsMutex w \<and> gJumpHeapHandle w' = gJumpHeapHandle w
        \<and> table_names w' = table_names w"
      using k4 s g1 by (simp add: w'(2) keeps_def keeps_globals_def object_steps_def globals_same_def
          lock_def unlock_def table_names_def log_event_def)
    ultimately show ?thesis
      using w'(1) True h heap2 cf wf wf_object_anchor [OF a2] init_object_known [of fd "gJumpHeapHandle w"]
      by auto
  qed
qed

text \<open>
  C16. What adding a patch does. A struct version other than 2 and 3 changes nothing. If the object
  cannot be built, the list, the objects and the heaps are as before. Otherwise the list has grown
  by exactly the new handle, which is what the caller's pointer receives, all other objects are
  untouched, the new one is configured as the request says, is well-formed (for a known type) and
  owns exactly the blocks that were allocated. The mutex is as free as before.
\<close>

theorem add_appends_patch:
  assumes "FPAddFunctionPatch A (Some fd) outHandle outHasBeenPatched w = Inr (st, w')"
    and "objs w (fst (operator_new A (os w))) = None"
  shows "(if \<not> accepted_version fd
          then st = FUNCTION_PATCHER_RESULT_UNSUPPORTED_STRUCT_VERSION \<and> w' = w
          else st = FUNCTION_PATCHER_RESULT_UNKNOWN_ERROR \<and> objs w' = objs w \<and> balance w' = balance w
                 \<and> gPatchedFunctions w' = gPatchedFunctions w
             \<or> st = FUNCTION_PATCHER_RESULT_SUCCESS \<and>
               (\<exists>h d. objs w h = None \<and> gPatchedFunctions w' = gPatchedFunctions w @ [h]
                  \<and> objs w' = (objs w)(h \<mapsto> d) \<and> heapHandle d = gJumpHeapHandle w
                  \<and> config d = config (init_object fd (gJumpHeapHandle w))
                  \<and> (fd_version fd = 2 \<or> known_type (v3_type (as_v3 fd)) \<longrightarrow> wf_object A d)
                  \<and> (\<forall>b. balance w' b = balance w b + owned h d b)
                  \<and> (outHandle \<noteq> 0 \<longrightarrow> load32 A outHandle w' = h)))
     \<and> gPatchedFunctionsMutex w' = gPatchedFunctionsMutex w \<and> gJumpHeapHandle w' = gJumpHeapHandle w"
  using add_effect [OF assms] by (elim conjE) (intro conjI; assumption)

text \<open>
  C17. Adding a patch and removing it again with the handle that was handed out is a round trip for
  the module: the list of patches, the objects, the blocks held on the heaps and the mutex are as
  they were before the addition.
\<close>

theorem add_then_remove:
  assumes add: "FPAddFunctionPatch A (Some fd) outHandle outHasBeenPatched w =
           Inr (FUNCTION_PATCHER_RESULT_SUCCESS, w1)"
    and fresh: "objs w (fst (operator_new A (os w))) = None"
    and live: "all_live (objs w) (gPatchedFunctions w)" and dist: "distinct (gPatchedFunctions w)"
    and out: "outHandle \<noteq> 0"
    and rem: "FPRemoveFunctionPatch A (load32 A outHandle w1) w1 = Inr (st, w2)"
  shows "st = FUNCTION_PATCHER_RESULT_SUCCESS \<and> gPatchedFunctions w2 = gPatchedFunctions w
     \<and> objs w2 = objs w \<and> balance w2 = balance w
     \<and> gPatchedFunctionsMutex w2 = gPatchedFunctionsMutex w"
proof -
  from add_effect [OF add fresh] out obtain h d where h: "objs w h = None"
    and l1: "gPatchedFunctions w1 = gPatchedFunctions w @ h # []"
    and o1: "objs w1 = (objs w)(h \<mapsto> d)"
    and b1: "\<forall>b. balance w1 b = balance w b + owned h d b"
    and ld: "load32 A outHandle w1 = h"
    and m1: "gPatchedFunctionsMutex w1 = gPatchedFunctionsMutex w"
    by (auto split: if_splits)
  have nin: "h \<notin> set (gPatchedFunctions w)" using h live by (auto simp: all_live_def)
  have live1: "all_live (objs w1) (gPatchedFunctions w1)"
    using live by (auto simp: l1 o1 all_live_def)
  have dist1: "distinct (gPatchedFunctions w1)" using dist nin by (simp add: l1)
  have "objs w1 h = Some d" by (simp add: o1)
  note r = remove_effect [OF l1 live1 dist1 this rem [unfolded ld]]
  have none: "later_patches w1 h [] = []" by (simp add: later_patches_def)
  have "objs w2 x = objs w x" for x
    using r h none by (cases "x = h") (simp_all add: o1)
  then show ?thesis using r b1 m1 by (simp add: fun_eq_iff)
qed

section \<open>Queries\<close>

lemma patched_query_eq:
  "patched_query w h l = (if h \<in> set l then Some (is_patched w h) else None)"
  by (induction l) auto

lemma FPIsFunctionPatched_eq:
  "FPIsFunctionPatched A h out w =
     (if out = 0 then (FUNCTION_PATCHER_RESULT_INVALID_ARGUMENT, w)
      else if h \<in> set (gPatchedFunctions w)
      then (FUNCTION_PATCHER_RESULT_SUCCESS,
            w\<lparr>mem := (mem w)(mmu A (os w) out := (if is_patched w h then 1 else 0))\<rparr>)
      else (FUNCTION_PATCHER_RESULT_PATCH_NOT_FOUND, w))"
  by (simp add: FPIsFunctionPatched_def patched_query_eq Let_def store8_def)
    (simp add: lock_def unlock_def)

text \<open>
  C32. \<open>FPIsFunctionPatched\<close> answers for every handle in the list with the mark of its object, knows
  no other handle, and changes nothing but the caller's flag.
\<close>

theorem query_answers:
  "FPIsFunctionPatched A h out w =
     (if out = 0 then (FUNCTION_PATCHER_RESULT_INVALID_ARGUMENT, w)
      else if h \<in> set (gPatchedFunctions w)
      then (FUNCTION_PATCHER_RESULT_SUCCESS,
            w\<lparr>mem := (mem w)(mmu A (os w) out := (if is_patched w h then 1 else 0))\<rparr>)
      else (FUNCTION_PATCHER_RESULT_PATCH_NOT_FOUND, w))"
  by (rule FPIsFunctionPatched_eq)

end
