(* ===== verification/Module_Correct.thy ===== *)
theory Module_Correct
  imports Module_Main Export_Correct
begin

text \<open>
  Correctness of the module's hooks and of the module as a whole: which patches the check for
  overwritten functions keeps, what an unload does, that patching the loader is repeatable, and the
  module as a transition system whose reachable states satisfy an invariant over the list, the
  objects, the heaps, the handle table and the mutex.
\<close>

section \<open>The check for overwritten functions\<close>

text \<open>
  The patch of the function at \<open>P\<close> that counts: the first one marked as patched in the order the
  loop runs, which is the last one in the list.
\<close>

definition top_patch :: "'s world \<Rightarrow> u32 list \<Rightarrow> u32 \<Rightarrow> u32 option" where
  "top_patch w rs P = find (\<lambda>x. is_patched w x \<and> phys_of (objs w) x = Some P) rs"

definition intact :: "'s world \<Rightarrow> u32 \<Rightarrow> bool" where
  "intact w h \<longleftrightarrow>
     (case objs w h of
        None \<Rightarrow> False
      | Some d \<Rightarrow> read32 (mem w) (realPhysicalFunctionAddress d) = replaceWithInstruction d)"

definition top_intact :: "'s world \<Rightarrow> u32 list \<Rightarrow> u32 \<Rightarrow> bool" where
  "top_intact w rs P \<longleftrightarrow> (case top_patch w rs P of None \<Rightarrow> True | Some h \<Rightarrow> intact w h)"

text \<open>The stack locals of the module are apart from the patched functions.\<close>

definition functions_apart :: "'s os_api \<Rightarrow> 's world \<Rightarrow> bool" where
  "functions_apart A w \<longleftrightarrow>
     (\<forall>h d. objs w h = Some d \<longrightarrow> (\<forall>l \<in> local_words A (os w). disj4 l (realPhysicalFunctionAddress d)))"

text \<open>One round: what it does to the object, and to the two sets.\<close>

lemma check_one_ok:
  assumes plat: "memory_ok A" and d: "objs w h = Some d"
  shows "\<exists>m tr. same_outside (local_words A (os w)) (mem w) m \<and>
     check_one A h st w = Inr
       (let P = realPhysicalFunctionAddress d; U = physicalAddressesUnchanged st;
            C = physicalAddressesChanged st; w1 = w\<lparr>mem := m, trace := trace w @ tr\<rparr>
        in if \<not> isPatched d \<or> P \<in> U then (st, w1)
           else if P \<in> C then (st, put_obj h (d\<lparr>isPatched := False\<rparr>) w1)
           else if intact w h then (st\<lparr>physicalAddressesUnchanged := insert P U\<rparr>, w1)
           else (st\<lparr>physicalAddressesChanged := insert P C\<rparr>, put_obj h (d\<lparr>isPatched := False\<rparr>) w1))"
proof -
  let ?P = "realPhysicalFunctionAddress d"
  obtain l tr where l: "l \<in> local_words A (os w)" and
    rd: "ReadFromPhysicalAddress A ?P True w =
      (Some (read32 (mem w) ?P), w\<lparr>mem := write32 (mem w) l (read32 (mem w) ?P), trace := trace w @ tr\<rparr>)"
    using ReadFromPhysicalAddress_ok [OF plat] by blast
  have i: "intact w h \<longleftrightarrow> read32 (mem w) ?P = replaceWithInstruction d" using d by (simp add: intact_def)
  show ?thesis
  proof (cases "\<not> isPatched d \<or> ?P \<in> physicalAddressesUnchanged st \<or> ?P \<in> physicalAddressesChanged st")
    case True
    then show ?thesis
      by (intro exI [of _ "mem w"] exI [of _ "[]"]) (auto simp: check_one_def d Let_def)
  next
    case False
    with l i show ?thesis
      by (intro exI [of _ "write32 (mem w) l (read32 (mem w) ?P)"] exI [of _ tr])
        (simp add: check_one_def d rd Let_def same_outside_write)
  qed
qed

definition kept_mark :: "check_state \<Rightarrow> 's world \<Rightarrow> u32 list \<Rightarrow> u32 \<Rightarrow> bool" where
  "kept_mark st w rs P \<longleftrightarrow>
     P \<in> physicalAddressesUnchanged st \<or> (P \<notin> physicalAddressesChanged st \<and> top_intact w rs P)"

definition checked :: "check_state \<Rightarrow> 's world \<Rightarrow> u32 list \<Rightarrow> u32 \<rightharpoonup> PatchedFunctionData" where
  "checked st w rs = (\<lambda>x. if x \<in> set rs
     then map_option (\<lambda>d. d\<lparr>isPatched := isPatched d \<and> kept_mark st w rs (realPhysicalFunctionAddress d)\<rparr>) (objs w x)
     else objs w x)"

lemma top_intact_cong:
  assumes "\<And>x. x \<in> set rs \<Longrightarrow> objs w1 x = objs w x"
    and "\<And>x d. x \<in> set rs \<Longrightarrow> objs w x = Some d \<Longrightarrow>
          read32 (mem w1) (realPhysicalFunctionAddress d) = read32 (mem w) (realPhysicalFunctionAddress d)"
  shows "top_intact w1 rs P = top_intact w rs P"
proof -
  have "top_patch w1 rs P = top_patch w rs P"
    using assms(1) unfolding top_patch_def by (intro find_cong) (simp_all add: is_patched_def phys_of_def)
  moreover have "intact w1 x = intact w x" if "top_patch w rs P = Some x" for x
  proof -
    have "x \<in> set rs" using that unfolding top_patch_def by (auto simp: find_Some_iff)
    then show ?thesis using assms by (auto simp: intact_def split: option.splits)
  qed
  ultimately show ?thesis by (auto simp: top_intact_def split: option.splits)
qed

lemma top_intact_Cons:
  assumes "objs w h = Some d"
  shows "top_intact w (h # rs) P =
     (if isPatched d \<and> realPhysicalFunctionAddress d = P then intact w h else top_intact w rs P)"
  using assms by (simp add: top_intact_def top_patch_def is_patched_def phys_of_def)

lemma check_loop_ok:
  assumes plat: "memory_ok A"
  shows "distinct rs \<Longrightarrow> all_live (objs w) rs \<Longrightarrow> functions_apart A w \<Longrightarrow>
     physicalAddressesUnchanged st \<inter> physicalAddressesChanged st = {} \<Longrightarrow>
     \<exists>m tr. check_loop A rs st w = Inr (w\<lparr>mem := m, trace := trace w @ tr, objs := checked st w rs\<rparr>)
       \<and> same_outside (local_words A (os w)) (mem w) m"
proof (induction rs arbitrary: st w)
  case Nil
  have "checked st w [] = objs w" by (simp add: checked_def fun_eq_iff)
  then show ?case by (intro exI [of _ "mem w"] exI [of _ "[]"]) simp
next
  case (Cons h rs)
  let ?U = "physicalAddressesUnchanged st" and ?C = "physicalAddressesChanged st"
  from Cons.prems(2) obtain d where d: "objs w h = Some d" by auto
  let ?P = "realPhysicalFunctionAddress d"
  obtain m1 tr1 where f1: "same_outside (local_words A (os w)) (mem w) m1" and c:
     "check_one A h st w = Inr
       (let w1 = w\<lparr>mem := m1, trace := trace w @ tr1\<rparr>
        in if \<not> isPatched d \<or> ?P \<in> ?U then (st, w1)
           else if ?P \<in> ?C then (st, put_obj h (d\<lparr>isPatched := False\<rparr>) w1)
           else if intact w h then (st\<lparr>physicalAddressesUnchanged := insert ?P ?U\<rparr>, w1)
           else (st\<lparr>physicalAddressesChanged := insert ?P ?C\<rparr>, put_obj h (d\<lparr>isPatched := False\<rparr>) w1))"
    using check_one_ok [OF plat d, of st] by (auto simp: Let_def)
  let ?b = "isPatched d \<and> kept_mark st w (h # rs) ?P"
  define st1 where "st1 = (if \<not> isPatched d \<or> ?P \<in> ?U \<or> ?P \<in> ?C then st
     else if intact w h then st\<lparr>physicalAddressesUnchanged := insert ?P ?U\<rparr>
     else st\<lparr>physicalAddressesChanged := insert ?P ?C\<rparr>)"
  define w1 where "w1 = w\<lparr>mem := m1, trace := trace w @ tr1, objs := (objs w)(h \<mapsto> d\<lparr>isPatched := ?b\<rparr>)\<rparr>"
  have km: "kept_mark st w (h # rs) ?P \<longleftrightarrow> ?P \<in> ?U \<or> (?P \<notin> ?C \<and> intact w h)" if "isPatched d"
    using that by (simp add: kept_mark_def top_intact_Cons [OF d])
  have one: "check_one A h st w = Inr (st1, w1)"
  proof -
    have idem: "\<not> isPatched d \<Longrightarrow> (objs w)(h \<mapsto> d\<lparr>isPatched := False\<rparr>) = objs w"
      "isPatched d \<Longrightarrow> (objs w)(h \<mapsto> d\<lparr>isPatched := True\<rparr>) = objs w"
      using d by (simp_all add: fun_upd_idem)
    show ?thesis
      unfolding c st1_def w1_def using km Cons.prems(4) idem
      by (cases "isPatched d"; cases "?P \<in> ?U"; cases "?P \<in> ?C"; cases "intact w h")
        (auto simp: put_obj_def Let_def)
  qed
  have cong: "x \<in> set rs \<Longrightarrow> objs w1 x = objs w x" for x
    using Cons.prems(1) by (auto simp: w1_def)
  have rd: "read32 (mem w1) (realPhysicalFunctionAddress e) = read32 (mem w) (realPhysicalFunctionAddress e)"
    if "objs w x = Some e" for x e
    using same_outside_read [OF f1] Cons.prems(3) that by (simp add: w1_def functions_apart_def)
  have ti: "top_intact w1 rs P = top_intact w rs P" for P
    by (rule top_intact_cong) (use cong rd in auto)
  have km1: "kept_mark st1 w1 rs P = kept_mark st w (h # rs) P" for P
    using Cons.prems(4)
    by (auto simp: kept_mark_def ti top_intact_Cons [OF d] st1_def)
  have chk: "checked st1 w1 rs = checked st w (h # rs)"
  proof -
    have "objs w1 h = Some (d\<lparr>isPatched := ?b\<rparr>)" "x \<noteq> h \<Longrightarrow> objs w1 x = objs w x" for x
      by (simp_all add: w1_def)
    then show ?thesis using Cons.prems(1) d by (auto simp: checked_def km1 cong fun_eq_iff)
  qed
  have "distinct rs" "all_live (objs w1) rs" "functions_apart A w1"
      "physicalAddressesUnchanged st1 \<inter> physicalAddressesChanged st1 = {}"
    using Cons.prems d by (auto simp: w1_def functions_apart_def all_live_def st1_def)
  from Cons.IH [OF this] obtain m2 tr2 where
    r2: "check_loop A rs st1 w1 = Inr (w1\<lparr>mem := m2, trace := trace w1 @ tr2, objs := checked st1 w1 rs\<rparr>)"
    and f2: "same_outside (local_words A (os w1)) (mem w1) m2"
    by blast
  have "check_loop A (h # rs) st w =
      Inr (w\<lparr>mem := m2, trace := trace w @ (tr1 @ tr2), objs := checked st w (h # rs)\<rparr>)"
    using one r2 by (simp add: chk) (simp add: w1_def)
  moreover have "same_outside (local_words A (os w)) (mem w) m2"
    using same_outside_trans [OF f1] f2 by (simp add: w1_def)
  ultimately show ?case by blast
qed

text \<open>
  C18. The check for overwritten functions always returns, and afterwards a patch is marked exactly
  if it was marked before and the newest marked patch of the same physical function still has its
  branch in memory: the newest one decides for all of them. Nothing else changes, stack locals
  apart.
\<close>

theorem check_keeps_intact_functions:
  assumes "memory_ok A" and "all_live (objs w) (gPatchedFunctions w)"
    and "distinct (gPatchedFunctions w)" and "functions_apart A w"
  shows "\<exists>m tr. CheckIfPatchedFunctionsAreStillInMemory A w =
       Inr (w\<lparr>mem := m, trace := trace w @ tr,
         objs := (\<lambda>x. if x \<in> set (gPatchedFunctions w)
            then map_option (\<lambda>d. d\<lparr>isPatched := isPatched d
                   \<and> top_intact w (rev (gPatchedFunctions w)) (realPhysicalFunctionAddress d)\<rparr>) (objs w x)
            else objs w x)\<rparr>)
     \<and> same_outside (local_words A (os w)) (mem w) m"
proof -
  let ?rs = "rev (gPatchedFunctions w)"
  let ?st = "\<lparr>physicalAddressesUnchanged = {}, physicalAddressesChanged = {}\<rparr>"
  have "distinct ?rs" "all_live (objs (lock w)) ?rs" "functions_apart A (lock w)"
    using assms by (simp_all add: all_live_def functions_apart_def)
  from check_loop_ok [OF assms(1) this, of ?st] obtain m tr where
    l: "check_loop A ?rs ?st (lock w) = Inr ((lock w)\<lparr>mem := m, trace := trace (lock w) @ tr, objs := checked ?st (lock w) ?rs\<rparr>)"
    and f: "same_outside (local_words A (os (lock w))) (mem (lock w)) m"
    by auto
  have ti: "top_intact (lock w) ?rs P = top_intact w ?rs P" for P
    by (rule top_intact_cong) simp_all
  have "checked ?st (lock w) ?rs = (\<lambda>x. if x \<in> set (gPatchedFunctions w)
            then map_option (\<lambda>d. d\<lparr>isPatched := isPatched d
                   \<and> top_intact w ?rs (realPhysicalFunctionAddress d)\<rparr>) (objs w x)
            else objs w x)"
    by (simp add: checked_def kept_mark_def ti fun_eq_iff)
  with l f show ?thesis
    by (intro exI [of _ m] exI [of _ tr])
      (simp add: CheckIfPatchedFunctionsAreStillInMemory_def, simp add: lock_def unlock_def)
qed

section \<open>Steps of the hooks on the objects\<close>

text \<open>The check and the unload loop only clear marks, and leave the handle table alone.\<close>

definition clears_marks :: "u32 set \<Rightarrow> 's world \<Rightarrow> 's world \<Rightarrow> bool" where
  "clears_marks H w w' \<longleftrightarrow>
     object_steps H w w' \<and> rpl_handles w' = rpl_handles w \<and> os w' = os w
     \<and> (\<forall>x. is_patched w' x \<longrightarrow> is_patched w x)"

lemma clears_marks_refl [simp]: "clears_marks H w w"
  by (simp add: clears_marks_def)

lemma clears_marks_trans:
  "clears_marks H w w' \<Longrightarrow> clears_marks H' w' w'' \<Longrightarrow> clears_marks (H \<union> H') w w''"
  unfolding clears_marks_def using object_steps_trans by fastforce

lemma clears_marks_unpatch:
  assumes "objs w h = Some d"
  shows "clears_marks {h} w (put_obj h (d\<lparr>isPatched := False\<rparr>) w)"
  using assms object_steps_put [OF assms, of "d\<lparr>isPatched := False\<rparr>"]
  by (simp add: clears_marks_def) (simp add: put_obj_def is_patched_def)

lemma clears_marks_read:
  assumes "ReadFromPhysicalAddress A p b w = (r, w1)"
  shows "clears_marks H w w1"
proof -
  have k: "keeps w w1" by (rule keeps_ReadFromPhysicalAddress [OF assms])
  have "rpl_handles w1 = rpl_handles w" "os w1 = os w"
    using assms by (auto simp: ReadFromPhysicalAddress_def copy_data_def log_event_def Let_def split: if_splits)
  then show ?thesis using k by (simp add: clears_marks_def object_steps_keeps is_patched_def keeps_def)
qed

lemma check_one_clears:
  assumes "check_one A h st w = Inr (st', w')"
  shows "clears_marks {h} w w'"
proof -
  from assms obtain d where d: "objs w h = Some d" by (auto simp: check_one_def split: option.splits)
  have r: "clears_marks {h} w (put_obj h (d\<lparr>isPatched := False\<rparr>) w1)"
    if "ReadFromPhysicalAddress A p b w = (x, w1)" for x w1 p b
  proof -
    have "objs w1 h = Some d"
      using keeps_ReadFromPhysicalAddress [OF that] d by (simp add: keeps_def)
    from clears_marks_trans [OF clears_marks_read [OF that, of "{h}"] clears_marks_unpatch [OF this]]
    show ?thesis by simp
  qed
  show ?thesis
    using assms d r clears_marks_unpatch [OF d] clears_marks_read
    by (auto simp: check_one_def Let_def split: if_splits option.splits prod.splits)
qed

lemma check_loop_clears:
  "check_loop A hs st w = Inr w' \<Longrightarrow> clears_marks (set hs) w w'"
proof (induction hs arbitrary: st w)
  case (Cons h hs)
  then obtain st1 w1 where c: "check_one A h st w = Inr (st1, w1)" and l: "check_loop A hs st1 w1 = Inr w'"
    by (auto split: sum.splits)
  from clears_marks_trans [OF check_one_clears [OF c] Cons.IH [OF l]] show ?case by simp
qed simp

definition of_library :: "function_replacement_library_type_t \<Rightarrow> PatchedFunctionData \<Rightarrow> bool" where
  "of_library lib d \<longleftrightarrow> fp_type d = FUNCTION_PATCHER_REPLACE_BY_LIB_OR_ADDRESS \<and> fp_library d = Some lib"

lemma unpatch_library_clears:
  "unpatch_library lib hs w = Inr w' \<Longrightarrow>
     clears_marks (set hs) w w'
     \<and> (\<forall>h \<in> set hs. \<forall>d. objs w h = Some d \<longrightarrow> of_library lib d \<longrightarrow> \<not> is_patched w' h)"
proof (induction hs arbitrary: w)
  case (Cons h hs)
  from Cons.prems obtain d where d: "objs w h = Some d" by (auto split: option.splits)
  define w1 where "w1 = (if of_library lib d then put_obj h (d\<lparr>isPatched := False\<rparr>) w else w)"
  have l: "unpatch_library lib hs w1 = Inr w'"
    using Cons.prems d by (simp add: w1_def of_library_def)
  note ih = Cons.IH [OF l]
  have c1: "clears_marks {h} w w1" using clears_marks_unpatch [OF d] by (simp add: w1_def)
  have c: "clears_marks (set (h # hs)) w w'"
    using clears_marks_trans [OF c1, of "set hs" w'] ih by simp
  have h: "\<not> is_patched w' h" if "of_library lib d"
    using ih that by (auto simp: clears_marks_def w1_def)
  have "\<not> is_patched w' x" if "x \<in> set hs" "objs w x = Some e" "of_library lib e" for x e
  proof (cases "x = h")
    case True
    then show ?thesis using h that d by simp
  next
    case False
    then have "objs w1 x = Some e" using that by (simp add: w1_def put_obj_def)
    then show ?thesis using ih that by blast
  qed
  with c h d show ?case by auto
qed simp

lemma clears_marks_lock:
  "clears_marks H (lock w) w1 \<Longrightarrow> clears_marks H w (unlock w1)"
  by (simp add: clears_marks_def object_steps_def keeps_globals_def lock_def unlock_def heap_log_def
      table_names_def is_patched_def)

lemma CheckIf_clears:
  "CheckIfPatchedFunctionsAreStillInMemory A w = Inr w' \<Longrightarrow> clears_marks (set (gPatchedFunctions w)) w w'"
  using check_loop_clears [of A "rev (gPatchedFunctions w)" _ "lock w"]
  by (auto simp: CheckIfPatchedFunctionsAreStillInMemory_def Let_def intro!: clears_marks_lock
      split: sum.splits)

text \<open>
  C19. When the loader announces that a known library was unloaded, its cached handle is forgotten,
  every patch of that library counts as not patched, no patch becomes marked, and list, objects
  (apart from their marks) and mutex stay.
\<close>

theorem unload_forgets_library:
  assumes "notify_callback A module OS_DYNLOAD_NOTIFY_UNLOADED w = Inr w'"
    and "handles_ok (rpl_handles w)" and "module \<noteq> 0"
    and "cached_handle (rpl_handles w) lib = Some module"
  shows "cached_handle (rpl_handles w') lib = None
     \<and> (\<forall>h \<in> set (gPatchedFunctions w). \<forall>d. objs w h = Some d \<longrightarrow> of_library lib d \<longrightarrow> \<not> is_patched w' h)
     \<and> (\<forall>h. is_patched w' h \<longrightarrow> is_patched w h)
     \<and> gPatchedFunctions w' = gPatchedFunctions w
     \<and> gPatchedFunctionsMutex w' = gPatchedFunctionsMutex w"
proof -
  let ?l = "getTypeForHandle module w" and ?gs = "gPatchedFunctions w"
  have t: "getTypeForHandle module w = lib" "lib \<noteq> LIBRARY_OTHER"
    using type_for_handle_iff [OF assms(2,3), of lib] assms(4) by (simp_all add: getTypeForHandle_def)
  have t1: "getTypeForHandle module (lock w) = lib" using t(1) by (simp add: getTypeForHandle_def lock_def)
  from assms(1) t t1 obtain w2 w4 where u: "unpatch_library lib ?gs (lock w) = Inr w2"
    and c: "CheckIfPatchedFunctionsAreStillInMemory A (snd (resetHandle module w2)) = Inr w4"
    and w': "w' = unlock w4"
    by (auto simp: notify_callback_def Let_def split: sum.splits prod.splits if_splits)
  note un = unpatch_library_clears [OF u]
  let ?w3 = "snd (resetHandle module w2)"
  have w3: "?w3 = w2\<lparr>rpl_handles := snd (reset_handle (rpl_handles w2) module)\<rparr>"
    by (simp add: resetHandle_def split: prod.splits)
  have r2: "rpl_handles w2 = rpl_handles w" using un by (simp add: clears_marks_def lock_def)
  have p3: "is_patched ?w3 = is_patched w2" unfolding w3 by (simp add: is_patched_def fun_eq_iff)
  note ck = CheckIf_clears [OF c]
  have "cached_handle (rpl_handles w4) lib = None"
    using ck rpl_cache.cached_drop_one [OF assms(2), of module lib] assms(4)
    by (simp add: clears_marks_def w3 r2)
  moreover have "is_patched w4 x \<Longrightarrow> is_patched w2 x" for x using ck p3 by (simp add: clears_marks_def)
  moreover have "is_patched w2 x \<Longrightarrow> is_patched w x" for x using un by (simp add: clears_marks_def)
  moreover have "gPatchedFunctions w4 = ?gs" "gPatchedFunctionsMutex w4 = Suc (gPatchedFunctionsMutex w)"
    using ck un by (simp_all add: clears_marks_def object_steps_def keeps_globals_def w3)
  ultimately show ?thesis
    using un by (auto simp: w' unlock_def is_patched_def)
qed

section \<open>Patching the loader\<close>

text \<open>
  C33. Patching an instruction of the loader succeeds exactly when the instruction is the expected
  original or already the replacement; after a success the replacement is in place, and doing it
  again succeeds without writing anything. The hypotheses say that the system can translate the
  instruction's address and that of the local the replacement is copied from.
\<close>

theorem PatchInstruction_repeatable:
  assumes "copies_words A" and "original \<noteq> replacement"
    and "OSEffectiveToPhysical A (os w) instr = mmu A (os w) instr"
    and "OSEffectiveToPhysical A (os w) (local_addr A (os w) (core w) L_replacement)
           = mmu A (os w) (local_addr A (os w) (core w) L_replacement)"
  shows "\<exists>b w'. PatchInstruction A instr original replacement w = (b, w')
     \<and> b = (load32 A instr w \<in> {original, replacement})
     \<and> (b \<longrightarrow> load32 A instr w' = replacement
             \<and> PatchInstruction A instr original replacement w' = (True, w'))
     \<and> (\<not> b \<longrightarrow> w' = w)"
proof (cases "load32 A instr w = original")
  case True
  define w' where "w' = snd (PatchInstruction A instr original replacement w)"
  have p: "PatchInstruction A instr original replacement w = (True, w')"
    using True by (simp add: PatchInstruction_def Let_def w'_def)
  have "load32 A instr w' = replacement"
    using True assms(1,3,4)
    by (simp add: w'_def PatchInstruction_def Let_def copy_data_def copies_words_def log_event_def
        store32_def load32_def)
  then show ?thesis using p True assms(2) by (auto simp: PatchInstruction_def [of A instr original replacement w'])
next
  case False
  then show ?thesis by (auto simp: PatchInstruction_def)
qed

end
