(* ===== verification/Module_System.thy ===== *)
theory Module_System
  imports Module_Correct
begin

text \<open>
  The module as a transition system. A step is one call into the module, by a client, by the loader
  or by the module system, or anything the rest of the console does to memory and to the operating
  system between two calls. The invariant relates the list, the objects, the heaps, the handle
  table and the mutex; it holds in every reachable state, and with it the assertions that the code
  takes for granted.
\<close>

section \<open>Steps\<close>

text \<open>
  Clients may pass anything. Memory that the allocator hands out for a new object is not in use by
  another one. The end of an application, and the notifications, may come at any time.
\<close>

inductive module_step :: "'s os_api \<Rightarrow> 's world \<Rightarrow> 's world \<Rightarrow> bool" for A :: "'s os_api" where
  add: "FPAddFunctionPatch A fd outHandle outHasBeenPatched w = Inr (st, w') \<Longrightarrow>
          objs w (fst (operator_new A (os w))) = None \<Longrightarrow> module_step A w w'"
| remove: "FPRemoveFunctionPatch A h w = Inr (st, w') \<Longrightarrow> module_step A w w'"
| query: "FPIsFunctionPatched A h out w = (st, w') \<Longrightarrow> module_step A w w'"
| version: "FPGetVersion A out w = (st, w') \<Longrightarrow> module_step A w w'"
| notify: "notify_callback A module reason w = Inr w' \<Longrightarrow> module_step A w w'"
| starts: "wums_application_starts A w = Inr w' \<Longrightarrow> module_step A w w'"
| requests_exit: "module_step A w (wums_application_requests_exit w)"
| ends: "module_step A w (wums_application_ends w)"
| environment: "module_step A w (w\<lparr>os := s, mem := m\<rparr>)"

text \<open>The module before its initialisation: no objects, no patches, nothing allocated.\<close>

definition unloaded_module :: "'s world \<Rightarrow> bool" where
  "unloaded_module w \<longleftrightarrow>
     objs w = Map.empty \<and> gPatchedFunctions w = [] \<and> gPatchedFunctionsMutex w = 0 \<and> heap_log w = []"

inductive reachable :: "'s os_api \<Rightarrow> 's world \<Rightarrow> bool" for A :: "'s os_api" where
  init: "unloaded_module w0 \<Longrightarrow> wums_initialize A w0 = Inr w \<Longrightarrow> reachable A w"
| step: "reachable A w \<Longrightarrow> module_step A w w' \<Longrightarrow> reachable A w'"

section \<open>Requests of an unknown type\<close>

text \<open>
  The type of a version 3 request is not checked. A value outside the enumeration is noticed when
  the new object is patched for the first time: the console stops, and no such object ever gets
  into the list.
\<close>

definition known_request :: "function_replacement_data_t option \<Rightarrow> bool" where
  "known_request fd \<longleftrightarrow>
     (case fd of None \<Rightarrow> True | Some r \<Rightarrow> fd_version r = 2 \<or> known_type (v3_type (as_v3 r)))"

definition unknown_type_stop :: halt where
  "unknown_type_stop = OSFatal ''library was empty. This should never happen. Check logs for more information.''"

lemma init_from_v3_unknown:
  "\<not> known_type (v3_type r) \<Longrightarrow> fp_type (init_from_v3 r heap) = v3_type r
     \<and> fp_library (init_from_v3 r heap) = None \<and> \<not> isPatched (init_from_v3 r heap)"
  by (cases "v3_type r") (simp_all add: init_from_v3_def known_type_def fresh_pfd_def Let_def)

lemma PatchFunction_unknown:
  assumes "objs w h = Some d" and "\<not> isPatched d" and "fp_library d = None" and "\<not> known_type (fp_type d)"
  shows "PatchFunction A h w = Inl unknown_type_stop"
  using assms
  by (cases "fp_type d")
    (simp_all add: PatchFunction_def shouldBePatched_def updateFunctionAddresses_def known_type_def
      unknown_type_stop_def)

lemma unknown_request_stops:
  assumes u: "\<not> known_request fd" and fresh: "objs w (fst (operator_new A (os w))) = None"
  shows "FPAddFunctionPatch A fd outHandle outHasBeenPatched w = Inl unknown_type_stop
     \<or> (\<exists>st w'. FPAddFunctionPatch A fd outHandle outHasBeenPatched w = Inr (st, w')
          \<and> st \<noteq> FUNCTION_PATCHER_RESULT_SUCCESS)"
proof -
  obtain r where fd: "fd = Some r" "fd_version r \<noteq> 2" "\<not> known_type (v3_type (as_v3 r))"
    using u by (cases fd) (auto simp: known_request_def)
  let ?d0 = "init_object r (gJumpHeapHandle w)"
  have d0: "fp_type ?d0 = v3_type (as_v3 r)" "fp_library ?d0 = None" "\<not> isPatched ?d0"
    using fd(2) init_from_v3_unknown [OF fd(3)] by (simp_all add: init_object_def)
  obtain res w1 where c: "construct A ?d0 w = (res, w1)" by fastforce
  note ce = construct_effect [OF init_object_unallocated c fresh]
  show ?thesis
  proof (cases res)
    case (Some h)
    from ce [unfolded Some option.case] obtain d p q where o: "objs w1 = (objs w)(h \<mapsto> d)"
      and d: "d = ?d0\<lparr>jumpData := p, jumpToOriginal := q\<rparr>" by blast
    have "PatchFunction A h w1 = Inl unknown_type_stop"
      by (rule PatchFunction_unknown [of _ _ d]) (use d0 fd(3) o d in simp_all)
    then show ?thesis by (simp add: fd(1) FPAddFunctionPatch_eq c Some)
  qed (simp add: fd(1) FPAddFunctionPatch_eq c)
qed

section \<open>The invariant\<close>

definition owned_by_list :: "'s world \<Rightarrow> block \<Rightarrow> int" where
  "owned_by_list w b =
     sum_list (map (\<lambda>h. case objs w h of None \<Rightarrow> 0 | Some d \<Rightarrow> owned h d b) (gPatchedFunctions w))"

definition module_inv :: "'s os_api \<Rightarrow> 's world \<Rightarrow> bool" where
  "module_inv A w \<longleftrightarrow>
     distinct (gPatchedFunctions w)
     \<and> (\<forall>h. h \<in> set (gPatchedFunctions w) \<longleftrightarrow> objs w h \<noteq> None)
     \<and> (\<forall>h d. objs w h = Some d \<longrightarrow> wf_object A d)
     \<and> gPatchedFunctionsMutex w = 0
     \<and> table_names w = map (\<lambda>r. (rh_library r, rh_rplname r)) initial_rpl_handles
     \<and> balance w = owned_by_list w"

lemma module_inv_live: "module_inv A w \<Longrightarrow> all_live (objs w) (gPatchedFunctions w)"
  by (simp add: module_inv_def all_live_def)

lemma owned_option:
  assumes "map_option anchor x = map_option anchor y"
  shows "(case x of None \<Rightarrow> 0 | Some d \<Rightarrow> owned h d b) = (case y of None \<Rightarrow> 0 | Some d \<Rightarrow> owned h d b)"
proof (cases x)
  case (Some d)
  then obtain e where e: "y = Some e" and a: "anchor e = anchor d" using assms by (cases y) auto
  show ?thesis unfolding Some e by (simp add: owned_anchor [OF a])
qed (use assms in simp)

text \<open>
  What most operations leave alone: the list, the parts of the objects that their construction
  fixed, the blocks on the heaps, the names in the handle table and the mutex.
\<close>

definition settled :: "'s world \<Rightarrow> 's world \<Rightarrow> bool" where
  "settled w w' \<longleftrightarrow>
     gPatchedFunctions w' = gPatchedFunctions w \<and> table_names w' = table_names w
     \<and> gPatchedFunctionsMutex w' = gPatchedFunctionsMutex w \<and> balance w' = balance w
     \<and> (\<forall>x. map_option anchor (objs w' x) = map_option anchor (objs w x))"

lemma settled_refl [simp]: "settled w w"
  by (simp add: settled_def)

lemma settled_trans: "settled w w' \<Longrightarrow> settled w' w'' \<Longrightarrow> settled w w''"
  by (simp add: settled_def)

lemma settled_steps: "object_steps H w w' \<Longrightarrow> settled w w'"
  using balance_keeps [of w w'] by (simp add: settled_def object_steps_def keeps_globals_def)

lemma settled_keeps: "keeps w w' \<Longrightarrow> settled w w'"
  using settled_steps object_steps_keeps by blast

lemma settled_same:
  assumes "gPatchedFunctions w' = gPatchedFunctions w" and "objs w' = objs w"
    and "gPatchedFunctionsMutex w' = gPatchedFunctionsMutex w" and "table_names w' = table_names w"
    and "heap_log w' = heap_log w"
  shows "settled w w'"
  using assms by (simp add: settled_def balance_def fun_eq_iff)

lemma module_inv_settled:
  assumes "module_inv A w" and s: "settled w w'"
  shows "module_inv A w'"
proof -
  have g: "gPatchedFunctions w' = gPatchedFunctions w" "table_names w' = table_names w"
    "gPatchedFunctionsMutex w' = gPatchedFunctionsMutex w" "balance w' = balance w"
    and a: "map_option anchor (objs w' h) = map_option anchor (objs w h)" for h
    using s by (simp_all add: settled_def)
  have live: "objs w' h = None \<longleftrightarrow> objs w h = None" for h
    using a by (metis map_option_is_None)
  have an: "\<exists>d. objs w h = Some d \<and> anchor d' = anchor d" if "objs w' h = Some d'" for h d'
    using a [of h] that by (cases "objs w h") auto
  have ow: "(case objs w' h of None \<Rightarrow> 0 | Some d \<Rightarrow> owned h d b)
      = (case objs w h of None \<Rightarrow> 0 | Some d \<Rightarrow> owned h d b)" for h b
    by (rule owned_option [OF a])
  have "wf_object A d'" if hd: "objs w' h = Some d'" for h d'
  proof -
    obtain d where d: "objs w h = Some d" and a: "anchor d' = anchor d" using an [OF hd] by blast
    show ?thesis using assms(1) d by (simp add: wf_object_anchor [OF a] module_inv_def)
  qed
  moreover have "owned_by_list w' = owned_by_list w" by (simp add: owned_by_list_def g ow fun_eq_iff)
  ultimately show ?thesis using assms(1) by (simp add: module_inv_def g live)
qed

lemma object_steps_lock:
  "object_steps H (lock w) w1 \<Longrightarrow> object_steps H w (unlock w1)"
  by (simp add: object_steps_def keeps_globals_def lock_def unlock_def heap_log_def table_names_def)

lemma settled_locked: "object_steps H (lock w) w1 \<Longrightarrow> settled w (unlock w1)"
  using settled_steps object_steps_lock by blast

lemma owned_by_list_upd:
  "h \<notin> set (gPatchedFunctions w) \<Longrightarrow> objs w' = (objs w)(h := x) \<Longrightarrow>
     sum_list (map (\<lambda>k. case objs w' k of None \<Rightarrow> 0 | Some d \<Rightarrow> owned k d b) (gPatchedFunctions w))
       = owned_by_list w b"
  unfolding owned_by_list_def by (intro arg_cong [of _ _ sum_list] map_cong) auto

lemma add_preserves:
  assumes inv: "module_inv A w"
    and a: "FPAddFunctionPatch A fd outHandle outHasBeenPatched w = Inr (st, w')"
    and fresh: "objs w (fst (operator_new A (os w))) = None"
  shows "module_inv A w'"
proof (cases fd)
  case None
  then show ?thesis using a inv by (simp add: FPAddFunctionPatch_def)
next
  case (Some r)
  note e = add_effect [OF a [unfolded Some] fresh]
  show ?thesis
  proof (cases "accepted_version r \<and> st = FUNCTION_PATCHER_RESULT_SUCCESS")
    case False
    then have "objs w' = objs w \<and> balance w' = balance w \<and> gPatchedFunctions w' = gPatchedFunctions w"
      using e by (auto split: if_splits)
    then show ?thesis using e inv by (auto simp: module_inv_def owned_by_list_def)
  next
    case True
    have known: "known_request fd"
      by (rule ccontr) (use unknown_request_stops [OF _ fresh, of fd outHandle outHasBeenPatched] a True in auto)
    with True e obtain h d where h: "objs w h = None" and l: "gPatchedFunctions w' = gPatchedFunctions w @ [h]"
      and o: "objs w' = (objs w)(h \<mapsto> d)" and wf: "wf_object A d"
      and b: "\<forall>b. balance w' b = balance w b + owned h d b"
      using known Some by (auto simp: known_request_def split: if_splits)
    have nin: "h \<notin> set (gPatchedFunctions w)" using inv h by (simp add: module_inv_def)
    have "owned_by_list w' b = owned_by_list w b + owned h d b" for b
      using owned_by_list_upd [OF nin o, of b] by (simp add: owned_by_list_def l o)
    then have "balance w' = owned_by_list w'" using b inv by (simp add: module_inv_def fun_eq_iff)
    moreover have "k \<in> set (gPatchedFunctions w') \<longleftrightarrow> objs w' k \<noteq> None" for k
      using inv by (auto simp: l o module_inv_def)
    ultimately show ?thesis using inv nin e wf by (auto simp: module_inv_def l o)
  qed
qed

lemma remove_preserves:
  assumes inv: "module_inv A w" and r: "FPRemoveFunctionPatch A h w = Inr (st, w')"
  shows "module_inv A w'"
proof (cases "h \<in> set (gPatchedFunctions w)")
  case False
  then show ?thesis
    using remove_unknown_handle [OF module_inv_live [OF inv]] r inv by simp
next
  case True
  then obtain pre post where l: "gPatchedFunctions w = pre @ h # post" by (auto simp: in_set_conv_decomp)
  have dist: "distinct (gPatchedFunctions w)" using inv by (simp add: module_inv_def)
  obtain d where d: "objs w h = Some d" using True inv by (auto simp: module_inv_def)
  note e = remove_effect [OF l module_inv_live [OF inv] dist d r]
  have an: "map_option anchor (objs w' x) = map_option anchor (objs w x)" if "x \<noteq> h" for x
    using e that by blast
  have ow: "(case objs w' x of None \<Rightarrow> 0 | Some d \<Rightarrow> owned x d b)
      = (case objs w x of None \<Rightarrow> 0 | Some d \<Rightarrow> owned x d b)" if "x \<noteq> h" for x b
    by (rule owned_option [OF an [OF that]])
  have nin: "h \<notin> set (pre @ post)" "distinct (pre @ post)" using dist by (auto simp: l)
  have "owned_by_list w b = owned_by_list w' b + owned h d b" for b
  proof -
    have "map (\<lambda>x. case objs w' x of None \<Rightarrow> 0 | Some d \<Rightarrow> owned x d b) (pre @ post)
        = map (\<lambda>x. case objs w x of None \<Rightarrow> 0 | Some d \<Rightarrow> owned x d b) (pre @ post)"
      by (intro map_cong refl ow) (use nin(1) in auto)
    then have "owned_by_list w' b
        = sum_list (map (\<lambda>x. case objs w x of None \<Rightarrow> 0 | Some d \<Rightarrow> owned x d b) (pre @ post))"
      using e by (simp only: owned_by_list_def)
    then show ?thesis using d by (simp add: owned_by_list_def l)
  qed
  then have "balance w' = owned_by_list w'" using e inv by (simp add: module_inv_def fun_eq_iff)
  moreover have "k \<in> set (pre @ post) \<longleftrightarrow> objs w' k \<noteq> None" for k
  proof (cases "k = h")
    case True
    then show ?thesis using nin e by simp
  next
    case False
    then have "objs w' k = None \<longleftrightarrow> objs w k = None" using an [OF False] by (metis map_option_is_None)
    then show ?thesis using inv False by (auto simp: module_inv_def l)
  qed
  moreover have "wf_object A x" if "objs w' k = Some x" for k x
  proof -
    have kh: "k \<noteq> h" using that e by auto
    then obtain y where y: "objs w k = Some y" and a: "anchor x = anchor y"
      using an [OF kh] \<open>objs w' k = Some x\<close> by (cases "objs w k") auto
    then show ?thesis using inv by (simp add: wf_object_anchor [OF a] module_inv_def)
  qed
  ultimately show ?thesis using inv e nin(2) by (auto simp: module_inv_def)
qed

lemma query_settled: "FPIsFunctionPatched A h out w = (st, w') \<Longrightarrow> settled w w'"
  by (auto simp: FPIsFunctionPatched_eq intro!: settled_keeps [OF keeps_updates(1)] split: if_splits)

lemma version_settled: "FPGetVersion A out w = (st, w') \<Longrightarrow> settled w w'"
  by (auto simp: FPGetVersion_def intro: settled_keeps [OF keeps_store32] split: if_splits)

lemma keeps_resetHandle: "resetHandle h w = (b, w') \<Longrightarrow> keeps w w'"
proof -
  have "map (\<lambda>r. (rh_library r, rh_rplname r)) (snd (reset_handle t h)) = map (\<lambda>r. (rh_library r, rh_rplname r)) t"
    for t by (induction t) (auto split: prod.splits)
  then show "resetHandle h w = (b, w') \<Longrightarrow> keeps w w'"
    by (auto simp: resetHandle_def keeps_def keeps_globals_def heap_log_def table_names_def split: prod.splits)
      (metis snd_conv)
qed

lemma notify_settled:
  assumes n: "notify_callback A module reason w = Inr w'"
  shows "settled w w'"
proof (cases reason)
  case OS_DYNLOAD_NOTIFY_LOADED
  with n obtain w2 where l: "for_each (PatchFunction A) (gPatchedFunctions w) (lock w) = Inr w2"
    and w': "w' = unlock w2"
    by (auto simp: notify_callback_def Let_def split: sum.splits)
  show ?thesis unfolding w' by (rule settled_locked [OF patching.loop_steps [OF l]])
next
  case OS_DYNLOAD_NOTIFY_UNLOADED
  with n obtain w2 b w3 w4 where
    u: "(if getTypeForHandle module (lock w) \<noteq> LIBRARY_OTHER
         then unpatch_library (getTypeForHandle module (lock w)) (gPatchedFunctions (lock w)) (lock w)
         else Inr (lock w)) = Inr w2"
    and r: "resetHandle module w2 = (b, w3)"
    and c: "CheckIfPatchedFunctionsAreStillInMemory A w3 = Inr w4" and w': "w' = unlock w4"
    by (auto simp: notify_callback_def Let_def split: sum.splits prod.splits)
  let ?H = "set (gPatchedFunctions w)"
  have 2: "object_steps ?H (lock w) w2"
    using u unpatch_library_clears [of _ "gPatchedFunctions w" "lock w" w2]
    by (auto simp: clears_marks_def split: if_splits)
  have 3: "object_steps ?H (lock w) w3"
    using object_steps_trans_same [OF 2 object_steps_keeps [OF keeps_resetHandle [OF r]]] .
  have "object_steps (?H \<union> set (gPatchedFunctions w3)) (lock w) w4"
    using object_steps_trans [OF 3] CheckIf_clears [OF c] by (simp add: clears_marks_def)
  from settled_locked [OF this] show ?thesis unfolding w' .
next
  case OS_DYNLOAD_NOTIFY_VALUE
  then show ?thesis using n by (simp add: notify_callback_def)
qed

lemma starts_settled:
  assumes s: "wums_application_starts A w = Inr w'"
  shows "settled w w'"
proof (cases "OSGetUPID A (os w) \<noteq> 2 \<and> OSGetUPID A (os w) \<noteq> 15")
  case True
  then show ?thesis using s by (simp add: wums_application_starts_def)
next
  case False
  define w2 where "w2 = initLogging ((log_event EvOSReport w)
    \<lparr>gMEMAllocFromDefaultHeapExForThreads := MEMAllocFromDefaultHeapEx_code A,
     gMEMFreeToDefaultHeapForThreads := MEMFreeToDefaultHeap_code A\<rparr>)"
  have 2: "settled w w2"
    by (rule settled_same) (simp_all add: w2_def initLogging_def log_event_def heap_log_def table_names_def)
  from s False obtain w4 w5 where
    c: "CheckIfPatchedFunctionsAreStillInMemory A (lock w2) = Inr w4"
    and p: "for_each (PatchFunction A) (gPatchedFunctions w4) w4 = Inr w5"
    and w': "w' = unlock (log_event EvAddNotifyCallback ((log_event EvOSMemoryBarrier w5)
       \<lparr>os := OSDynLoad_AddNotifyCallback A (os (log_event EvOSMemoryBarrier w5))\<rparr>))"
    by (auto simp: wums_application_starts_def Let_def w2_def initLogging_def lock_def log_event_def
        split: sum.splits)
  have 4: "object_steps (set (gPatchedFunctions (lock w2))) (lock w2) w4"
    using CheckIf_clears [OF c] by (simp add: clears_marks_def)
  have k: "keeps w5 (log_event EvAddNotifyCallback ((log_event EvOSMemoryBarrier w5)
       \<lparr>os := OSDynLoad_AddNotifyCallback A (os (log_event EvOSMemoryBarrier w5))\<rparr>))"
    by (intro keeps_log_chain keeps_trans [OF keeps_log_event keeps_updates(2)]) simp_all
  from settled_locked [OF object_steps_trans [OF object_steps_trans [OF 4 patching.loop_steps [OF p]]
        object_steps_keeps [OF k]]]
  show ?thesis unfolding w' by (rule settled_trans [OF 2])
qed

lemma ends_settled: "settled w (wums_application_ends w)"
  by (rule settled_same)
    (simp_all add: wums_application_ends_def resetHandles_def table_names_def heap_log_def o_def)

lemma requests_exit_settled: "settled w (wums_application_requests_exit w)"
  by (simp add: wums_application_requests_exit_def deinitLogging_def settled_keeps [OF keeps_log_event])

lemma environment_settled: "settled w (w\<lparr>os := s, mem := m\<rparr>)"
  by (rule settled_keeps [OF keeps_trans [OF keeps_updates(2) keeps_updates(1)]])

text \<open>Of all steps of the module, only adding and removing a patch are not \<open>settled\<close>.\<close>

lemmas settled_rules = query_settled version_settled notify_settled starts_settled ends_settled
  requests_exit_settled environment_settled

lemma step_preserves:
  assumes "module_step A w w'" and "module_inv A w"
  shows "module_inv A w'"
  using assms
  by (cases rule: module_step.cases)
    (blast intro: add_preserves remove_preserves module_inv_settled settled_rules)+

section \<open>Initialisation\<close>

lemma keeps_PatchInstruction: "PatchInstruction A i p r w = (b, w') \<Longrightarrow> keeps w w'"
  by (auto simp: PatchInstruction_def Let_def
      intro!: keeps_log_chain keeps_trans [OF keeps_store32 keeps_copy_data] split: if_splits)

lemma keeps_PatchDynLoad: "PatchDynLoadFunctions A w = (b, w') \<Longrightarrow> keeps w w'"
  by (auto simp: PatchDynLoadFunctions_def Let_def dest!: keeps_PatchInstruction
      intro: keeps_trans split: prod.splits if_splits)

lemma UpdateFunctionPointer_frame:
  assumes "UpdateFunctionPointer A w = Inr w'"
  shows "objs w' = objs w \<and> gPatchedFunctions w' = gPatchedFunctions w
     \<and> gPatchedFunctionsMutex w' = gPatchedFunctionsMutex w \<and> heap_log w' = heap_log w"
  using assms
  by (auto simp: UpdateFunctionPointer_def Let_def heap_log_def split: prod.splits if_splits option.splits)

lemma initialize_establishes:
  assumes u: "unloaded_module w0" and i: "wums_initialize A w0 = Inr w"
  shows "module_inv A w"
proof -
  from i obtain w1 b w3 where up: "UpdateFunctionPointer A w0 = Inr w1"
    and pd: "PatchDynLoadFunctions A (initLogging w1) = (b, w3)"
    by (auto simp: wums_initialize_def Let_def split: sum.splits prod.splits)
  have k: "keeps (initLogging w1) w3" by (rule keeps_PatchDynLoad [OF pd])
  have "objs w3 = objs w0 \<and> gPatchedFunctions w3 = gPatchedFunctions w0
     \<and> gPatchedFunctionsMutex w3 = gPatchedFunctionsMutex w0 \<and> heap_log w3 = heap_log w0"
    using k UpdateFunctionPointer_frame [OF up]
    by (simp add: keeps_def keeps_globals_def initLogging_def heap_log_log_event)
  moreover have "objs w = objs w3 \<and> gPatchedFunctions w = gPatchedFunctions w3
     \<and> gPatchedFunctionsMutex w = gPatchedFunctionsMutex w3 \<and> heap_log w = heap_log w3
     \<and> rpl_handles w = initial_rpl_handles"
    using i by (auto simp: wums_initialize_def up pd Let_def memset_zero_def log_event_def heap_log_def
        split: prod.splits if_splits)
  ultimately have e: "objs w = Map.empty" "gPatchedFunctions w = []" "gPatchedFunctionsMutex w = 0"
    "heap_log w = []" "rpl_handles w = initial_rpl_handles"
    using u by (simp_all add: unloaded_module_def)
  then show ?thesis by (simp add: module_inv_def balance_def owned_by_list_def table_names_def fun_eq_iff)
qed

section \<open>What holds in every reachable state\<close>

lemma reachable_inv: "reachable A w \<Longrightarrow> module_inv A w"
  by (induction rule: reachable.induct) (blast intro: initialize_establishes step_preserves)+

text \<open>
  C7. In every state the module can get into, whatever calls and notifications come in whatever
  order: no handle is in the list twice, the live objects are exactly those in the list, every
  object is well-formed, the mutex is free between calls, and the handle table still has every
  library under its name.
\<close>

theorem reachable_invariant:
  assumes "reachable A w"
  shows "distinct (gPatchedFunctions w)
     \<and> (\<forall>h. h \<in> set (gPatchedFunctions w) \<longleftrightarrow> objs w h \<noteq> None)
     \<and> (\<forall>h d. objs w h = Some d \<longrightarrow> wf_object A d)
     \<and> gPatchedFunctionsMutex w = 0
     \<and> table_names w = map (\<lambda>r. (rh_library r, rh_rplname r)) initial_rpl_handles"
  using reachable_inv [OF assms] unfolding module_inv_def by blast

lemma owned_nonneg: "0 \<le> owned h d b"
  by (simp add: owned_def)

text \<open>
  C8. The heaps in every reachable state: a block is held as often as the objects in the list own
  it. So no block has been freed more often than it was allocated, and when the list is empty
  nothing is held any more.
\<close>

theorem reachable_heaps:
  assumes "reachable A w"
  shows "balance w b = owned_by_list w b \<and> 0 \<le> balance w b
     \<and> (gPatchedFunctions w = [] \<longrightarrow> balance w b = 0)"
proof -
  have b: "balance w b = owned_by_list w b"
    using reachable_inv [OF assms] by (simp add: module_inv_def)
  have "0 \<le> owned_by_list w b"
    unfolding owned_by_list_def
    by (intro sum_list_nonneg) (auto simp: owned_nonneg split: option.splits)
  with b show ?thesis by (simp add: owned_by_list_def)
qed

lemma all_live_objs: "module_inv A w \<Longrightarrow> \<forall>h \<in> set (gPatchedFunctions w). objs w h \<noteq> None"
  by (simp add: module_inv_def)

lemma check_defined: "all_live (objs w) hs \<Longrightarrow> \<not> dangling (check_loop A hs st w)"
proof (induction hs arbitrary: st w)
  case (Cons h hs)
  then obtain d where d: "objs w h = Some d" by auto
  show ?case
  proof (cases "check_one A h st w")
    case (Inl e)
    then show ?thesis using d by (auto simp: check_one_def Let_def split: if_splits option.splits prod.splits)
  next
    case (Inr r)
    then obtain st1 w1 where o: "check_one A h st w = Inr (st1, w1)" by (cases r) simp
    have "all_live (objs w1) hs"
      using Cons.prems object_steps_live check_one_clears [OF o] by (fastforce simp: all_live_def clears_marks_def)
    then show ?thesis using Cons.IH o by simp
  qed
qed simp

lemma CheckIf_defined:
  assumes "all_live (objs w) (gPatchedFunctions w)"
  shows "\<not> dangling (CheckIfPatchedFunctionsAreStillInMemory A w)"
proof -
  have "all_live (objs (lock w)) (rev (gPatchedFunctions w))" using assms by (simp add: all_live_def)
  from check_defined [OF this] show ?thesis
    by (auto simp: CheckIfPatchedFunctionsAreStillInMemory_def dangling_def Let_def split: sum.splits)
qed

lemma unpatch_defined: "all_live (objs w) hs \<Longrightarrow> \<not> dangling (unpatch_library lib hs w)"
proof (induction hs arbitrary: w)
  case (Cons h hs)
  then obtain d where d: "objs w h = Some d" by auto
  have "all_live (objs (put_obj h e w)) hs" for e using Cons.prems by (auto simp: all_live_def put_obj_def)
  then show ?case using Cons d by simp
qed simp

lemma live_steps:
  "all_live (objs w) (gPatchedFunctions w) \<Longrightarrow> object_steps H w w' \<Longrightarrow>
     all_live (objs w') (gPatchedFunctions w')"
  using object_steps_live [of H w w'] by (simp add: all_live_def object_steps_def keeps_globals_def)

lemma remove_defined:
  assumes live: "all_live (objs w) (gPatchedFunctions w)" and dist: "distinct (gPatchedFunctions w)"
  shows "\<not> dangling (FPRemoveFunctionPatch A h w)"
proof (cases "h \<in> set (gPatchedFunctions w)")
  case False
  then show ?thesis using remove_unknown_handle [OF live] by simp
next
  case True
  then obtain pre post where l: "gPatchedFunctions w = pre @ h # post" by (auto simp: in_set_conv_decomp)
  have live': "all_live (objs w) (pre @ h # post)" and dist': "distinct (pre @ h # post)"
    using live dist by (simp_all only: l)
  let ?ts = "later_patches w h post" and ?w = "lock w"
  have two: "(case for_each (RestoreFunction A) xs v of Inl e \<Rightarrow> Inl e
      | Inr w1 \<Rightarrow> for_each (RestoreFunction A) [h] w1) = for_each (RestoreFunction A) (xs @ [h]) v" for xs v
    by (simp add: for_each_append split: sum.splits)
  have lt: "\<forall>x \<in> set (rev ?ts @ [h]). objs ?w x \<noteq> None"
    using live' by (auto simp: later_patches_def all_live_def)
  let ?r1 = "if is_patched w h then for_each (RestoreFunction A) (rev ?ts @ [h]) ?w else Inr ?w"
  have d1: "\<not> dangling ?r1" using restoring.loop_defined [OF lt] by simp
  show ?thesis
  proof (cases ?r1)
    case (Inl e)
    then show ?thesis using d1
      by (simp add: FPRemoveFunctionPatch_def l remove_loop_found [OF live' dist'] two Let_def dangling_def
          del: for_each.simps split: if_splits)
  next
    case (Inr w2)
    have s2: "object_steps (set (rev ?ts @ [h])) ?w w2"
      using Inr restoring.loop_steps [of A "rev ?ts @ [h]" ?w w2] by (auto split: if_splits)
    have g2: "gPatchedFunctions w2 = pre @ h # post"
      using s2 l by (simp add: object_steps_def keeps_globals_def)
    let ?w3 = "w2\<lparr>gPatchedFunctions := pre @ post\<rparr>"
    have lt3: "\<forall>x \<in> set (rev ?ts @ [h]). objs ?w3 x \<noteq> None"
      using lt object_steps_live [OF s2] by simp
    have d3: "\<not> dangling (for_each (PatchFunction A) ?ts ?w3)"
      using lt3 by (intro patching.loop_defined) simp
    have o4: "objs w4 h \<noteq> None" if "for_each (PatchFunction A) ?ts ?w3 = Inr w4" for w4
      using object_steps_live [OF patching.loop_steps [OF that]] lt3 by simp
    have "FPRemoveFunctionPatch A h w =
      (case (if is_patched w2 h then for_each (PatchFunction A) ?ts ?w3 else Inr ?w3) of
         Inl e \<Rightarrow> Inl e
       | Inr w4 \<Rightarrow> let w5 = log_event EvOSMemoryBarrier w4
                   in (case objs w5 h of None \<Rightarrow> Inl (Undefined ''dangling PatchedFunctionData'')
                       | Some d \<Rightarrow> Inr (FUNCTION_PATCHER_RESULT_SUCCESS, unlock (delete_pfd A h d w5))))"
      using Inr g2 by (auto simp add: FPRemoveFunctionPatch_def l remove_loop_found [OF live' dist'] two Let_def
          erase_at_middle simp del: for_each.simps split: if_splits)
    moreover have "objs ?w3 h \<noteq> None" using lt3 by simp
    ultimately show ?thesis using d3 o4
      by (auto simp: dangling_def Let_def split: sum.splits option.splits)
  qed
qed

lemma add_defined:
  assumes "objs w (fst (operator_new A (os w))) = None"
  shows "\<not> dangling (FPAddFunctionPatch A fd outHandle outHasBeenPatched w)"
proof (cases fd)
  case (Some r)
  obtain res w1 where c: "construct A (init_object r (gJumpHeapHandle w)) w = (res, w1)" by fastforce
  note ce = construct_effect [OF init_object_unallocated c assms]
  show ?thesis
  proof (cases res)
    case None
    then show ?thesis using Some c by (simp add: FPAddFunctionPatch_eq)
  next
    case (Some h)
    then have "objs w1 h \<noteq> None" using ce by auto
    then have "\<not> dangling (PatchFunction A h w1)" by (rule PatchFunction_defined)
    then show ?thesis using \<open>fd = Some r\<close> c Some
      by (auto simp: FPAddFunctionPatch_eq dangling_def Let_def split: sum.splits)
  qed
qed (simp add: FPAddFunctionPatch_def)

lemma notify_defined:
  assumes live: "all_live (objs w) (gPatchedFunctions w)"
  shows "\<not> dangling (notify_callback A module reason w)"
proof -
  let ?gs = "gPatchedFunctions w"
  have "\<not> dangling (for_each (PatchFunction A) ?gs (lock w))"
    using live by (intro patching.loop_defined) (simp add: all_live_def)
  moreover have "\<not> dangling (unpatch_library lib ?gs (lock w))" for lib
    using live by (intro unpatch_defined) simp
  moreover have ck: "\<not> dangling (CheckIfPatchedFunctionsAreStillInMemory A w3)"
    if "(if b then unpatch_library lib ?gs (lock w) else Inr (lock w)) = Inr w2"
      and "resetHandle module w2 = (c, w3)" for b lib w2 c w3
  proof -
    have "object_steps (set ?gs) (lock w) w2"
      using that(1) unpatch_library_clears [of lib ?gs "lock w" w2] by (auto simp: clears_marks_def split: if_splits)
    from object_steps_trans [OF this object_steps_keeps [OF keeps_resetHandle [OF that(2)], of "{}"]]
    have "all_live (objs w3) (gPatchedFunctions w3)" using live_steps [of "lock w"] live by simp
    then show ?thesis by (rule CheckIf_defined)
  qed
  ultimately show ?thesis
    using ck [of True, simplified] ck [of False, simplified]
    by (cases reason) (auto simp: notify_callback_def dangling_def Let_def split: sum.splits prod.splits if_splits)
qed

lemma starts_defined:
  assumes live: "all_live (objs w) (gPatchedFunctions w)"
  shows "\<not> dangling (wums_application_starts A w)"
proof -
  have c: "\<not> dangling (CheckIfPatchedFunctionsAreStillInMemory A v)"
    and p: "CheckIfPatchedFunctionsAreStillInMemory A v = Inr w4 \<Longrightarrow>
        \<not> dangling (for_each (PatchFunction A) (gPatchedFunctions w4) w4)"
    if "objs v = objs w" "gPatchedFunctions v = gPatchedFunctions w" for v w4
  proof -
    have lv: "all_live (objs v) (gPatchedFunctions v)" using live that by simp
    show "\<not> dangling (CheckIfPatchedFunctionsAreStillInMemory A v)" by (rule CheckIf_defined [OF lv])
    assume "CheckIfPatchedFunctionsAreStillInMemory A v = Inr w4"
    from CheckIf_clears [OF this] have "all_live (objs w4) (gPatchedFunctions w4)"
      unfolding clears_marks_def by (blast intro: live_steps [OF lv])
    then show "\<not> dangling (for_each (PatchFunction A) (gPatchedFunctions w4) w4)"
      by (intro patching.loop_defined) (simp add: all_live_def)
  qed
  let ?w3 = "lock (initLogging ((log_event EvOSReport w)
    \<lparr>gMEMAllocFromDefaultHeapExForThreads := MEMAllocFromDefaultHeapEx_code A,
     gMEMFreeToDefaultHeapForThreads := MEMFreeToDefaultHeap_code A\<rparr>))"
  have "objs ?w3 = objs w" "gPatchedFunctions ?w3 = gPatchedFunctions w"
    by (simp_all add: initLogging_def log_event_def)
  note c1 = c [OF this] and p1 = p [OF this]
  then show ?thesis
    by (auto simp: wums_application_starts_def dangling_def Let_def split: sum.splits)
qed

text \<open>
  C9. In every reachable state, no call uses an object that has been deleted: neither adding,
  removing, a notification of the loader nor the start of an application runs into a dangling
  pointer.
\<close>

theorem reachable_no_dangling:
  assumes "reachable A w" and "objs w (fst (operator_new A (os w))) = None"
  shows "\<not> dangling (FPAddFunctionPatch A fd outHandle outHasBeenPatched w)
     \<and> \<not> dangling (FPRemoveFunctionPatch A h w)
     \<and> \<not> dangling (notify_callback A module reason w)
     \<and> \<not> dangling (wums_application_starts A w)"
proof -
  have inv: "module_inv A w" by (rule reachable_inv [OF assms(1)])
  then have "distinct (gPatchedFunctions w)" by (simp add: module_inv_def)
  with module_inv_live [OF inv] assms(2) show ?thesis
    by (simp add: remove_defined add_defined notify_defined starts_defined)
qed

end
