(* ===== verification/Kernel_Correct.thy ===== *)
theory Kernel_Correct
  imports Kernel_Export
begin

text \<open>
  Correctness of the search for a function in a loaded executable: the struct layouts, the search
  in one module as a search of a flat list of symbols, the walk over the module list (when it ends,
  and what it finds), and the address space of the kernel afterwards.
\<close>

section \<open>Struct layouts\<close>

text \<open>The declared fields lie where the static checks of the header want them.\<close>

lemma struct_layouts:
  "layout_ok ElfHeader ElfHeader_checks \<and> layout_ok ElfSectionHeader ElfSectionHeader_checks
   \<and> layout_ok ElfSymbol ElfSymbol_checks \<and> layout_ok LOADED_RPL LOADED_RPL_checks"
  by (intro conjI) code_simp+

section \<open>The search in one module\<close>

text \<open>The addresses of the matching symbols of one table, and of all tables of a module, in order.\<close>

definition matches_in_table ::
    "'s os_api \<Rightarrow> bytes \<Rightarrow> u32 \<Rightarrow> u32 \<Rightarrow> string \<Rightarrow> u32 \<Rightarrow> u32 \<Rightarrow> nat list \<Rightarrow> u32 list" where
  "matches_in_table A m text strTab fname base entsz js =
     filter (symbol_matches A m text strTab fname) (map (\<lambda>j. base + of_nat j * entsz) js)"

definition symbol_value :: "bytes \<Rightarrow> u32 \<Rightarrow> u32" where
  "symbol_value m entry = read32 m (entry + offset_of ElfSymbol ''value'')"

definition first_value :: "bytes \<Rightarrow> u32 list \<Rightarrow> u32 option" where
  "first_value m es = (case es of [] \<Rightarrow> None | e # _ \<Rightarrow> Some (symbol_value m e))"

lemma symbol_loop_first:
  "symbol_loop A m text strTab fname base entsz k j =
     first_value m (matches_in_table A m text strTab fname base entsz [j..<j + k])"
proof (induction k arbitrary: j)
  case (Suc k)
  have "[j..<j + Suc k] = j # [Suc j..<Suc j + k]" by (simp add: upt_conv_Cons)
  then show ?case
    by (simp add: Suc.IH matches_in_table_def first_value_def symbol_value_def Let_def del: upt_Suc)
qed (simp add: matches_in_table_def first_value_def)

definition is_symbol_table :: "'s os_api \<Rightarrow> bytes \<Rightarrow> u32 \<Rightarrow> nat \<Rightarrow> bool" where
  "is_symbol_table A m rpl i \<longleftrightarrow>
     section_address m rpl (of_nat i) \<noteq> 0
     \<and> section_field m (section_header m rpl (of_nat i)) ''type'' = SHT_SYMTAB A"

definition matches_in_section :: "'s os_api \<Rightarrow> bytes \<Rightarrow> u32 \<Rightarrow> u32 \<Rightarrow> string \<Rightarrow> nat \<Rightarrow> u32 list" where
  "matches_in_section A m rpl text fname i =
     (let hdr = section_header m rpl (of_nat i)
      in if is_symbol_table A m rpl i
         then matches_in_table A m text (section_address m rpl (section_field m hdr ''link'')) fname
                (section_address m rpl (of_nat i)) (sym_ent_size m hdr) [0..<num_symbols m hdr]
         else [])"

lemma first_value_append: "first_value m (xs @ ys) = (case first_value m xs of None \<Rightarrow> first_value m ys | Some v \<Rightarrow> Some v)"
  by (simp add: first_value_def split: list.splits)

lemma symtab_loop_first:
  "symtab_loop A m rpl text fname k i =
     first_value m (concat (map (matches_in_section A m rpl text fname) [i..<i + k]))"
proof (induction k arbitrary: i)
  case (Suc k)
  have u: "[i..<i + Suc k] = i # [Suc i..<Suc i + k]" by (simp add: upt_conv_Cons)
  show ?case
    unfolding u
    by (simp add: Suc.IH first_value_append matches_in_section_def is_symbol_table_def symbol_loop_first
        Let_def first_value_def [of m "[]"] del: upt_Suc split: option.splits)
qed (simp add: first_value_def)

lemma text_section_last:
  "text_section_loop m rpl k i idx =
     (let ts = filter (\<lambda>i. is_text_section m rpl (of_nat i)) [i..<i + k]
      in if ts = [] then idx else of_nat (last ts))"
proof (induction k arbitrary: i idx)
  case (Suc k)
  have u: "[i..<i + Suc k] = i # [Suc i..<Suc i + k]" by (simp add: upt_conv_Cons)
  show ?case unfolding u by (simp add: Suc.IH Let_def del: upt_Suc)
qed simp

text \<open>The section symbols must be defined in: the last one named \<open>.text\<close> that is loaded.\<close>

definition text_section :: "bytes \<Rightarrow> u32 \<Rightarrow> u32" where
  "text_section m rpl =
     (let ts = filter (\<lambda>i. is_text_section m rpl (of_nat i)) [0..<unat (elf_header_field m rpl ''shnum'')]
      in if ts = [] then 0xFFFFFFFF else of_nat (last ts))"

text \<open>
  C30. In one module the search yields the value of the first symbol, over all loaded symbol tables
  in section order, that is a function of the right name in the (last) \<open>.text\<close> section, and 0 if
  there is none.
\<close>

theorem export_of_module_first:
  "export_of_module A m rpl fname =
     (case concat (map (matches_in_section A m rpl (text_section m rpl) fname)
             [0..<unat (elf_header_field m rpl ''shnum'')]) of
        [] \<Rightarrow> 0
      | e # _ \<Rightarrow> symbol_value m e)"
proof -
  let ?n = "unat (elf_header_field m rpl ''shnum'')"
  have t: "text_section_loop m rpl ?n 0 0xFFFFFFFF = text_section m rpl"
    by (simp add: text_section_last text_section_def)
  have aux: "(case (case es of [] \<Rightarrow> None | e # _ \<Rightarrow> Some (f e)) of None \<Rightarrow> 0 | Some v \<Rightarrow> v)
      = (case es of [] \<Rightarrow> 0 | e # _ \<Rightarrow> f e)" for es :: "u32 list" and f :: "u32 \<Rightarrow> u32"
    by (cases es) simp_all
  show ?thesis
    unfolding export_of_module_def Let_def t symtab_loop_first first_value_def by (simp only: aux add_0)
qed

section \<open>The walk over the modules\<close>

text \<open>The module list: the addresses from \<open>rpl\<close> on, until the null pointer.\<close>

inductive rpl_chain :: "bytes \<Rightarrow> u32 \<Rightarrow> u32 list \<Rightarrow> bool" for m :: bytes where
  chain_end: "rpl_chain m 0 []"
| chain_next: "rpl \<noteq> 0 \<Longrightarrow> rpl_chain m (next_rpl m rpl) rs \<Longrightarrow> rpl_chain m rpl (rpl # rs)"

inductive_cases rpl_chain_NilE: "rpl_chain m rpl []"
inductive_cases rpl_chain_ConsE: "rpl_chain m rpl (r # rs)"
inductive_simps rpl_chain_simps: "rpl_chain m rpl []" "rpl_chain m rpl (r # rs)"

text \<open>
  C28. On a list that ends, the walk ends, and yields the search result of the first module with the
  wanted name, or 0 if no module has it.
\<close>

theorem rpl_loop_finds:
  assumes "rpl_chain m rpl rs"
  shows "rpl_loop A m name fname rpl =
     Some (case find (\<lambda>r. module_named m r name) rs of
             None \<Rightarrow> 0 | Some r \<Rightarrow> export_of_module A m r fname)"
  using assms by induction (subst rpl_loop.simps, simp)+

text \<open>The \<open>n\<close>-th module of the list, if the walk gets there.\<close>

definition nth_rpl :: "bytes \<Rightarrow> u32 \<Rightarrow> nat \<Rightarrow> u32" where
  "nth_rpl m rpl n = (next_rpl m ^^ n) rpl"

lemma nth_rpl_simps: "nth_rpl m rpl 0 = rpl" "nth_rpl m rpl (Suc n) = nth_rpl m (next_rpl m rpl) n"
  by (simp_all add: nth_rpl_def funpow_swap1)

lemma rpl_loop_returns_imp:
  assumes "rpl_loop A m name fname rpl = Some v"
  shows "\<exists>n. nth_rpl m rpl n = 0 \<or> module_named m (nth_rpl m rpl n) name"
proof (rule rpl_loop.raw_induct [OF _ assms])
  fix loop :: "'a os_api \<Rightarrow> bytes \<Rightarrow> string \<Rightarrow> string \<Rightarrow> u32 \<Rightarrow> u32 option" and B m name fname rpl v
  assume ih: "\<And>A m name fname rpl v. loop A m name fname rpl = Some v \<Longrightarrow>
      \<exists>n. nth_rpl m rpl n = 0 \<or> module_named m (nth_rpl m rpl n) name"
    and step: "(if rpl = 0 then Some 0
      else if \<not> module_named m rpl name then loop B m name fname (next_rpl m rpl)
      else Some (export_of_module B m rpl fname)) = Some v"
  show "\<exists>n. nth_rpl m rpl n = 0 \<or> module_named m (nth_rpl m rpl n) name"
  proof (cases "rpl = 0 \<or> module_named m rpl name")
    case True
    then show ?thesis by (intro exI [of _ 0]) (simp add: nth_rpl_simps)
  next
    case False
    with step have "loop B m name fname (next_rpl m rpl) = Some v" by simp
    from ih [OF this] obtain n where
      "nth_rpl m (next_rpl m rpl) n = 0 \<or> module_named m (nth_rpl m (next_rpl m rpl) n) name" by blast
    then show ?thesis by (intro exI [of _ "Suc n"]) (simp add: nth_rpl_simps)
  qed
qed

text \<open>
  C29. The walk returns exactly when it meets the end of the list or a module of the wanted name. On
  a cyclic list without that name, it never returns.
\<close>

theorem rpl_loop_returns_iff:
  "(\<exists>v. rpl_loop A m name fname rpl = Some v) =
     (\<exists>n. nth_rpl m rpl n = 0 \<or> module_named m (nth_rpl m rpl n) name)"
proof
  assume "\<exists>n. nth_rpl m rpl n = 0 \<or> module_named m (nth_rpl m rpl n) name"
  then obtain n where "nth_rpl m rpl n = 0 \<or> module_named m (nth_rpl m rpl n) name" by blast
  then show "\<exists>v. rpl_loop A m name fname rpl = Some v"
  proof (induction n arbitrary: rpl)
    case 0
    then show ?case by (subst rpl_loop.simps) (auto simp: nth_rpl_simps)
  next
    case (Suc n)
    then show ?case by (subst rpl_loop.simps) (auto simp: nth_rpl_simps)
  qed
qed (use rpl_loop_returns_imp in blast)

section \<open>The address space\<close>

text \<open>
  C31. The search switches the kernel to the loader's address space and back: whenever it returns,
  the kernel reports the same address space as before, whatever the search found. The hypothesis
  is that the kernel reports the address space that was set last.
\<close>

theorem address_space_restored:
  assumes "\<And>s c p. KernelGetRAMPID A (KernelSetRAMPID A s c p) = (c, p)"
    and "KernelFindExport A rpl fname w = Inr (r, w')"
  shows "KernelGetRAMPID A (os w') = KernelGetRAMPID A (os w)"
proof -
  obtain c p where g: "KernelGetRAMPID A (os w) = (c, p)" by fastforce
  then show ?thesis
    using assms
    by (auto simp: KernelFindExport_def SC_0x51_def FindExportKernel_def Let_def log_event_def
        split: if_splits option.splits)
qed

end
