(* ===== verification/Demo.thy ===== *)
theory Demo
  imports Stops Kernel_Correct
begin

text \<open>
  A small concrete platform on which the properties are evaluated: the window of the address map, a
  bump allocator, one loaded library with one export, threads that always start, a kernel that
  remembers its address space, and a memory with the few words the examples read. Nothing here
  models the console; it shows that what the properties ask of a platform can hold.
\<close>

section \<open>The platform\<close>

record demo_os =
  next_free :: u32
  ram_pid :: "u32 \<times> u32"

definition demo_mmu :: "u32 \<Rightarrow> u32" where
  "demo_mmu a = (if 0x00800000 \<le> a \<and> a < 0x01000000 then a + 0x30000000 else a)"

definition demo_local :: "nat \<Rightarrow> local_var \<Rightarrow> u32" where
  "demo_local c v =
     (if c = 0 then 0x10000000 else if c = 1 then 0x10000100 else 0x10000200)
     + (case v of L_currentInstruction \<Rightarrow> 0 | L_replace_instruction \<Rightarrow> 4 | L_physical_address \<Rightarrow> 8
        | L_replacement \<Rightarrow> 12)"

definition demo_copy :: "bytes \<Rightarrow> u32 \<Rightarrow> u32 \<Rightarrow> u32 \<Rightarrow> bytes" where
  "demo_copy m d s n =
     (if n = 4 then write32 m d (read32 m s)
      else (\<lambda>a. if unat (a - d) < unat n then m (s + (a - d)) else m a))"

definition demo_export :: "string \<Rightarrow> int \<times> u32 option" where
  "demo_export name =
     (if name = ''OSFoo'' then (0, Some 0x02000100)
      else if name = ''MEMAllocFromDefaultHeapEx'' then (0, Some 0x02700000)
      else if name = ''MEMFreeToDefaultHeap'' then (0, Some 0x02700004)
      else (-1, None))"

definition demo_api :: "demo_os os_api" where
  "demo_api =
     \<lparr>FP_TARGET_PROCESS_ALL = 0, FP_TARGET_PROCESS_WII_U_MENU = 2, FP_TARGET_PROCESS_GAME = 15,
      FP_TARGET_PROCESS_GAME_AND_MENU = 100, OS_DYNLOAD_OK = 0, sizeof_OSThread = 0x6A0,
      OSGetUPID_code = 0x02800000, OSDynLoad_GetNumberOfRPLs_code = 0x02900000,
      OSDynLoad_GetRPLInfo_code = 0x02900100, MEMAllocFromDefaultHeapEx_code = 0x02A00000,
      MEMFreeToDefaultHeap_code = 0x02A00100, gJumpHeapData_addr = 0x00A00000,
      mmu = (\<lambda>s a. demo_mmu a), local_addr = (\<lambda>s c v. demo_local c v),
      OSEffectiveToPhysical = (\<lambda>s a. if 0x00800000 \<le> a \<and> a < 0x01000000 then 0 else a),
      KernelCopyData = demo_copy,
      MEMCreateExpHeapEx = (\<lambda>s a n f. (a, s)),
      MEMAllocFromExpHeapEx = (\<lambda>s h n a. (next_free s, s\<lparr>next_free := next_free s + n\<rparr>)),
      MEMFreeToExpHeap = (\<lambda>s h p. s),
      operator_new = (\<lambda>s. (0x20000000 + next_free s, s)), operator_delete = (\<lambda>s h. s),
      new_address_provider = (\<lambda>s. (True, s)),
      call_alloc = (\<lambda>f s n a. (0x40000000, s)), call_free = (\<lambda>f s p. s),
      OSDynLoad_Acquire = (\<lambda>s n. (0, 0x5000, s)), OSDynLoad_Release = (\<lambda>s h. s),
      OSDynLoad_IsModuleLoaded = (\<lambda>s n. if n = ''coreinit.rpl'' then (0, 0x5000) else (-1, 0)),
      OSDynLoad_FindExport = (\<lambda>s h t n. demo_export n),
      OSDynLoad_GetNumberOfRPLs = (\<lambda>s. 1),
      OSDynLoad_GetRPLInfo = (\<lambda>s i n. (True, \<lambda>i. \<lparr>rpl_name = ''demo.rpx'', rpl_textAddr = 0x02000000\<rparr>)),
      OSDynLoad_AddNotifyCallback = (\<lambda>s. s),
      OSGetTitleID = (\<lambda>s. 0x0005000010101000), OSGetUPID = (\<lambda>s. 15),
      MCP_Open = (\<lambda>s. 7), MCP_GetTitleInfo = (\<lambda>s h t. (0, 16)),
      SHT_SYMTAB = 2, STT_FUNC = 2, kernel_mmu = (\<lambda>s a. a),
      KernelGetLoadedRPL = (\<lambda>s n. 0), KernelGetRAMPID = ram_pid,
      KernelSetRAMPID = (\<lambda>s c p. s\<lparr>ram_pid := (c, p)\<rparr>)\<rparr>"

section \<open>The world\<close>

text \<open>
  One function at \<open>0x02000100\<close> that begins with a nop; \<open>OSGetUPID\<close>, which loads the process number
  from \<open>0x11000000\<close>, where 15 (a game) is running; the two instructions of the loader that the
  module patches when it is initialised.
\<close>

definition demo_mem :: bytes where
  "demo_mem =
     write32 (write32 (write32 (write32 (write32 (write32 (\<lambda>a. 0)
       0x02000100 0x60000000) 0x02800000 0x3D601100) 0x02800004 0x816B0000) 0x11000000 15)
       0x02900018 0x41820038) 0x02900158 0x41820100"

text \<open>A patch of that function by its address, for the process \<open>tp\<close>, not applied yet.\<close>

definition demo_obj :: "u32 \<Rightarrow> PatchedFunctionData" where
  "demo_obj tp = fresh_pfd\<lparr>fp_type := FUNCTION_PATCHER_REPLACE_BY_LIB_OR_ADDRESS,
     fp_library := Some LIBRARY_OTHER, heapHandle := 0x00A00000,
     jumpToOriginal := 0x00A0003C, jumpData := 0x00A00000,
     realEffectiveFunctionAddress := 0x02000100, realPhysicalFunctionAddress := 0x02000100,
     realCallFunctionAddressPtr := 0x21000000, replacementFunctionAddress := 0x03000000,
     targetProcess := tp\<rparr>"

definition demo_world :: "(u32 \<rightharpoonup> PatchedFunctionData) \<Rightarrow> u32 list \<Rightarrow> demo_os world" where
  "demo_world ob hs =
     \<lparr>os = \<lparr>next_free = 0x00A00000, ram_pid = (1, 7)\<rparr>, mem = demo_mem, objs = ob,
      gPatchedFunctions = hs, rpl_handles = [], gJumpHeapHandle = 0x00A00000,
      gMEMAllocFromDefaultHeapExForThreads = 0, gMEMFreeToDefaultHeapForThreads = 0,
      gPatchedFunctionsMutex = 0, core = 1, trace = []\<rparr>"

definition patch_world :: "u32 \<Rightarrow> demo_os world" where
  "patch_world tp = demo_world [0x20000000 \<mapsto> demo_obj tp] [0x20000000]"

text \<open>Two patches of that function in memory: the second one displaced the branch of the first.\<close>

definition stacked_obj :: "u32 \<Rightarrow> u32 \<Rightarrow> PatchedFunctionData" where
  "stacked_obj old new = (demo_obj 15)\<lparr>isPatched := True, replacedInstruction := old,
     replaceWithInstruction := new\<rparr>"

definition stacked_world :: "demo_os world" where
  "stacked_world =
     (demo_world [0x20000000 \<mapsto> stacked_obj 0x60000000 0x48A00002,
                  0x20000100 \<mapsto> stacked_obj 0x48A00002 0x48A00082] [0x20000000, 0x20000100])
     \<lparr>mem := write32 demo_mem 0x02000100 0x48A00082\<rparr>"

section \<open>The platform is one the properties speak of\<close>

lemmas demo_defs = demo_api_def demo_world_def patch_world_def demo_obj_def fresh_pfd_def

lemma demo_translation:
  "mmu demo_api s a = demo_mmu a"
  "OSEffectiveToPhysical demo_api s a = (if 0x00800000 \<le> a \<and> a < 0x01000000 then 0 else a)"
  "local_addr demo_api s c v = demo_local c v"
  by (simp_all add: demo_api_def)

lemma demo_memory: "memory_ok demo_api"
proof -
  have "copies_words demo_api" by (simp add: copies_words_def demo_api_def demo_copy_def)
  moreover have "translation_ok demo_api"
    by (simp add: translation_ok_def demo_translation demo_mmu_def in_window_def)
  moreover have "locals_mapped demo_api"
    by (auto simp: locals_mapped_def demo_translation demo_local_def split: local_var.splits)
  ultimately show ?thesis by (simp add: memory_ok_def)
qed

lemma demo_platform: "platform_ok demo_api"
  using demo_memory
  by (simp add: platform_ok_def threads_ok_def threads_available_def maps_same_def)
    (simp add: demo_api_def)

definition demo_local_words :: "u32 list" where
  "demo_local_words =
     [0x10000000, 0x10000004, 0x10000008, 0x1000000C, 0x10000100, 0x10000104, 0x10000108, 0x1000010C,
      0x10000200, 0x10000204, 0x10000208, 0x1000020C]"

lemma demo_locals: "local_words demo_api s \<subseteq> set demo_local_words"
proof -
  have "demo_mmu (demo_local c v) \<in> set demo_local_words" for c v
    by (cases v) (simp_all add: demo_mmu_def demo_local_def demo_local_words_def)
  then show ?thesis by (auto simp: local_words_def demo_translation)
qed

lemma demo_locals_apart:
  "list_all (\<lambda>l. disj4 l p) demo_local_words \<Longrightarrow> \<forall>l \<in> local_words demo_api s. disj4 l p"
  using demo_locals by (auto simp: list_all_iff)

lemma demo_reads:
  "read32 demo_mem 0x02000100 = 0x60000000" "read32 demo_mem 0x02800000 = 0x3D601100"
  "read32 demo_mem 0x02800004 = 0x816B0000" "read32 demo_mem 0x11000000 = 15"
  "read32 demo_mem 0x02900018 = 0x41820038" "read32 demo_mem 0x02900158 = 0x41820100"
  by (simp_all add: demo_mem_def mem_simps disj4_def)

lemma demo_applies: "patch_applies demo_api 0x20000000 (patch_world tp) (demo_obj tp) (patch_world tp)"
  by (simp add: patch_applies_def demo_defs shouldBePatched_def updateFunctionAddresses_def)

definition demo_site_words :: "u32 list" where
  "demo_site_words =
     [0x02000100, 0x21000000, 0x02800000, 0x02800004,
      0x30A0003C, 0x30A00040, 0x30A00044, 0x30A00048, 0x30A0004C,
      0x30A00000, 0x30A00004, 0x30A00008, 0x30A0000C, 0x30A00010, 0x30A00014, 0x30A00018, 0x30A0001C,
      0x30A00020, 0x30A00024, 0x30A00028, 0x30A0002C, 0x30A00030, 0x30A00034, 0x30A00038]"

lemma demo_sites: "tp \<noteq> 0 \<Longrightarrow> site_words demo_api s (demo_obj tp) = demo_site_words"
  by (simp add: site_words_def buffer_words_def demo_translation demo_mmu_def demo_site_words_def
      needs_trampoline_def demo_obj_def fresh_pfd_def upt_rec)
    (simp add: demo_api_def demo_mmu_def)

lemma demo_sites_apart:
  "sorted_wrt disj4 demo_site_words"
  "list_all (\<lambda>l. list_all (disj4 l) demo_site_words) demo_local_words"
  by (simp_all add: demo_site_words_def demo_local_words_def disj4_def)

lemma demo_site:
  assumes "tp \<noteq> 0"
  shows "site_ok demo_api s (demo_obj tp)"
proof -
  have "\<forall>l \<in> local_words demo_api s. \<forall>p \<in> set demo_site_words. disj4 l p"
    using demo_locals demo_sites_apart(2) by (fastforce simp: list_all_iff)
  with demo_sites_apart(1) show ?thesis
    by (simp add: site_ok_def demo_sites [OF assms])
      (simp add: demo_obj_def fresh_pfd_def short_branch_possible_def)
qed

lemma demo_target: "target_mapped demo_api s (demo_obj tp)"
  by (simp add: target_mapped_def demo_translation demo_mmu_def) (simp add: demo_obj_def)

lemma demo_code_words:
  "tp \<noteq> 0 \<Longrightarrow> code_words demo_api s (demo_obj tp) \<subseteq> {0x21000000} \<union> set (drop 4 demo_site_words)"
  by (simp add: code_words_def buffer_words_def demo_translation demo_mmu_def demo_site_words_def
      needs_trampoline_def demo_obj_def fresh_pfd_def upt_rec)

lemma OSGetUPID_demo: "OSGetUPID_code demo_api = 0x02800000"
  by (simp add: demo_api_def)

end
