(* ===== verification/Call_Witnesses.thy ===== *)
theory Call_Witnesses
  imports Demo
begin

text \<open>
  The properties of patched calls and of restoring (theories \<open>Patched_Calls\<close>, \<open>Patch_Correct\<close>) at
  concrete patches on the platform of theory \<open>Demo\<close>.
\<close>

section \<open>The outcome of a patch of the demonstration function\<close>

lemma demo_small: "tp \<le> 0x7FFF \<Longrightarrow> process_ids_small demo_api (demo_obj tp)"
  by (simp add: process_ids_small_def demo_obj_def) (simp add: demo_api_def)

text \<open>What the trampoline and the loads of the process number see after the patch.\<close>

lemma demo_patched:
  assumes "tp \<noteq> 0"
  obtains w' where "PatchFunction demo_api 0x20000000 (patch_world tp) = Inr (True, w')"
    and "upid_word demo_api w' = 15"
    and "objs w' 0x20000000 = Some (patched_object demo_api demo_mem (demo_obj tp))"
    and "load32 demo_api 0x02800000 w' = 0x3D601100" and "load32 demo_api 0x02800004 w' = 0x816B0000"
proof -
  let ?d = "demo_obj tp" and ?w = "patch_world tp"
  have app: "objs ?w 0x20000000 = Some ?d" "\<not> isPatched ?d"
    "shouldBePatched demo_api ?d ?w = Inr (True, ?w)" "updateFunctionAddresses demo_api ?d ?w = Inr ((True, ?d), ?w)"
    by (simp_all add: demo_defs shouldBePatched_def updateFunctionAddresses_def)
  obtain m s tr where P: "PatchFunction demo_api 0x20000000 ?w = Inr (True,
       ?w\<lparr>mem := m, os := s, objs := (objs ?w)(0x20000000 \<mapsto> patched_object demo_api (mem ?w) ?d),
          trace := trace ?w @ tr\<rparr>)"
    and out: "same_outside (patch_footprint demo_api (os ?w) ?d) (mem ?w) m"
    using PatchFunction_installs [OF demo_platform app demo_site [OF assms]] by blast
  have mem: "mem ?w = demo_mem" by (simp add: patch_world_def demo_world_def)
  have foot: "patch_footprint demo_api (os ?w) ?d \<subseteq>
      {0x02000100, 0x21000000} \<union> set (drop 4 demo_site_words) \<union> set demo_local_words"
    using demo_locals demo_code_words [OF assms, of "os ?w"]
    by (auto simp: patch_footprint_def demo_obj_def)
  have far: "\<forall>q \<in> {0x02000100, 0x21000000} \<union> set (drop 4 demo_site_words) \<union> set demo_local_words.
      disj4 q 0x02800000 \<and> disj4 q 0x02800004 \<and> disj4 q 0x11000000"
    by (simp add: demo_site_words_def demo_local_words_def disj4_def)
  have same: "read32 m p = read32 demo_mem p" if "p \<in> {0x02800000, 0x02800004, 0x11000000}" for p
  proof (rule same_outside_read [OF out [unfolded mem]])
    fix q assume "q \<in> patch_footprint demo_api (os ?w) ?d"
    with foot far that show "disj4 q p" by blast
  qed
  show thesis
    by (rule that [OF P])
      (simp_all add: mem upid_word_def load32_def demo_translation demo_mmu_def same demo_reads
        OSGetUPID_demo upid_address_def sext16_def)
qed

text \<open>A processor in the world \<open>w\<close> about to execute the instruction at \<open>a\<close>.\<close>

definition demo_cpu :: "demo_os world \<Rightarrow> u32 \<Rightarrow> cpu" where
  "demo_cpu w a = \<lparr>pc = a, gpr = (\<lambda>n. 0), ctr = 0, cr = (\<lambda>n. False), view = (\<lambda>b. load32 demo_api b w)\<rparr>"

lemma demo_cpu_sees: "sees demo_api w (demo_cpu w a)" "pc (demo_cpu w a) = a"
  "view (demo_cpu w a) = (\<lambda>b. load32 demo_api b w)"
  by (simp_all add: sees_def demo_cpu_def)

lemma demo_selected: "upid_selected demo_api (demo_obj tp) u \<longleftrightarrow>
    (if tp = 100 then u = 2 \<or> u = 15 else u = tp)"
  by (simp add: upid_selected_def demo_obj_def) (simp add: demo_api_def)

lemma demo_fields:
  "targetProcess (demo_obj tp) = tp" "replacementFunctionAddress (demo_obj tp) = 0x03000000"
  "realEffectiveFunctionAddress (demo_obj tp) = 0x02000100" "FP_TARGET_PROCESS_ALL demo_api = 0"
  "realPhysicalFunctionAddress (demo_obj tp) = 0x02000100" "mem (patch_world tp) = demo_mem"
  "realCallFunctionAddressPtr (demo_obj tp) = 0x21000000" "jumpToOriginal (demo_obj tp) = 0x00A0003C"
  by (simp_all add: demo_obj_def demo_api_def patch_world_def demo_world_def)

section \<open>Witnesses of the call properties\<close>

theorem patched_call_reaches_replacement_witness:
  "platform_ok demo_api \<and> patch_applies demo_api 0x20000000 (patch_world 15) (demo_obj 15) (patch_world 15)
   \<and> (\<exists>w' n c'. PatchFunction demo_api 0x20000000 (patch_world 15) = Inr (True, w')
        \<and> run (\<lambda>i c. None) n (demo_cpu w' 0x02000100) = Some c' \<and> pc c' = 0x03000000
        \<and> same_but_scratch (demo_cpu w' 0x02000100) c')"
proof -
  obtain w' where P: "PatchFunction demo_api 0x20000000 (patch_world 15) = Inr (True, w')"
    and u: "upid_word demo_api w' = 15"
    using demo_patched [of 15] by auto
  have "targetProcess (demo_obj 15) = FP_TARGET_PROCESS_ALL demo_api \<or> process_ids_small demo_api (demo_obj 15)"
    using demo_small [of 15] by simp
  from patched_call_reaches_replacement [OF demo_platform demo_applies demo_site demo_target this] P
  have "\<exists>n c'. run X n c = Some c' \<and> pc c' = 0x03000000 \<and> same_but_scratch c c'"
    if "sees demo_api w' c" "pc c = 0x02000100" for X c
    using that u by (auto simp: demo_fields demo_selected)
  from this [of "demo_cpu w' 0x02000100" "\<lambda>i c. None"] P show ?thesis
    using demo_platform demo_applies by (auto simp: demo_cpu_sees)
qed

text \<open>The displaced nop falls through anywhere.\<close>

lemma nop_falls_through: "falls_through X 0x60000000 (\<lambda>c. c) c a ws"
  by (simp add: falls_through_def decode_def reg_D_def reg_A_def)

theorem patched_call_passes_through_witness:
  "platform_ok demo_api \<and> patch_applies demo_api 0x20000000 (patch_world 2) (demo_obj 2) (patch_world 2)
   \<and> (\<exists>w' n c'. PatchFunction demo_api 0x20000000 (patch_world 2) = Inr (True, w')
        \<and> run (\<lambda>i c. None) n (demo_cpu w' 0x02000100) = Some c' \<and> pc c' = 0x02000104
        \<and> same_but_scratch (demo_cpu w' 0x02000100) c')"
proof -
  obtain w' where P: "PatchFunction demo_api 0x20000000 (patch_world 2) = Inr (True, w')"
    and u: "upid_word demo_api w' = 15"
    using demo_patched [of 2] by auto
  have tp: "targetProcess (demo_obj 2) \<noteq> FP_TARGET_PROCESS_ALL demo_api" by (simp add: demo_fields)
  have "\<exists>n c1 c'. run X n c = Some c' \<and> pc c' = 0x02000104 \<and> same_but_scratch c c1 \<and> same_but_scratch c1 c'"
    if "sees demo_api w' c" "pc c = 0x02000100" for X c
    using patched_call_passes_through [OF demo_platform demo_applies demo_site demo_target tp demo_small] P that u
      nop_falls_through [of X]
    by (simp add: demo_fields demo_selected demo_reads) metis
  from this [OF demo_cpu_sees(1,2), of "\<lambda>i c. None"] P show ?thesis
    using demo_platform demo_applies same_but_scratch_trans by blast
qed

theorem call_through_pointer_runs_original_witness:
  "platform_ok demo_api \<and> patch_applies demo_api 0x20000000 (patch_world 15) (demo_obj 15) (patch_world 15)
   \<and> (\<exists>w' n c'. PatchFunction demo_api 0x20000000 (patch_world 15) = Inr (True, w')
        \<and> run (\<lambda>i c. None) n (demo_cpu w' (load32 demo_api 0x21000000 w')) = Some c' \<and> pc c' = 0x02000104
        \<and> same_but_scratch (demo_cpu w' (load32 demo_api 0x21000000 w')) c')"
proof -
  obtain w' where P: "PatchFunction demo_api 0x20000000 (patch_world 15) = Inr (True, w')"
    using demo_patched [of 15] by auto
  have "\<exists>n c1. run X n c = Some (c1\<lparr>pc := 0x02000104\<rparr>) \<and> same_but_scratch c c1"
    if "sees demo_api w' c" "pc c = load32 demo_api 0x21000000 w'" for X c
    using call_through_pointer_runs_original [OF demo_platform demo_applies [of 15] demo_site demo_target] P that
      nop_falls_through [of X]
    by (simp add: demo_fields demo_reads) metis
  from this [OF demo_cpu_sees(1,2), of "\<lambda>i c. None"] obtain n c1 where
    "run (\<lambda>i c. None) n (demo_cpu w' (load32 demo_api 0x21000000 w')) = Some (c1\<lparr>pc := 0x02000104\<rparr>)"
    and "same_but_scratch (demo_cpu w' (load32 demo_api 0x21000000 w')) c1"
    by blast
  moreover from this(2) have "same_but_scratch (demo_cpu w' (load32 demo_api 0x21000000 w')) (c1\<lparr>pc := 0x02000104\<rparr>)"
    using same_but_scratch_trans same_but_scratch_pc by blast
  ultimately show ?thesis using P demo_platform demo_applies by force
qed

theorem patch_seen_by_all_cores_witness:
  "platform_ok demo_api \<and> patch_applies demo_api 0x20000000 (patch_world 15) (demo_obj 15) (patch_world 15)
   \<and> (\<exists>w'. PatchFunction demo_api 0x20000000 (patch_world 15) = Inr (True, w')
        \<and> read32 (mem w') 0x02000100 = 0x48A00002 \<and> seen_by_all_cores (demo_obj 15) (trace w'))"
proof -
  have e: "branch_to (entry_target demo_api (demo_obj 15)) = 0x48A00002"
    by (simp add: branch_to_def entry_target_def needs_trampoline_def demo_fields)
      (simp add: demo_obj_def)
  have t: "trace (patch_world 15) = []" by (simp add: patch_world_def demo_world_def)
  from patch_seen_by_all_cores [OF demo_platform demo_applies [of 15] demo_site]
  have "\<exists>w'. PatchFunction demo_api 0x20000000 (patch_world 15) = Inr (True, w')
        \<and> read32 (mem w') 0x02000100 = 0x48A00002 \<and> seen_by_all_cores (demo_obj 15) (trace w')"
    by (auto simp: e t demo_fields)
  then show ?thesis using demo_platform demo_applies by blast
qed

text \<open>The cell of \<open>replacedInstruction\<close> is apart from the function.\<close>

lemma demo_restorable:
  assumes "realPhysicalFunctionAddress d = 0x02000100" "realEffectiveFunctionAddress d = 0x02000100"
    "replacedInstruction d \<noteq> 0" "h \<in> {0x20000000, 0x20000100}"
  shows "restorable demo_api s h d"
proof -
  have "\<forall>l \<in> local_words demo_api s. disj4 l 0x02000100"
    by (rule demo_locals_apart) (simp add: demo_local_words_def disj4_def)
  with assms show ?thesis
    by (auto simp: restorable_def translatable_def source_word_def replacedInstruction_offset_def
        demo_translation demo_mmu_def disj4_def)
qed

theorem restore_undoes_patch_witness:
  "platform_ok demo_api \<and> patch_applies demo_api 0x20000000 (patch_world 15) (demo_obj 15) (patch_world 15)
   \<and> (\<exists>w3 w4. PatchFunction demo_api 0x20000000 (patch_world 15) = Inr (True, w3)
        \<and> RestoreFunction demo_api 0x20000000 w3 = Inr (True, w4) \<and> read32 (mem w4) 0x02000100 = 0x60000000)"
proof -
  have "restorable demo_api s 0x20000000 (patched_object demo_api (mem (patch_world 15)) (demo_obj 15))" for s
    by (rule demo_restorable) (simp_all add: demo_fields demo_reads)
  from restore_undoes_patch [OF demo_platform demo_applies demo_site this]
  have "\<exists>w3 w4. PatchFunction demo_api 0x20000000 (patch_world 15) = Inr (True, w3)
        \<and> RestoreFunction demo_api 0x20000000 w3 = Inr (True, w4) \<and> read32 (mem w4) 0x02000100 = 0x60000000"
    by (auto simp: demo_fields demo_reads)
  then show ?thesis using demo_platform demo_applies by blast
qed

theorem generated_code_in_buffers_witness:
  "\<exists>d' w' w''. generateReplacementJump demo_api 0x20000000 (demo_obj 15) (patch_world 15) = Inr (d', w')
     \<and> same_outside (set (buffer_words demo_api (os (patch_world 15)) 0x00A00000 15)) demo_mem (mem w')
     \<and> generateJumpToOriginal demo_api (demo_obj 15) (patch_world 15) = Inr w''
     \<and> same_outside (insert 0x21000000 (set (buffer_words demo_api (os (patch_world 15)) 0x00A0003C 5)))
         demo_mem (mem w'')"
proof -
  let ?d = "demo_obj 15" and ?w = "patch_world 15"
  have f: "jumpDataSize ?d = 15" "jumpData ?d = 0x00A00000" "jumpToOriginal ?d = 0x00A0003C"
    "realCallFunctionAddressPtr ?d = 0x21000000" "needs_trampoline demo_api ?d" "mem ?w = demo_mem"
    by (simp_all add: demo_obj_def fresh_pfd_def needs_trampoline_def patch_world_def demo_world_def)
  have dd: "disj4 (mmu demo_api (os ?w) (jumpData ?d)) (mmu demo_api (os ?w) (OSGetUPID_code demo_api + 4))"
    by (simp add: f OSGetUPID_demo demo_translation demo_mmu_def disj4_def)
  have "\<exists>d' w'. generateReplacementJump demo_api 0x20000000 ?d ?w = Inr (d', w')"
    using dd by (simp add: generateReplacementJump_eq f short_branch_possible_def Let_def)
  then obtain d' w' where g: "generateReplacementJump demo_api 0x20000000 ?d ?w = Inr (d', w')" by blast
  obtain w'' where j: "generateJumpToOriginal demo_api ?d ?w = Inr w''"
    by (simp add: generateJumpToOriginal_eq f)
  have m: "mmu demo_api (os ?w) 0x21000000 = 0x21000000" by (simp add: demo_translation demo_mmu_def)
  from generated_code_in_buffers [where A = demo_api and h = "0x20000000" and d = ?d and w = ?w
      and d' = d' and w' = w' and w'' = w''] g j show ?thesis
    by (simp add: f m)
qed

theorem restore_refuses_foreign_code_witness:
  "memory_ok demo_api
   \<and> (\<exists>w'. RestoreFunction demo_api 0x20000000 (stacked_world) = Inr (False, w'))"
proof -
  have "objs stacked_world 0x20000000 = Some (stacked_obj 0x60000000 0x48A00002)"
    "isPatched (stacked_obj 0x60000000 0x48A00002)"
    "read32 (mem stacked_world) (realPhysicalFunctionAddress (stacked_obj 0x60000000 0x48A00002))
       \<noteq> replaceWithInstruction (stacked_obj 0x60000000 0x48A00002)"
    by (simp_all add: stacked_world_def demo_world_def stacked_obj_def demo_obj_def)
  from restore_refuses_foreign_code [OF demo_memory this] demo_memory show ?thesis by blast
qed

text \<open>The platform without memory for threads.\<close>

definition threadless_api :: "demo_os os_api" where
  "threadless_api = demo_api\<lparr>call_alloc := (\<lambda>f s n a. (0, s))\<rparr>"

theorem unstarted_threads_report_success_witness:
  "\<exists>w'. PatchFunction threadless_api 0x20000000 (patch_world 15) = Inr (True, w')
     \<and> isPatched (the (objs w' 0x20000000)) \<and> read32 (mem w') 0x02000100 = 0x60000000"
proof -
  have same: "memory_ok threadless_api = memory_ok demo_api" "site_ok threadless_api = site_ok demo_api"
    "no_threads threadless_api"
    by (simp_all add: threadless_api_def memory_ok_def copies_words_def translation_ok_def locals_mapped_def
        site_ok_def site_words_def buffer_words_def local_words_def no_threads_def needs_trampoline_def fun_eq_iff)
  have app: "patch_applies threadless_api 0x20000000 (patch_world 15) (demo_obj 15) (patch_world 15)"
    by (simp add: patch_applies_def patch_world_def demo_world_def demo_obj_def fresh_pfd_def
        shouldBePatched_def updateFunctionAddresses_def)
  from unstarted_threads_report_success [OF _ same(3) app] demo_memory demo_site [of 15]
  show ?thesis unfolding same by (simp add: demo_fields demo_reads)
qed

end
