(* ===== verification/Export_Witnesses.thy ===== *)
theory Export_Witnesses
  imports Call_Witnesses
begin

text \<open>
  The properties of the exported functions, of construction and of address resolution (theories
  \<open>Export_Correct\<close>, \<open>Object_Correct\<close>, \<open>Address_Provider\<close>) at concrete inputs.
\<close>

section \<open>Two patches of one function\<close>

lemma stacked_fields:
  "objs stacked_world 0x20000000 = Some (stacked_obj 0x60000000 0x48A00002)"
  "objs stacked_world 0x20000100 = Some (stacked_obj 0x48A00002 0x48A00082)"
  "gPatchedFunctions stacked_world = [0x20000000, 0x20000100]"
  "read32 (mem stacked_world) 0x02000100 = 0x48A00082"
  "all_live (objs stacked_world) [0x20000000, 0x20000100]"
  by (simp_all add: stacked_world_def demo_world_def)

lemma stacked_obj_fields:
  "realPhysicalFunctionAddress (stacked_obj old new) = 0x02000100"
  "realEffectiveFunctionAddress (stacked_obj old new) = 0x02000100"
  "isPatched (stacked_obj old new)" "replacedInstruction (stacked_obj old new) = old"
  "replaceWithInstruction (stacked_obj old new) = new"
  by (simp_all add: stacked_obj_def demo_obj_def)

lemma stacked_later: "later_patches stacked_world 0x20000000 [0x20000100] = [0x20000100]"
  by (simp add: later_patches_def is_patched_def phys_of_def stacked_fields stacked_obj_fields)

lemma stacked_stack:
  "stacked (objs stacked_world) 0x02000100 0x48A00082 [0x20000100, 0x20000000]"
  by (simp add: stacked_fields stacked_obj_fields)

lemma stacked_restorable: "all_restorable demo_api stacked_world [0x20000100, 0x20000000]"
  by (auto simp: all_restorable_def stacked_fields intro!: demo_restorable stacked_obj_fields)
    (simp_all add: stacked_obj_fields)

theorem remove_drops_later_patches_witness:
  "\<exists>w'. FPRemoveFunctionPatch demo_api 0x20000000 stacked_world = Inr (FUNCTION_PATCHER_RESULT_SUCCESS, w')
     \<and> gPatchedFunctions w' = [0x20000100] \<and> read32 (mem w') 0x02000100 = 0x60000000
     \<and> \<not> is_patched w' 0x20000100"
proof -
  have l: "gPatchedFunctions stacked_world = [] @ 0x20000000 # [0x20000100]" by (simp add: stacked_fields)
  have "all_live (objs stacked_world) (gPatchedFunctions stacked_world)"
    and "distinct (gPatchedFunctions stacked_world)"
    by (simp_all add: stacked_fields)
  note r = remove_drops_later_patches [OF demo_memory l this stacked_fields(1) stacked_obj_fields(3),
      unfolded stacked_later stacked_obj_fields, simplified]
  show ?thesis using r stacked_stack stacked_restorable by (auto simp: stacked_fields)
qed

theorem reverse_restore_unwinds_witness:
  "\<exists>w'. for_each (RestoreFunction demo_api) [0x20000100, 0x20000000] stacked_world = Inr w'
     \<and> read32 (mem w') 0x02000100 = 0x60000000 \<and> \<not> is_patched w' 0x20000000 \<and> \<not> is_patched w' 0x20000100"
proof -
  have "distinct [0x20000100, 0x20000000 :: u32]"
    and "stacked (objs stacked_world) 0x02000100 (read32 (mem stacked_world) 0x02000100) [0x20000100, 0x20000000]"
    using stacked_stack by (simp_all add: stacked_fields del: stacked.simps)
  from reverse_restore_unwinds [OF demo_memory this stacked_restorable] show ?thesis
    by (fastforce simp: is_patched_def unpatch_def stacked_fields stacked_obj_fields simp del: for_each.simps)
qed

text \<open>A removal, of the newest patch.\<close>

lemma remove_newest:
  obtains w' where "FPRemoveFunctionPatch demo_api 0x20000100 stacked_world = Inr (FUNCTION_PATCHER_RESULT_SUCCESS, w')"
proof -
  let ?d = "stacked_obj 0x48A00002 0x48A00082"
  have rest: "restorable demo_api (os (lock stacked_world)) 0x20000100 ?d"
    by (rule demo_restorable) (simp_all add: stacked_obj_fields)
  obtain w1 where r: "RestoreFunction demo_api 0x20000100 (lock stacked_world) = Inr (True, w1)"
    and o: "objs w1 0x20000100 = Some (?d\<lparr>isPatched := False\<rparr>)"
    using RestoreFunction_restores [OF demo_memory _ _ rest] by (auto simp: stacked_fields stacked_obj_fields)
  show thesis
    using r o
    by (intro that)
      (simp add: FPRemoveFunctionPatch_def stacked_fields stacked_obj_fields is_patched_def Let_def
        log_event_def fun_upd_def)
qed

theorem remove_deletes_patch_witness:
  "\<exists>w'. FPRemoveFunctionPatch demo_api 0x20000100 stacked_world = Inr (FUNCTION_PATCHER_RESULT_SUCCESS, w')
     \<and> gPatchedFunctions w' = [0x20000000] \<and> objs w' 0x20000100 = None
     \<and> objs w' 0x20000000 = Some (stacked_obj 0x60000000 0x48A00002)"
proof -
  obtain w' where r: "FPRemoveFunctionPatch demo_api 0x20000100 stacked_world = Inr (FUNCTION_PATCHER_RESULT_SUCCESS, w')"
    by (rule remove_newest)
  have l: "gPatchedFunctions stacked_world = [0x20000000] @ 0x20000100 # []" by (simp add: stacked_fields)
  have "all_live (objs stacked_world) (gPatchedFunctions stacked_world)"
    and "distinct (gPatchedFunctions stacked_world)"
    by (simp_all add: stacked_fields)
  from remove_deletes_patch [OF l this stacked_fields(2) r] r show ?thesis
    by (auto simp: stacked_fields later_patches_def)
qed

section \<open>Adding\<close>

text \<open>A version 2 request for a function of a library that is not loaded.\<close>

definition gx2_request :: function_replacement_data_v2_t where
  "gx2_request = \<lparr>v2_VERSION = 2, v2_physicalAddr = 0, v2_virtualAddr = 0, v2_replaceAddr = 0x03000000,
     v2_replaceCall = 0x21000000, v2_library = LIBRARY_GX2, v2_function_name = ''GX2Init'',
     v2_targetProcess = 15\<rparr>"

text \<open>A version 3 request for a function of an executable.\<close>

definition rpx_request :: function_replacement_data_v3_t where
  "rpx_request = \<lparr>v3_version = 3, v3_type = FUNCTION_PATCHER_REPLACE_FOR_EXECUTABLE_BY_ADDRESS,
     v3_physicalAddr = 0, v3_virtualAddr = 0, v3_replaceAddr = 0x03000000, v3_replaceCall = 0x21000000,
     v3_targetProcess = 15,
     ReplaceInRPX = \<lparr>targetTitleIds = (\<lambda>i. 0x0005000010101000), targetTitleIdsCount = 1,
       versionMin = 0, versionMax = 16, rpx_executableName = ''demo.rpx'', rpx_textOffset = 0x100,
       rpx_functionName = []\<rparr>,
     ReplaceInRPL = \<lparr>rpl_library = LIBRARY_OTHER, rpl_function_name = []\<rparr>\<rparr>"

definition demo_request :: "u32 \<Rightarrow> function_replacement_data_t" where
  "demo_request v = \<lparr>fd_version = v, as_v2 = gx2_request, as_v3 = rpx_request\<rparr>"

definition gx2_world :: "demo_os world" where
  "gx2_world = (demo_world Map.empty [])\<lparr>rpl_handles := [rpl_entry LIBRARY_GX2 ''gx2.rpl'']\<rparr>"

lemmas add_defs = gx2_world_def demo_request_def gx2_request_def demo_world_def demo_api_def

lemma gx2_added:
  "\<exists>w1. FPAddFunctionPatch demo_api (Some (demo_request 2)) 0x21000010 0 gx2_world =
          Inr (FUNCTION_PATCHER_RESULT_SUCCESS, w1)
     \<and> objs w1 = [0x20A00000 \<mapsto> init_from_v2 gx2_request 0x00A00000
          \<lparr>jumpData := 0x00A00000, jumpToOriginal := 0x00A0003C\<rparr>]
     \<and> gPatchedFunctions w1 = [0x20A00000] \<and> load32 demo_api 0x21000010 w1 = 0x20A00000"
  by (simp add: FPAddFunctionPatch_def make_shared_v2_def new_pfd_def finish_make_shared_def
      allocateDataForJumps_def heap_alloc_def needs_trampoline_def init_from_v2_def fresh_pfd_def
      PatchFunction_def shouldBePatched_def updateFunctionAddresses_def getEffectiveAddressOfFunction_def
      rpl_entry_def add_defs effect_defs load32_def Let_def)

lemma gx2_fresh: "objs gx2_world (fst (operator_new demo_api (os gx2_world))) = None"
  by (simp add: gx2_world_def demo_world_def)

theorem add_appends_patch_witness:
  "\<exists>w'. FPAddFunctionPatch demo_api (Some (demo_request 2)) 0x21000010 0 gx2_world =
          Inr (FUNCTION_PATCHER_RESULT_SUCCESS, w')
     \<and> gPatchedFunctions w' = [load32 demo_api 0x21000010 w']"
proof -
  obtain w' where r: "FPAddFunctionPatch demo_api (Some (demo_request 2)) 0x21000010 0 gx2_world =
          Inr (FUNCTION_PATCHER_RESULT_SUCCESS, w')"
    using gx2_added by blast
  have "accepted_version (demo_request 2)" by (simp add: accepted_version_def demo_request_def)
  moreover have "gPatchedFunctions gx2_world = []" by (simp add: gx2_world_def demo_world_def)
  ultimately show ?thesis using add_appends_patch [OF r gx2_fresh] r by auto
qed

theorem add_then_remove_witness:
  "\<exists>w1 w2. FPAddFunctionPatch demo_api (Some (demo_request 2)) 0x21000010 0 gx2_world =
          Inr (FUNCTION_PATCHER_RESULT_SUCCESS, w1)
     \<and> FPRemoveFunctionPatch demo_api (load32 demo_api 0x21000010 w1) w1 =
          Inr (FUNCTION_PATCHER_RESULT_SUCCESS, w2)
     \<and> gPatchedFunctions w2 = [] \<and> objs w2 = Map.empty \<and> balance w2 = balance gx2_world"
proof -
  obtain w1 where a: "FPAddFunctionPatch demo_api (Some (demo_request 2)) 0x21000010 0 gx2_world =
          Inr (FUNCTION_PATCHER_RESULT_SUCCESS, w1)"
    and w1: "objs w1 = [0x20A00000 \<mapsto> init_from_v2 gx2_request 0x00A00000
          \<lparr>jumpData := 0x00A00000, jumpToOriginal := 0x00A0003C\<rparr>]"
      "gPatchedFunctions w1 = [0x20A00000]" "load32 demo_api 0x21000010 w1 = 0x20A00000"
    using gx2_added by blast
  have np: "\<not> isPatched (init_from_v2 gx2_request 0x00A00000)"
    by (simp add: init_from_v2_def gx2_request_def fresh_pfd_def)
  obtain w2 where r: "FPRemoveFunctionPatch demo_api (load32 demo_api 0x21000010 w1) w1 =
          Inr (FUNCTION_PATCHER_RESULT_SUCCESS, w2)"
    using w1 np by (simp add: FPRemoveFunctionPatch_def Let_def is_patched_def log_event_def)
  have e: "objs gx2_world = Map.empty" "gPatchedFunctions gx2_world = []"
    by (simp_all add: gx2_world_def demo_world_def)
  from add_then_remove [OF a gx2_fresh _ _ _ r] a r show ?thesis by (auto simp: e)
qed

theorem make_shared_v3_all_or_nothing_witness:
  "\<exists>h w'. make_shared_v3 demo_api (Some rpx_request) 0x00A00000 gx2_world = (Some h, w')
     \<and> (\<exists>d. objs w' = [h \<mapsto> d] \<and> wf_object demo_api d \<and> balance w' (HeapBlock 0x00A00000 0x00A00000) = 1)"
proof -
  have "\<exists>w'. make_shared_v3 demo_api (Some rpx_request) 0x00A00000 gx2_world = (Some 0x20A00000, w')
      \<and> balance w' (HeapBlock 0x00A00000 0x00A00000) = 1"
    by (simp add: make_shared_v3_def new_pfd_def finish_make_shared_def allocateDataForJumps_def
        heap_alloc_def needs_trampoline_def init_from_v3_def fresh_pfd_def rpx_request_def
        gx2_world_def demo_world_def demo_api_def effect_defs Let_def balance_def heap_log_def)
  then obtain w' where r: "make_shared_v3 demo_api (Some rpx_request) 0x00A00000 gx2_world = (Some 0x20A00000, w')"
    and b: "balance w' (HeapBlock 0x00A00000 0x00A00000) = 1"
    by blast
  have "known_type (v3_type rpx_request)" by (simp add: rpx_request_def known_type_def)
  with make_shared_v3_all_or_nothing [OF r gx2_fresh] r b show ?thesis
    by (auto simp: gx2_world_def demo_world_def)
qed

section \<open>Targets and addresses\<close>

theorem executable_patch_due_witness:
  "executable_type (v3_type rpx_request)
   \<and> shouldBePatched demo_api (init_from_v3 rpx_request 0) gx2_world =
       Inr (True, gx2_world\<lparr>trace := [(1, EvMCP_Open 7), (1, EvMCP_Close 7), (1, EvMCP_Close 7)]\<rparr>)"
proof -
  have e: "executable_type (v3_type rpx_request)" by (simp add: executable_type_def rpx_request_def)
  have "\<exists>i < unat (targetTitleIdsCount (ReplaceInRPX rpx_request)).
      targetTitleIds (ReplaceInRPX rpx_request) i = OSGetTitleID demo_api (os gx2_world)"
    by (rule exI [of _ 0]) (simp add: rpx_request_def demo_api_def)
  with executable_patch_due [OF e, of demo_api 0 gx2_world] e show ?thesis
    by (simp add: title_version_def rpx_request_def gx2_world_def demo_world_def demo_api_def)
qed

definition foo_obj :: PatchedFunctionData where
  "foo_obj = fresh_pfd\<lparr>fp_type := FUNCTION_PATCHER_REPLACE_BY_LIB_OR_ADDRESS,
     fp_library := Some LIBRARY_COREINIT, functionName := Some ''OSFoo''\<rparr>"

definition coreinit_world :: "demo_os world" where
  "coreinit_world = (demo_world Map.empty [])\<lparr>rpl_handles := [rpl_entry LIBRARY_COREINIT ''coreinit.rpl'']\<rparr>"

theorem updateFunctionAddresses_complete_witness:
  "\<exists>d' w'. updateFunctionAddresses demo_api foo_obj coreinit_world = Inr ((True, d'), w')
     \<and> realEffectiveFunctionAddress d' = 0x02000100
     \<and> realPhysicalFunctionAddress d' = OSEffectiveToPhysical demo_api (os w') 0x02000100"
proof -
  have k: "target_known foo_obj" by (simp add: target_known_def foo_obj_def)
  have "\<exists>d' w'. updateFunctionAddresses demo_api foo_obj coreinit_world = Inr ((True, d'), w')
      \<and> realEffectiveFunctionAddress d' = 0x02000100"
    by (simp add: updateFunctionAddresses_def foo_obj_def coreinit_world_def demo_world_def fresh_pfd_def
        getEffectiveAddressOfFunction_def rpl_entry_def set_addresses_def follow_branch_def load32_def
        Let_def demo_api_def demo_export_def demo_reads demo_mmu_def)
  then obtain d' w' where r: "updateFunctionAddresses demo_api foo_obj coreinit_world = Inr ((True, d'), w')"
    and e: "realEffectiveFunctionAddress d' = 0x02000100"
    by blast
  have "fp_library foo_obj = Some LIBRARY_COREINIT" by (simp add: foo_obj_def)
  with conjunct2 [OF updateFunctionAddresses_complete [OF k, of demo_api coreinit_world]] r e
  have "realPhysicalFunctionAddress d' = OSEffectiveToPhysical demo_api (os w') 0x02000100" by fastforce
  with r e show ?thesis by blast
qed

definition unloaded_world :: "demo_os world" where
  "unloaded_world = (demo_world Map.empty [])\<lparr>rpl_handles :=
     [\<lparr>rh_library = LIBRARY_GX2, rh_rplname = ''gx2.rpl'', rh_handle = 0x6000\<rparr>]\<rparr>"

theorem lookup_after_unload_witness:
  "cached_handle (rpl_handles unloaded_world) LIBRARY_GX2 = Some 0x6000
   \<and> fst (getEffectiveAddressOfFunction demo_api LIBRARY_GX2 ''GX2Init'' (snd (resetHandle 0x6000 unloaded_world))) = 0"
proof -
  have c: "cached_handle (rpl_handles unloaded_world) LIBRARY_GX2 = Some 0x6000"
    by (simp add: unloaded_world_def)
  have "handles_ok (rpl_handles unloaded_world)"
    and "rpl_name_of (rpl_handles unloaded_world) LIBRARY_GX2 = Some ''gx2.rpl''"
    and "fst (OSDynLoad_IsModuleLoaded demo_api (os unloaded_world) ''gx2.rpl'') \<noteq> OS_DYNLOAD_OK demo_api"
    by (simp_all add: handles_ok_def rpl_name_of_def unloaded_world_def demo_api_def)
  from lookup_after_unload [OF this(1) c this(2,3)] c show ?thesis by blast
qed

end
