(* ===== verification/Module_Witnesses.thy ===== *)
theory Module_Witnesses
  imports Export_Witnesses
begin

text \<open>
  The properties of the module's hooks, of the transition system and of the export search (theories
  \<open>Module_Correct\<close>, \<open>Module_System\<close>, \<open>Stops\<close>, \<open>Kernel_Correct\<close>) at concrete runs: the module is
  initialised, then a client adds a patch, which is applied.
\<close>

section \<open>Hooks\<close>

lemma stacked_apart: "functions_apart demo_api stacked_world"
proof -
  have "\<forall>l \<in> local_words demo_api (os stacked_world). disj4 l 0x02000100"
    by (rule demo_locals_apart) (simp add: demo_local_words_def disj4_def)
  then show ?thesis
    by (auto simp: functions_apart_def stacked_world_def demo_world_def stacked_obj_fields
        split: if_splits)
qed

theorem check_keeps_intact_functions_witness:
  "\<exists>w'. CheckIfPatchedFunctionsAreStillInMemory demo_api stacked_world = Inr w'
     \<and> is_patched w' 0x20000000 \<and> is_patched w' 0x20000100"
proof -
  have "all_live (objs stacked_world) (gPatchedFunctions stacked_world)"
    and "distinct (gPatchedFunctions stacked_world)"
    by (simp_all add: stacked_fields)
  moreover have "top_intact stacked_world [0x20000100, 0x20000000] 0x02000100"
    by (simp add: top_intact_def top_patch_def intact_def is_patched_def phys_of_def stacked_fields
        stacked_obj_fields)
  ultimately show ?thesis
    using check_keeps_intact_functions [OF demo_memory _ _ stacked_apart]
    by (fastforce simp: is_patched_def stacked_fields stacked_obj_fields)
qed

text \<open>A marked patch of a library that is being unloaded.\<close>

definition gx2_obj :: PatchedFunctionData where
  "gx2_obj = (init_from_v2 gx2_request 0x00A00000)\<lparr>isPatched := True, realPhysicalFunctionAddress := 0x02000100\<rparr>"

definition unload_world :: "demo_os world" where
  "unload_world = unloaded_world\<lparr>objs := [0x20000000 \<mapsto> gx2_obj], gPatchedFunctions := [0x20000000]\<rparr>"

theorem unload_forgets_library_witness:
  "is_patched unload_world 0x20000000
   \<and> (\<exists>w'. notify_callback demo_api 0x6000 OS_DYNLOAD_NOTIFY_UNLOADED unload_world = Inr w'
        \<and> cached_handle (rpl_handles w') LIBRARY_GX2 = None \<and> \<not> is_patched w' 0x20000000)"
proof -
  have d: "fp_type gx2_obj = FUNCTION_PATCHER_REPLACE_BY_LIB_OR_ADDRESS" "fp_library gx2_obj = Some LIBRARY_GX2"
    "isPatched gx2_obj"
    by (simp_all add: gx2_obj_def init_from_v2_def gx2_request_def fresh_pfd_def)
  have w: "objs unload_world 0x20000000 = Some gx2_obj" "gPatchedFunctions unload_world = [0x20000000]"
    "rpl_handles unload_world = [\<lparr>rh_library = LIBRARY_GX2, rh_rplname = ''gx2.rpl'', rh_handle = 0x6000\<rparr>]"
    by (simp_all add: unload_world_def unloaded_world_def)
  have "\<exists>w'. notify_callback demo_api 0x6000 OS_DYNLOAD_NOTIFY_UNLOADED unload_world = Inr w'"
    by (simp add: notify_callback_def getTypeForHandle_def resetHandle_def w d lock_def unlock_def
        CheckIfPatchedFunctionsAreStillInMemory_def check_one_def put_obj_def Let_def)
  then obtain w' where n: "notify_callback demo_api 0x6000 OS_DYNLOAD_NOTIFY_UNLOADED unload_world = Inr w'"
    by blast
  have "handles_ok (rpl_handles unload_world)" and "(0x6000 :: u32) \<noteq> 0"
    and "cached_handle (rpl_handles unload_world) LIBRARY_GX2 = Some 0x6000"
    by (simp_all add: w handles_ok_def)
  note r = unload_forgets_library [OF n this]
  have "of_library LIBRARY_GX2 gx2_obj" by (simp add: of_library_def d)
  with r w(1,2) have "cached_handle (rpl_handles w') LIBRARY_GX2 = None" "\<not> is_patched w' 0x20000000"
    by auto
  moreover have "is_patched unload_world 0x20000000" by (simp add: is_patched_def w d)
  ultimately show ?thesis using n by blast
qed

theorem PatchInstruction_repeatable_witness:
  "\<exists>w'. PatchInstruction demo_api 0x02900018 0x41820038 0x60000000 (patch_world 15) = (True, w')
     \<and> load32 demo_api 0x02900018 w' = 0x60000000
     \<and> PatchInstruction demo_api 0x02900018 0x41820038 0x60000000 w' = (True, w')"
proof -
  let ?w = "patch_world 15"
  have c: "copies_words demo_api" and ne: "(0x41820038 :: u32) \<noteq> 0x60000000"
    using demo_memory by (simp_all add: memory_ok_def)
  have l: "load32 demo_api 0x02900018 ?w = 0x41820038"
    by (simp add: load32_def demo_translation demo_mmu_def demo_fields demo_reads)
  have "core ?w = 1" by (simp add: patch_world_def demo_world_def)
  then have "OSEffectiveToPhysical demo_api (os ?w) 0x02900018 = mmu demo_api (os ?w) 0x02900018"
    and "OSEffectiveToPhysical demo_api (os ?w) (local_addr demo_api (os ?w) (core ?w) L_replacement)
           = mmu demo_api (os ?w) (local_addr demo_api (os ?w) (core ?w) L_replacement)"
    by (simp_all add: demo_translation demo_mmu_def demo_local_def)
  from PatchInstruction_repeatable [OF c ne this] show ?thesis unfolding l by auto
qed

section \<open>The export search\<close>

text \<open>One loaded module, named \<open>d\<close>, without sections.\<close>

definition rpl_mem :: bytes where
  "rpl_mem = (write32 (\<lambda>a. 0) 0x3008 0x5000)(0x5000 := of_char CHR ''d'')"

lemma rpl_mem_fields:
  "next_rpl rpl_mem 0x3000 = 0" "module_named rpl_mem 0x3000 ''d''"
proof -
  have o: "offset_of LOADED_RPL ''nextLoadedRpl'' = 0x114" "offset_of LOADED_RPL ''moduleNameBuffer'' = 0x08"
    by (code_simp)+
  show "next_rpl rpl_mem 0x3000 = 0"
    by (simp add: next_rpl_def o rpl_mem_def read32_def write32_def)
  have "read32 rpl_mem 0x3008 = 0x5000"
    by (simp add: rpl_mem_def read32_def write32_def)
  then show "module_named rpl_mem 0x3000 ''d''"
    by (simp add: module_named_def o) (simp add: rpl_mem_def write32_def)
qed

theorem rpl_loop_finds_witness:
  "rpl_loop demo_api rpl_mem ''d'' ''f'' 0x3000 = Some (export_of_module demo_api rpl_mem 0x3000 ''f'')
   \<and> rpl_loop demo_api rpl_mem ''e'' ''f'' 0x3000 = Some 0"
proof -
  have c: "rpl_chain rpl_mem 0x3000 [0x3000]"
    by (rule chain_next) (simp_all add: rpl_mem_fields chain_end)
  have ne: "\<not> module_named rpl_mem 0x3000 ''e''"
    using rpl_mem_fields(2) by (auto simp: module_named_def)
  show ?thesis
    using rpl_loop_finds [OF c, of demo_api "''d''" "''f''"] rpl_loop_finds [OF c, of demo_api "''e''" "''f''"]
    by (simp add: rpl_mem_fields ne)
qed

theorem address_space_restored_witness:
  "\<exists>w'. KernelFindExport demo_api ''demo.rpx'' ''main'' (patch_world 15) = Inr (0, w')
     \<and> KernelGetRAMPID demo_api (os w') = KernelGetRAMPID demo_api (os (patch_world 15))"
proof -
  have "\<exists>w'. KernelFindExport demo_api ''demo.rpx'' ''main'' (patch_world 15) = Inr (0, w')"
    by (simp add: KernelFindExport_def SC_0x51_def FindExportKernel_def patch_world_def demo_world_def
        log_event_def Let_def rpl_loop.simps demo_api_def)
  then obtain w' where r: "KernelFindExport demo_api ''demo.rpx'' ''main'' (patch_world 15) = Inr (0, w')"
    by blast
  have "KernelGetRAMPID demo_api (KernelSetRAMPID demo_api s c p) = (c, p)" for s c p
    by (simp add: demo_api_def)
  from address_space_restored [OF this r] r show ?thesis by blast
qed

section \<open>The module as a transition system\<close>

lemma memset_fields:
  "os (memset_zero A a n w) = os w" "objs (memset_zero A a n w) = objs w"
  "gPatchedFunctions (memset_zero A a n w) = gPatchedFunctions w"
  by (simp_all add: memset_zero_def log_event_def)

lemma demo_heap_calls:
  "MEMCreateExpHeapEx demo_api s a n f = (a, s)" "new_address_provider demo_api s = (True, s)"
  "gJumpHeapData_addr demo_api = 0x00A00000"
  by (simp_all add: demo_api_def)

lemma demo_initialized:
  obtains w where "reachable demo_api w" and "objs w = Map.empty" and "gPatchedFunctions w = []"
    and "os w = \<lparr>next_free = 0x00A00000, ram_pid = (1, 7)\<rparr>" and "gJumpHeapHandle w = 0x00A00000"
proof -
  let ?w0 = "demo_world Map.empty []"
  have u: "unloaded_module ?w0" by (simp add: unloaded_module_def demo_world_def heap_log_def)
  have up: "UpdateFunctionPointer demo_api ?w0 = Inr (?w0\<lparr>gMEMAllocFromDefaultHeapExForThreads := read32 demo_mem 0x02700000,
      gMEMFreeToDefaultHeapForThreads := read32 demo_mem 0x02700004\<rparr>)"
    by (simp add: UpdateFunctionPointer_def demo_world_def demo_api_def demo_export_def load32_def demo_mmu_def)
  let ?w1 = "initLogging (?w0\<lparr>gMEMAllocFromDefaultHeapExForThreads := read32 demo_mem 0x02700000,
      gMEMFreeToDefaultHeapForThreads := read32 demo_mem 0x02700004\<rparr>)"
  have "\<exists>m tr. PatchDynLoadFunctions demo_api ?w1 = (True, ?w1\<lparr>mem := m, trace := tr\<rparr>)"
    by (simp add: PatchDynLoadFunctions_def PatchInstruction_def initLogging_def demo_world_def demo_api_def
        demo_copy_def effect_defs load32_def demo_mmu_def demo_local_def mem_simps disj4_def demo_reads Let_def)
  then obtain m tr where pd: "PatchDynLoadFunctions demo_api ?w1 = (True, ?w1\<lparr>mem := m, trace := tr\<rparr>)"
    by blast
  have "\<exists>w. wums_initialize demo_api ?w0 = Inr w \<and> objs w = Map.empty \<and> gPatchedFunctions w = []
      \<and> os w = \<lparr>next_free = 0x00A00000, ram_pid = (1, 7)\<rparr> \<and> gJumpHeapHandle w = 0x00A00000"
    unfolding wums_initialize_def up sum.case Let_def pd
    by (simp add: demo_heap_calls memset_fields) (simp add: initLogging_def log_event_def demo_world_def)
  then obtain w where w: "wums_initialize demo_api ?w0 = Inr w" "objs w = Map.empty"
    "gPatchedFunctions w = []" "os w = \<lparr>next_free = 0x00A00000, ram_pid = (1, 7)\<rparr>"
    "gJumpHeapHandle w = 0x00A00000"
    by blast
  show thesis using that reachable.init [OF u w(1)] w(2-) by blast
qed

text \<open>Then a client adds a patch of the demonstration function.\<close>

definition other_request :: function_replacement_data_t where
  "other_request = \<lparr>fd_version = 2,
     as_v2 = \<lparr>v2_VERSION = 2, v2_physicalAddr = 0x02000100, v2_virtualAddr = 0x02000100,
       v2_replaceAddr = 0x03000000, v2_replaceCall = 0x21000000, v2_library = LIBRARY_OTHER,
       v2_function_name = [], v2_targetProcess = 15\<rparr>,
     as_v3 = rpx_request\<rparr>"

lemma demo_allocs:
  "MEMAllocFromExpHeapEx demo_api s h n a = (next_free s, s\<lparr>next_free := next_free s + n\<rparr>)"
  "operator_new demo_api s = (0x20000000 + next_free s, s)"
  by (simp_all add: demo_api_def)

lemma other_init:
  "init_object other_request h = fresh_pfd\<lparr>fp_type := FUNCTION_PATCHER_REPLACE_BY_LIB_OR_ADDRESS,
     heapHandle := h, fp_library := Some LIBRARY_OTHER, targetProcess := 15,
     replacementFunctionAddress := 0x03000000, realCallFunctionAddressPtr := 0x21000000,
     realEffectiveFunctionAddress := 0x02000100, realPhysicalFunctionAddress := 0x02000100\<rparr>"
  by (simp add: init_object_def init_from_v2_def other_request_def fresh_pfd_def)

lemma other_accepted: "accepted_version other_request"
  by (simp add: accepted_version_def other_request_def)

lemma demo_added:
  obtains w d where "reachable demo_api w" and "gPatchedFunctions w = [0x20A00000]"
    and "objs w = [0x20A00000 \<mapsto> d]" and "isPatched d"
    and "fst (operator_new demo_api (os w)) = 0x20A00050"
proof -
  obtain w0 where r: "reachable demo_api w0" and o: "objs w0 = Map.empty" and g: "gPatchedFunctions w0 = []"
    and s: "os w0 = \<lparr>next_free = 0x00A00000, ram_pid = (1, 7)\<rparr>" and hp: "gJumpHeapHandle w0 = 0x00A00000"
    by (rule demo_initialized)
  have "\<exists>w1. construct demo_api (init_object other_request (gJumpHeapHandle w0)) w0 = (Some 0x20A00000, w1)
      \<and> objs w1 = [0x20A00000 \<mapsto> demo_obj 15] \<and> gPatchedFunctions w1 = []
      \<and> os w1 = \<lparr>next_free = 0x00A00050, ram_pid = (1, 7)\<rparr>"
    by (simp add: construct_def new_pfd_def finish_make_shared_def allocateDataForJumps_def heap_alloc_def
        demo_allocs s o g hp log_event_def put_obj_def Let_def other_init fresh_pfd_def needs_trampoline_def
        demo_obj_def)
  then obtain w1 where c: "construct demo_api (init_object other_request (gJumpHeapHandle w0)) w0 = (Some 0x20A00000, w1)"
    and w1: "objs w1 = [0x20A00000 \<mapsto> demo_obj 15]" "gPatchedFunctions w1 = []"
      "os w1 = \<lparr>next_free = 0x00A00050, ram_pid = (1, 7)\<rparr>"
    by blast
  let ?h = "0x20A00000" and ?d = "demo_obj 15"
  have app: "objs w1 ?h = Some ?d" "\<not> isPatched ?d" "shouldBePatched demo_api ?d w1 = Inr (True, w1)"
    "updateFunctionAddresses demo_api ?d w1 = Inr ((True, ?d), w1)"
    by (simp_all add: w1 demo_obj_def fresh_pfd_def shouldBePatched_def updateFunctionAddresses_def)
  obtain m s' tr where P: "PatchFunction demo_api ?h w1 = Inr (True,
      w1\<lparr>mem := m, os := s', objs := (objs w1)(?h \<mapsto> patched_object demo_api (mem w1) ?d), trace := trace w1 @ tr\<rparr>)"
    using PatchFunction_installs [OF demo_platform app demo_site] by auto
  have "\<exists>w2. FPAddFunctionPatch demo_api (Some other_request) 0 0 w0 = Inr (FUNCTION_PATCHER_RESULT_SUCCESS, w2)
      \<and> gPatchedFunctions w2 = [?h] \<and> objs w2 = [?h \<mapsto> patched_object demo_api (mem w1) ?d]"
    by (simp add: FPAddFunctionPatch_eq other_accepted c P Let_def
        lock_def unlock_def log_event_def w1)
  then obtain w2 where a: "FPAddFunctionPatch demo_api (Some other_request) 0 0 w0 = Inr (FUNCTION_PATCHER_RESULT_SUCCESS, w2)"
    and w2: "gPatchedFunctions w2 = [?h]" "objs w2 = [?h \<mapsto> patched_object demo_api (mem w1) ?d]"
    by blast
  have "module_step demo_api w0 w2" by (rule module_step.add [OF a]) (simp add: o)
  with r have "reachable demo_api w2" by (rule reachable.step)
  then have "reachable demo_api (w2\<lparr>os := os w1, mem := mem w2\<rparr>)"
    by (rule reachable.step [OF _ module_step.environment])
  then show thesis
  proof (rule that)
    show "isPatched (patched_object demo_api (mem w1) ?d)" by simp
  qed (simp_all add: w2 w1 demo_allocs)
qed

theorem reachable_invariant_witness:
  "\<exists>w d. reachable demo_api w \<and> objs w 0x20A00000 = Some d \<and> isPatched d
     \<and> wf_object demo_api d \<and> gPatchedFunctionsMutex w = 0"
proof -
  obtain w d where w: "reachable demo_api w" "objs w = [0x20A00000 \<mapsto> d]" "isPatched d"
    by (rule demo_added) blast
  then show ?thesis using reachable_invariant [OF w(1)] by auto
qed

theorem reachable_heaps_witness:
  "\<exists>w b. reachable demo_api w \<and> gPatchedFunctions w = [0x20A00000] \<and> balance w b = owned_by_list w b"
proof -
  obtain w where w: "reachable demo_api w" "gPatchedFunctions w = [0x20A00000]"
    by (rule demo_added) blast
  then show ?thesis using reachable_heaps [OF w(1)] by blast
qed

theorem reachable_no_dangling_witness:
  "\<exists>w. reachable demo_api w \<and> gPatchedFunctions w = [0x20A00000]
     \<and> \<not> dangling (FPRemoveFunctionPatch demo_api 0x20A00000 w)
     \<and> \<not> dangling (notify_callback demo_api 0 OS_DYNLOAD_NOTIFY_LOADED w)"
proof -
  obtain w d where w: "reachable demo_api w" "gPatchedFunctions w = [0x20A00000]" "objs w = [0x20A00000 \<mapsto> d]"
    "fst (operator_new demo_api (os w)) = 0x20A00050"
    by (rule demo_added) blast
  have "objs w (fst (operator_new demo_api (os w))) = None" unfolding w(4) by (simp add: w(3))
  from reachable_no_dangling [OF w(1) this] w(1,2) show ?thesis by blast
qed


end
