(* ===== verification/Registry.thy ===== *)
theory Registry
  imports Module_System
begin

text \<open>
  The abstract specification of the module: a registry of patches in the order of their
  registration, each with its handle and the configuration its client asked for. The module
  implements it: adding registers, removing unregisters, and nothing else changes it.
\<close>

section \<open>The specification\<close>

type_synonym registry = "(u32 \<times> PatchedFunctionData option) list"

datatype registry_action = Register u32 PatchedFunctionData | Unregister u32

fun registry_exec :: "registry_action \<Rightarrow> registry \<Rightarrow> registry option" where
  "registry_exec (Register h c) r = (if h \<in> set (map fst r) then None else Some (r @ [(h, Some c)]))"
| "registry_exec (Unregister h) r =
     (if h \<in> set (map fst r) then Some (filter (\<lambda>p. fst p \<noteq> h) r) else None)"

text \<open>The abstraction function.\<close>

definition registry_of :: "'s world \<Rightarrow> registry" where
  "registry_of w = map (\<lambda>h. (h, map_option config (objs w h))) (gPatchedFunctions w)"

lemma registry_handles [simp]: "map fst (registry_of w) = gPatchedFunctions w"
  by (simp add: registry_of_def o_def)

lemma registry_handle_set [simp]: "fst ` set (registry_of w) = set (gPatchedFunctions w)"
  by (metis registry_handles set_map)

section \<open>The module implements it\<close>

lemma config_option:
  assumes "map_option anchor x = map_option anchor y"
  shows "map_option config x = map_option config y"
proof -
  have "map_option config x = map_option config (map_option anchor x)" for x
    by (cases x) (simp_all add: config_def anchor_def)
  then show ?thesis using assms by metis
qed

lemma registry_settled:
  assumes "settled w w'"
  shows "registry_of w' = registry_of w"
proof -
  have "map_option config (objs w' h) = map_option config (objs w h)" for h
    by (rule config_option) (use assms in \<open>simp add: settled_def\<close>)
  then show ?thesis using assms by (simp add: registry_of_def settled_def)
qed

lemma registry_add:
  assumes inv: "module_inv A w"
    and a: "FPAddFunctionPatch A (Some fd) outHandle outHasBeenPatched w = Inr (st, w')"
    and fresh: "objs w (fst (operator_new A (os w))) = None"
  shows "if st = FUNCTION_PATCHER_RESULT_SUCCESS
     then \<exists>h. registry_exec (Register h (config (init_object fd (gJumpHeapHandle w)))) (registry_of w)
              = Some (registry_of w')
     else registry_of w' = registry_of w"
proof (cases "st = FUNCTION_PATCHER_RESULT_SUCCESS")
  case False
  then show ?thesis using add_effect [OF a fresh] by (auto simp: registry_of_def split: if_splits)
next
  case True
  then obtain h d where h: "objs w h = None" and l: "gPatchedFunctions w' = gPatchedFunctions w @ [h]"
    and o: "objs w' = (objs w)(h \<mapsto> d)" and c: "config d = config (init_object fd (gJumpHeapHandle w))"
    using add_effect [OF a fresh] by (auto split: if_splits)
  have nin: "h \<notin> set (gPatchedFunctions w)" using inv h by (simp add: module_inv_def)
  then have "map (\<lambda>h. (h, map_option config (objs w' h))) (gPatchedFunctions w) = registry_of w"
    unfolding registry_of_def by (intro map_cong) (auto simp: o)
  then have "registry_of w' = registry_of w @ [(h, Some (config d))]" by (simp add: registry_of_def l o)
  then have "registry_exec (Register h (config (init_object fd (gJumpHeapHandle w)))) (registry_of w)
      = Some (registry_of w')"
    using nin c by simp
  then show ?thesis unfolding if_P [OF True] by blast
qed

lemma registry_remove:
  assumes inv: "module_inv A w" and r: "FPRemoveFunctionPatch A h w = Inr (st, w')"
  shows "case registry_exec (Unregister h) (registry_of w) of
       None \<Rightarrow> st = FUNCTION_PATCHER_RESULT_PATCH_NOT_FOUND \<and> w' = w
     | Some reg \<Rightarrow> st = FUNCTION_PATCHER_RESULT_SUCCESS \<and> registry_of w' = reg"
proof (cases "h \<in> set (gPatchedFunctions w)")
  case False
  then show ?thesis using remove_unknown_handle [OF module_inv_live [OF inv] False] r by simp
next
  case True
  then obtain pre post where l: "gPatchedFunctions w = pre @ h # post" by (auto simp: in_set_conv_decomp)
  have dist: "distinct (gPatchedFunctions w)" using inv by (simp add: module_inv_def)
  obtain d where d: "objs w h = Some d" using True inv by (auto simp: module_inv_def)
  note e = remove_effect [OF l module_inv_live [OF inv] dist d r]
  have nin: "h \<notin> set (pre @ post)" using dist by (simp add: l)
  have "map_option config (objs w' x) = map_option config (objs w x)" if "x \<in> set (pre @ post)" for x
  proof (rule config_option)
    have "x \<noteq> h" using nin that by blast
    then show "map_option anchor (objs w' x) = map_option anchor (objs w x)" using e by blast
  qed
  then have "map (\<lambda>x. (x, map_option config (objs w' x))) (pre @ post)
      = map (\<lambda>x. (x, map_option config (objs w x))) (pre @ post)"
    by (intro map_cong) simp_all
  then have "registry_of w' = map (\<lambda>x. (x, map_option config (objs w x))) (pre @ post)"
    using e by (simp only: registry_of_def)
  moreover have "filter (\<lambda>p. fst p \<noteq> h) (registry_of w) = map (\<lambda>x. (x, map_option config (objs w x))) (pre @ post)"
  proof -
    have "filter (\<lambda>x. x \<noteq> h) pre = pre" "filter (\<lambda>x. x \<noteq> h) post = post"
      using nin by (auto simp: filter_id_conv)
    then show ?thesis by (simp add: registry_of_def l filter_map o_def)
  qed
  ultimately show ?thesis using e True by simp
qed

text \<open>
  C11. The module refines the registry. In every reachable state: a successful addition is the
  registration of a new handle with the configuration of the request, any other answer to an
  addition leaves the registry as it is; a removal that returns is the unregistration of the
  handle, or reports that the registry does not know it; the queries, notifications, application
  changes and whatever the platform does to memory leave the registry as it is.
\<close>

theorem module_refines_registry:
  assumes "reachable A w"
  shows "(\<forall>fd outHandle outHasBeenPatched st w'.
        FPAddFunctionPatch A (Some fd) outHandle outHasBeenPatched w = Inr (st, w')
          \<and> objs w (fst (operator_new A (os w))) = None \<longrightarrow>
        (if st = FUNCTION_PATCHER_RESULT_SUCCESS
         then \<exists>h. registry_exec (Register h (config (init_object fd (gJumpHeapHandle w)))) (registry_of w)
                  = Some (registry_of w')
         else registry_of w' = registry_of w))
     \<and> (\<forall>h st w'. FPRemoveFunctionPatch A h w = Inr (st, w') \<longrightarrow>
        (case registry_exec (Unregister h) (registry_of w) of
           None \<Rightarrow> st = FUNCTION_PATCHER_RESULT_PATCH_NOT_FOUND \<and> w' = w
         | Some reg \<Rightarrow> st = FUNCTION_PATCHER_RESULT_SUCCESS \<and> registry_of w' = reg))
     \<and> (\<forall>h out st w'. FPIsFunctionPatched A h out w = (st, w') \<longrightarrow> registry_of w' = registry_of w)
     \<and> (\<forall>module reason w'. notify_callback A module reason w = Inr w' \<longrightarrow> registry_of w' = registry_of w)
     \<and> (\<forall>w'. wums_application_starts A w = Inr w' \<longrightarrow> registry_of w' = registry_of w)
     \<and> registry_of (wums_application_ends w) = registry_of w
     \<and> (\<forall>s m. registry_of (w\<lparr>os := s, mem := m\<rparr>) = registry_of w)"
proof -
  note inv = reachable_inv [OF assms]
  show ?thesis
    by (intro conjI allI impI; (elim conjE)?)
      (blast intro: registry_add [OF inv] registry_remove [OF inv] registry_settled settled_rules)+
qed

end
