(* ===== verification/Limits.thy ===== *)
theory Limits
  imports Registry
begin

text \<open>
  What the code does not guarantee: a removal goes on when restoring has failed, restoring reaches
  one core only, and adding a patch applies it outside the lock, so that two clients can put their
  patches into the list in the other order than they applied them.
\<close>

section \<open>A removal that could not restore\<close>

lemma remove_unrestored:
  assumes plat: "memory_ok A" and l: "gPatchedFunctions w = pre @ h # post"
    and live: "all_live (objs w) (gPatchedFunctions w)" and dist: "distinct (gPatchedFunctions w)"
    and d: "objs w h = Some d" and pd: "isPatched d" and last: "later_patches w h post = []"
    and foreign: "read32 (mem w) (realPhysicalFunctionAddress d) \<noteq> replaceWithInstruction d"
  shows "\<exists>w'. FPRemoveFunctionPatch A h w = Inr (FUNCTION_PATCHER_RESULT_SUCCESS, w')
     \<and> gPatchedFunctions w' = pre @ post \<and> objs w' = (objs w)(h := None)
     \<and> (\<forall>b. balance w' b = balance w b - owned h d b)
     \<and> same_outside (local_words A (os w)) (mem w) (mem w')"
proof -
  have dist': "distinct (pre @ h # post)" and live': "all_live (objs w) (pre @ h # post)"
    using dist live by (simp_all only: l)
  have d': "objs (lock w) h = Some d"
    and f': "read32 (mem (lock w)) (realPhysicalFunctionAddress d) \<noteq> replaceWithInstruction d"
    using d foreign by simp_all
  from RestoreFunction_refuses [OF plat d' pd f'] obtain m tr where
    R: "RestoreFunction A h (lock w) = Inr (False, (lock w)\<lparr>mem := m, trace := trace (lock w) @ tr\<rparr>)"
    and out: "same_outside (local_words A (os w)) (mem w) m"
    by auto
  let ?w2 = "(lock w)\<lparr>mem := m, trace := trace (lock w) @ tr\<rparr>"
  let ?w' = "unlock (delete_pfd A h d (log_event EvOSMemoryBarrier (?w2\<lparr>gPatchedFunctions := pre @ post\<rparr>)))"
  have F: "FPRemoveFunctionPatch A h w = Inr (FUNCTION_PATCHER_RESULT_SUCCESS, ?w')"
    using d pd by (simp add: FPRemoveFunctionPatch_def l remove_loop_found [OF live' dist'] last R Let_def
        erase_at_middle is_patched_def)
  moreover have "\<forall>b. balance ?w' b = balance w b - owned h d b"
    using remove_effect [OF l live dist d F] by blast
  ultimately show ?thesis using out by (auto simp: delete_pfd_effect)
qed

text \<open>
  C35. A removal goes on when \<open>RestoreFunction\<close> fails. If the first instruction is not the patch's
  branch any more (someone else has patched the function on top), the removal reports success and
  frees the trampoline and the jump to the original, while the function keeps its instruction: code
  that displaced the branch still leads into the freed buffers.
\<close>

theorem remove_ignores_failed_restore:
  assumes "memory_ok A" and "gPatchedFunctions w = pre @ h # post"
    and "all_live (objs w) (gPatchedFunctions w)" and "distinct (gPatchedFunctions w)"
    and "objs w h = Some d" and "isPatched d" and "later_patches w h post = []"
    and "read32 (mem w) (realPhysicalFunctionAddress d) \<noteq> replaceWithInstruction d"
    and "\<forall>l \<in> local_words A (os w). disj4 l (realPhysicalFunctionAddress d)"
  shows "\<exists>w'. FPRemoveFunctionPatch A h w = Inr (FUNCTION_PATCHER_RESULT_SUCCESS, w')
     \<and> objs w' h = None \<and> (\<forall>b. balance w' b = balance w b - owned h d b)
     \<and> read32 (mem w') (realPhysicalFunctionAddress d) = read32 (mem w) (realPhysicalFunctionAddress d)"
proof -
  obtain w' where "FPRemoveFunctionPatch A h w = Inr (FUNCTION_PATCHER_RESULT_SUCCESS, w')"
    and "objs w' = (objs w)(h := None)" and "\<forall>b. balance w' b = balance w b - owned h d b"
    and out: "same_outside (local_words A (os w)) (mem w) (mem w')"
    using remove_unrestored [OF assms(1-8)] by blast
  moreover have "read32 (mem w') (realPhysicalFunctionAddress d) = read32 (mem w) (realPhysicalFunctionAddress d)"
    using same_outside_read [OF out] assms(9) by blast
  ultimately show ?thesis by auto
qed

section \<open>Restoring reaches one core\<close>

definition on_core :: "nat \<Rightarrow> 's world \<Rightarrow> 's world \<Rightarrow> bool" where
  "on_core c w w' \<longleftrightarrow> core w' = core w \<and> (\<exists>tr. trace w' = trace w @ tr \<and> list_all (\<lambda>e. fst e = c) tr)"

lemma on_core_refl: "on_core (core w) w w"
  by (simp add: on_core_def)

lemma on_core_trans: "on_core c w w' \<Longrightarrow> on_core c w' w'' \<Longrightarrow> on_core c w w''"
  by (auto simp: on_core_def)

lemma on_core_steps:
  "on_core (core w) w (log_event e w)" "on_core (core w) w (copy_data A x y n w)"
  "on_core (core w) w (store32 A a v w)" "on_core (core w) w (put_obj h d w)"
  by (simp_all add: on_core_def effect_defs)

lemma on_core_then:
  "on_core (core w) w w' \<Longrightarrow> on_core (core w) w (log_event e w')"
  "on_core (core w) w w' \<Longrightarrow> on_core (core w) w (copy_data A x y n w')"
  "on_core (core w) w w' \<Longrightarrow> on_core (core w) w (store32 A a v w')"
  "on_core (core w) w w' \<Longrightarrow> on_core (core w) w (put_obj h d w')"
  using on_core_trans on_core_steps by (metis on_core_def)+

lemma read_on_core: "ReadFromPhysicalAddress A p b w = (r, w') \<Longrightarrow> on_core (core w) w w'"
  by (auto simp: ReadFromPhysicalAddress_def Let_def intro!: on_core_then on_core_refl split: if_splits)

lemma RestoreFunction_on_core: "RestoreFunction A h w = Inr (b, w') \<Longrightarrow> on_core (core w) w w'"
  by (auto simp: RestoreFunction_def Let_def intro!: on_core_then on_core_refl
      dest!: read_on_core split: if_splits option.splits prod.splits)

text \<open>
  A core drops the instruction at an address from its cache after the word has been written: the
  invalidation by that core comes after a copy to the word, by whichever core.
\<close>

definition drops_after_write :: "nat \<Rightarrow> u32 \<Rightarrow> u32 \<Rightarrow> (nat \<times> event) list \<Rightarrow> bool" where
  "drops_after_write c phys eff tr \<longleftrightarrow>
     (\<exists>pre c' src mid post. tr = pre @ (c', EvKernelCopyData phys src 4) # mid @ (c, EvICInvalidateRange eff 4) # post)"

lemma writes_drop: "writes_and_invalidates c phys eff tr \<Longrightarrow> drops_after_write c phys eff tr"
  unfolding writes_and_invalidates_def drops_after_write_def by (metis append_Cons append_Nil)

lemma RestoreFunction_trace:
  assumes "RestoreFunction A h w = Inr (True, w')" and "objs w h = Some d" and "isPatched d"
    and "restorable A (os w) h d"
  shows "\<exists>tr src. trace w' = trace w @ tr @ [(core w, EvKernelCopyData (realPhysicalFunctionAddress d) src 4),
     (core w, EvICInvalidateRange (realEffectiveFunctionAddress d) 4),
     (core w, EvDCFlushRange (realEffectiveFunctionAddress d) 4)]"
proof -
  have tgt: "(if fp_library d \<noteq> Some LIBRARY_OTHER
              then OSEffectiveToPhysical A (os w) (realEffectiveFunctionAddress d)
              else realPhysicalFunctionAddress d) = realPhysicalFunctionAddress d"
    using assms(4) by (simp add: restorable_def)
  show ?thesis
    using assms(1-3) tgt unfolding RestoreFunction_def Let_def
    by (auto simp: ReadFromPhysicalAddress_def effect_defs Let_def split: if_splits option.splits prod.splits)
qed

text \<open>
  C37. Taking a patch off reaches one core only. When a function has been patched, all three cores
  have dropped its first instruction from their instruction caches after the branch was written.
  When \<open>RestoreFunction\<close> takes the patch off again, it writes the original instruction back, but
  the core it runs on is the only one that drops the branch: the other two may go on executing it.
\<close>

theorem restore_reaches_one_core:
  assumes plat: "platform_ok A" and app: "patch_applies A h w d w2"
    and ok: "site_ok A (os w2) d"
    and rest: "restorable A (os w2) h (patched_object A (mem w2) d)"
  shows "\<exists>w3 tr3 w4 tr4.
       PatchFunction A h w = Inr (True, w3) \<and> trace w3 = trace w2 @ tr3
     \<and> (\<forall>c \<in> {0, 1, 2}. drops_after_write c (realPhysicalFunctionAddress d) (realEffectiveFunctionAddress d) tr3)
     \<and> RestoreFunction A h w3 = Inr (True, w4) \<and> trace w4 = trace w3 @ tr4
     \<and> read32 (mem w4) (realPhysicalFunctionAddress d) = read32 (mem w2) (realPhysicalFunctionAddress d)
     \<and> (\<forall>c. drops_after_write c (realPhysicalFunctionAddress d) (realEffectiveFunctionAddress d) tr4
              \<longleftrightarrow> c = core w2)"
proof -
  let ?P = "realPhysicalFunctionAddress d" and ?E = "realEffectiveFunctionAddress d"
  let ?d = "patched_object A (mem w2) d"
  obtain w3 tr3 w4 m4 tr4 where P: "PatchFunction A h w = Inr (True, w3)" and o: "objs w3 h = Some ?d"
    and c: "core w3 = core w2" and t3: "trace w3 = trace w2 @ tr3" and seen: "seen_by_all_cores d tr3"
    and R: "RestoreFunction A h w3 = Inr (True, w4)"
    and w4: "w4 = w3\<lparr>mem := m4, trace := trace w3 @ tr4, objs := (objs w3)(h \<mapsto> ?d\<lparr>isPatched := False\<rparr>)\<rparr>"
    and r3: "restorable A (os w3) h ?d" and m: "read32 m4 ?P = read32 (mem w2) ?P"
    using patch_then_restore [OF assms] by blast
  obtain tr src where t4: "tr4 = tr @ [(core w2, EvKernelCopyData ?P src 4),
      (core w2, EvICInvalidateRange ?E 4), (core w2, EvDCFlushRange ?E 4)]"
    using RestoreFunction_trace [OF R o _ r3] by (auto simp: w4 c)
  have "on_core (core w3) w3 w4" by (rule RestoreFunction_on_core [OF R])
  then have "list_all (\<lambda>e. fst e = core w2) tr4" by (simp add: on_core_def w4 c)
  then have only: "c = core w2" if "drops_after_write c ?P ?E tr4" for c
    using that unfolding drops_after_write_def by (elim exE) simp
  have this_core: "drops_after_write (core w2) ?P ?E tr4"
    unfolding drops_after_write_def t4
    by (rule exI [of _ tr], rule exI [of _ "core w2"], rule exI [of _ src], rule exI [of _ "[]"]) simp
  have all: "\<forall>c \<in> {0, 1, 2}. drops_after_write c ?P ?E tr3"
    using seen writes_drop unfolding seen_by_all_cores_def by blast
  have "trace w4 = trace w3 @ tr4" and "read32 (mem w4) ?P = read32 (mem w2) ?P"
    using m by (simp_all add: w4)
  with P R t3 only this_core all show ?thesis by blast
qed

section \<open>Two clients at once\<close>

text \<open>
  \<open>FPAddFunctionPatch\<close> in its two parts: what runs before the lock is taken, with a status for an
  early return or the new handle, and the locked scope at the end. Another thread can run between
  them.
\<close>

definition add_unlocked ::
    "'s os_api \<Rightarrow> function_replacement_data_t \<Rightarrow> u32 \<Rightarrow> u32 \<Rightarrow> 's world
      \<Rightarrow> halt + ((FunctionPatcherStatus + u32) \<times> 's world)" where
  "add_unlocked A fd outHandle outHasBeenPatched w =
     (if fd_version fd < 2 \<or> fd_version fd > 3
      then Inr (Inl FUNCTION_PATCHER_RESULT_UNSUPPORTED_STRUCT_VERSION, w)
      else
        (case (if fd_version fd = 2
               then make_shared_v2 A (Some (as_v2 fd)) (gJumpHeapHandle w) w
               else make_shared_v3 A (Some (as_v3 fd)) (gJumpHeapHandle w) w)
         of
           (None, w1) \<Rightarrow> Inr (Inl FUNCTION_PATCHER_RESULT_UNKNOWN_ERROR, w1)
         | (Some h, w1) \<Rightarrow>
             (case PatchFunction A h w1 of
                Inl e \<Rightarrow> Inl e
              | Inr (patchResult, w2) \<Rightarrow>
                  let w3 = (if outHasBeenPatched \<noteq> 0
                            then store8 A outHasBeenPatched (if patchResult then 1 else 0) w2 else w2)
                  in Inr (Inr h, if outHandle \<noteq> 0 then store32 A outHandle h w3 else w3))))"

definition add_locked :: "u32 \<Rightarrow> 's world \<Rightarrow> 's world" where
  "add_locked h w =
     (let w1 = lock w; w2 = w1\<lparr>gPatchedFunctions := gPatchedFunctions w1 @ [h]\<rparr>
      in unlock (log_event EvOSMemoryBarrier w2))"

lemma FPAdd_phases:
  "FPAddFunctionPatch A (Some fd) outHandle outHasBeenPatched w =
     (case add_unlocked A fd outHandle outHasBeenPatched w of
        Inl e \<Rightarrow> Inl e
      | Inr (Inl st, w1) \<Rightarrow> Inr (st, w1)
      | Inr (Inr h, w1) \<Rightarrow> Inr (FUNCTION_PATCHER_RESULT_SUCCESS, add_locked h w1))"
  using version_bounds [of "fd_version fd"]
  by (auto simp: FPAddFunctionPatch_def add_unlocked_def add_locked_def Let_def
      split: prod.splits option.splits sum.splits)

text \<open>Finding out whether a patch is due, and where, writes no memory.\<close>

lemma KernelFindExport_mem: "KernelFindExport A rpl f w = Inr (r, w') \<Longrightarrow> mem w' = mem w"
  by (auto simp: KernelFindExport_def SC_0x51_def FindExportKernel_def Let_def log_event_def
      split: option.splits prod.splits if_splits)

lemma shouldBePatched_mem: "shouldBePatched A d w = Inr (b, w') \<Longrightarrow> mem w' = mem w"
  by (auto simp: shouldBePatched_def Let_def log_event_def split: if_splits prod.splits)

lemma updateFunctionAddresses_mem:
  assumes "updateFunctionAddresses A d w = Inr ((b, d'), w')"
  shows "mem w' = mem w"
proof -
  have s: "set_addresses A d a v = Inr (x, v') \<Longrightarrow> v' = v" for a v x v'
    by (auto simp: set_addresses_def Let_def split: if_splits)
  have g: "getAddressForExecutable A d True w = Inr (r, v) \<Longrightarrow> mem v = mem w" for r v
    by (auto simp: getAddressForExecutable_def Let_def dest!: KernelFindExport_mem
        split: if_splits option.splits prod.splits sum.splits)
  have e: "getEffectiveAddressOfFunction A lib f w = (r, v) \<Longrightarrow> mem v = mem w" for lib f r v
    by (auto simp: getEffectiveAddressOfFunction_def Let_def split: if_splits option.splits prod.splits)
  show ?thesis
    using assms g e
    by (auto simp: updateFunctionAddresses_def Let_def dest!: s
        split: if_splits option.splits prod.splits sum.splits)
qed

lemma patch_applies_frame:
  assumes "patch_applies A h w d v"
  shows "mem v = mem w \<and> keeps w v"
proof -
  obtain d0 v1 where "shouldBePatched A d0 w = Inr (True, v1)"
    and "updateFunctionAddresses A d0 v1 = Inr ((True, d), v)"
    using assms unfolding patch_applies_def by blast
  then show ?thesis
    using shouldBePatched_mem updateFunctionAddresses_mem keeps_shouldBePatched
      updateFunctionAddresses_frame(1) keeps_trans by metis
qed

lemma add_locked_fields [simp]:
  "mem (add_locked h w) = mem w" "os (add_locked h w) = os w" "objs (add_locked h w) = objs w"
  "gPatchedFunctions (add_locked h w) = gPatchedFunctions w @ [h]"
  by (simp_all add: add_locked_def Let_def)

lemma branch_to_inj:
  "short_branch_possible a \<Longrightarrow> short_branch_possible b \<Longrightarrow> branch_to a = branch_to b \<Longrightarrow> a = b"
  unfolding short_branch_possible_def branch_to_def
  by (metis decode_ba_short instr.inject(6))

text \<open>
  C36. Two clients patch the same function at the same time: the first one applies its patch, the
  second one applies its own on top and enters the locked scope first. The list then has the
  patches in the wrong order: what is behind the second one in the list lies below it in memory.
  Removing the first client's patch is taken for the removal of the newest patch; it reports
  success and frees the code that the second patch's displaced instruction branches to, and
  leaves the function as it is.
\<close>

theorem concurrent_adds_break_order:
  assumes plat: "platform_ok A"
    and p1: "patch_applies A h1 w d1 v1" "site_ok A (os v1) d1" "PatchFunction A h1 w = Inr (True, w1)"
    and p2: "patch_applies A h2 w1 d2 v2" "site_ok A (os v2) d2" "PatchFunction A h2 w1 = Inr (True, w2)"
    and same: "realPhysicalFunctionAddress d2 = realPhysicalFunctionAddress d1"
    and other: "entry_target A d2 \<noteq> entry_target A d1"
    and new: "h1 \<noteq> h2" "h1 \<notin> set (gPatchedFunctions w)" "h2 \<notin> set (gPatchedFunctions w)"
    and live: "all_live (objs w) (gPatchedFunctions w)" and dist: "distinct (gPatchedFunctions w)"
  defines "w3 \<equiv> add_locked h1 (add_locked h2 w2)"
  shows "gPatchedFunctions w3 = gPatchedFunctions w @ [h2, h1]
     \<and> (\<exists>o1 o2 w4. objs w3 h1 = Some o1 \<and> objs w3 h2 = Some o2
          \<and> replacedInstruction o2 = replaceWithInstruction o1
          \<and> FPRemoveFunctionPatch A h1 w3 = Inr (FUNCTION_PATCHER_RESULT_SUCCESS, w4)
          \<and> (\<forall>b. balance w4 b = balance w3 b - owned h1 o1 b)
          \<and> read32 (mem w4) (realPhysicalFunctionAddress d1) = replaceWithInstruction o2)"
proof -
  let ?P = "realPhysicalFunctionAddress d1"
  let ?o1 = "patched_object A (mem v1) d1" and ?o2 = "patched_object A (mem v2) d2"
  note f1 = patch_applies_frame [OF p1(1)] and f2 = patch_applies_frame [OF p2(1)]
  obtain m1 s1 tr1 where w1: "w1 = v1\<lparr>mem := m1, os := s1, objs := (objs v1)(h1 \<mapsto> ?o1), trace := trace v1 @ tr1\<rparr>"
    and i1: "patch_installed A s1 m1 ?o1"
    using PatchFunction_installs [OF plat _ _ _ _ p1(2)] p1(1,3) unfolding patch_applies_def by fastforce
  obtain m2 s2 tr2 where w2: "w2 = v2\<lparr>mem := m2, os := s2, objs := (objs v2)(h2 \<mapsto> ?o2), trace := trace v2 @ tr2\<rparr>"
    and i2: "patch_installed A s2 m2 ?o2" and ms: "maps_same A (os v2) s2"
    using PatchFunction_installs [OF plat _ _ _ _ p2(2)] p2(1,3) unfolding patch_applies_def by fastforce
  have g: "gPatchedFunctions w2 = gPatchedFunctions w" and o: "objs w2 = (objs w)(h1 \<mapsto> ?o1, h2 \<mapsto> ?o2)"
    using f1 f2 by (simp_all add: w1 w2 keeps_def keeps_globals_def)
  have o3: "objs w3 h1 = Some ?o1" "objs w3 h2 = Some ?o2" using new by (simp_all add: w3_def o)
  have l3: "gPatchedFunctions w3 = (gPatchedFunctions w @ [h2]) @ h1 # []" by (simp add: w3_def g)
  have live3: "all_live (objs w3) (gPatchedFunctions w3)"
    unfolding l3 using live by (auto simp: w3_def o all_live_def)
  have dist3: "distinct (gPatchedFunctions w3)" unfolding l3 using dist new by auto
  have r1: "read32 m1 ?P = replaceWithInstruction ?o1" and r2: "read32 m2 ?P = replaceWithInstruction ?o2"
    using i1 i2 same by (simp_all add: patch_installed_def)
  have "replaceWithInstruction ?o2 \<noteq> replaceWithInstruction ?o1"
    using branch_to_inj [OF entry_target_short [OF p2(2)] entry_target_short [OF p1(2)]] other by auto
  then have foreign: "read32 (mem w3) (realPhysicalFunctionAddress ?o1) \<noteq> replaceWithInstruction ?o1"
    using r2 by (simp add: w3_def w2)
  have last: "later_patches w3 h1 [] = []" by (simp add: later_patches_def)
  from remove_unrestored [OF platform_memory [OF plat] l3 live3 dist3 o3(1) _ last foreign] obtain w4 where
    R: "FPRemoveFunctionPatch A h1 w3 = Inr (FUNCTION_PATCHER_RESULT_SUCCESS, w4)"
    and b: "\<forall>b. balance w4 b = balance w3 b - owned h1 ?o1 b"
    and out: "same_outside (local_words A (os w3)) (mem w3) (mem w4)"
    by auto
  have "local_words A (os w3) = local_words A (os v2)"
    using local_words_maps_same [OF ms] by (simp add: w3_def w2)
  then have "read32 (mem w4) ?P = read32 (mem w3) ?P"
    using same_outside_read [OF out] p2(2) same by (auto simp: site_ok_def site_words_def)
  moreover have "replacedInstruction ?o2 = replaceWithInstruction ?o1"
    using r1 f2 same by (simp add: w1)
  ultimately show ?thesis using l3 o3 R b r2 by (auto simp: w3_def w2)
qed

end
