(* ===== verification/Liveness.thy ===== *)
theory Liveness
  imports Module_System
begin

text \<open>
  What the module's loops over the list achieve: every patch gets its turn, and a patch whose
  function can be found at its turn is applied. Load notifications and application starts run the
  loop, so a patch that had to wait for its library is applied when the library appears.
\<close>

section \<open>One turn\<close>

text \<open>The patch is applied already, or it is due and the address of its function is found.\<close>

definition patch_ready :: "'s os_api \<Rightarrow> u32 \<Rightarrow> 's world \<Rightarrow> bool" where
  "patch_ready A h w =
     (case objs w h of
        None \<Rightarrow> False
      | Some d \<Rightarrow> isPatched d \<or>
          (case shouldBePatched A d w of
             Inr (True, w1) \<Rightarrow>
               (case updateFunctionAddresses A d w1 of Inr ((True, _), _) \<Rightarrow> True | _ \<Rightarrow> False)
           | _ \<Rightarrow> False))"

lemma PatchFunction_ready: "PatchFunction A h w = Inr (b, w') \<Longrightarrow> b = patch_ready A h w"
  by (auto simp: PatchFunction_def patch_ready_def Let_def
      split: option.splits if_splits sum.splits prod.splits bool.splits)

lemma PatchFunction_turn: "PatchFunction A h w = Inr (b, w') \<Longrightarrow> is_patched w' h = patch_ready A h w"
  using PatchFunction_ready PatchFunction_mark by metis

lemma for_each_split:
  assumes "for_each f (pre @ h # post) w = Inr w'"
  obtains w1 b w2 where "for_each f pre w = Inr w1" and "f h w1 = Inr (b, w2)" and "for_each f post w2 = Inr w'"
  using assms that by (auto simp: for_each_append split: sum.splits)

lemma patch_loop_turn:
  assumes "for_each (PatchFunction A) (pre @ h # post) w = Inr w'" and "h \<notin> set post"
  shows "\<exists>w1. for_each (PatchFunction A) pre w = Inr w1 \<and> is_patched w' h = patch_ready A h w1"
proof -
  obtain w1 b w2 where w1: "for_each (PatchFunction A) pre w = Inr w1"
    and p: "PatchFunction A h w1 = Inr (b, w2)" and l: "for_each (PatchFunction A) post w2 = Inr w'"
    using assms(1) by (rule for_each_split)
  have "is_patched w' h = is_patched w2 h"
    using patching.loop_untouched [OF l assms(2)] by (simp add: is_patched_def)
  with w1 PatchFunction_turn [OF p] show ?thesis by blast
qed

lemma is_patched_cong: "objs w' h = objs w h \<Longrightarrow> is_patched w' h = is_patched w h"
  by (simp add: is_patched_def)

section \<open>Applied patches are left alone\<close>

lemma PatchFunction_applied: "is_patched w h \<Longrightarrow> PatchFunction A h w = Inr (True, w)"
  by (simp add: is_patched_def PatchFunction_def split: option.splits)

lemma patch_loop_applied: "\<forall>h \<in> set hs. is_patched w h \<Longrightarrow> for_each (PatchFunction A) hs w = Inr w"
  by (induction hs) (simp_all add: PatchFunction_applied)

section \<open>The hooks\<close>

text \<open>The state in which an application start begins its loop over the patches.\<close>

definition start_checked :: "'s os_api \<Rightarrow> 's world \<Rightarrow> halt + 's world" where
  "start_checked A w =
     CheckIfPatchedFunctionsAreStillInMemory A (lock (initLogging ((log_event EvOSReport w)
       \<lparr>gMEMAllocFromDefaultHeapExForThreads := MEMAllocFromDefaultHeapEx_code A,
        gMEMFreeToDefaultHeapForThreads := MEMFreeToDefaultHeap_code A\<rparr>)))"

lemma start_checked_list:
  assumes "start_checked A w = Inr w4"
  shows "gPatchedFunctions w4 = gPatchedFunctions w"
  using CheckIf_clears [OF assms [unfolded start_checked_def]]
  by (simp add: clears_marks_def object_steps_def keeps_globals_def initLogging_def log_event_def)

text \<open>
  C13. A load notification and the start of an application give every patch of the list its turn, in
  the order of the list. Afterwards a patch is marked exactly if, when its turn came, it was marked
  already, or it was due and the address of its function was found.
\<close>

theorem loaded_applies_ready:
  assumes l: "gPatchedFunctions w = pre @ h # post" and dist: "distinct (gPatchedFunctions w)"
  shows "(notify_callback A module OS_DYNLOAD_NOTIFY_LOADED w = Inr w' \<longrightarrow>
        (\<exists>w1. for_each (PatchFunction A) pre (lock w) = Inr w1 \<and> is_patched w' h = patch_ready A h w1))
     \<and> (OSGetUPID A (os w) \<in> {2, 15} \<and> wums_application_starts A w = Inr w' \<longrightarrow>
        (\<exists>w0 w1. start_checked A w = Inr w0 \<and> for_each (PatchFunction A) pre w0 = Inr w1
           \<and> is_patched w' h = patch_ready A h w1))"
proof (intro conjI impI; (elim conjE)?)
  have h: "h \<notin> set post" using dist by (simp add: l)
  assume "notify_callback A module OS_DYNLOAD_NOTIFY_LOADED w = Inr w'"
  then obtain w2 where p: "for_each (PatchFunction A) (pre @ h # post) (lock w) = Inr w2" and w': "w' = unlock w2"
    by (auto simp: notify_callback_def Let_def l split: sum.splits)
  have "is_patched w' h = is_patched w2 h" by (simp add: w' is_patched_def)
  then show "\<exists>w1. for_each (PatchFunction A) pre (lock w) = Inr w1 \<and> is_patched w' h = patch_ready A h w1"
    using patch_loop_turn [OF p h] by simp
next
  have h: "h \<notin> set post" using dist by (simp add: l)
  assume u: "OSGetUPID A (os w) \<in> {2, 15}" and s: "wums_application_starts A w = Inr w'"
  then obtain w4 w5 where c: "start_checked A w = Inr w4"
    and p: "for_each (PatchFunction A) (gPatchedFunctions w4) w4 = Inr w5" and o: "objs w' = objs w5"
    by (auto simp: wums_application_starts_def start_checked_def Let_def log_event_def unlock_def
        split: sum.splits)
  have "is_patched w' h = is_patched w5 h" by (rule is_patched_cong) (simp add: o)
  then show "\<exists>w0 w1. start_checked A w = Inr w0 \<and> for_each (PatchFunction A) pre w0 = Inr w1
      \<and> is_patched w' h = patch_ready A h w1"
    using patch_loop_turn [OF p [unfolded start_checked_list [OF c] l] h] c by auto
qed

section \<open>A patch that waited for its library\<close>

text \<open>
  C12. A patch that had to wait is applied: if all other patches are applied, and the waiting one is
  due and its function is found now, the next load notification returns, releases the mutex, and
  leaves the patch marked and installed in memory, where all three cores see it.
\<close>

theorem pending_patch_applied:
  assumes plat: "platform_ok A" and l: "gPatchedFunctions w = pre @ h # post"
    and dist: "distinct (gPatchedFunctions w)" and others: "\<forall>x \<in> set (pre @ post). is_patched w x"
    and now: "patch_applies A h (lock w) d v" and ok: "site_ok A (os v) d"
  shows "\<exists>w' d' tr. notify_callback A module OS_DYNLOAD_NOTIFY_LOADED w = Inr w'
     \<and> objs w' h = Some d' \<and> isPatched d' \<and> patch_installed A (os w') (mem w') d'
     \<and> trace w' = trace v @ tr \<and> seen_by_all_cores d tr
     \<and> gPatchedFunctions w' = gPatchedFunctions w \<and> gPatchedFunctionsMutex w' = gPatchedFunctionsMutex w"
proof -
  let ?d = "patched_object A (mem v) d"
  obtain d0 v1 where app: "objs (lock w) h = Some d0" "\<not> isPatched d0" "shouldBePatched A d0 (lock w) = Inr (True, v1)"
    "updateFunctionAddresses A d0 v1 = Inr ((True, d), v)"
    using now unfolding patch_applies_def by blast
  obtain m s tr where P: "PatchFunction A h (lock w) = Inr (True,
      v\<lparr>mem := m, os := s, objs := (objs v)(h \<mapsto> ?d), trace := trace v @ tr\<rparr>)"
    and inst: "patch_installed A s m ?d" and seen: "seen_by_all_cores d tr"
    using PatchFunction_installs [OF plat app ok] by blast
  let ?w2 = "v\<lparr>mem := m, os := s, objs := (objs v)(h \<mapsto> ?d), trace := trace v @ tr\<rparr>"
  have k: "keeps (lock w) v"
    using keeps_trans [OF keeps_shouldBePatched [OF app(3)] updateFunctionAddresses_frame(1) [OF app(4)]] .
  have "h \<notin> set post" using dist by (simp add: l)
  then have "\<forall>x \<in> set post. is_patched ?w2 x"
    using others k by (auto simp: is_patched_def keeps_def)
  then have "for_each (PatchFunction A) post ?w2 = Inr ?w2" by (rule patch_loop_applied)
  moreover have "for_each (PatchFunction A) pre (lock w) = Inr (lock w)"
    using others by (intro patch_loop_applied) (simp add: is_patched_def)
  ultimately have "notify_callback A module OS_DYNLOAD_NOTIFY_LOADED w = Inr (unlock ?w2)"
    by (simp add: notify_callback_def Let_def l for_each_append P)
  then show ?thesis using inst seen k
    by (intro exI [of _ "unlock ?w2"] exI [of _ ?d] exI [of _ tr])
      (simp add: unlock_def lock_def keeps_def keeps_globals_def)
qed

end
