(* ===== verification/Limit_Witnesses.thy ===== *)
theory Limit_Witnesses
  imports Module_Witnesses Limits Liveness
begin

text \<open>
  The properties of \<open>Liveness\<close>, \<open>Registry\<close> and \<open>Limits\<close> at concrete runs: a patch that waits for a
  load notification, a registry with one patch, a function whose branch was displaced by someone
  else, and two clients that patch one function at once.
\<close>

section \<open>A load notification\<close>

lemma waiting_fields:
  "gPatchedFunctions (patch_world tp) = [] @ 0x20000000 # []"
  "objs (patch_world tp) 0x20000000 = Some (demo_obj tp)"
  by (simp_all add: patch_world_def demo_world_def)

lemma waiting_applies:
  "patch_applies demo_api 0x20000000 (lock (patch_world tp)) (demo_obj tp) (lock (patch_world tp))"
  by (simp add: patch_applies_def waiting_fields(2))
    (simp add: demo_obj_def fresh_pfd_def shouldBePatched_def updateFunctionAddresses_def)

theorem pending_patch_applied_witness:
  "\<exists>w' d'. notify_callback demo_api 0x5000 OS_DYNLOAD_NOTIFY_LOADED (patch_world 15) = Inr w'
     \<and> objs w' 0x20000000 = Some d' \<and> isPatched d' \<and> patch_installed demo_api (os w') (mem w') d'"
proof -
  have s: "site_ok demo_api (os (lock (patch_world 15))) (demo_obj 15)" by (rule demo_site) simp
  have "distinct (gPatchedFunctions (patch_world 15))"
    and "\<forall>x \<in> set ([] @ []). is_patched (patch_world 15) x"
    by (simp_all add: waiting_fields)
  from pending_patch_applied [OF demo_platform waiting_fields(1) this waiting_applies s]
  show ?thesis by blast
qed

theorem loaded_applies_ready_witness:
  "\<exists>w'. notify_callback demo_api 0x5000 OS_DYNLOAD_NOTIFY_LOADED (patch_world 15) = Inr w'
     \<and> patch_ready demo_api 0x20000000 (lock (patch_world 15)) \<and> is_patched w' 0x20000000"
proof -
  have s: "site_ok demo_api (os (lock (patch_world 15))) (demo_obj 15)" by (rule demo_site) simp
  obtain w1 where P: "PatchFunction demo_api 0x20000000 (lock (patch_world 15)) = Inr (True, w1)"
    using PatchFunction_installs [OF demo_platform _ _ _ _ s] waiting_applies [of 15]
    unfolding patch_applies_def by blast
  have n: "notify_callback demo_api 0x5000 OS_DYNLOAD_NOTIFY_LOADED (patch_world 15) = Inr (unlock w1)"
    by (simp add: notify_callback_def Let_def waiting_fields(1) P)
  have "distinct (gPatchedFunctions (patch_world 15))" by (simp add: waiting_fields)
  from loaded_applies_ready [OF waiting_fields(1) this, THEN conjunct1, rule_format, OF n]
  have "is_patched (unlock w1) 0x20000000 = patch_ready demo_api 0x20000000 (lock (patch_world 15))" by simp
  with n PatchFunction_ready [OF P] show ?thesis by blast
qed

section \<open>The registry\<close>

theorem module_refines_registry_witness:
  "\<exists>w c. reachable demo_api w \<and> registry_of w = [(0x20A00000, c)]
     \<and> registry_exec (Unregister 0x1234) (registry_of w) = None
     \<and> FPRemoveFunctionPatch demo_api 0x1234 w = Inr (FUNCTION_PATCHER_RESULT_PATCH_NOT_FOUND, w)
     \<and> registry_of (wums_application_ends w) = [(0x20A00000, c)]"
proof -
  obtain w where w: "reachable demo_api w" "gPatchedFunctions w = [0x20A00000]"
    by (rule demo_added) blast
  note live = module_inv_live [OF reachable_inv [OF w(1)]]
  have r: "FPRemoveFunctionPatch demo_api 0x1234 w = Inr (FUNCTION_PATCHER_RESULT_PATCH_NOT_FOUND, w)"
    using remove_unknown_handle [OF live, of "0x1234"] by (simp add: w(2))
  have c: "registry_of w = [(0x20A00000, map_option config (objs w 0x20A00000))]"
    by (simp add: registry_of_def w(2))
  have "registry_of (wums_application_ends w) = registry_of w"
    using module_refines_registry [OF w(1)] by blast
  moreover have "registry_exec (Unregister 0x1234) (registry_of w) = None" by (simp add: w(2))
  ultimately show ?thesis
    using w(1) r c by (intro exI [of _ w] exI [of _ "map_option config (objs w 0x20A00000)"]) simp
qed

section \<open>A displaced branch\<close>

definition foreign_world :: "demo_os world" where
  "foreign_world = (demo_world [0x20000000 \<mapsto> stacked_obj 0x60000000 0x48A00002] [0x20000000])
     \<lparr>mem := write32 demo_mem 0x02000100 0x48A00082\<rparr>"

lemma foreign_fields:
  "gPatchedFunctions foreign_world = [0x20000000]"
  "objs foreign_world 0x20000000 = Some (stacked_obj 0x60000000 0x48A00002)"
  "read32 (mem foreign_world) 0x02000100 = 0x48A00082"
  by (simp_all add: foreign_world_def demo_world_def)

theorem remove_ignores_failed_restore_witness:
  "\<exists>w'. FPRemoveFunctionPatch demo_api 0x20000000 foreign_world = Inr (FUNCTION_PATCHER_RESULT_SUCCESS, w')
     \<and> objs w' 0x20000000 = None \<and> read32 (mem w') 0x02000100 = 0x48A00082"
proof -
  have l: "gPatchedFunctions foreign_world = [] @ 0x20000000 # []" by (simp add: foreign_fields)
  have "all_live (objs foreign_world) (gPatchedFunctions foreign_world)"
    and "distinct (gPatchedFunctions foreign_world)"
    and "later_patches foreign_world 0x20000000 [] = []"
    by (simp_all add: foreign_fields later_patches_def)
  moreover have "\<forall>l \<in> local_words demo_api (os foreign_world). disj4 l 0x02000100"
    by (rule demo_locals_apart) (simp add: demo_local_words_def disj4_def)
  ultimately show ?thesis
    using remove_ignores_failed_restore [OF demo_memory l _ _ foreign_fields(2) stacked_obj_fields(3)]
    by (auto simp: foreign_fields stacked_obj_fields)
qed

theorem restore_reaches_one_core_witness:
  "\<exists>w3 w4 tr4. PatchFunction demo_api 0x20000000 (patch_world 15) = Inr (True, w3)
     \<and> RestoreFunction demo_api 0x20000000 w3 = Inr (True, w4) \<and> trace w4 = trace w3 @ tr4
     \<and> drops_after_write 1 0x02000100 0x02000100 tr4 \<and> \<not> drops_after_write 2 0x02000100 0x02000100 tr4"
proof -
  have r: "restorable demo_api s 0x20000000 (patched_object demo_api (mem (patch_world 15)) (demo_obj 15))" for s
    by (rule demo_restorable) (simp_all add: demo_fields demo_reads)
  have s: "site_ok demo_api (os (patch_world 15)) (demo_obj 15)" by (rule demo_site) simp
  have c: "core (patch_world 15) = 1" by (simp add: patch_world_def demo_world_def)
  have f: "realPhysicalFunctionAddress (demo_obj 15) = 0x02000100" "realEffectiveFunctionAddress (demo_obj 15) = 0x02000100"
    by (simp_all add: demo_obj_def)
  from restore_reaches_one_core [OF demo_platform demo_applies s r, unfolded f c]
  obtain w3 w4 tr4 where "PatchFunction demo_api 0x20000000 (patch_world 15) = Inr (True, w3)"
    and "RestoreFunction demo_api 0x20000000 w3 = Inr (True, w4)" and "trace w4 = trace w3 @ tr4"
    and d: "\<forall>c. drops_after_write c 0x02000100 0x02000100 tr4 \<longleftrightarrow> c = 1"
    by blast
  then show ?thesis by (intro exI [of _ w3] exI [of _ w4] exI [of _ tr4]) simp
qed

section \<open>Two clients\<close>

text \<open>The second client's patch of the demonstration function, for all processes.\<close>

definition second_obj :: PatchedFunctionData where
  "second_obj = (demo_obj 0)\<lparr>jumpToOriginal := 0x00A00100, jumpData := 0,
     realCallFunctionAddressPtr := 0x21000004, replacementFunctionAddress := 0x01000000\<rparr>"

definition two_clients :: "demo_os world" where
  "two_clients = demo_world [0x20000000 \<mapsto> demo_obj 15, 0x20000100 \<mapsto> second_obj] []"

lemma second_fields:
  "realPhysicalFunctionAddress second_obj = 0x02000100" "\<not> needs_trampoline demo_api second_obj"
  "replacementFunctionAddress second_obj = 0x01000000" "\<not> isPatched second_obj"
  "jumpToOriginal second_obj = 0x00A00100" "realCallFunctionAddressPtr second_obj = 0x21000004"
  "jumpDataSize second_obj = 15"
  "shouldBePatched demo_api second_obj w = Inr (True, w)"
  "updateFunctionAddresses demo_api second_obj w = Inr ((True, second_obj), w)"
  by (simp_all add: second_obj_def demo_obj_def fresh_pfd_def needs_trampoline_def shouldBePatched_def
      updateFunctionAddresses_def) (simp_all add: demo_api_def)

definition second_site_words :: "u32 list" where
  "second_site_words = [0x02000100, 0x21000004, 0x02800000, 0x02800004,
     0x30A00100, 0x30A00104, 0x30A00108, 0x30A0010C, 0x30A00110]"

lemma second_site: "site_ok demo_api s second_obj"
proof -
  have w: "site_words demo_api s second_obj = second_site_words"
    by (simp add: site_words_def buffer_words_def demo_translation demo_mmu_def second_site_words_def
        second_fields upt_rec OSGetUPID_demo)
  have "sorted_wrt disj4 second_site_words"
    and "list_all (\<lambda>l. list_all (disj4 l) second_site_words) demo_local_words"
    by (simp_all add: second_site_words_def demo_local_words_def disj4_def)
  moreover from this(2) have "\<forall>l \<in> local_words demo_api s. \<forall>p \<in> set second_site_words. disj4 l p"
    using demo_locals by (fastforce simp: list_all_iff)
  ultimately show ?thesis
    by (simp add: site_ok_def w second_fields)
qed

theorem concurrent_adds_break_order_witness:
  "\<exists>w3 w4 o2. gPatchedFunctions w3 = [0x20000100, 0x20000000] \<and> objs w3 0x20000100 = Some o2
     \<and> FPRemoveFunctionPatch demo_api 0x20000000 w3 = Inr (FUNCTION_PATCHER_RESULT_SUCCESS, w4)
     \<and> read32 (mem w4) 0x02000100 = replaceWithInstruction o2"
proof -
  let ?w = two_clients
  have o: "objs ?w = [0x20000000 \<mapsto> demo_obj 15, 0x20000100 \<mapsto> second_obj]" "gPatchedFunctions ?w = []"
    by (simp_all add: two_clients_def demo_world_def)
  have a1: "patch_applies demo_api 0x20000000 ?w (demo_obj 15) ?w"
    by (simp add: patch_applies_def o demo_obj_def fresh_pfd_def shouldBePatched_def updateFunctionAddresses_def)
  obtain w1 where P1: "PatchFunction demo_api 0x20000000 ?w = Inr (True, w1)"
    and o1: "objs w1 0x20000100 = Some second_obj"
    using PatchFunction_installs [OF demo_platform _ _ _ _ demo_site] a1
    unfolding patch_applies_def by (fastforce simp: o)
  have s1: "site_ok demo_api (os ?w) (demo_obj 15)" by (rule demo_site) simp
  have a2: "patch_applies demo_api 0x20000100 w1 second_obj w1"
    by (simp add: patch_applies_def o1 second_fields)
  obtain w2 where P2: "PatchFunction demo_api 0x20000100 w1 = Inr (True, w2)"
    using PatchFunction_installs [OF demo_platform o1 second_fields(4,8,9) second_site] by blast
  have f: "realPhysicalFunctionAddress (demo_obj 15) = 0x02000100"
    "entry_target demo_api (demo_obj 15) = 0x00A00000" "entry_target demo_api second_obj = 0x01000000"
    by (simp_all add: entry_target_def second_fields) (simp_all add: demo_obj_def needs_trampoline_def demo_api_def)
  have "realPhysicalFunctionAddress second_obj = realPhysicalFunctionAddress (demo_obj 15)"
    and "entry_target demo_api second_obj \<noteq> entry_target demo_api (demo_obj 15)"
    and "(0x20000000 :: u32) \<noteq> 0x20000100"
    and "0x20000000 \<notin> set (gPatchedFunctions ?w)" and "0x20000100 \<notin> set (gPatchedFunctions ?w)"
    and "all_live (objs ?w) (gPatchedFunctions ?w)" and "distinct (gPatchedFunctions ?w)"
    by (simp_all add: f second_fields o)
  from concurrent_adds_break_order [OF demo_platform a1 s1 P1 a2 second_site P2 this]
  show ?thesis unfolding o(2) f append_Nil by blast
qed

end
