(* ===== verification/Logger.thy ===== *)
theory Logger
  imports Module_Main
begin

text \<open>
  The logger (\<open>source/utils/logger.c\<close>): in builds with \<open>DEBUG\<close> it opens the log module, or else the
  console and network logs, and remembers which of them it opened. Which of them open is up to the
  installed library, a parameter here. In the module's \<open>world\<close> the two functions are events of the
  trace; \<open>logger_of\<close> is the logger's state after such a trace.
\<close>

section \<open>State and operations\<close>

datatype backend = WHBLogModule | WHBLogCafe | WHBLogUdp

record 's log_api =
  WHBLogInit :: "backend \<Rightarrow> 's \<Rightarrow> u32 \<times> 's"
  WHBLogDeinit :: "backend \<Rightarrow> 's \<Rightarrow> 's"

datatype log_call = Opened backend | Closed backend

record 's logger =
  moduleLogInit :: u32
  cafeLogInit :: u32
  udpLogInit :: u32
  log_calls :: "log_call list"
  log_os :: 's

definition whb_init :: "'s log_api \<Rightarrow> backend \<Rightarrow> 's logger \<Rightarrow> u32 \<times> 's logger" where
  "whb_init L b g =
     (let (r, s) = WHBLogInit L b (log_os g)
      in (r, g\<lparr>log_os := s, log_calls := log_calls g @ (if r \<noteq> 0 then [Opened b] else [])\<rparr>))"

definition whb_deinit :: "'s log_api \<Rightarrow> backend \<Rightarrow> 's logger \<Rightarrow> 's logger" where
  "whb_deinit L b g =
     g\<lparr>log_os := WHBLogDeinit L b (log_os g), log_calls := log_calls g @ [Closed b]\<rparr>"

definition logger_initLogging :: "'s log_api \<Rightarrow> bool \<Rightarrow> 's logger \<Rightarrow> 's logger" where
  "logger_initLogging L DEBUG g =
     (if \<not> DEBUG then g
      else
        let (r, g1) = whb_init L WHBLogModule g; g2 = g1\<lparr>moduleLogInit := r\<rparr>
        in if r = 0
           then let (c, g3) = whb_init L WHBLogCafe g2; g4 = g3\<lparr>cafeLogInit := c\<rparr>;
                    (u, g5) = whb_init L WHBLogUdp g4
                in g5\<lparr>udpLogInit := u\<rparr>
           else g2)"

definition logger_deinitLogging :: "'s log_api \<Rightarrow> bool \<Rightarrow> 's logger \<Rightarrow> 's logger" where
  "logger_deinitLogging L DEBUG g =
     (if \<not> DEBUG then g
      else
        let g1 = (if moduleLogInit g \<noteq> 0 then (whb_deinit L WHBLogModule g)\<lparr>moduleLogInit := 0\<rparr> else g);
            g2 = (if cafeLogInit g1 \<noteq> 0 then (whb_deinit L WHBLogCafe g1)\<lparr>cafeLogInit := 0\<rparr> else g1)
        in if udpLogInit g2 \<noteq> 0 then (whb_deinit L WHBLogUdp g2)\<lparr>udpLogInit := 0\<rparr> else g2)"

section \<open>No log is closed that was not opened\<close>

fun log_open :: "backend \<Rightarrow> 's logger \<Rightarrow> bool" where
  "log_open WHBLogModule g = (moduleLogInit g \<noteq> 0)"
| "log_open WHBLogCafe g = (cafeLogInit g \<noteq> 0)"
| "log_open WHBLogUdp g = (udpLogInit g \<noteq> 0)"

definition times_opened :: "backend \<Rightarrow> log_call list \<Rightarrow> nat" where
  "times_opened b cs = count_list cs (Opened b)"

definition times_closed :: "backend \<Rightarrow> log_call list \<Rightarrow> nat" where
  "times_closed b cs = count_list cs (Closed b)"

definition logger_ok :: "'s logger \<Rightarrow> bool" where
  "logger_ok g \<longleftrightarrow>
     (\<forall>b. times_closed b (log_calls g) + (if log_open b g then 1 else 0) \<le> times_opened b (log_calls g))"

fun set_open :: "backend \<Rightarrow> u32 \<Rightarrow> 's logger \<Rightarrow> 's logger" where
  "set_open WHBLogModule r g = g\<lparr>moduleLogInit := r\<rparr>"
| "set_open WHBLogCafe r g = g\<lparr>cafeLogInit := r\<rparr>"
| "set_open WHBLogUdp r g = g\<lparr>udpLogInit := r\<rparr>"

lemma set_open_fields [simp]:
  "log_open b' (set_open b r g) \<longleftrightarrow> (if b' = b then r \<noteq> 0 else log_open b' g)"
  "log_calls (set_open b r g) = log_calls g"
  by (cases b; cases b'; simp)+

lemma whb_fields [simp]:
  "log_open b (g\<lparr>log_os := s, log_calls := cs\<rparr>) = log_open b g"
  "log_open b (g\<lparr>log_os := s\<rparr>) = log_open b g"
  by (cases b; simp)+

lemma times_append [simp]:
  "times_opened b (cs @ ds) = times_opened b cs + times_opened b ds"
  "times_closed b (cs @ ds) = times_closed b cs + times_closed b ds"
  by (simp_all add: times_opened_def times_closed_def)

lemma times_simps [simp]:
  "times_opened b [] = 0" "times_closed b [] = 0"
  "times_opened b [Opened b'] = (if b = b' then 1 else 0)" "times_closed b [Opened b'] = 0"
  "times_opened b [Closed b'] = 0" "times_closed b [Closed b'] = (if b = b' then 1 else 0)"
  by (simp_all add: times_opened_def times_closed_def)

lemma logger_okI:
  assumes "\<And>b. times_closed b (log_calls g) + (if log_open b g then 1 else 0) \<le> times_opened b (log_calls g)"
  shows "logger_ok g"
  using assms by (simp add: logger_ok_def)

lemma logger_okD:
  "logger_ok g \<Longrightarrow> times_closed b (log_calls g) + (if log_open b g then 1 else 0) \<le> times_opened b (log_calls g)"
  by (simp add: logger_ok_def)

lemma whb_init_ok:
  assumes "logger_ok g" and "whb_init L b g = (r, g')"
  shows "logger_ok (set_open b r g')"
proof (rule logger_okI)
  fix b'
  show "times_closed b' (log_calls (set_open b r g')) + (if log_open b' (set_open b r g') then 1 else 0)
      \<le> times_opened b' (log_calls (set_open b r g'))"
    using logger_okD [OF assms(1), of b'] assms(2)
    by (auto simp: whb_init_def split: prod.splits if_splits)
qed

lemma whb_deinit_ok:
  assumes "logger_ok g" and "log_open b g"
  shows "logger_ok (set_open b 0 (whb_deinit L b g))"
proof (rule logger_okI)
  fix b'
  show "times_closed b' (log_calls (set_open b 0 (whb_deinit L b g)))
        + (if log_open b' (set_open b 0 (whb_deinit L b g)) then 1 else 0)
      \<le> times_opened b' (log_calls (set_open b 0 (whb_deinit L b g)))"
    using logger_okD [OF assms(1), of b'] assms(2)
    by (auto simp: whb_deinit_def split: if_splits)
qed

lemma logger_init_ok: "logger_ok g \<Longrightarrow> logger_ok (logger_initLogging L DEBUG g)"
  by (simp add: logger_initLogging_def Let_def split: prod.splits flip: set_open.simps)
    (metis whb_init_ok)

lemma logger_deinit_ok: "logger_ok g \<Longrightarrow> logger_ok (logger_deinitLogging L DEBUG g)"
  by (simp add: logger_deinitLogging_def Let_def whb_deinit_ok flip: set_open.simps log_open.simps)

lemma logger_deinit_closes: "DEBUG \<Longrightarrow> \<not> log_open b (logger_deinitLogging L DEBUG g)"
  by (cases b) (simp_all add: logger_deinitLogging_def whb_deinit_def Let_def)

section \<open>The logger behind the module\<close>

definition logger_event :: "'s log_api \<Rightarrow> bool \<Rightarrow> nat \<times> event \<Rightarrow> 's logger \<Rightarrow> 's logger" where
  "logger_event L DEBUG e =
     (case snd e of EvInitLogging \<Rightarrow> logger_initLogging L DEBUG
      | EvDeinitLogging \<Rightarrow> logger_deinitLogging L DEBUG | _ \<Rightarrow> id)"

definition logger_of :: "'s log_api \<Rightarrow> bool \<Rightarrow> 's logger \<Rightarrow> 'o world \<Rightarrow> 's logger" where
  "logger_of L DEBUG g w = fold (logger_event L DEBUG) (trace w) g"

lemma logger_event_ok: "logger_ok g \<Longrightarrow> logger_ok (logger_event L DEBUG e g)"
  by (simp add: logger_event_def logger_init_ok logger_deinit_ok split: event.split)

lemma logger_of_ok:
  assumes "logger_ok g"
  shows "logger_ok (logger_of L DEBUG g w)"
  unfolding logger_of_def
  by (rule fold_invariant [where P = logger_ok and Q = "\<lambda>_. True"]) (simp_all add: assms logger_event_ok)

text \<open>Whatever the module has done, a request to exit leaves no log open.\<close>

lemma exit_closes_logs:
  "DEBUG \<Longrightarrow> \<not> log_open b (logger_of L DEBUG g (wums_application_requests_exit w))"
  by (simp add: logger_of_def wums_application_requests_exit_def deinitLogging_def log_event_def
      logger_event_def logger_deinit_closes)

end
