(* ===== verification/Thread_Control.thy ===== *)
theory Thread_Control
  imports Threads
begin

text \<open>
  The rest of the interface of \<open>CThread\<close>, which the module itself does not call: suspension,
  priority, the queries, and construction on the heap. The scheduler's queries and its priority
  change are parameters; an \<open>int32_t\<close> is its 32 bits.
\<close>

section \<open>Operations\<close>

definition getThread :: "'s CThread \<Rightarrow> u32" where
  "getThread t = pThread t"

definition suspendThread :: "'s CThread \<Rightarrow> halt + 's CThread" where
  "suspendThread t =
     (case isThreadSuspended t of
        Inl e \<Rightarrow> Inl e
      | Inr suspended \<Rightarrow>
          if suspended then Inr t
          else if pThread t \<noteq> 0 then Inr (t\<lparr>suspend_count := map_option Suc (suspend_count t)\<rparr>)
          else Inr t)"

definition setThreadPriority ::
    "('s \<Rightarrow> u32 \<Rightarrow> u32 \<Rightarrow> 's) \<Rightarrow> 's CThread \<Rightarrow> u32 \<Rightarrow> 's world \<Rightarrow> 's world" where
  "setThreadPriority OSSetThreadPriority t prio w =
     (if pThread t \<noteq> 0 then w\<lparr>os := OSSetThreadPriority (os w) (pThread t) prio\<rparr> else w)"

definition isThreadTerminated :: "('s \<Rightarrow> u32 \<Rightarrow> bool) \<Rightarrow> 's CThread \<Rightarrow> 's world \<Rightarrow> bool" where
  "isThreadTerminated OSIsThreadTerminated t w =
     (if pThread t \<noteq> 0 then OSIsThreadTerminated (os w) (pThread t) else False)"

definition getThreadAffinity :: "('s \<Rightarrow> u32 \<Rightarrow> u16) \<Rightarrow> 's CThread \<Rightarrow> 's world \<Rightarrow> u16" where
  "getThreadAffinity OSGetThreadAffinity t w =
     (if pThread t \<noteq> 0 then OSGetThreadAffinity (os w) (pThread t) else 0)"

text \<open>\<open>new CThread(...)\<close>: the block for the object, then the constructor.\<close>

definition CThread_create ::
    "('s \<Rightarrow> u32 \<times> 's) \<Rightarrow> 's os_api \<Rightarrow> 's callback option \<Rightarrow> u32 \<Rightarrow> u32 \<Rightarrow> u32 \<Rightarrow> 's world
      \<Rightarrow> halt + ((u32 \<times> 's CThread) \<times> 's world)" where
  "CThread_create new_CThread A callback iAttr iPriority stacksize w =
     (let (p, s) = new_CThread (os w)
      in if p = 0 then Inl (Undefined ''std::bad_alloc'')
         else let (t, w1) = CThread_new A iAttr iPriority stacksize callback (w\<lparr>os := s\<rparr>) in Inr ((p, t), w1))"

section \<open>Suspension\<close>

text \<open>A thread that was created.\<close>

definition started :: "'s CThread \<Rightarrow> bool" where
  "started t \<longleftrightarrow> pThread t \<noteq> 0 \<and> suspend_count t \<noteq> None"

lemma CThread_new_started: "CThread_new A a pr n cb w = (t, w') \<Longrightarrow> pThread t \<noteq> 0 \<Longrightarrow> pThreadStack t \<noteq> 0 \<Longrightarrow> started t"
  by (auto simp: CThread_new_def started_def Let_def split: prod.splits)

lemma suspend_suspends:
  "started t \<Longrightarrow>
     (case suspendThread t of Inl e \<Rightarrow> False | Inr t' \<Rightarrow> started t' \<and> isThreadSuspended t' = Inr True)"
  by (auto simp: started_def suspendThread_def isThreadSuspended_def)

text \<open>Suspending a running thread and resuming it changes nothing.\<close>

lemma suspend_then_resume:
  assumes "started t" and "isThreadSuspended t = Inr False"
  shows "\<exists>t'. suspendThread t = Inr t' \<and> resumeThread t' = Inr t"
  using assms
  by (cases t; cases "suspend_count t")
    (auto simp: started_def suspendThread_def resumeThread_def isThreadSuspended_def)

text \<open>
  Suspending twice is suspending once, as the second call returns early: one resumption undoes both.
\<close>

lemma suspend_idempotent: "suspendThread t = Inr t' \<Longrightarrow> started t \<Longrightarrow> suspendThread t' = Inr t'"
  by (cases "suspend_count t") (auto simp: started_def suspendThread_def isThreadSuspended_def split: if_splits)

text \<open>Once a thread is shut down, no operation reaches the scheduler with its address.\<close>

lemma shut_down_inert:
  assumes "shutdownThread A t w = Inr (t', w')"
  shows "getThread t' = 0" and "isThreadSuspended t' = Inr False" and "suspendThread t' = Inr t'"
    and "resumeThread t' = Inr t'" and "setThreadPriority P t' prio w' = w'"
    and "\<not> isThreadTerminated T t' w'" and "getThreadAffinity G t' w' = 0"
    and "shutdownThread A t' w' = Inr (t', w')"
proof -
  have z: "pThread t' = 0" "pThreadStack t' = 0"
    using assms by (auto simp: shutdownThread_def Let_def split: if_splits option.splits sum.splits)
  then show "getThread t' = 0" and "isThreadSuspended t' = Inr False" and "suspendThread t' = Inr t'"
    and "resumeThread t' = Inr t'" and "setThreadPriority P t' prio w' = w'"
    and "\<not> isThreadTerminated T t' w'" and "getThreadAffinity G t' w' = 0"
    by (simp_all add: getThread_def isThreadSuspended_def suspendThread_def resumeThread_def
        setThreadPriority_def isThreadTerminated_def getThreadAffinity_def)
  show "shutdownThread A t' w' = Inr (t', w')"
    using z by (cases t') (simp add: shutdownThread_def)
qed

end
