(* ===== verification/Spec2Isabelle.thy ===== *)
theory Spec2Isabelle
  imports Limit_Witnesses Logger Thread_Control
begin

text \<open>
  FunctionPatcherModule is a module of the Aroma environment for the Wii U. Its clients ask it to
  replace a function of a system library or of the running executable; it overwrites the function's
  first instruction with a branch, generates the code that the branch leads to, keeps the list of
  patches across applications, and can take a patch off again.

  \<^bold>\<open>Parts and theories\<close> (paths are under \<open>source/\<close>)

  \<^item> \<open>Prelude\<close>: words, the big-endian byte memory with its framing relation, the locale \<open>word_store\<close>.
  \<^item> \<open>Platform\<close>: enumerations and argument structs (\<open>fpatching_defines_legacy.h\<close>), the services of
    the operating system as the record \<open>os_api\<close>, the \<open>world\<close>: platform state, memory, live objects,
    globals (\<open>utils/globals.cpp\<close>) and the trace of effects outside memory.
  \<^item> \<open>Address_Provider\<close> (\<open>FunctionAddressProvider.h\<close>, \<open>.cpp\<close>): table of libraries, handle cache,
    address lookup. The locale \<open>handle_cache\<close> is its contract.
  \<^item> \<open>Kernel_Export\<close>, \<open>Kernel_Correct\<close> (\<open>utils/KernelFindExport.h\<close>, \<open>.cpp\<close>, \<open>utils/syscall.s\<close>):
    struct layouts, walk over the loaded modules, search of sections and symbols.
  \<^item> \<open>Patched_Data\<close>, \<open>Jump_Code\<close> (\<open>PatchedFunctionData.h\<close>, \<open>.cpp\<close>): construction, destruction,
    targets, addresses, and the two code generators; \<open>Object_Correct\<close> has their contracts.
  \<^item> \<open>PPC\<close>: the PowerPC instructions the generators emit, decoded and executed, and what the generated
    code does when it runs.
  \<^item> \<open>Threads\<close>, \<open>Thread_Control\<close> (\<open>utils/CThread.h\<close>): the threads that run a callback on all
    cores, and the operations of the class that the module does not call.
  \<^item> \<open>Logger\<close> (\<open>utils/logger.c\<close>): which logs are open, for builds with and without \<open>DEBUG\<close>, and the
    logger's state after the module's trace.
  \<^item> \<open>Patcher\<close> (\<open>function_patcher.cpp\<close>, \<open>utils/utils.cpp\<close>): \<open>PatchFunction\<close> and \<open>RestoreFunction\<close>.
    \<open>Patch_Correct\<close> is their effect on memory, \<open>Patched_Calls\<close> what calls of a patched function do.
  \<^item> \<open>Export_API\<close>, \<open>Export_Correct\<close> (\<open>export.cpp\<close>): the exported functions.
  \<^item> \<open>Module_Main\<close>, \<open>Module_Correct\<close> (\<open>main.cpp\<close>): initialisation, notifications, applications.
  \<^item> \<open>Frames\<close>: what no operation touches; the locale \<open>object_operation\<close> carries a property of one
    operation over the loops of the module and is interpreted for patching and for restoring.
  \<^item> \<open>Module_System\<close>: the module as a transition system and its invariant.
  \<^item> \<open>Stops\<close>: the code generators stay inside their buffers; and every way an operation can end
    other than by returning, each with the answer of the platform (\<open>platform_stop\<close>) that brings it
    about. The locale \<open>checked_operation\<close> carries the ends of one operation over the loops. The checks
    of the module's own data are not among them; a request of a type outside the enumeration is the
    one request that stops the console (\<open>unknown_type_stop\<close>).
  \<^item> \<open>Liveness\<close>: every patch gets its turn when a library is loaded or an application starts, and a
    patch whose function can be found then is applied.
  \<^item> \<open>Registry\<close>: the abstract specification, an ordered registry of handles and configurations, and
    the refinement. \<open>Limits\<close>: what the code does not guarantee. A removal ignores a failed restoration;
    restoring reaches one core; an addition applies its patch before it takes the lock, which the
    theory models as the two phases of \<open>FPAddFunctionPatch\<close>.
  \<^item> \<open>Demo\<close> and the \<open>Witnesses\<close> theories: a concrete platform and every hypothesis at work on it.

  \<^bold>\<open>Correspondence.\<close> An operation of the code is a function from the \<open>world\<close> to its result and the
  next \<open>world\<close>; a stop with \<open>OSFatal\<close>, a use of a deleted object or an endless loop is a value of the
  left side of a sum. A \<open>PatchedFunctionData\<close> lives in \<open>objs\<close> under its address, which is the handle
  that clients hold. Cache maintenance, allocation and thread calls are events of the trace with the
  core that ran them. Integers keep their width.

  \<^bold>\<open>Bounds and fuel.\<close> No definition runs on fuel. Loops over lists and counters are structurally
  recursive. The walk over the kernel's module list and the self-calling \<open>isThreadRunning\<close> are partial
  functions with exact characterisations of when they return.

  \<^bold>\<open>What the lemmas show.\<close> Calls of a patched function reach the replacement or the original code,
  instruction by instruction (\<open>Patched_Calls\<close>); patching and restoring are inverse and touch only
  their footprint (\<open>Patch_Correct\<close>); every reachable state is well-formed, leaks nothing and meets
  no deleted object (\<open>Module_System\<close>), and what stops the console there is an answer of the platform
  or a request of unknown type (\<open>Stops\<close>); the loops end where they should (\<open>Kernel_Correct\<close>, \<open>Threads\<close>).

  \<^bold>\<open>Not modelled.\<close> Log output; the allocator templates beyond their allocation step; the contents of
  thread stacks; requests with null pointers for names that the constructors copy (an argument
  struct has names as strings); interleavings of client threads other than between the two phases of an addition
  (the recursive mutex is a counter, and any other operation runs as one step); the physical caches themselves, of which the model records the
  maintenance operations in order and per core. The displaced instruction is arbitrary in the
  theorems about generated code as long as it falls through; a displaced relative branch does not,
  and the code does not relocate one.
\<close>

end
